(* ===== verification/Prelude.thy ===== *)
theory Prelude
  imports Main "HOL-Library.Word" "HOL-Library.Signed_Division"
begin

text \<open>
  What every component shares: the Rust integer types and the saturating, rounding and
  clamping operations on them, the three-way result of a Rust call that may return
  \<open>Ok\<close>, return \<open>Err\<close> or panic, and the two sequencing combinators that stand for the
  \<open>?\<close> operator. Every integer keeps its width. The facts of collection
  \<open>word_nat\<close> read an operation on words as one on natural numbers.
\<close>

unbundle bit_operations_syntax

named_theorems word_nat
named_theorems run_simps

section \<open>Integers\<close>

type_synonym u8 = "8 word"
type_synonym u16 = "16 word"
type_synonym u32 = "32 word"
type_synonym u64 = "64 word"

definition sat_sub :: "'a::len word \<Rightarrow> 'a word \<Rightarrow> 'a word" where
  "sat_sub a b = (if b \<le> a then a - b else 0)"

definition sat_add :: "'a::len word \<Rightarrow> 'a word \<Rightarrow> 'a word" where
  "sat_add a b = (if a + b < a then - 1 else a + b)"

definition abs_diff :: "'a::len word \<Rightarrow> 'a word \<Rightarrow> 'a word" where
  "abs_diff a b = (if a < b then b - a else a - b)"

definition div_ceil :: "'a::len word \<Rightarrow> 'a word \<Rightarrow> 'a word" where
  "div_ceil a b = (if 0 < a mod b then a div b + 1 else a div b)"

definition clamp_word :: "'a::len word \<Rightarrow> 'a word \<Rightarrow> 'a word \<Rightarrow> 'a word" where
  "clamp_word x lo hi = (if x < lo then lo else if hi < x then hi else x)"

lemma unat_bound: "unat (a :: 'a::len word) < 2 ^ LENGTH('a)"
  by (rule unsigned_less)

lemma uint_range: "0 \<le> uint a" "uint (a :: 'a::len word) < 2 ^ LENGTH('a)"
  by simp_all

lemma unat_sat_sub [word_nat]: "unat (sat_sub a b) = unat a - unat b"
  by (auto simp: sat_sub_def word_le_nat_alt unat_sub)

lemma unat_add_fits:
  "unat a + unat b < 2 ^ LENGTH('a::len) \<Longrightarrow> unat (a + b :: 'a word) = unat a + unat b"
  by (simp add: unat_word_ariths)

lemma unat_mult_fits:
  "unat a * unat b < 2 ^ LENGTH('a::len) \<Longrightarrow> unat (a * b :: 'a word) = unat a * unat b"
  by (simp add: unat_word_ariths)

lemma unat_sub_fits:
  "unat b \<le> unat a \<Longrightarrow> unat (a - b :: 'a::len word) = unat a - unat b"
  by (simp add: unat_sub word_le_nat_alt)

lemma unat_sat_add [word_nat]:
  "unat (sat_add a b :: 'a::len word) = min (2 ^ LENGTH('a) - 1) (unat a + unat b)"
proof (cases "unat a + unat b < 2 ^ LENGTH('a)")
  case True
  then have "unat (a + b) = unat a + unat b" by (rule unat_add_fits)
  with True show ?thesis by (simp add: sat_add_def word_less_nat_alt)
next
  case False
  then have "unat (a + b) = unat a + unat b - 2 ^ LENGTH('a)"
  proof -
    have "unat a + unat b - 2 ^ LENGTH('a) < 2 ^ LENGTH('a)"
      using unat_bound [of a] unat_bound [of b] by linarith
    with False show ?thesis by (simp add: unat_word_ariths le_mod_geq)
  qed
  then have "unat (a + b) < unat a"
    using False unat_bound [of b] unat_bound [of a] by linarith
  with False show ?thesis by (simp add: sat_add_def word_less_nat_alt unsigned_minus_1_eq_mask mask_eq_exp_minus_1)
qed

lemma sat_add_ge: "unat a \<le> unat (sat_add a b)"
  unfolding unat_sat_add using unat_bound [of a] by linarith

lemma unat_abs_diff [word_nat]:
  "unat (abs_diff a b) = (if unat a < unat b then unat b - unat a else unat a - unat b)"
  by (simp add: abs_diff_def word_less_nat_alt unat_sub_fits)

lemma div_round_up:
  fixes x y :: nat
  assumes "0 < y"
  shows "(x + y - 1) div y = x div y + (if 0 < x mod y then 1 else 0)"
proof -
  define q r where "q = x div y" and "r = x mod y"
  have x: "x = r + q * y" and r: "r < y"
    using assms by (simp_all add: q_def r_def)
  have "(x + y - 1) div y = (r + y - 1) div y + q"
  proof -
    have "x + y - 1 = (r + y - 1) + q * y"
      using x assms by linarith
    then have "(x + y - 1) div y = ((r + y - 1) + q * y) div y" by (rule arg_cong)
    also have "\<dots> = q + (r + y - 1) div y" using assms by (intro div_mult_self1) simp
    finally show ?thesis by simp
  qed
  moreover have "(r + y - 1) div y = (if 0 < r then 1 else 0)"
  proof (cases "0 < r")
    case True
    then have "r + y - 1 = (r - 1) + 1 * y" by simp
    then have "(r + y - 1) div y = (r - 1) div y + 1"
      using assms by (metis div_mult_self1 neq0_conv add.commute)
    with True r show ?thesis by simp
  next
    case False
    with assms show ?thesis by simp
  qed
  ultimately show ?thesis by (simp add: q_def r_def)
qed

lemma unat_div_ceil [word_nat]:
  assumes "0 < unat b"
  shows "unat (div_ceil a b) = (unat a + unat b - 1) div unat b"
proof -
  define x y where "x = unat a" and "y = unat b"
  have y: "0 < y" using assms by (simp add: y_def)
  have le: "x div y + (if 0 < x mod y then 1 else 0) \<le> x"
  proof (cases "0 < x mod y")
    case True
    then have "1 < y" using y by (cases "y = 1") auto
    moreover have "0 < x" using True by (cases x) auto
    ultimately have "x div y < x" by (rule div_less_dividend)
    with True show ?thesis by simp
  qed simp
  have eq: "(x + y - 1) div y = x div y + (if 0 < x mod y then 1 else 0)"
    using y by (rule div_round_up)
  have m: "(0 < a mod b) = (0 < x mod y)"
    by (simp add: word_less_nat_alt unat_mod x_def y_def)
  have d: "unat (a div b) = x div y" by (simp add: unat_div x_def y_def)
  show ?thesis
  proof (cases "0 < x mod y")
    case True
    then have "x div y + 1 \<le> x" using le by simp
    then have "x div y + 1 < 2 ^ LENGTH('a)"
      using unat_bound [of a] unfolding x_def by (rule order_le_less_trans)
    then have "unat (a div b) + unat (1 :: 'a word) < 2 ^ LENGTH('a)"
      using d by simp
    then have "unat (a div b + 1) = x div y + 1"
      using d by (simp add: unat_add_fits)
    with True m eq show ?thesis by (simp add: div_ceil_def x_def y_def)
  next
    case False
    with m d eq show ?thesis by (simp add: div_ceil_def x_def y_def)
  qed
qed

lemma unat_clamp_word [word_nat]:
  "unat (clamp_word x lo hi) =
     (if unat x < unat lo then unat lo else if unat hi < unat x then unat hi else unat x)"
  by (simp add: clamp_word_def word_less_nat_alt)

lemma unat_max_word [word_nat]: "unat (max a b) = max (unat a) (unat b)"
  by (auto simp: max_def word_le_nat_alt)

lemma unat_min_word [word_nat]: "unat (min a b) = min (unat a) (unat b)"
  by (auto simp: min_def word_le_nat_alt)

lemma unat_ucast_fits:
  "unat x < 2 ^ LENGTH('b::len) \<Longrightarrow> unat (ucast (x :: 'a::len word) :: 'b word) = unat x"
  by (simp add: unsigned_ucast_eq take_bit_nat_eq_self)

lemma unat_ucast_up:
  "LENGTH('a::len) \<le> LENGTH('b::len) \<Longrightarrow> unat (ucast (x :: 'a word) :: 'b word) = unat x"
  by (rule unat_ucast_fits) (meson order_less_le_trans unat_bound one_le_numeral power_increasing)

text \<open>Little-endian bytes of a \<open>u16\<close> and of a \<open>u32\<close>.\<close>

definition to_le_bytes16 :: "u16 \<Rightarrow> u8 list" where
  "to_le_bytes16 n = [ucast n, ucast (drop_bit 8 n)]"

definition from_le_bytes16 :: "u8 \<Rightarrow> u8 \<Rightarrow> u16" where
  "from_le_bytes16 lo hi = ucast lo OR push_bit 8 (ucast hi)"

definition to_le_bytes32 :: "u32 \<Rightarrow> u8 list" where
  "to_le_bytes32 n = [ucast n, ucast (drop_bit 8 n), ucast (drop_bit 16 n), ucast (drop_bit 24 n)]"

definition from_le_bytes32 :: "u8 \<Rightarrow> u8 \<Rightarrow> u8 \<Rightarrow> u8 \<Rightarrow> u32" where
  "from_le_bytes32 a b c d =
     ucast a OR push_bit 8 (ucast b) OR push_bit 16 (ucast c) OR push_bit 24 (ucast d)"

lemma from_to_le_bytes16 [simp]: "from_le_bytes16 (ucast n) (ucast (drop_bit 8 n)) = n"
  unfolding from_le_bytes16_def
  by (rule bit_word_eqI) (auto simp: bit_simps)

lemma from_to_le_bytes32 [simp]:
  "from_le_bytes32 (ucast n) (ucast (drop_bit 8 n)) (ucast (drop_bit 16 n)) (ucast (drop_bit 24 n)) = n"
proof (rule bit_word_eqI)
  fix i
  assume "i < LENGTH(32)"
  then show "bit (from_le_bytes32 (ucast n) (ucast (drop_bit 8 n)) (ucast (drop_bit 16 n))
      (ucast (drop_bit 24 n))) i = bit n i"
    by (cases "i < 16"; cases "i < 24") (auto simp: from_le_bytes32_def bit_simps)
qed

section \<open>Results and sequencing\<close>

text \<open>
  A call that returns \<open>Result\<close> and may panic: \<open>Panic\<close> is the branch of a failed
  \<open>expect\<close> or \<open>unwrap\<close>. A call that cannot panic returns a sum, \<open>Inl\<close> for \<open>Err\<close>.
  Both are paired with the state after the call.
\<close>

datatype ('a, 'e) outcome = Ok 'a | Err 'e | Panic

definition and_then ::
  "('a, 'e) outcome \<times> 's \<Rightarrow> ('a \<Rightarrow> 's \<Rightarrow> ('b, 'e) outcome \<times> 't) \<Rightarrow> ('s \<Rightarrow> 't)
    \<Rightarrow> ('b, 'e) outcome \<times> 't" where
  "and_then m k up = (case m of
     (Ok a, s) \<Rightarrow> k a s
   | (Err e, s) \<Rightarrow> (Err e, up s)
   | (Panic, s) \<Rightarrow> (Panic, up s))"

definition attempt ::
  "('e + 'a) \<times> 's \<Rightarrow> ('a \<Rightarrow> 's \<Rightarrow> ('e + 'b) \<times> 's) \<Rightarrow> ('e + 'b) \<times> 's" where
  "attempt m k = (case m of (Inl e, s) \<Rightarrow> (Inl e, s) | (Inr a, s) \<Rightarrow> k a s)"

definition is_err :: "'e + 'a \<Rightarrow> bool" where
  "is_err r = (case r of Inl _ \<Rightarrow> True | Inr _ \<Rightarrow> False)"

lemma is_err_simps [simp]: "is_err (Inl e)" "\<not> is_err (Inr a)"
  by (simp_all add: is_err_def)

lemma not_is_err: "\<not> is_err r \<longleftrightarrow> (\<exists>a. r = Inr a)"
  by (cases r) auto

lemma and_then_simps [simp]:
  "and_then (Ok a, s) k up = k a s"
  "and_then (Err e, s) k up = (Err e, up s)"
  "and_then (Panic, s) k up = (Panic, up s)"
  by (simp_all add: and_then_def)

lemma attempt_simps [simp]:
  "attempt (Inr a, s) k = k a s"
  "attempt (Inl e, s) k = (Inl e, s)"
  by (simp_all add: attempt_def)

text \<open>A postcondition on a result and its state; the sequencing rules are those of a wp.\<close>

definition post :: "'r \<times> 's \<Rightarrow> ('r \<Rightarrow> 's \<Rightarrow> bool) \<Rightarrow> bool" where
  "post m Q = Q (fst m) (snd m)"

lemma post_pair [simp]: "post (r, s) Q = Q r s"
  by (simp add: post_def)

lemma post_mono: "post m Q \<Longrightarrow> (\<And>r s. Q r s \<Longrightarrow> R r s) \<Longrightarrow> post m R"
  by (simp add: post_def)

lemma post_conj: "post m Q \<Longrightarrow> post m R \<Longrightarrow> post m (\<lambda>r s. Q r s \<and> R r s)"
  by (simp add: post_def)

lemma post_attempt:
  assumes "post m (\<lambda>r s. case r of Inl e \<Rightarrow> Q (Inl e) s | Inr a \<Rightarrow> post (k a s) Q)"
  shows "post (attempt m k) Q"
  using assms by (cases m) (auto simp: attempt_def split: sum.splits)

lemma post_and_then:
  assumes "post m (\<lambda>r s. case r of Ok a \<Rightarrow> post (k a s) Q | Err e \<Rightarrow> Q (Err e) (up s)
             | Panic \<Rightarrow> Q Panic (up s))"
  shows "post (and_then m k up) Q"
  using assms by (cases m) (auto simp: and_then_def split: outcome.splits)

text \<open>A predicate of the state alone is kept by a sequence when every step keeps it.\<close>

lemma post_attempt_weaken:
  assumes "post m (\<lambda>_. I)" and "\<And>s. I s \<Longrightarrow> J s" and "\<And>a s. I s \<Longrightarrow> post (k a s) (\<lambda>_. J)"
  shows "post (attempt m k) (\<lambda>_. J)"
  using assms by (cases m) (auto simp: attempt_def split: sum.splits)

lemma post_attempt_state:
  assumes "post m (\<lambda>_. I)" and "\<And>a s. I s \<Longrightarrow> post (k a s) (\<lambda>_. I)"
  shows "post (attempt m k) (\<lambda>_. I)"
  using assms(1) _ assms(2) by (rule post_attempt_weaken)

lemma post_and_then_state:
  assumes "post m (\<lambda>_. I)" and "\<And>a s. I s \<Longrightarrow> post (k a s) (\<lambda>_. J)" and "\<And>s. I s \<Longrightarrow> J (up s)"
  shows "post (and_then m k up) (\<lambda>_. J)"
  using assms by (cases m) (auto simp: and_then_def split: outcome.splits)

lemma attempt_InrE:
  assumes "attempt m k = (Inr b, t)"
  obtains a s where "m = (Inr a, s)" "k a s = (Inr b, t)"
  using assms by (cases m) (auto simp: attempt_def split: sum.splits)

end
