(* ===== verification/Light.thy ===== *)
theory Light
  imports Prelude
begin

text \<open>
  The hardware-independent light data of \<open>firmware/core/src/lib.rs\<close>: the newtypes
  \<open>Level\<close>, \<open>OutputBrightness\<close> and \<open>ColorTemperature\<close> with their checked constructors
  and conversions, presets, the logical \<open>LightState\<close> and the physical \<open>OutputFrame\<close>.
  A newtype is a datatype over the word it wraps, so that an unchecked construction
  \<open>Self(..)\<close> of the source can be written; \<open>level_ok\<close>, \<open>brightness_ok\<close>,
  \<open>temperature_ok\<close> and their lifts to records are the ranges that the checked
  constructors promise.
\<close>

section \<open>Newtypes\<close>

datatype level = Level u8

primrec level_get :: "level \<Rightarrow> u8" where
  "level_get (Level n) = n"

definition level_MIN :: level where "level_MIN = Level 1"
definition level_MAX :: level where "level_MAX = Level 254"
definition level_DEFAULT :: level where "level_DEFAULT = Level 57"

definition level_new :: "u8 \<Rightarrow> level option" where
  "level_new value =
     (if level_get level_MIN \<le> value \<and> value \<le> level_get level_MAX then Some (Level value)
      else None)"

definition stock_brightness_ratio :: "level \<Rightarrow> u32 \<times> u32" where
  "stock_brightness_ratio l = (253 + 9 * (ucast (level_get l) - 1), 253)"

datatype output_brightness = OutputBrightness u16

primrec brightness_get :: "output_brightness \<Rightarrow> u16" where
  "brightness_get (OutputBrightness n) = n"

definition brightness_ZERO :: output_brightness where "brightness_ZERO = OutputBrightness 0"
definition brightness_MAX :: output_brightness where "brightness_MAX = OutputBrightness 2530"
definition brightness_DENOMINATOR :: u16 where "brightness_DENOMINATOR = 253"

definition brightness_new :: "u16 \<Rightarrow> output_brightness option" where
  "brightness_new value =
     (if value \<le> brightness_get brightness_MAX then Some (OutputBrightness value) else None)"

definition from_level :: "level \<Rightarrow> output_brightness" where
  "from_level l = OutputBrightness (253 + 9 * (ucast (level_get l) - 1))"

definition to_level_clamped :: "output_brightness \<Rightarrow> level" where
  "to_level_clamped b =
     (if brightness_get b \<le> 253 then level_MIN
      else Level (ucast (1 + (brightness_get b - 253 + 4) div 9)))"

datatype color_temperature = ColorTemperature u16

primrec temperature_get :: "color_temperature \<Rightarrow> u16" where
  "temperature_get (ColorTemperature n) = n"

definition temperature_MIN :: color_temperature where "temperature_MIN = ColorTemperature 143"
definition temperature_MAX :: color_temperature where "temperature_MAX = ColorTemperature 344"
definition temperature_DEFAULT :: color_temperature where
  "temperature_DEFAULT = ColorTemperature 303"

definition temperature_new :: "u16 \<Rightarrow> color_temperature option" where
  "temperature_new value =
     (if temperature_get temperature_MIN \<le> value \<and> value \<le> temperature_get temperature_MAX
      then Some (ColorTemperature value) else None)"

datatype preset = PresetOne | PresetTwo

primrec preset_temperature :: "preset \<Rightarrow> color_temperature" where
  "preset_temperature PresetOne = ColorTemperature 303"
| "preset_temperature PresetTwo = ColorTemperature 200"

lemma level_get_inject [simp]: "level_get a = level_get b \<longleftrightarrow> a = b"
  by (cases a; cases b) simp

lemma brightness_get_inject [simp]: "brightness_get a = brightness_get b \<longleftrightarrow> a = b"
  by (cases a; cases b) simp

lemma temperature_get_inject [simp]: "temperature_get a = temperature_get b \<longleftrightarrow> a = b"
  by (cases a; cases b) simp

text \<open>The derived order of the newtypes is the order of the wrapped integer.\<close>

instantiation level :: linorder
begin

definition less_eq_level :: "level \<Rightarrow> level \<Rightarrow> bool" where
  "less_eq_level a b \<longleftrightarrow> level_get a \<le> level_get b"

definition less_level :: "level \<Rightarrow> level \<Rightarrow> bool" where
  "less_level a b \<longleftrightarrow> level_get a < level_get b"

instance
  by standard (auto simp: less_eq_level_def less_level_def less_le)

end

instantiation output_brightness :: linorder
begin

definition less_eq_output_brightness :: "output_brightness \<Rightarrow> output_brightness \<Rightarrow> bool" where
  "less_eq_output_brightness a b \<longleftrightarrow> brightness_get a \<le> brightness_get b"

definition less_output_brightness :: "output_brightness \<Rightarrow> output_brightness \<Rightarrow> bool" where
  "less_output_brightness a b \<longleftrightarrow> brightness_get a < brightness_get b"

instance
  by standard (auto simp: less_eq_output_brightness_def less_output_brightness_def less_le)

end

instantiation color_temperature :: linorder
begin

definition less_eq_color_temperature :: "color_temperature \<Rightarrow> color_temperature \<Rightarrow> bool" where
  "less_eq_color_temperature a b \<longleftrightarrow> temperature_get a \<le> temperature_get b"

definition less_color_temperature :: "color_temperature \<Rightarrow> color_temperature \<Rightarrow> bool" where
  "less_color_temperature a b \<longleftrightarrow> temperature_get a < temperature_get b"

instance
  by standard (auto simp: less_eq_color_temperature_def less_color_temperature_def less_le)

end

section \<open>Light states and output frames\<close>

record light_state =
  ls_on :: bool
  ls_level :: level
  ls_temperature :: color_temperature

definition light_default :: light_state where
  "light_default = \<lparr>ls_on = False, ls_level = level_DEFAULT, ls_temperature = temperature_DEFAULT\<rparr>"

record output_frame =
  of_state :: light_state
  of_brightness :: output_brightness

definition frame_default :: output_frame where
  "frame_default = \<lparr>of_state = light_default, of_brightness = OutputBrightness 0\<rparr>"

definition from_state :: "light_state \<Rightarrow> output_frame" where
  "from_state s = \<lparr>of_state = s,
     of_brightness = (if ls_on s then from_level (ls_level s) else brightness_ZERO)\<rparr>"

datatype command =
  SetPower bool
| SetLevel level
| SetTemperature color_temperature
| SelectPreset preset

section \<open>Ranges\<close>

definition level_ok :: "level \<Rightarrow> bool" where
  "level_ok l \<longleftrightarrow> 1 \<le> unat (level_get l) \<and> unat (level_get l) \<le> 254"

definition brightness_ok :: "output_brightness \<Rightarrow> bool" where
  "brightness_ok b \<longleftrightarrow> unat (brightness_get b) \<le> 2530"

definition temperature_ok :: "color_temperature \<Rightarrow> bool" where
  "temperature_ok t \<longleftrightarrow> 143 \<le> unat (temperature_get t) \<and> unat (temperature_get t) \<le> 344"

definition state_ok :: "light_state \<Rightarrow> bool" where
  "state_ok s \<longleftrightarrow> level_ok (ls_level s) \<and> temperature_ok (ls_temperature s)"

definition frame_ok :: "output_frame \<Rightarrow> bool" where
  "frame_ok f \<longleftrightarrow> state_ok (of_state f) \<and> brightness_ok (of_brightness f)"

text \<open>The arithmetic of the conversions never leaves the width of its type.\<close>

lemma level_new_Some [simp]:
  "level_new n = Some l \<longleftrightarrow> l = Level n \<and> level_ok (Level n)"
  by (auto simp: level_new_def level_ok_def level_MIN_def level_MAX_def word_le_nat_alt)

lemma level_new_None: "level_new n = None \<longleftrightarrow> \<not> level_ok (Level n)"
  by (auto simp: level_new_def level_ok_def level_MIN_def level_MAX_def word_le_nat_alt)

lemma brightness_new_Some [simp]:
  "brightness_new n = Some b \<longleftrightarrow> b = OutputBrightness n \<and> brightness_ok (OutputBrightness n)"
  by (auto simp: brightness_new_def brightness_ok_def brightness_MAX_def word_le_nat_alt)

lemma brightness_new_None: "brightness_new n = None \<longleftrightarrow> \<not> brightness_ok (OutputBrightness n)"
  by (auto simp: brightness_new_def brightness_ok_def brightness_MAX_def word_le_nat_alt)

lemma temperature_new_Some [simp]:
  "temperature_new n = Some t \<longleftrightarrow> t = ColorTemperature n \<and> temperature_ok (ColorTemperature n)"
  by (auto simp: temperature_new_def temperature_ok_def temperature_MIN_def temperature_MAX_def
      word_le_nat_alt)

lemma temperature_new_None:
  "temperature_new n = None \<longleftrightarrow> \<not> temperature_ok (ColorTemperature n)"
  by (auto simp: temperature_new_def temperature_ok_def temperature_MIN_def temperature_MAX_def
      word_le_nat_alt)

lemma level_constants_ok [simp]: "level_ok level_MIN" "level_ok level_MAX" "level_ok level_DEFAULT"
  by (simp_all add: level_ok_def level_MIN_def level_MAX_def level_DEFAULT_def)

lemma brightness_constants_ok [simp]: "brightness_ok brightness_ZERO" "brightness_ok brightness_MAX"
  by (simp_all add: brightness_ok_def brightness_ZERO_def brightness_MAX_def)

lemma temperature_constants_ok [simp]:
  "temperature_ok temperature_MIN" "temperature_ok temperature_MAX"
  "temperature_ok temperature_DEFAULT" "temperature_ok (preset_temperature p)"
  by (cases p; simp add: temperature_ok_def temperature_MIN_def temperature_MAX_def
      temperature_DEFAULT_def)+

lemma light_default_ok [simp]: "state_ok light_default"
  by (simp add: state_ok_def light_default_def)

lemma unat_from_level:
  assumes "level_ok l"
  shows "unat (brightness_get (from_level l)) = 253 + 9 * (unat (level_get l) - 1)"
proof -
  obtain n where l: "l = Level n" by (cases l)
  define w :: u16 where "w = ucast n"
  have w: "unat w = unat n" by (simp add: w_def unat_ucast_up)
  have n: "1 \<le> unat n" "unat n \<le> 254" using assms by (simp_all add: level_ok_def l)
  have d: "unat (w - 1) = unat n - 1" using n w by (subst unat_sub_fits) simp_all
  have m: "unat (9 * (w - 1)) = 9 * (unat n - 1)" using n d by (subst unat_mult_fits) simp_all
  have "unat (253 + 9 * (w - 1)) = 253 + 9 * (unat n - 1)"
    using n m by (subst unat_add_fits) simp_all
  then show ?thesis by (simp add: from_level_def l w_def)
qed

lemma from_level_ok [simp]: "level_ok l \<Longrightarrow> brightness_ok (from_level l)"
  by (auto simp: brightness_ok_def unat_from_level level_ok_def)

lemma from_level_nonzero: "level_ok l \<Longrightarrow> from_level l \<noteq> brightness_ZERO"
  using unat_from_level [of l] by (auto simp: brightness_ZERO_def)

lemma unat_to_level_clamped:
  assumes "brightness_ok b"
  shows "unat (level_get (to_level_clamped b)) =
    (if unat (brightness_get b) \<le> 253 then 1
     else 1 + (unat (brightness_get b) - 249) div 9)"
proof -
  define n where "n = brightness_get b"
  have n: "unat n \<le> 2530" using assms by (simp add: brightness_ok_def n_def)
  show ?thesis
  proof (cases "unat n \<le> 253")
    case True
    then show ?thesis by (simp add: to_level_clamped_def word_le_nat_alt level_MIN_def flip: n_def)
  next
    case False
    have s: "unat (n - 253) = unat n - 253" using False by (subst unat_sub_fits) simp_all
    have a: "unat (n - 253 + 4) = unat n - 249" using s False n by (subst unat_add_fits) simp_all
    have d: "unat ((n - 253 + 4) div 9) = (unat n - 249) div 9" using a by (simp add: unat_div)
    have t: "unat (1 + (n - 253 + 4) div 9) = 1 + (unat n - 249) div 9"
      using d n by (subst unat_add_fits) simp_all
    have "unat (ucast (1 + (n - 253 + 4) div 9) :: u8) = 1 + (unat n - 249) div 9"
      using t n by (subst unat_ucast_fits) simp_all
    with False show ?thesis by (simp add: to_level_clamped_def word_le_nat_alt flip: n_def)
  qed
qed

lemma to_level_clamped_ok [simp]: "brightness_ok b \<Longrightarrow> level_ok (to_level_clamped b)"
  using unat_to_level_clamped [of b] by (auto simp: level_ok_def brightness_ok_def)

lemma from_state_simps [simp]: "of_state (from_state s) = s"
  by (simp add: from_state_def)

lemma from_state_ok [simp]: "state_ok s \<Longrightarrow> frame_ok (from_state s)"
  by (auto simp: frame_ok_def from_state_def state_ok_def)

lemma frame_default_ok [simp]: "frame_ok frame_default"
  by (simp add: frame_ok_def frame_default_def brightness_ok_def)

lemma from_state_default [simp]: "from_state light_default = frame_default"
  by (simp add: from_state_def frame_default_def light_default_def brightness_ZERO_def)

end
