(* ===== verification/Controller.thy ===== *)
theory Controller
  imports Light
begin

text \<open>
  The intended/applied state of \<open>firmware/core/src/lib.rs\<close>: trait \<open>LightOutput\<close>, whose
  implementations are a parameter \<open>apply\<close> that sends a frame to an output of any type,
  and struct \<open>Controller\<close> with its commands and reconciliation. Locale
  \<open>light_output\<close> states the one promise of the trait: an application that returns
  success has put the whole frame on the output.
\<close>

record controller =
  ctl_intended :: light_state
  ctl_applied :: "output_frame option"

definition controller_new :: "light_state option \<Rightarrow> controller" where
  "controller_new restored =
     \<lparr>ctl_intended = (case restored of Some s \<Rightarrow> s | None \<Rightarrow> light_default), ctl_applied = None\<rparr>"

definition applied_state :: "controller \<Rightarrow> light_state option" where
  "applied_state c = (case ctl_applied c of Some frame \<Rightarrow> Some (of_state frame) | None \<Rightarrow> None)"

definition invalidate_applied :: "controller \<Rightarrow> controller" where
  "invalidate_applied c = c\<lparr>ctl_applied := None\<rparr>"

definition controller_command :: "command \<Rightarrow> controller \<Rightarrow> bool \<times> controller" where
  "controller_command cmd c =
     (let previous = ctl_intended c;
          intended = (case cmd of
              SetPower on \<Rightarrow> previous\<lparr>ls_on := on\<rparr>
            | SetLevel l \<Rightarrow> previous\<lparr>ls_level := l\<rparr>
            | SetTemperature t \<Rightarrow> previous\<lparr>ls_temperature := t\<rparr>
            | SelectPreset p \<Rightarrow> previous\<lparr>ls_temperature := preset_temperature p\<rparr>)
      in (intended \<noteq> previous, c\<lparr>ctl_intended := intended\<rparr>))"

definition light_output_apply ::
  "(output_frame \<Rightarrow> 'o \<Rightarrow> ('e + unit) \<times> 'o) \<Rightarrow> light_state \<Rightarrow> 'o \<Rightarrow> ('e + unit) \<times> 'o" where
  "light_output_apply apply s out = apply (from_state s) out"

definition reconcile_frame ::
  "(output_frame \<Rightarrow> 'o \<Rightarrow> ('e + unit) \<times> 'o) \<Rightarrow> output_frame \<Rightarrow> controller \<Rightarrow> 'o
    \<Rightarrow> ('e + bool) \<times> controller \<times> 'o" where
  "reconcile_frame apply frame c out =
     (if ctl_applied c = Some frame then (Inr False, c, out)
      else (let c = c\<lparr>ctl_applied := None\<rparr> in
        (case apply frame out of
           (Inl e, out) \<Rightarrow> (Inl e, c, out)
         | (Inr _, out) \<Rightarrow> (Inr True, c\<lparr>ctl_applied := Some frame\<rparr>, out))))"

definition controller_reconcile ::
  "(output_frame \<Rightarrow> 'o \<Rightarrow> ('e + unit) \<times> 'o) \<Rightarrow> controller \<Rightarrow> 'o
    \<Rightarrow> ('e + bool) \<times> controller \<times> 'o" where
  "controller_reconcile apply c out = reconcile_frame apply (from_state (ctl_intended c)) c out"

definition controller_ok :: "controller \<Rightarrow> bool" where
  "controller_ok c \<longleftrightarrow> state_ok (ctl_intended c) \<and>
     (case ctl_applied c of None \<Rightarrow> True | Some f \<Rightarrow> frame_ok f)"

definition command_ok :: "command \<Rightarrow> bool" where
  "command_ok cmd = (case cmd of
     SetPower _ \<Rightarrow> True | SetLevel l \<Rightarrow> level_ok l | SetTemperature t \<Rightarrow> temperature_ok t
   | SelectPreset _ \<Rightarrow> True)"

section \<open>The controller by itself\<close>

lemma controller_new_simps [simp]:
  "ctl_intended (controller_new (Some s)) = s"
  "ctl_intended (controller_new None) = light_default"
  "ctl_applied (controller_new r) = None"
  by (simp_all add: controller_new_def)

lemma controller_command_applied [simp]:
  "ctl_applied (snd (controller_command cmd c)) = ctl_applied c"
  by (simp add: controller_command_def Let_def)

lemma controller_command_intended [simp]:
  "ctl_intended (snd (controller_command (SetPower on) c)) = (ctl_intended c)\<lparr>ls_on := on\<rparr>"
  "ctl_intended (snd (controller_command (SetLevel l) c)) = (ctl_intended c)\<lparr>ls_level := l\<rparr>"
  "ctl_intended (snd (controller_command (SetTemperature t) c)) =
     (ctl_intended c)\<lparr>ls_temperature := t\<rparr>"
  "ctl_intended (snd (controller_command (SelectPreset p) c)) =
     (ctl_intended c)\<lparr>ls_temperature := preset_temperature p\<rparr>"
  by (simp_all add: controller_command_def Let_def)

lemma controller_command_ok:
  "controller_ok c \<Longrightarrow> command_ok cmd \<Longrightarrow> controller_ok (snd (controller_command cmd c))"
  by (cases cmd) (auto simp: controller_ok_def command_ok_def state_ok_def)

lemma reconcile_frame_intended [simp]:
  "ctl_intended (fst (snd (reconcile_frame apply frame c out))) = ctl_intended c"
  by (auto simp: reconcile_frame_def Let_def split: prod.split sum.split)

lemma reconcile_frame_Inr:
  "reconcile_frame apply frame c out = (Inr b, c', out') \<Longrightarrow> c' = c\<lparr>ctl_applied := Some frame\<rparr>"
  by (auto simp: reconcile_frame_def Let_def split: prod.splits sum.splits if_splits)

lemma reconcile_frame_Inl:
  "reconcile_frame apply frame c out = (Inl e, c', out') \<Longrightarrow>
     c' = c\<lparr>ctl_applied := None\<rparr> \<and> apply frame out = (Inl e, out') \<and> ctl_applied c \<noteq> Some frame"
  by (auto simp: reconcile_frame_def Let_def split: prod.splits sum.splits if_splits)

lemma reconcile_frame_unchanged:
  "reconcile_frame apply frame c out = (Inr False, c', out') \<Longrightarrow>
     ctl_applied c = Some frame \<and> c' = c \<and> out' = out"
  by (auto simp: reconcile_frame_def Let_def split: prod.splits sum.splits if_splits)

lemma reconcile_frame_applied:
  "reconcile_frame apply frame c out = (Inr True, c', out') \<Longrightarrow> apply frame out = (Inr (), out')"
  by (auto simp: reconcile_frame_def Let_def split: prod.splits sum.splits if_splits)

section \<open>The promise of an output\<close>

locale light_output =
  fixes apply_frame :: "output_frame \<Rightarrow> 'o \<Rightarrow> ('e + unit) \<times> 'o"
    and shows_frame :: "'o \<Rightarrow> output_frame \<Rightarrow> bool"
  assumes apply_shows: "apply_frame f out = (Inr u, out') \<Longrightarrow> shows_frame out' f"
begin

lemma reconcile_frame_shows:
  assumes "reconcile_frame apply_frame frame c out = (r, c', out')"
    and "\<And>f. ctl_applied c = Some f \<Longrightarrow> shows_frame out f"
    and "ctl_applied c' = Some f"
  shows "shows_frame out' f"
  using assms by (auto simp: reconcile_frame_def Let_def
      split: prod.splits sum.splits if_splits dest: apply_shows)

lemma reconcile_shows:
  assumes "controller_reconcile apply_frame c out = (r, c', out')"
    and "\<And>f. ctl_applied c = Some f \<Longrightarrow> shows_frame out f"
    and "ctl_applied c' = Some f"
  shows "shows_frame out' f"
  using reconcile_frame_shows assms unfolding controller_reconcile_def by blast

end

end
