(* ===== verification/Pca9635.thy ===== *)
theory Pca9635
  imports Controller
begin

text \<open>
  \<open>firmware/core/src/pca9635.rs\<close>: the stock warm/cool PWM arithmetic, the 22-byte
  register frame and the readback-checked driver. The bus, the OE pin and the delay are
  the trait parameters of the driver; their implementations may share state (the
  repository's own tests share one rig between them), so they act on one world of any
  type, and a driver is that world with the driver's own field \<open>verified_on\<close>.
\<close>

section \<open>PWM arithmetic and the register frame\<close>

definition ADDRESS :: u8 where "ADDRESS = 0x15"
definition MODE2 :: u8 where "MODE2 = 0x14"
definition FRAME_LEN :: nat where "FRAME_LEN = 22"

definition stock_pwm :: "u32 \<Rightarrow> u32 \<Rightarrow> u32 \<Rightarrow> u8" where
  "stock_pwm mix numerator denominator =
     (let steps = mix * 4095 * numerator div (160000 * denominator)
      in ucast (steps * 9 div 10))"

definition warm_cool_mix :: "u32 \<Rightarrow> u32 \<times> u32" where
  "warm_cool_mix mired =
     (if mired = 143 then (0, 100)
      else if 144 \<le> mired \<and> mired \<le> 243 then ((mired - 143) * 100 div 101, 100)
      else if mired = 244 then (100, 100)
      else (100, 344 - mired))"

definition output_pwm_pair :: "output_brightness \<Rightarrow> color_temperature \<Rightarrow> u8 \<times> u8" where
  "output_pwm_pair brightness temperature =
     (let mired = ucast (temperature_get temperature);
          (warm, cool) = warm_cool_mix mired;
          numerator = ucast (brightness_get brightness);
          denominator = ucast brightness_DENOMINATOR
      in (stock_pwm warm numerator denominator, stock_pwm cool numerator denominator))"

definition stock_pwm_pair :: "level \<Rightarrow> color_temperature \<Rightarrow> u8 \<times> u8" where
  "stock_pwm_pair l temperature = output_pwm_pair (from_level l) temperature"

definition frame_fill :: "u8 list" where
  "frame_fill = (replicate FRAME_LEN 0)[16 := 255, 18 := 0xaa, 19 := 0xaa, 20 := 0xaa, 21 := 0xaa]"

definition frame_bytes :: "output_frame \<Rightarrow> u8 list" where
  "frame_bytes f =
     (if ls_on (of_state f)
      then (let (warm, cool) = output_pwm_pair (of_brightness f) (ls_temperature (of_state f))
            in frame_fill[0 := warm, 4 := cool])
      else frame_fill)"

definition stock_frame :: "light_state \<Rightarrow> u8 list" where
  "stock_frame s = frame_bytes (from_state s)"

section \<open>The driver\<close>

datatype ('b, 'o) driver_error = Bus 'b | Enable 'o | ReadbackMismatch

text \<open>The traits \<open>RegisterBus\<close>, \<open>OutputEnable\<close> and \<open>Delay\<close>, one field per method.\<close>

record ('w, 'b, 'o) pca_io =
  io_write :: "u8 \<Rightarrow> u8 list \<Rightarrow> 'w \<Rightarrow> ('b + unit) \<times> 'w"
  io_write_read :: "u8 \<Rightarrow> u8 list \<Rightarrow> nat \<Rightarrow> 'w \<Rightarrow> ('b + u8 list) \<times> 'w"
  io_set_disabled :: "bool \<Rightarrow> 'w \<Rightarrow> ('o + unit) \<times> 'w"
  io_delay_us :: "u32 \<Rightarrow> 'w \<Rightarrow> 'w"

record 'w pca =
  pca_world :: 'w
  pca_verified_on :: "output_frame option"

type_synonym ('w, 'b, 'o, 'a) pca_result = "(('b, 'o) driver_error + 'a) \<times> 'w pca"

definition pca_new :: "'w \<Rightarrow> 'w pca" where
  "pca_new w = \<lparr>pca_world = w, pca_verified_on = None\<rparr>"

definition map_err :: "('e \<Rightarrow> 'f) \<Rightarrow> 'e + 'a \<Rightarrow> 'f + 'a" where
  "map_err f r = (case r of Inl e \<Rightarrow> Inl (f e) | Inr a \<Rightarrow> Inr a)"

lemma map_err_simps [simp]: "map_err f (Inl e) = Inl (f e)" "map_err f (Inr a) = Inr a"
  by (simp_all add: map_err_def)

definition pca_bus_write ::
  "('w, 'b, 'o) pca_io \<Rightarrow> u8 list \<Rightarrow> 'w pca \<Rightarrow> ('w, 'b, 'o, unit) pca_result" where
  "pca_bus_write io bytes p =
     (case io_write io ADDRESS bytes (pca_world p) of
        (r, w) \<Rightarrow> (map_err Bus r, p\<lparr>pca_world := w\<rparr>))"

definition pca_set_disabled ::
  "('w, 'b, 'o) pca_io \<Rightarrow> bool \<Rightarrow> 'w pca \<Rightarrow> ('w, 'b, 'o, unit) pca_result" where
  "pca_set_disabled io disabled p =
     (case io_set_disabled io disabled (pca_world p) of
        (r, w) \<Rightarrow> (map_err Enable r, p\<lparr>pca_world := w\<rparr>))"

definition pca_write_frame ::
  "('w, 'b, 'o) pca_io \<Rightarrow> output_frame \<Rightarrow> 'w pca \<Rightarrow> ('w, 'b, 'o, unit) pca_result" where
  "pca_write_frame io frame p = pca_bus_write io (0x82 # frame_bytes frame) p"

definition pca_read_registers ::
  "('w, 'b, 'o) pca_io \<Rightarrow> 'w pca \<Rightarrow> ('w, 'b, 'o, u8 list) pca_result" where
  "pca_read_registers io p =
     (case io_write_read io ADDRESS [0x80] 24 (pca_world p) of
        (Inl e, w) \<Rightarrow> (Inl (Bus e), p\<lparr>pca_world := w, pca_verified_on := None\<rparr>)
      | (Inr data, w) \<Rightarrow> (Inr data, p\<lparr>pca_world := w\<rparr>))"

definition readback_matches :: "output_frame \<Rightarrow> u8 list \<Rightarrow> bool" where
  "readback_matches frame data \<longleftrightarrow>
     \<not> (data ! 0 AND 0x1f \<noteq> 0 \<or> data ! 1 \<noteq> MODE2 \<or> drop 2 data \<noteq> frame_bytes frame)"

definition pca_verify_frame ::
  "('w, 'b, 'o) pca_io \<Rightarrow> output_frame \<Rightarrow> 'w pca \<Rightarrow> ('w, 'b, 'o, unit) pca_result" where
  "pca_verify_frame io frame p =
     attempt (pca_read_registers io p) (\<lambda>data p.
       if readback_matches frame data then (Inr (), p)
       else (Inl ReadbackMismatch, p\<lparr>pca_verified_on := None\<rparr>))"

definition pca_verify ::
  "('w, 'b, 'o) pca_io \<Rightarrow> light_state \<Rightarrow> 'w pca \<Rightarrow> ('w, 'b, 'o, unit) pca_result" where
  "pca_verify io s p = pca_verify_frame io (from_state s) p"

definition pca_finish ::
  "('w, 'b, 'o) pca_io \<Rightarrow> ('w, 'b, 'o, unit) pca_result \<Rightarrow> ('w, 'b, 'o, unit) pca_result" where
  "pca_finish io m =
     (case m of
        (Inr u, p) \<Rightarrow> (Inr u, p)
      | (Inl e, p) \<Rightarrow>
          attempt (pca_set_disabled io True (p\<lparr>pca_verified_on := None\<rparr>)) (\<lambda>_ p. (Inl e, p)))"

definition pca_initialize_off ::
  "('w, 'b, 'o) pca_io \<Rightarrow> 'w pca \<Rightarrow> ('w, 'b, 'o, unit) pca_result" where
  "pca_initialize_off io p =
     attempt (pca_set_disabled io True (p\<lparr>pca_verified_on := None\<rparr>)) (\<lambda>_ p.
       pca_finish io
         (attempt (pca_bus_write io [0x01, MODE2] p) (\<lambda>_ p.
          attempt (pca_write_frame io frame_default p) (\<lambda>_ p.
          attempt (pca_bus_write io [0x00, 0x00] p) (\<lambda>_ p.
            pca_verify io light_default
              (p\<lparr>pca_world := io_delay_us io 500 (pca_world p)\<rparr>))))))"

definition pca_shutdown ::
  "('w, 'b, 'o) pca_io \<Rightarrow> 'w pca \<Rightarrow> ('w, 'b, 'o, unit) pca_result" where
  "pca_shutdown io p = pca_initialize_off io p"

text \<open>
  The closure of \<open>apply_frame\<close>: first the fast path over a frame that is already
  verified, then the parked initialisation that every other case falls through to.
\<close>

definition pca_slow_path ::
  "('w, 'b, 'o) pca_io \<Rightarrow> output_frame \<Rightarrow> 'w pca \<Rightarrow> ('w, 'b, 'o, unit) pca_result" where
  "pca_slow_path io frame p =
     attempt (pca_initialize_off io p) (\<lambda>_ p.
       if ls_on (of_state frame) then
         attempt (pca_write_frame io frame p) (\<lambda>_ p.
         attempt (pca_verify_frame io frame p) (\<lambda>_ p.
         attempt (pca_set_disabled io False p) (\<lambda>_ p.
           (Inr (), p\<lparr>pca_verified_on := Some frame\<rparr>))))
       else (Inr (), p))"

definition pca_fast_path ::
  "('w, 'b, 'o) pca_io \<Rightarrow> output_frame \<Rightarrow> output_frame \<Rightarrow> 'w pca \<Rightarrow> ('w, 'b, 'o, unit) pca_result"
where
  "pca_fast_path io previous frame p =
     (if frame_bytes previous \<noteq> frame_bytes frame then
        attempt (pca_write_frame io frame p) (\<lambda>_ p.
        attempt (pca_verify_frame io frame p) (\<lambda>_ p.
          (Inr (), p\<lparr>pca_verified_on := Some frame\<rparr>)))
      else (Inr (), p\<lparr>pca_verified_on := Some frame\<rparr>))"

definition pca_apply_frame ::
  "('w, 'b, 'o) pca_io \<Rightarrow> output_frame \<Rightarrow> 'w pca \<Rightarrow> ('w, 'b, 'o, unit) pca_result" where
  "pca_apply_frame io frame p =
     pca_finish io
       (case (ls_on (of_state frame), pca_verified_on p) of
          (True, Some previous) \<Rightarrow>
            (case pca_verify_frame io previous p of
               (Inr _, p) \<Rightarrow> pca_fast_path io previous frame p
             | (Inl ReadbackMismatch, p) \<Rightarrow> pca_slow_path io frame p
             | (Inl e, p) \<Rightarrow> (Inl e, p))
        | _ \<Rightarrow> pca_slow_path io frame p)"

section \<open>The arithmetic on natural numbers\<close>

text \<open>
  Within the ranges of the newtypes no product wraps and the final cast to a byte keeps
  the value, so the word computation is this one on naturals.
\<close>

definition pwm_nat :: "nat \<Rightarrow> nat \<Rightarrow> nat \<Rightarrow> nat" where
  "pwm_nat mix num den = (mix * 4095 * num div (160000 * den)) * 9 div 10"

lemma pwm_nat_mono: "a \<le> b \<Longrightarrow> pwm_nat mix a den \<le> pwm_nat mix b den"
  unfolding pwm_nat_def by (intro div_le_mono mult_le_mono) simp_all

lemma pwm_nat_mono_mix: "a \<le> b \<Longrightarrow> pwm_nat a num den \<le> pwm_nat b num den"
  unfolding pwm_nat_def by (intro div_le_mono mult_le_mono) simp_all

lemma pwm_nat_le_22:
  assumes "mix \<le> 100" "num \<le> 10 * den"
  shows "pwm_nat mix num den \<le> 22"
proof -
  have "mix * 4095 * num \<le> 100 * 4095 * (10 * den)" using assms by (intro mult_le_mono) simp_all
  also have "\<dots> < (160000 * den) * 26" if "0 < den" using that by simp
  finally have "mix * 4095 * num div (160000 * den) \<le> 25"
    by (cases "den = 0") (simp_all add: less_mult_imp_div_less mult.commute
        flip: less_Suc_eq_le)
  then show ?thesis unfolding pwm_nat_def by simp
qed

lemma unat_stock_pwm:
  assumes m: "unat mix \<le> 100" and n: "unat num \<le> 10 * unat den" and d: "unat den \<le> 253"
  shows "unat (stock_pwm mix num den) = pwm_nat (unat mix) (unat num) (unat den)"
proof -
  have m1: "unat (mix * 4095) = unat mix * 4095" using m by (subst unat_mult_fits) simp_all
  have nn: "unat num \<le> 2530" using n d by simp
  have "unat mix * 4095 * unat num \<le> 100 * 4095 * 2530"
    using m nn by (intro mult_le_mono) simp_all
  then have m2: "unat (mix * 4095 * num) = unat mix * 4095 * unat num"
    using m1 by (subst unat_mult_fits) simp_all
  have d1: "unat (160000 * den) = 160000 * unat den" using d by (subst unat_mult_fits) simp_all
  define s where "s = mix * 4095 * num div (160000 * den)"
  have s: "unat s = unat mix * 4095 * unat num div (160000 * unat den)"
    by (simp add: s_def unat_div m2 d1)
  have p: "pwm_nat (unat mix) (unat num) (unat den) = unat s * 9 div 10"
    by (simp add: pwm_nat_def s)
  have le: "unat s * 9 div 10 \<le> 22" using pwm_nat_le_22 [OF m n] p by simp
  then have "unat s * 9 < 230" by presburger
  then have s9: "unat (s * 9) = unat s * 9" by (subst unat_mult_fits) simp_all
  have "unat (s * 9 div 10) = unat s * 9 div 10" by (simp add: unat_div s9)
  then have "unat (ucast (s * 9 div 10) :: u8) = unat s * 9 div 10"
    using le by (subst unat_ucast_fits) simp_all
  then show ?thesis by (simp add: stock_pwm_def p flip: s_def)
qed

definition mix_nat :: "nat \<Rightarrow> nat \<times> nat" where
  "mix_nat mired =
     (if mired = 143 then (0, 100)
      else if 144 \<le> mired \<and> mired \<le> 243 then ((mired - 143) * 100 div 101, 100)
      else if mired = 244 then (100, 100)
      else (100, 344 - mired))"

lemma mix_nat_le:
  assumes "143 \<le> m"
  shows "fst (mix_nat m) \<le> 100" "snd (mix_nat m) \<le> 100"
    "fst (mix_nat m) = 100 \<or> snd (mix_nat m) = 100"
  using assms by (auto simp: mix_nat_def)

lemma unat_warm_cool_mix:
  assumes "143 \<le> unat m" "unat m \<le> 344"
  shows "unat (fst (warm_cool_mix m)) = fst (mix_nat (unat m))"
    "unat (snd (warm_cool_mix m)) = snd (mix_nat (unat m))"
proof -
  have e: "m = 143 \<longleftrightarrow> unat m = 143" "m = 244 \<longleftrightarrow> unat m = 244"
    by (auto simp: word_unat_eq_iff)
  have w: "unat ((m - 143) * 100 div 101) = (unat m - 143) * 100 div 101"
  proof -
    have s: "unat (m - 143) = unat m - 143" using assms by (subst unat_sub_fits) simp_all
    then have "unat ((m - 143) * 100) = (unat m - 143) * 100"
      using assms by (subst unat_mult_fits) simp_all
    then show ?thesis by (simp add: unat_div)
  qed
  have c: "unat (344 - m) = 344 - unat m" using assms by (subst unat_sub_fits) simp_all
  show "unat (fst (warm_cool_mix m)) = fst (mix_nat (unat m))"
    by (simp add: warm_cool_mix_def mix_nat_def e word_le_nat_alt w del: left_diff_distrib_numeral)
  show "unat (snd (warm_cool_mix m)) = snd (mix_nat (unat m))"
    by (simp add: warm_cool_mix_def mix_nat_def e word_le_nat_alt c)
qed

lemma unat_output_pwm_pair:
  assumes b: "brightness_ok b" and t: "temperature_ok t"
  defines "m \<equiv> mix_nat (unat (temperature_get t))" and "n \<equiv> unat (brightness_get b)"
  shows "unat (fst (output_pwm_pair b t)) = pwm_nat (fst m) n 253"
    "unat (snd (output_pwm_pair b t)) = pwm_nat (snd m) n 253"
proof -
  define mired :: u32 where "mired = ucast (temperature_get t)"
  define num :: u32 where "num = ucast (brightness_get b)"
  have u: "unat mired = unat (temperature_get t)" "unat num = n"
    by (simp_all add: mired_def num_def n_def unat_ucast_up)
  have den: "unat (ucast brightness_DENOMINATOR :: u32) = 253"
    by (simp add: brightness_DENOMINATOR_def)
  have mix: "unat (fst (warm_cool_mix mired)) = fst m" "unat (snd (warm_cool_mix mired)) = snd m"
    using unat_warm_cool_mix [of mired] t u by (simp_all add: temperature_ok_def m_def)
  have le: "fst m \<le> 100" "snd m \<le> 100"
    using mix_nat_le t by (simp_all add: temperature_ok_def m_def)
  have n: "n \<le> 2530" using b by (simp add: brightness_ok_def n_def)
  show "unat (fst (output_pwm_pair b t)) = pwm_nat (fst m) n 253"
    using unat_stock_pwm [of "fst (warm_cool_mix mired)" num "ucast brightness_DENOMINATOR"]
    by (simp add: output_pwm_pair_def Let_def mix le n u den case_prod_unfold flip: mired_def num_def)
  show "unat (snd (output_pwm_pair b t)) = pwm_nat (snd m) n 253"
    using unat_stock_pwm [of "snd (warm_cool_mix mired)" num "ucast brightness_DENOMINATOR"]
    by (simp add: output_pwm_pair_def Let_def mix le n u den case_prod_unfold flip: mired_def num_def)
qed

lemma length_frame_fill [simp]: "length frame_fill = 22"
  by (simp add: frame_fill_def FRAME_LEN_def)

lemma length_frame_bytes [simp]: "length (frame_bytes f) = 22"
  by (simp add: frame_bytes_def case_prod_unfold Let_def)

lemma frame_bytes_off: "\<not> ls_on (of_state f) \<Longrightarrow> frame_bytes f = frame_fill"
  by (simp add: frame_bytes_def)

end
