(* ===== verification/Pca_Driver.thy ===== *)
theory Pca_Driver
  imports Pca9635
begin

text \<open>
  What the PCA9635 driver of \<open>Pca9635\<close> promises: what its field \<open>verified_on\<close> says
  after each operation, the order of its I/O (read off a trace that any I/O
  implementation can be wrapped in), and, for a bus whose successful reads return the
  chip's registers, which registers the chip holds after a successful application.
\<close>

section \<open>The verified frame\<close>

lemma pca_bus_write_verified [simp]:
  "pca_verified_on (snd (pca_bus_write io bytes p)) = pca_verified_on p"
  by (simp add: pca_bus_write_def split: prod.split)

lemma pca_set_disabled_verified [simp]:
  "pca_verified_on (snd (pca_set_disabled io d p)) = pca_verified_on p"
  by (simp add: pca_set_disabled_def split: prod.split)

lemma pca_write_frame_verified [simp]:
  "pca_verified_on (snd (pca_write_frame io f p)) = pca_verified_on p"
  by (simp add: pca_write_frame_def)

lemma pca_read_registers_verified:
  "pca_read_registers io p = (r, p') \<Longrightarrow>
     pca_verified_on p' = (if is_err r then None else pca_verified_on p)"
  by (auto simp: pca_read_registers_def split: prod.splits sum.splits)

lemma pca_verify_frame_verified:
  "pca_verify_frame io f p = (r, p') \<Longrightarrow>
     pca_verified_on p' = (if is_err r then None else pca_verified_on p)"
  by (cases "pca_read_registers io p")
    (auto simp: pca_verify_frame_def attempt_def dest!: pca_read_registers_verified
      split: sum.splits if_splits)

lemma pca_finish_verified:
  "pca_finish io m = (r, p') \<Longrightarrow>
     (case m of (Inr u, p) \<Rightarrow> r = Inr u \<and> p' = p | (Inl e, p) \<Rightarrow> is_err r \<and> pca_verified_on p' = None)"
  using pca_set_disabled_verified [of io True "(snd m)\<lparr>pca_verified_on := None\<rparr>"]
  by (auto simp: pca_finish_def attempt_def split: prod.splits sum.splits
      simp del: pca_set_disabled_verified)

lemma pca_finish_Inr:
  "pca_finish io m = (Inr u, p') \<longleftrightarrow> m = (Inr u, p')"
  using pca_finish_verified [of io m "Inr u" p']
  by (auto simp: pca_finish_def split: prod.splits sum.splits)

lemma pca_verify_frame_None:
  "pca_verified_on p = None \<Longrightarrow> pca_verified_on (snd (pca_verify_frame io f p)) = None"
  using pca_verify_frame_verified [of io f p] by (cases "pca_verify_frame io f p") simp

lemma pca_finish_state:
  assumes "post m (\<lambda>_. I)"
    and "\<And>p. I p \<Longrightarrow> post (pca_set_disabled io True (p\<lparr>pca_verified_on := None\<rparr>)) (\<lambda>_. I)"
  shows "post (pca_finish io m) (\<lambda>_. I)"
  using assms by (cases m) (auto simp: pca_finish_def split: sum.splits intro!: post_attempt_state)

lemma pca_initialize_off_state:
  assumes "I (p\<lparr>pca_verified_on := None\<rparr>)"
    and "\<And>p. I p \<Longrightarrow> pca_verified_on p = None"
    and "\<And>p. I p \<Longrightarrow> post (pca_set_disabled io True p) (\<lambda>_. I)"
    and "\<And>bytes p. I p \<Longrightarrow> post (pca_bus_write io bytes p) (\<lambda>_. I)"
    and "\<And>f p. I p \<Longrightarrow> post (pca_verify_frame io f p) (\<lambda>_. I)"
    and "\<And>p. I p \<Longrightarrow> I (p\<lparr>pca_world := io_delay_us io 500 (pca_world p)\<rparr>)"
  shows "post (pca_initialize_off io p) (\<lambda>_. I)"
proof -
  have none: "p\<lparr>pca_verified_on := None\<rparr> = p" if "I p" for p
    using assms(2) [OF that] by (cases p) simp
  show ?thesis
    unfolding pca_initialize_off_def pca_write_frame_def pca_verify_def
    by (intro post_attempt_state pca_finish_state assms; simp add: none assms)
qed

lemma pca_initialize_off_None: "pca_verified_on (snd (pca_initialize_off io p)) = None"
proof -
  have "post (pca_initialize_off io p) (\<lambda>_ p. pca_verified_on p = None)"
    by (rule pca_initialize_off_state)
      (simp_all add: post_def pca_verify_frame_None)
  then show ?thesis by (simp add: post_def)
qed

lemma pca_slow_path_Inr:
  "pca_slow_path io f p = (Inr u, p') \<Longrightarrow>
     pca_verified_on p' = (if ls_on (of_state f) then Some f else None)"
  using pca_initialize_off_None [of io p]
  by (auto simp: pca_slow_path_def attempt_def split: prod.splits sum.splits if_splits)

lemma pca_fast_path_Inr:
  "pca_fast_path io g f p = (Inr u, p') \<Longrightarrow> pca_verified_on p' = Some f"
  by (auto simp: pca_fast_path_def attempt_def split: prod.splits sum.splits if_splits)

lemma pca_apply_frame_Inr:
  "pca_apply_frame io f p = (Inr u, p') \<Longrightarrow>
     pca_verified_on p' = (if ls_on (of_state f) then Some f else None)"
  by (auto simp: pca_apply_frame_def pca_finish_Inr dest: pca_slow_path_Inr pca_fast_path_Inr
      split: option.splits prod.splits sum.splits driver_error.splits bool.splits)

lemma pca_apply_frame_Inl:
  "pca_apply_frame io f p = (Inl e, p') \<Longrightarrow> pca_verified_on p' = None"
  unfolding pca_apply_frame_def
  by (drule pca_finish_verified) (auto split: prod.splits sum.splits)

section \<open>The order of the I/O\<close>

text \<open>
  \<open>traced io\<close> behaves as \<open>io\<close> and records every call, as the event list of the
  repository's driver tests does: the OE level requested, the bytes written, the data of
  a successful read, the delay.
\<close>

datatype io_event = OeEv bool | WriteEv "u8 list" | ReadEv "u8 list option" | DelayEv u32

definition traced :: "('w, 'b, 'o) pca_io \<Rightarrow> ('w \<times> io_event list, 'b, 'o) pca_io" where
  "traced io = \<lparr>
     io_write = (\<lambda>a bytes (w, t). case io_write io a bytes w of
        (r, w) \<Rightarrow> (r, (w, t @ [WriteEv bytes]))),
     io_write_read = (\<lambda>a bytes n (w, t). case io_write_read io a bytes n w of
        (Inl e, w) \<Rightarrow> (Inl e, (w, t @ [ReadEv None]))
      | (Inr data, w) \<Rightarrow> (Inr data, (w, t @ [ReadEv (Some data)]))),
     io_set_disabled = (\<lambda>d (w, t). case io_set_disabled io d w of
        (r, w) \<Rightarrow> (r, (w, t @ [OeEv d]))),
     io_delay_us = (\<lambda>n (w, t). (io_delay_us io n w, t @ [DelayEv n]))\<rparr>"

abbreviation pca_trace :: "('w \<times> io_event list) pca \<Rightarrow> io_event list" where
  "pca_trace p \<equiv> snd (pca_world p)"

text \<open>Every release of OE is directly preceded by a readback that matches the frame.\<close>

fun oe_guarded :: "output_frame \<Rightarrow> io_event list \<Rightarrow> bool" where
  "oe_guarded f [] = True"
| "oe_guarded f (ReadEv (Some data) # OeEv False # es) =
     (ls_on (of_state f) \<and> readback_matches f data \<and> oe_guarded f es)"
| "oe_guarded f (OeEv False # es) = False"
| "oe_guarded f (e # es) = oe_guarded f es"

lemma oe_guarded_quiet: "OeEv False \<notin> set es \<Longrightarrow> oe_guarded f es"
  by (induction f es rule: oe_guarded.induct) auto

lemma oe_guarded_append:
  "OeEv False \<notin> set xs \<Longrightarrow> oe_guarded f (xs @ WriteEv b # ys) = oe_guarded f ys"
  by (induction f xs rule: oe_guarded.induct) auto

lemma traced_set_disabled:
  "pca_trace (snd (pca_set_disabled (traced io) d p)) = pca_trace p @ [OeEv d]"
  by (simp add: pca_set_disabled_def traced_def split: prod.split)

lemma traced_bus_write:
  "pca_trace (snd (pca_bus_write (traced io) b p)) = pca_trace p @ [WriteEv b]"
  by (simp add: pca_bus_write_def traced_def split: prod.split)

lemma traced_verify:
  assumes "pca_verify_frame (traced io) f p = (r, p')"
  obtains d where "pca_trace p' = pca_trace p @ [ReadEv d]"
    and "r = Inr () \<Longrightarrow> \<exists>data. d = Some data \<and> readback_matches f data"
  using assms by (auto simp: pca_verify_frame_def pca_read_registers_def traced_def attempt_def
      split: prod.splits sum.splits if_splits)

definition quiet_since :: "io_event list \<Rightarrow> ('w \<times> io_event list) pca \<Rightarrow> bool" where
  "quiet_since t p \<longleftrightarrow> (\<exists>es. pca_trace p = t @ es \<and> OeEv False \<notin> set es)"

lemma quiet_since_snoc:
  "quiet_since t p \<Longrightarrow> e \<noteq> OeEv False \<Longrightarrow> pca_trace p' = pca_trace p @ [e] \<Longrightarrow> quiet_since t p'"
  by (auto simp: quiet_since_def)

lemma quiet_refl [simp]: "quiet_since (pca_trace p) p"
  by (simp add: quiet_since_def)

lemma quiet_set_disabled:
  "quiet_since t p \<Longrightarrow> post (pca_set_disabled (traced io) True p) (\<lambda>_. quiet_since t)"
  unfolding post_def by (rule quiet_since_snoc [OF _ _ traced_set_disabled]) simp_all

lemma quiet_bus_write:
  "quiet_since t p \<Longrightarrow> post (pca_bus_write (traced io) b p) (\<lambda>_. quiet_since t)"
  unfolding post_def by (rule quiet_since_snoc [OF _ _ traced_bus_write]) simp_all

lemma quiet_verify:
  assumes "quiet_since t p"
  shows "post (pca_verify_frame (traced io) f p) (\<lambda>_. quiet_since t)"
proof -
  obtain r p' where v: "pca_verify_frame (traced io) f p = (r, p')" by fastforce
  obtain d where "pca_trace p' = pca_trace p @ [ReadEv d]" using traced_verify [OF v] by blast
  then show ?thesis using assms v by (auto intro: quiet_since_snoc)
qed

lemma quiet_delay:
  "quiet_since t p \<Longrightarrow>
     quiet_since t (p\<lparr>pca_world := io_delay_us (traced io) n (pca_world p)\<rparr>)"
  by (erule quiet_since_snoc [where e = "DelayEv n"]) (simp_all add: traced_def case_prod_unfold)

lemma quiet_verified_on [simp]: "quiet_since t (p\<lparr>pca_verified_on := v\<rparr>) = quiet_since t p"
  by (simp add: quiet_since_def)

lemma quiet_initialize_off:
  assumes "quiet_since t p"
  shows "post (pca_initialize_off (traced io) p) (\<lambda>_. quiet_since t)"
proof -
  have "post (pca_initialize_off (traced io) p)
      (\<lambda>_ p. quiet_since t p \<and> pca_verified_on p = None)"
    using assms by (intro pca_initialize_off_state)
      (auto simp: quiet_delay pca_verify_frame_None post_def
        dest: quiet_set_disabled quiet_bus_write quiet_verify)
  then show ?thesis by (rule post_mono) simp
qed

lemma quiet_fast_path:
  "quiet_since t p \<Longrightarrow> post (pca_fast_path (traced io) g f p) (\<lambda>_. quiet_since t)"
  unfolding pca_fast_path_def pca_write_frame_def
  by (auto intro!: post_attempt_state quiet_bus_write quiet_verify)

text \<open>The only way the trace of the parked path stops being quiet is its last step.\<close>

definition enabled_last :: "output_frame \<Rightarrow> io_event list \<Rightarrow> ('w \<times> io_event list) pca \<Rightarrow> bool" where
  "enabled_last f t p \<longleftrightarrow> ls_on (of_state f) \<and>
     (\<exists>es b data rest. pca_trace p = t @ es @ WriteEv b # ReadEv (Some data) # OeEv False # rest \<and>
        OeEv False \<notin> set es \<and> OeEv False \<notin> set rest \<and> readback_matches f data)"

lemma enabled_last_snoc:
  "enabled_last f t p \<Longrightarrow> e \<noteq> OeEv False \<Longrightarrow> pca_trace p' = pca_trace p @ [e] \<Longrightarrow>
     enabled_last f t p'"
  unfolding enabled_last_def by fastforce

lemma enabled_last_verified_on [simp]:
  "enabled_last f t (p\<lparr>pca_verified_on := v\<rparr>) = enabled_last f t p"
  by (simp add: enabled_last_def)

lemma enable_after_readback:
  assumes "quiet_since t p" and "ls_on (of_state f)"
  shows "post (attempt (pca_write_frame (traced io) f p) (\<lambda>_ p.
         attempt (pca_verify_frame (traced io) f p) (\<lambda>_ p.
         attempt (pca_set_disabled (traced io) False p) (\<lambda>_ p.
           (Inr (), p\<lparr>pca_verified_on := Some f\<rparr>)))))
     (\<lambda>_ p'. quiet_since t p' \<or> enabled_last f t p')"
proof -
  obtain r1 p1 where w: "pca_write_frame (traced io) f p = (r1, p1)" by fastforce
  have t1: "pca_trace p1 = pca_trace p @ [WriteEv (0x82 # frame_bytes f)]"
    using traced_bus_write [of io "0x82 # frame_bytes f" p] w by (simp add: pca_write_frame_def)
  have q1: "quiet_since t p1" by (rule quiet_since_snoc [OF assms(1) _ t1]) simp
  obtain r2 p2 where v: "pca_verify_frame (traced io) f p1 = (r2, p2)" by fastforce
  obtain d where t2: "pca_trace p2 = pca_trace p1 @ [ReadEv d]"
    and d: "r2 = Inr () \<Longrightarrow> \<exists>data. d = Some data \<and> readback_matches f data"
    using traced_verify [OF v] by blast
  have q2: "quiet_since t p2" by (rule quiet_since_snoc [OF q1 _ t2]) simp
  obtain r3 p3 where o: "pca_set_disabled (traced io) False p2 = (r3, p3)" by fastforce
  have t3: "pca_trace p3 = pca_trace p2 @ [OeEv False]"
    using traced_set_disabled [of io False p2] o by simp
  have e3: "enabled_last f t p3" if r2: "r2 = Inr ()"
  proof -
    obtain es where "pca_trace p = t @ es" "OeEv False \<notin> set es"
      using assms(1) by (auto simp: quiet_since_def)
    moreover obtain data where "d = Some data" "readback_matches f data" using d [OF r2] by auto
    ultimately show ?thesis using t1 t2 t3 assms(2) unfolding enabled_last_def by fastforce
  qed
  show ?thesis using w v o q1 q2 e3
    by (auto simp: attempt_def split: sum.splits)
qed

lemma slow_path_trace:
  assumes "quiet_since t p"
  shows "post (pca_slow_path (traced io) f p) (\<lambda>_ p'. quiet_since t p' \<or> enabled_last f t p')"
  unfolding pca_slow_path_def
  by (rule post_attempt_weaken [OF quiet_initialize_off [OF assms]])
    (auto intro!: enable_after_readback)

lemma finish_trace:
  assumes "post m (\<lambda>_ p. quiet_since t p \<or> enabled_last f t p)"
  shows "post (pca_finish (traced io) m) (\<lambda>_ p. quiet_since t p \<or> enabled_last f t p)"
  using assms
  by (rule pca_finish_state)
    (auto simp: post_def intro: quiet_since_snoc [OF _ _ traced_set_disabled]
      enabled_last_snoc [OF _ _ traced_set_disabled])

lemma apply_frame_trace:
  assumes "quiet_since t p"
  shows "post (pca_apply_frame (traced io) f p) (\<lambda>_ p'. quiet_since t p' \<or> enabled_last f t p')"
proof -
  have fast: "post (pca_fast_path (traced io) g f q) (\<lambda>_ p'. quiet_since t p' \<or> enabled_last f t p')"
    if "quiet_since t q" for g q
    using quiet_fast_path [OF that, of io g f] by (rule post_mono) simp
  have verify: "quiet_since t q" if "pca_verify_frame (traced io) g p = (r, q)" for g r q
    using quiet_verify [OF assms, of io g] that by simp
  show ?thesis
    unfolding pca_apply_frame_def
    using slow_path_trace assms fast verify
    by (intro finish_trace)
      (auto split: option.splits prod.splits sum.splits driver_error.splits bool.splits)
qed

section \<open>The registers of the chip\<close>

text \<open>
  What the driver relies on of the chip and its bus, from the PCA9635 datasheet: a
  successful auto-increment read from register 0 returns the chip's registers, and the
  OE pin changes none of them. \<open>regs w\<close> stands for registers 0x02 to 0x17.
\<close>

definition bus_returns_registers :: "('w, 'b, 'o) pca_io \<Rightarrow> ('w \<Rightarrow> u8 list) \<Rightarrow> bool" where
  "bus_returns_registers io regs \<longleftrightarrow>
     (\<forall>w data w'. io_write_read io ADDRESS [0x80] 24 w = (Inr data, w') \<longrightarrow> drop 2 data = regs w') \<and>
     (\<forall>d w. regs (snd (io_set_disabled io d w)) = regs w)"

lemma verify_Inr_registers:
  assumes "bus_returns_registers io regs" "pca_verify_frame io f p = (Inr u, p')"
  shows "regs (pca_world p') = frame_bytes f"
  using assms by (auto simp: pca_verify_frame_def pca_read_registers_def bus_returns_registers_def
      readback_matches_def attempt_def split: prod.splits sum.splits if_splits)

lemma set_disabled_registers:
  assumes "bus_returns_registers io regs" "pca_set_disabled io d p = (r, p')"
  shows "regs (pca_world p') = regs (pca_world p)"
  using assms by (auto simp: pca_set_disabled_def bus_returns_registers_def split: prod.splits)
    (metis snd_conv)

lemma initialize_off_Inr_registers:
  assumes "bus_returns_registers io regs" "pca_initialize_off io p = (Inr u, p')"
  shows "regs (pca_world p') = frame_bytes frame_default"
  using assms by (auto simp: pca_initialize_off_def pca_finish_Inr pca_verify_def
      elim!: attempt_InrE dest: verify_Inr_registers)

lemma slow_path_Inr_registers:
  assumes law: "bus_returns_registers io regs" and "pca_slow_path io f p = (Inr u, p')"
  shows "regs (pca_world p') = frame_bytes f"
proof (cases "ls_on (of_state f)")
  case True
  with assms(2) show ?thesis
    by (auto simp: pca_slow_path_def elim!: attempt_InrE dest!: verify_Inr_registers [OF law]
        set_disabled_registers [OF law])
next
  case False
  with assms(2) have "pca_initialize_off io p = (Inr u, p')"
    by (auto simp: pca_slow_path_def elim!: attempt_InrE)
  then show ?thesis
    using initialize_off_Inr_registers [OF law] False
    by (simp add: frame_bytes_off frame_default_def light_default_def)
qed

lemma fast_path_Inr_registers:
  assumes "bus_returns_registers io regs" "pca_fast_path io g f p = (Inr u, p')"
    and "regs (pca_world p) = frame_bytes g"
  shows "regs (pca_world p') = frame_bytes f"
  using assms by (auto simp: pca_fast_path_def elim!: attempt_InrE split: if_splits
      dest: verify_Inr_registers)

lemma apply_frame_Inr_registers:
  assumes "bus_returns_registers io regs" "pca_apply_frame io f p = (Inr u, p')"
  shows "regs (pca_world p') = frame_bytes f"
  using assms unfolding pca_apply_frame_def pca_finish_Inr
  by (auto split: option.splits prod.splits sum.splits driver_error.splits bool.splits
      dest: slow_path_Inr_registers verify_Inr_registers intro: fast_path_Inr_registers)

end
