(* ===== verification/Pca_Rig.thy ===== *)
theory Pca_Rig
  imports Pca_Driver
begin

text \<open>
  The properties of the PWM arithmetic and of the driver, the interpretation of
  \<open>light_output\<close> on the driver, and the in-memory rig of the repository's driver tests
  (\<open>Hardware\<close> and \<open>Mock\<close> of \<open>firmware/core/tests/pca9635.rs\<close>), on which the witnesses run.
\<close>

section \<open>The rig of the driver tests\<close>

record rig =
  rig_registers :: "u8 list"
  rig_fail_at :: "nat option"
  rig_operations :: nat
  rig_fail_bus :: bool
  rig_corrupt_read :: bool
  rig_reset_after_write :: bool

definition rig_default :: rig where
  "rig_default = \<lparr>rig_registers = replicate 24 0, rig_fail_at = None, rig_operations = 0,
     rig_fail_bus = False, rig_corrupt_read = False, rig_reset_after_write = False\<rparr>"

definition rig_step :: "rig \<Rightarrow> (string + unit) \<times> rig" where
  "rig_step h =
     (let operation = rig_operations h; h = h\<lparr>rig_operations := operation + 1\<rparr>
      in (if rig_fail_at h = Some operation then Inl ''injected'' else Inr (), h))"

definition rig_write :: "u8 \<Rightarrow> u8 list \<Rightarrow> rig \<Rightarrow> (string + unit) \<times> rig" where
  "rig_write address bytes h =
     attempt (rig_step h) (\<lambda>_ h.
       if rig_fail_bus h then (Inl ''bus unavailable'', h)
       else (let start = unat (hd bytes AND 0x1f);
                 r = rig_registers h;
                 h = h\<lparr>rig_registers := take start r @ tl bytes @ drop (start + length (tl bytes)) r\<rparr>
             in if rig_reset_after_write h
                then (Inr (), h\<lparr>rig_registers := replicate 24 0, rig_reset_after_write := False\<rparr>)
                else (Inr (), h)))"

definition rig_readout :: "rig \<Rightarrow> u8 list" where
  "rig_readout h =
     (let out = (rig_registers h)[0 := rig_registers h ! 0 OR 0x80]
      in if rig_corrupt_read h then out[2 := out ! 2 XOR 1] else out)"

definition rig_write_read :: "u8 \<Rightarrow> u8 list \<Rightarrow> nat \<Rightarrow> rig \<Rightarrow> (string + u8 list) \<times> rig" where
  "rig_write_read address bytes n h =
     attempt (rig_step h) (\<lambda>_ h.
       if rig_fail_bus h then (Inl ''bus unavailable'', h) else (Inr (rig_readout h), h))"

definition rig_set_disabled :: "bool \<Rightarrow> rig \<Rightarrow> (string + unit) \<times> rig" where
  "rig_set_disabled disabled h = rig_step h"

definition rig_io :: "(rig, string, string) pca_io" where
  "rig_io = \<lparr>io_write = rig_write, io_write_read = rig_write_read,
     io_set_disabled = rig_set_disabled, io_delay_us = (\<lambda>_ h. h)\<rparr>"

lemma rig_returns_registers: "bus_returns_registers rig_io (\<lambda>h. drop 2 (rig_readout h))"
  unfolding bus_returns_registers_def
proof (intro conjI allI impI)
  fix w data w'
  assume "io_write_read rig_io ADDRESS [0x80] 24 w = (Inr data, w')"
  then show "drop 2 data = drop 2 (rig_readout w')"
    by (auto simp: rig_io_def rig_write_read_def attempt_def split: prod.splits sum.splits if_splits)
next
  fix d w
  show "drop 2 (rig_readout (snd (io_set_disabled rig_io d w))) = drop 2 (rig_readout w)"
    by (simp add: rig_io_def rig_set_disabled_def rig_step_def rig_readout_def Let_def)
qed

definition lamp_on :: light_state where
  "lamp_on = light_default\<lparr>ls_on := True\<rparr>"

section \<open>Properties of the PWM arithmetic\<close>

text \<open>For every brightness and colour temperature in range, both PWM bytes stay at or below
  22, the stock value of nominal 10%; and from the floor of an ordinary level upwards at
  least one bank is lit.\<close>

theorem pwm_pair_bounded:
  assumes "brightness_ok b" and "temperature_ok t"
  shows "unat (fst (output_pwm_pair b t)) \<le> 22 \<and> unat (snd (output_pwm_pair b t)) \<le> 22 \<and>
    (unat (brightness_get b) < 253 \<or> 0 < unat (fst (output_pwm_pair b t)) \<or>
     0 < unat (snd (output_pwm_pair b t)))"
proof -
  define m where "m = mix_nat (unat (temperature_get t))"
  have m: "fst m \<le> 100" "snd m \<le> 100" "fst m = 100 \<or> snd m = 100"
    using mix_nat_le assms(2) by (simp_all add: m_def temperature_ok_def)
  have b: "unat (brightness_get b) \<le> 10 * 253" using assms(1) by (simp add: brightness_ok_def)
  have lit: "0 < pwm_nat 100 (unat (brightness_get b)) 253" if "253 \<le> unat (brightness_get b)"
  proof -
    have "0 < pwm_nat 100 253 253" by (simp add: pwm_nat_def)
    also have "\<dots> \<le> pwm_nat 100 (unat (brightness_get b)) 253" using that by (rule pwm_nat_mono)
    finally show ?thesis .
  qed
  show ?thesis
    using m lit pwm_nat_le_22 [OF m(1) b] pwm_nat_le_22 [OF m(2) b]
    by (auto simp: unat_output_pwm_pair [OF assms] not_less simp flip: m_def)
qed

lemma pwm_pair_bounded_witness:
  "brightness_ok (from_level level_DEFAULT) \<and> temperature_ok temperature_DEFAULT \<and>
   unat (fst (output_pwm_pair (from_level level_DEFAULT) temperature_DEFAULT)) \<le> 22"
  using pwm_pair_bounded [OF from_level_ok [OF level_constants_ok(3)] temperature_constants_ok(3)]
  by simp

text \<open>Raising the brightness never lowers either PWM byte, at any colour temperature.\<close>

theorem pwm_pair_monotone:
  assumes "brightness_ok b" and "brightness_ok b'" and "b \<le> b'" and "temperature_ok t"
  shows "fst (output_pwm_pair b t) \<le> fst (output_pwm_pair b' t) \<and>
    snd (output_pwm_pair b t) \<le> snd (output_pwm_pair b' t)"
  using assms by (simp add: word_le_nat_alt unat_output_pwm_pair less_eq_output_brightness_def
      pwm_nat_mono)

lemma pwm_pair_monotone_witness:
  "fst (output_pwm_pair (OutputBrightness 253) temperature_MAX)
     \<le> fst (output_pwm_pair brightness_MAX temperature_MAX)"
  using pwm_pair_monotone [of "OutputBrightness 253" brightness_MAX temperature_MAX]
  by (simp add: brightness_ok_def brightness_MAX_def less_eq_output_brightness_def)

text \<open>At the stock firmware's integer brightness percentages the single combined division of
  \<open>stock_pwm\<close> equals the original arithmetic, which truncates the product in hundredths of
  a percent, then the sixteenth, then nine tenths.\<close>

theorem stock_pwm_preserves_truncations:
  assumes "unat mix \<le> 100" and "unat brightness \<le> 10"
  shows "unat (stock_pwm mix brightness 1) =
    (((unat mix * 4095 * unat brightness) div 10000) div 16) * 9 div 10"
  using assms unat_stock_pwm [of mix brightness 1]
  by (simp add: pwm_nat_def div_mult2_eq [of _ 10000 16, simplified])

lemma stock_pwm_preserves_truncations_witness:
  "unat (stock_pwm 100 3 1) = (((100 * 4095 * 3) div 10000) div 16) * 9 div 10"
  using stock_pwm_preserves_truncations [of 100 3] by simp

text \<open>The level of an exact brightness is the nearest one: converting a level to its
  brightness and back returns the level, and a brightness above the nominal 1% floor is at
  most four of its 253rds away from the brightness of the level reported for it.\<close>

theorem level_brightness_roundtrip:
  assumes "level_ok l" and "brightness_ok b" and "253 \<le> unat (brightness_get b)"
  shows "to_level_clamped (from_level l) = l \<and>
    unat (brightness_get (from_level (to_level_clamped b))) \<le> unat (brightness_get b) + 4 \<and>
    unat (brightness_get b) \<le> unat (brightness_get (from_level (to_level_clamped b))) + 4"
proof
  have l: "1 \<le> unat (level_get l)" "unat (level_get l) \<le> 254"
    using assms(1) by (simp_all add: level_ok_def)
  have "unat (level_get (to_level_clamped (from_level l))) = unat (level_get l)"
    using l unat_to_level_clamped [OF from_level_ok [OF assms(1)]] unat_from_level [OF assms(1)]
    by (auto simp: algebra_simps)
  then show "to_level_clamped (from_level l) = l" by (simp flip: level_get_inject word_unat_eq_iff)
  show "unat (brightness_get (from_level (to_level_clamped b))) \<le> unat (brightness_get b) + 4 \<and>
    unat (brightness_get b) \<le> unat (brightness_get (from_level (to_level_clamped b))) + 4"
    using assms(3) unat_from_level [OF to_level_clamped_ok [OF assms(2)]]
      unat_to_level_clamped [OF assms(2)]
    by (auto split: if_splits)
qed

lemma level_brightness_roundtrip_witness:
  "to_level_clamped (from_level level_DEFAULT) = level_DEFAULT"
proof -
  have "253 \<le> unat (brightness_get brightness_MAX)" by (simp add: brightness_MAX_def)
  then show ?thesis using level_brightness_roundtrip [of level_DEFAULT brightness_MAX] by simp
qed

section \<open>Properties of the driver\<close>

text \<open>C15. Whatever the bus, the pin and the driver's state do, \<open>apply_frame\<close> releases OE only
  for a frame that is on and directly after a readback that matched that frame.\<close>

theorem oe_released_only_after_readback:
  "oe_guarded f
     (pca_trace (snd (pca_apply_frame (traced io) f \<lparr>pca_world = (w, []), pca_verified_on = v\<rparr>)))"
proof -
  define p where "p = \<lparr>pca_world = (w, [] :: io_event list), pca_verified_on = v\<rparr>"
  have "quiet_since [] p" by (simp add: quiet_since_def p_def)
  from apply_frame_trace [OF this, of io f]
  show ?thesis
    by (auto simp: post_def quiet_since_def enabled_last_def oe_guarded_quiet oe_guarded_append
        simp flip: p_def)
qed

text \<open>A failed application is parked: the driver forgets its verified frame and its last
  request to the OE pin is to disable the outputs.\<close>

theorem failed_apply_parks_output:
  assumes "pca_apply_frame (traced io) f p = (Inl e, p')"
  shows "pca_verified_on p' = None \<and> last (pca_trace p') = OeEv True"
proof
  show "pca_verified_on p' = None" using assms by (rule pca_apply_frame_Inl)
  obtain m where "pca_finish (traced io) m = (Inl e, p')"
    using assms by (auto simp: pca_apply_frame_def)
  then obtain q where "snd (pca_set_disabled (traced io) True q) = p'"
    by (auto simp: pca_finish_def attempt_def split: prod.splits sum.splits) (metis snd_conv)+
  then show "last (pca_trace p') = OeEv True" using traced_set_disabled [of io True q] by simp
qed

text \<open>C14. On a bus whose successful reads return the chip's registers, a successful application
  leaves registers 0x02 to 0x17 with exactly the bytes of the requested frame.\<close>

theorem applied_frame_is_in_registers:
  assumes "bus_returns_registers io regs" and "pca_apply_frame io f p = (Inr u, p')"
  shows "regs (pca_world p') = frame_bytes f"
  using assms by (rule apply_frame_Inr_registers)

lemma rig_apply_on:
  "fst (pca_apply_frame rig_io (from_state lamp_on) (pca_new rig_default)) = Inr ()"
  by code_simp

lemma applied_frame_is_in_registers_witness:
  "drop 2 (rig_readout (pca_world
     (snd (pca_apply_frame rig_io (from_state lamp_on) (pca_new rig_default)))))
   = frame_bytes (from_state lamp_on)"
proof -
  obtain p' where p': "pca_apply_frame rig_io (from_state lamp_on) (pca_new rig_default) = (Inr (), p')"
    using rig_apply_on by (metis prod.collapse)
  show ?thesis using applied_frame_is_in_registers [OF rig_returns_registers p'] p' by simp
qed

lemma failed_apply_parks_output_witness:
  "\<exists>e p'. pca_apply_frame (traced rig_io) (from_state lamp_on)
       (pca_new (rig_default\<lparr>rig_fail_bus := True\<rparr>, [])) = (Inl e, p') \<and>
     pca_verified_on p' = None \<and> last (pca_trace p') = OeEv True"
proof -
  define r where "r = pca_apply_frame (traced rig_io) (from_state lamp_on)
       (pca_new (rig_default\<lparr>rig_fail_bus := True\<rparr>, []))"
  have "is_err (fst r)" unfolding r_def by code_simp
  then obtain e p' where "r = (Inl e, p')" by (cases r) (auto simp: is_err_def split: sum.splits)
  then show ?thesis using failed_apply_parks_output unfolding r_def by blast
qed

section \<open>The driver as a light output\<close>

text \<open>What the driver shows: the frame it verified while on, and no verified frame while off.\<close>

definition pca_shows :: "'w pca \<Rightarrow> output_frame \<Rightarrow> bool" where
  "pca_shows p f \<longleftrightarrow> pca_verified_on p = (if ls_on (of_state f) then Some f else None)"

interpretation pca_light: light_output "pca_apply_frame io" pca_shows
  for io :: "('w, 'b, 'o) pca_io"
  by unfold_locales (auto simp: pca_shows_def dest: pca_apply_frame_Inr)

end
