(* ===== verification/Adapters.thy ===== *)
theory Adapters
  imports Pca_Rig
begin

text \<open>
  The two interfaces of the runtime. \<open>Hardware\<close> (trait of \<open>firmware/app/src/runtime.rs\<close>)
  is a record of its methods over an output of any type, with its two implementations:
  the bench image's \<open>SimulatedOutput\<close> (\<open>light.rs\<close>) and the lamp's \<open>PhysicalOutput\<close>
  (\<open>hardware.rs\<close>) over the PCA9635 driver. The key-value store is rs-matter's
  \<open>KvBlobStore\<close>, code that is not in the repository: a parameter, with the store of the
  repository's runtime tests as its instance. Locales \<open>hardware\<close> and \<open>blob_store\<close>
  state what the runtime relies on of each.
\<close>

section \<open>Error codes\<close>

text \<open>The codes of rs-matter's \<open>ErrorCode\<close> that the application names; any other is \<open>OtherCode\<close>.\<close>

datatype error_code =
  Busy | InvalidState | ConstraintError | InvalidCommand | Failure | StdIoError | InvalidData
| NotFound | BufferTooSmall | NoNetworkInterface | TxTimeout | InvalidAction | AttributeNotFound
| OtherCode nat

datatype output_error = OutputBus | OutputReadback

section \<open>The hardware trait\<close>

record 'h hardware_ops =
  hw_apply_frame :: "output_frame \<Rightarrow> 'h \<Rightarrow> (output_error + unit) \<times> 'h"
  hw_shutdown :: "'h \<Rightarrow> (output_error + unit) \<times> 'h"
  hw_verify_frame :: "output_frame \<Rightarrow> 'h \<Rightarrow> (output_error + unit) \<times> 'h"
  hw_registers :: "'h \<Rightarrow> (output_error + u8 list) \<times> 'h"

locale hardware = light_output "hw_apply_frame ops" shows_frame
  for ops :: "'h hardware_ops" and shows_frame :: "'h \<Rightarrow> output_frame \<Rightarrow> bool" +
  assumes shutdown_shows_off:
      "hw_shutdown ops h = (Inr u, h') \<Longrightarrow> \<not> ls_on (of_state f) \<Longrightarrow> shows_frame h' f"
    and verify_keeps:
      "hw_verify_frame ops g h = (Inr u, h') \<Longrightarrow> shows_frame h f \<Longrightarrow> shows_frame h' f"
    and registers_keeps:
      "hw_registers ops h = (Inr d, h') \<Longrightarrow> shows_frame h f \<Longrightarrow> shows_frame h' f"

section \<open>The simulated output of the bench image\<close>

record simulated_output =
  sim_applied :: output_frame

definition sim_default :: simulated_output where
  "sim_default = \<lparr>sim_applied = frame_default\<rparr>"

definition sim_apply_frame ::
  "output_frame \<Rightarrow> simulated_output \<Rightarrow> (output_error + unit) \<times> simulated_output" where
  "sim_apply_frame frame s = (Inr (), s\<lparr>sim_applied := frame\<rparr>)"

definition sim_shutdown :: "simulated_output \<Rightarrow> (output_error + unit) \<times> simulated_output" where
  "sim_shutdown s =
     (Inr (), s\<lparr>sim_applied := from_state ((of_state (sim_applied s))\<lparr>ls_on := False\<rparr>)\<rparr>)"

definition sim_verify_frame ::
  "output_frame \<Rightarrow> simulated_output \<Rightarrow> (output_error + unit) \<times> simulated_output" where
  "sim_verify_frame frame s =
     (if frame_bytes frame = frame_bytes (sim_applied s) then Inr () else Inl OutputReadback, s)"

definition sim_registers :: "simulated_output \<Rightarrow> (output_error + u8 list) \<times> simulated_output" where
  "sim_registers s = (Inr ([0, MODE2] @ frame_bytes (sim_applied s)), s)"

definition sim_ops :: "simulated_output hardware_ops" where
  "sim_ops = \<lparr>hw_apply_frame = sim_apply_frame, hw_shutdown = sim_shutdown,
     hw_verify_frame = sim_verify_frame, hw_registers = sim_registers\<rparr>"

definition sim_shows :: "simulated_output \<Rightarrow> output_frame \<Rightarrow> bool" where
  "sim_shows s f \<longleftrightarrow> frame_bytes (sim_applied s) = frame_bytes f"

interpretation sim: hardware sim_ops sim_shows
  by unfold_locales
    (auto simp: sim_ops_def sim_shows_def sim_apply_frame_def sim_shutdown_def sim_verify_frame_def
      sim_registers_def frame_bytes_off)

section \<open>The physical output of the lamp\<close>

text \<open>
  The board: the I2C peripheral and the busy wait of the HAL, and the OE pin, whose HAL
  call cannot fail. \<open>Bus\<close>, \<open>Oe\<close> and \<open>Wait\<close> adapt them to the driver's traits.
\<close>

record ('w, 'b) board =
  i2c_write :: "u8 \<Rightarrow> u8 list \<Rightarrow> 'w \<Rightarrow> ('b + unit) \<times> 'w"
  i2c_write_read :: "u8 \<Rightarrow> u8 list \<Rightarrow> nat \<Rightarrow> 'w \<Rightarrow> ('b + u8 list) \<times> 'w"
  oe_set_level :: "bool \<Rightarrow> 'w \<Rightarrow> 'w"
  hal_delay_micros :: "u32 \<Rightarrow> 'w \<Rightarrow> 'w"

definition physical_io :: "('w, 'b) board \<Rightarrow> ('w, 'b, 'o) pca_io" where
  "physical_io b = \<lparr>io_write = i2c_write b, io_write_read = i2c_write_read b,
     io_set_disabled = (\<lambda>disabled w. (Inr (), oe_set_level b disabled w)),
     io_delay_us = hal_delay_micros b\<rparr>"

text \<open>
  \<open>PhysicalOutput::error\<close>. The source's \<open>Enable\<close> carries an uninhabited type; here that
  branch has a value, and \<open>physical_no_enable\<close> shows that it is never taken.
\<close>

definition physical_error :: "('b, 'o) driver_error \<Rightarrow> output_error" where
  "physical_error e = (case e of
     Bus _ \<Rightarrow> OutputBus
   | Enable _ \<Rightarrow> OutputBus
   | ReadbackMismatch \<Rightarrow> OutputReadback)"

definition physical_apply_frame ::
  "('w, 'b) board \<Rightarrow> output_frame \<Rightarrow> 'w pca \<Rightarrow> (output_error + unit) \<times> 'w pca" where
  "physical_apply_frame b frame p =
     (case pca_apply_frame (physical_io b :: ('w, 'b, unit) pca_io) frame p of
        (r, p) \<Rightarrow> (map_err physical_error r, p))"

definition physical_shutdown :: "('w, 'b) board \<Rightarrow> 'w pca \<Rightarrow> (output_error + unit) \<times> 'w pca" where
  "physical_shutdown b p =
     (case pca_shutdown (physical_io b :: ('w, 'b, unit) pca_io) p of
        (r, p) \<Rightarrow> (map_err physical_error r, p))"

definition physical_verify_frame ::
  "('w, 'b) board \<Rightarrow> output_frame \<Rightarrow> 'w pca \<Rightarrow> (output_error + unit) \<times> 'w pca" where
  "physical_verify_frame b frame p =
     (case pca_verify_frame (physical_io b :: ('w, 'b, unit) pca_io) frame p of
        (r, p) \<Rightarrow> (map_err physical_error r, p))"

definition physical_registers :: "('w, 'b) board \<Rightarrow> 'w pca \<Rightarrow> (output_error + u8 list) \<times> 'w pca" where
  "physical_registers b p =
     (case pca_read_registers (physical_io b :: ('w, 'b, unit) pca_io) p of
        (r, p) \<Rightarrow> (map_err physical_error r, p))"

definition physical_ops :: "('w, 'b) board \<Rightarrow> 'w pca hardware_ops" where
  "physical_ops b = \<lparr>hw_apply_frame = physical_apply_frame b, hw_shutdown = physical_shutdown b,
     hw_verify_frame = physical_verify_frame b, hw_registers = physical_registers b\<rparr>"

lemma map_err_Inr [simp]: "map_err f r = Inr a \<longleftrightarrow> r = Inr a"
  by (cases r) auto

lemma map_err_Inl: "map_err f r = Inl e \<longleftrightarrow> (\<exists>d. r = Inl d \<and> e = f d)"
  by (cases r) auto

lemma physical_apply_frame_Inr:
  "physical_apply_frame b f p = (Inr u, p') \<longleftrightarrow>
     pca_apply_frame (physical_io b :: ('w, 'b, unit) pca_io) f p = (Inr u, p')"
  by (auto simp: physical_apply_frame_def split: prod.splits)

interpretation physical: hardware "physical_ops b" pca_shows
  for b :: "('w, 'b) board"
proof unfold_locales
  fix f out u out'
  assume "hw_apply_frame (physical_ops b) f out = (Inr u, out')"
  then show "pca_shows out' f"
    by (simp add: physical_ops_def physical_apply_frame_Inr pca_light.apply_shows)
next
  fix h u h' and f :: output_frame
  assume "hw_shutdown (physical_ops b) h = (Inr u, h')" "\<not> ls_on (of_state f)"
  then show "pca_shows h' f"
    using pca_initialize_off_None [of "physical_io b :: ('w, 'b, unit) pca_io" h]
    by (auto simp: physical_ops_def physical_shutdown_def pca_shutdown_def pca_shows_def
        split: prod.splits)
next
  fix g h u h' f
  assume "hw_verify_frame (physical_ops b) g h = (Inr u, h')" "pca_shows h f"
  then show "pca_shows h' f"
    by (auto simp: physical_ops_def physical_verify_frame_def pca_shows_def
        dest!: pca_verify_frame_verified split: prod.splits)
next
  fix h d h' f
  assume "hw_registers (physical_ops b) h = (Inr d, h')" "pca_shows h f"
  then show "pca_shows h' f"
    by (auto simp: physical_ops_def physical_registers_def pca_shows_def
        dest!: pca_read_registers_verified split: prod.splits)
qed

text \<open>Driving an OE pin that cannot fail, no driver call returns \<open>Enable\<close>.\<close>

definition no_enable :: "('b, 'o) driver_error + 'a \<Rightarrow> bool" where
  "no_enable r = (case r of Inl (Enable _) \<Rightarrow> False | _ \<Rightarrow> True)"

lemma no_enable_simps [simp]:
  "no_enable (Inr a)"
  "no_enable (Inl e) \<longleftrightarrow> (case e of Enable _ \<Rightarrow> False | _ \<Rightarrow> True)"
  by (simp_all add: no_enable_def)

lemma no_enable_attempt:
  assumes "no_enable (fst m)" "\<And>a p. no_enable (fst (k a p))"
  shows "no_enable (fst (attempt m k))"
  using assms by (cases m) (auto simp: attempt_def split: sum.splits)

lemma no_enable_bus_write [simp]: "no_enable (fst (pca_bus_write io b p))"
  by (auto simp: pca_bus_write_def map_err_def split: prod.split sum.split)

lemma no_enable_read [simp]: "no_enable (fst (pca_read_registers io p))"
  by (auto simp: pca_read_registers_def split: prod.split sum.split)

lemma no_enable_verify [simp]: "no_enable (fst (pca_verify_frame io f p))"
  unfolding pca_verify_frame_def by (rule no_enable_attempt) auto

lemma no_enable_verifyD: "pca_verify_frame io f p \<noteq> (Inl (Enable e), q)"
  using no_enable_verify [of io f p] by (auto simp del: no_enable_verify)

lemma no_enable_set_disabled [simp]:
  "no_enable (fst (pca_set_disabled (physical_io b) d p))"
  by (simp add: pca_set_disabled_def physical_io_def)

lemma no_enable_finish: "no_enable (fst m) \<Longrightarrow> no_enable (fst (pca_finish (physical_io b) m))"
  by (cases m) (auto simp: pca_finish_def pca_set_disabled_def physical_io_def split: sum.splits)

lemma no_enable_initialize_off [simp]: "no_enable (fst (pca_initialize_off (physical_io b) p))"
  unfolding pca_initialize_off_def pca_write_frame_def pca_verify_def
  by (intro no_enable_attempt no_enable_finish) simp_all

lemma no_enable_slow_path [simp]: "no_enable (fst (pca_slow_path (physical_io b) f p))"
  unfolding pca_slow_path_def pca_write_frame_def
  by (rule no_enable_attempt) (auto intro!: no_enable_attempt)

lemma no_enable_fast_path [simp]: "no_enable (fst (pca_fast_path (physical_io b) g f p))"
  unfolding pca_fast_path_def pca_write_frame_def by (auto intro!: no_enable_attempt)

lemma physical_no_enable: "no_enable (fst (pca_apply_frame (physical_io b) f p))"
  unfolding pca_apply_frame_def
  using no_enable_slow_path no_enable_fast_path
  by (intro no_enable_finish)
    (auto simp: no_enable_verifyD split: option.splits prod.splits sum.splits driver_error.splits bool.splits)

section \<open>The key-value store\<close>

record 'k kv_ops =
  kv_load :: "u16 \<Rightarrow> 'k \<Rightarrow> (error_code + u8 list option) \<times> 'k"
  kv_store :: "u16 \<Rightarrow> u8 list \<Rightarrow> 'k \<Rightarrow> (error_code + unit) \<times> 'k"

text \<open>
  What the runtime relies on: loading changes no record and a successful load returns
  the record, a successful store replaces it, and a failed store changes no other key.
\<close>

locale blob_store =
  fixes ops :: "'k kv_ops" and records :: "'k \<Rightarrow> u16 \<Rightarrow> u8 list option"
  assumes load_keeps: "records (snd (kv_load ops key k)) = records k"
    and load_returns: "kv_load ops key k = (Inr v, k') \<Longrightarrow> v = records k key"
    and store_puts: "kv_store ops key data k = (Inr u, k') \<Longrightarrow> records k' key = Some data"
    and store_other: "key' \<noteq> key \<Longrightarrow> records (snd (kv_store ops key data k)) key' = records k key'"

text \<open>A store whose failed write leaves the old record or the new one, never a torn one.\<close>

locale atomic_store = blob_store ops records
  for ops :: "'k kv_ops" and records :: "'k \<Rightarrow> u16 \<Rightarrow> u8 list option" +
  assumes store_atomic: "kv_store ops key data k = (Inl e, k') \<Longrightarrow>
    records k' key = records k key \<or> records k' key = Some data"

text \<open>
  The store of the runtime tests (\<open>Rig\<close> and \<open>Store\<close> of
  \<open>firmware/app/host-tests/src/runtime_tests.rs\<close>): a map of records with injected failures.
\<close>

record test_store =
  ts_records :: "u16 \<rightharpoonup> u8 list"
  ts_fail_store :: bool
  ts_fail_load :: bool
  ts_load_calls :: u32

definition test_store_default :: test_store where
  "test_store_default =
     \<lparr>ts_records = Map.empty, ts_fail_store = False, ts_fail_load = False, ts_load_calls = 0\<rparr>"

definition test_store_load :: "u16 \<Rightarrow> test_store \<Rightarrow> (error_code + u8 list option) \<times> test_store" where
  "test_store_load key s =
     (let s = s\<lparr>ts_load_calls := ts_load_calls s + 1\<rparr>
      in (if ts_fail_load s then Inl Failure else Inr (ts_records s key), s))"

definition test_store_store :: "u16 \<Rightarrow> u8 list \<Rightarrow> test_store \<Rightarrow> (error_code + unit) \<times> test_store" where
  "test_store_store key data s =
     (if ts_fail_store s then (Inl Failure, s)
      else (Inr (), s\<lparr>ts_records := (ts_records s)(key \<mapsto> data)\<rparr>))"

definition test_kv :: "test_store kv_ops" where
  "test_kv = \<lparr>kv_load = test_store_load, kv_store = test_store_store\<rparr>"

interpretation test_kv: atomic_store test_kv ts_records
  by unfold_locales
    (auto simp: test_kv_def test_store_load_def test_store_store_def Let_def split: if_splits)

end
