(* ===== verification/Transition.thy ===== *)
theory Transition
  imports Light
begin

text \<open>
  The fades of \<open>firmware/app/src/runtime.rs\<close>: one ramp (\<open>Transition\<close>, linear or
  smoothstep in Q16 fixed point) and the level track (\<open>LevelTransition\<close>, a ramp with an
  optional second ramp and the colour frozen while fading off). Time is a \<open>u64\<close> of
  milliseconds. The \<open>i64\<close> interpolation is written on \<open>int\<close> with the truncating
  division of Rust; the operands stay below 2^32, far inside the type.
\<close>

section \<open>Definitions\<close>

datatype curve = Smooth | Linear

record transition =
  tr_from :: u16
  tr_to :: u16
  tr_start :: u64
  tr_duration :: u64
  tr_curve :: curve

definition MAX_TRANSITION_MS :: u64 where "MAX_TRANSITION_MS = 60000000"
definition DEFAULT_TRANSITION_MS :: u64 where "DEFAULT_TRANSITION_MS = 400"

definition Q16_ONE :: u64 where "Q16_ONE = 65536"

definition curve_fraction :: "curve \<Rightarrow> u64 \<Rightarrow> u64" where
  "curve_fraction c x = (case c of
     Linear \<Rightarrow> x
   | Smooth \<Rightarrow> x * x * (3 * Q16_ONE - 2 * x) div (Q16_ONE * Q16_ONE))"

definition transition_value :: "transition \<Rightarrow> u64 \<Rightarrow> u16" where
  "transition_value t now =
     (let elapsed = min (sat_sub now (tr_start t)) (tr_duration t)
      in if tr_duration t = 0 \<or> elapsed = tr_duration t then tr_to t
         else (let x = elapsed * Q16_ONE div tr_duration t;
                   fraction = curve_fraction (tr_curve t) x
               in word_of_int (uint (tr_from t) +
                    ((uint (tr_to t) - uint (tr_from t)) * sint fraction) sdiv sint Q16_ONE)))"

definition transition_remaining :: "transition \<Rightarrow> u64 \<Rightarrow> u64" where
  "transition_remaining t now = sat_sub (tr_duration t) (sat_sub now (tr_start t))"

record level_transition =
  lt_ramp :: transition
  lt_then :: "transition option"
  lt_off_temperature :: "color_temperature option"

definition level_transition_value :: "level_transition \<Rightarrow> u64 \<Rightarrow> u16" where
  "level_transition_value t now =
     transition_value
       (case lt_then t of
          Some next \<Rightarrow> (if tr_start next \<le> now then next else lt_ramp t)
        | None \<Rightarrow> lt_ramp t) now"

definition level_transition_remaining :: "level_transition \<Rightarrow> u64 \<Rightarrow> u64" where
  "level_transition_remaining t now =
     (let last = (case lt_then t of Some next \<Rightarrow> next | None \<Rightarrow> lt_ramp t)
      in sat_sub (sat_add (tr_start last) (tr_duration last)) now)"

section \<open>The fraction on natural numbers\<close>

definition fraction_nat :: "curve \<Rightarrow> nat \<Rightarrow> nat" where
  "fraction_nat c x = (case c of
     Linear \<Rightarrow> x
   | Smooth \<Rightarrow> x * x * (3 * 65536 - 2 * x) div (65536 * 65536))"

lemma smoothstep_mono:
  fixes x y M :: nat
  assumes "x \<le> y" "y \<le> M"
  shows "x * x * (3 * M - 2 * x) \<le> y * y * (3 * M - 2 * y)"
proof -
  obtain d where y: "y = x + d" using assms(1) le_Suc_ex by blast
  obtain e where M: "M = x + d + e" using assms(2) y le_Suc_ex by blast
  have "3 * M - 2 * x = x + 3 * d + 3 * e" "3 * M - 2 * y = x + d + 3 * e"
    by (simp_all add: y M)
  then show ?thesis by (simp add: y algebra_simps)
qed

lemma fraction_nat_mono:
  assumes "x \<le> y" "y \<le> 65536"
  shows "fraction_nat c x \<le> fraction_nat c y"
  using assms smoothstep_mono [OF assms]
  by (auto simp: fraction_nat_def split: curve.split intro: div_le_mono)

lemma fraction_nat_ends [simp]: "fraction_nat c 0 = 0" "fraction_nat c 65536 = 65536"
  by (simp_all add: fraction_nat_def split: curve.split)

lemma fraction_nat_le: "x \<le> 65536 \<Longrightarrow> fraction_nat c x \<le> 65536"
  using fraction_nat_mono [of x 65536 c] by simp

lemma unat_curve_fraction:
  assumes "unat x \<le> 65536"
  shows "unat (curve_fraction c x) = fraction_nat c (unat x)"
proof (cases c)
  case Linear
  then show ?thesis by (simp add: curve_fraction_def fraction_nat_def)
next
  case Smooth
  have le2: "unat x * unat x \<le> 65536 * 65536" using assms by (rule mult_le_mono [OF assms])
  have x2: "unat (x * x) = unat x * unat x" using le2 by (subst unat_mult_fits) simp_all
  have t: "unat (2 * x) = 2 * unat x" using assms by (subst unat_mult_fits) simp_all
  have s: "unat (196608 - 2 * x) = 196608 - 2 * unat x"
    using assms t by (subst unat_sub_fits) simp_all
  have "unat x * unat x * (196608 - 2 * unat x) \<le> 65536 * 65536 * 196608"
    by (rule mult_le_mono [OF le2]) simp
  then have p: "unat (x * x * (196608 - 2 * x)) = unat x * unat x * (196608 - 2 * unat x)"
    using x2 s by (subst unat_mult_fits) simp_all
  show ?thesis
    using Smooth by (simp add: curve_fraction_def fraction_nat_def Q16_ONE_def unat_div p)
qed

section \<open>Interpolation\<close>

definition lerp :: "int \<Rightarrow> int \<Rightarrow> int \<Rightarrow> int" where
  "lerp f t k = f + ((t - f) * k) sdiv 65536"

lemma sdiv_pos: "0 \<le> a \<Longrightarrow> a sdiv 65536 = a div 65536" for a :: int
  by (simp add: signed_divide_int_def sgn_if)

lemma sdiv_neg: "a \<le> 0 \<Longrightarrow> a sdiv 65536 = - ((- a) div 65536)" for a :: int
  by (cases "a = 0") (simp_all add: signed_divide_int_def sgn_if)

lemma lerp_up: "f \<le> t \<Longrightarrow> 0 \<le> k \<Longrightarrow> lerp f t k = f + ((t - f) * k) div 65536"
  by (simp add: lerp_def sdiv_pos)

lemma lerp_down:
  assumes "t \<le> f" "0 \<le> k"
  shows "lerp f t k = f - ((f - t) * k) div 65536"
proof -
  have e: "(t - f) * k = - ((f - t) * k)" by (simp add: left_diff_distrib)
  have "0 \<le> (f - t) * k" using assms by simp
  then show ?thesis unfolding lerp_def e by (subst sdiv_neg) simp_all
qed

lemma lerp_bounds:
  assumes "0 \<le> k" "k \<le> 65536"
  shows "min f t \<le> lerp f t k" "lerp f t k \<le> max f t"
proof -
  have "(a * k) div 65536 \<le> a" "0 \<le> (a * k) div 65536" if "0 \<le> a" for a :: int
  proof -
    have "a * k \<le> a * 65536" using assms that by (intro mult_left_mono)
    then show "(a * k) div 65536 \<le> a" using zdiv_mono1 [of "a * k" "a * 65536" 65536] by simp
    show "0 \<le> (a * k) div 65536" using assms that by (simp add: pos_imp_zdiv_nonneg_iff)
  qed
  from this [of "t - f"] this [of "f - t"]
  show "min f t \<le> lerp f t k" "lerp f t k \<le> max f t"
    using assms by (cases "f \<le> t"; simp add: lerp_up lerp_down)+
qed

lemma lerp_mono:
  assumes "0 \<le> k" "k \<le> k'"
  shows "f \<le> t \<Longrightarrow> lerp f t k \<le> lerp f t k'" "t \<le> f \<Longrightarrow> lerp f t k' \<le> lerp f t k"
  using assms by (auto simp: lerp_up lerp_down intro!: zdiv_mono1 mult_left_mono)

section \<open>Fades stay in range, move one way and end on their target\<close>

text \<open>
  A ramp is well formed when its duration is at most the 60,000,000 ms that every
  construction checks: then elapsed time shifted by 16 bits fits in 64.
\<close>

definition transition_ok :: "transition \<Rightarrow> bool" where
  "transition_ok t \<longleftrightarrow> unat (tr_duration t) \<le> 60000000"

definition progress :: "transition \<Rightarrow> u64 \<Rightarrow> nat" where
  "progress t now = min (unat now - unat (tr_start t)) (unat (tr_duration t))"

definition value_nat :: "transition \<Rightarrow> nat \<Rightarrow> int" where
  "value_nat t e =
     (if e = unat (tr_duration t) then uint (tr_to t)
      else lerp (uint (tr_from t)) (uint (tr_to t))
             (int (fraction_nat (tr_curve t) (e * 65536 div unat (tr_duration t)))))"

lemma value_nat_bounds:
  assumes "e \<le> unat (tr_duration t)"
  shows "min (uint (tr_from t)) (uint (tr_to t)) \<le> value_nat t e"
    "value_nat t e \<le> max (uint (tr_from t)) (uint (tr_to t))"
proof -
  have "e * 65536 div unat (tr_duration t) \<le> 65536"
  proof (cases "unat (tr_duration t) = 0")
    case False
    have "e * 65536 div unat (tr_duration t) \<le> unat (tr_duration t) * 65536 div unat (tr_duration t)"
      using assms by (intro div_le_mono mult_le_mono1)
    with False show ?thesis by simp
  qed simp
  then have k: "0 \<le> int (fraction_nat (tr_curve t) (e * 65536 div unat (tr_duration t)))"
    "int (fraction_nat (tr_curve t) (e * 65536 div unat (tr_duration t))) \<le> 65536"
    using fraction_nat_le [of "e * 65536 div unat (tr_duration t)" "tr_curve t"] by simp_all
  from lerp_bounds [OF k]
  show "min (uint (tr_from t)) (uint (tr_to t)) \<le> value_nat t e"
    "value_nat t e \<le> max (uint (tr_from t)) (uint (tr_to t))"
    by (simp_all add: value_nat_def)
qed

lemma transition_value_nat:
  assumes "transition_ok t"
  shows "uint (transition_value t now) = value_nat t (progress t now)"
proof -
  define el where "el = min (sat_sub now (tr_start t)) (tr_duration t)"
  have el: "unat el = progress t now"
    by (simp add: el_def progress_def unat_min_word unat_sat_sub)
  have end_: "el = tr_duration t \<longleftrightarrow> progress t now = unat (tr_duration t)"
    by (simp add: word_unat_eq_iff el)
  show ?thesis
  proof (cases "tr_duration t = 0 \<or> el = tr_duration t")
    case True
    then have "progress t now = unat (tr_duration t)"
      by (auto simp: end_ progress_def)
    with True show ?thesis by (simp add: transition_value_def value_nat_def flip: el_def)
  next
    case False
    define d where "d = unat (tr_duration t)"
    have d: "0 < d" "d \<le> 60000000" "unat el \<le> d"
      using False assms by (auto simp: d_def transition_ok_def unat_gt_0 el progress_def)
    have "unat (el * Q16_ONE) = unat el * 65536"
      using d by (subst unat_mult_fits) (simp_all add: Q16_ONE_def)
    then have x: "unat (el * Q16_ONE div tr_duration t) = unat el * 65536 div d"
      by (simp add: unat_div d_def)
    have "unat el * 65536 div d \<le> d * 65536 div d" using d by (intro div_le_mono mult_le_mono1)
    then have xle: "unat el * 65536 div d \<le> 65536" using d by simp
    define fr where "fr = curve_fraction (tr_curve t) (el * Q16_ONE div tr_duration t)"
    have fr: "unat fr = fraction_nat (tr_curve t) (unat el * 65536 div d)"
      using unat_curve_fraction [of "el * Q16_ONE div tr_duration t" "tr_curve t"] x xle
      by (simp add: fr_def)
    then have "unat fr \<le> 65536" using fraction_nat_le [OF xle] by simp
    then have "uint fr \<le> 65536" using uint_nat [of fr] by linarith
    then have "signed_take_bit 63 (uint fr) = uint fr"
      by (intro signed_take_bit_int_eq_self order_trans [of "- (2 ^ 63)" 0 "uint fr"]) simp_all
    then have "sint fr = uint fr" by (simp add: sint_uint)
    then have s: "sint fr = int (fraction_nat (tr_curve t) (unat el * 65536 div d))"
      by (simp only: uint_nat fr)
    have v: "value_nat t (unat el) = lerp (uint (tr_from t)) (uint (tr_to t)) (sint fr)"
      using False el end_ by (simp add: value_nat_def s d_def)
    have b: "min (uint (tr_from t)) (uint (tr_to t)) \<le> value_nat t (unat el)"
      "value_nat t (unat el) \<le> max (uint (tr_from t)) (uint (tr_to t))"
      using value_nat_bounds [of "unat el" t] d by (simp_all add: d_def)
    have "0 \<le> value_nat t (unat el)" "value_nat t (unat el) < 2 ^ 16"
      using b uint_range [of "tr_from t"] uint_range [of "tr_to t"]
      by (linarith, simp)
    then have "uint (word_of_int (value_nat t (unat el)) :: u16) = value_nat t (unat el)"
      by (simp add: unsigned_of_int take_bit_int_eq_self)
    moreover have "fr = curve_fraction (tr_curve t) (el * 65536 div tr_duration t)"
      by (simp add: fr_def Q16_ONE_def)
    ultimately show ?thesis
      using False el v
      by (simp add: transition_value_def Let_def lerp_def Q16_ONE_def flip: el_def)
  qed
qed

lemma value_nat_mono:
  assumes "e \<le> e'" "e' \<le> unat (tr_duration t)"
  shows "tr_from t \<le> tr_to t \<Longrightarrow> value_nat t e \<le> value_nat t e'"
    "tr_to t \<le> tr_from t \<Longrightarrow> value_nat t e' \<le> value_nat t e"
proof -
  define d where "d = unat (tr_duration t)"
  define k where "k n = fraction_nat (tr_curve t) (n * 65536 div d)" for n
  have le: "n * 65536 div d \<le> 65536" if "n \<le> d" for n
  proof (cases "d = 0")
    case False
    have "n * 65536 div d \<le> d * 65536 div d" using that by (intro div_le_mono mult_le_mono1)
    with False show ?thesis by simp
  qed simp
  have "k e \<le> k e'"
    unfolding k_def using assms le by (intro fraction_nat_mono div_le_mono mult_le_mono1)
      (simp_all add: d_def)
  then have m: "f \<le> g \<Longrightarrow> lerp f g (int (k e)) \<le> lerp f g (int (k e'))"
    "g \<le> f \<Longrightarrow> lerp f g (int (k e')) \<le> lerp f g (int (k e))" for f g
    using lerp_mono [of "int (k e)" "int (k e')"] by auto
  have b: "min (uint (tr_from t)) (uint (tr_to t)) \<le> value_nat t e"
    "value_nat t e \<le> max (uint (tr_from t)) (uint (tr_to t))"
    using value_nat_bounds [of e t] assms by simp_all
  show "value_nat t e \<le> value_nat t e'" if "tr_from t \<le> tr_to t"
  proof (cases "e' = d")
    case True
    then show ?thesis using b(2) that by (simp add: value_nat_def word_le_def flip: d_def)
  next
    case False
    moreover from this have "e \<noteq> d" using assms by (simp add: d_def)
    ultimately show ?thesis using m(1) that
      by (simp add: value_nat_def word_le_def flip: d_def k_def)
  qed
  show "value_nat t e' \<le> value_nat t e" if "tr_to t \<le> tr_from t"
  proof (cases "e' = d")
    case True
    then show ?thesis using b(1) that by (simp add: value_nat_def word_le_def flip: d_def)
  next
    case False
    moreover from this have "e \<noteq> d" using assms by (simp add: d_def)
    ultimately show ?thesis using m(2) that
      by (simp add: value_nat_def word_le_def flip: d_def k_def)
  qed
qed

lemma progress_le: "progress t now \<le> unat (tr_duration t)"
  by (simp add: progress_def)

lemma progress_mono: "now \<le> now' \<Longrightarrow> progress t now \<le> progress t now'"
  by (auto simp: progress_def word_le_nat_alt intro: min.mono diff_le_mono)

lemma transition_remaining_0:
  "transition_remaining t now = 0 \<longleftrightarrow> progress t now = unat (tr_duration t)"
  by (auto simp: transition_remaining_def progress_def unat_sat_sub word_unat_eq_iff)

lemma transition_value_start:
  assumes "transition_ok t" "tr_duration t \<noteq> 0" "now \<le> tr_start t"
  shows "transition_value t now = tr_from t"
proof -
  have "progress t now = 0" using assms by (simp add: progress_def word_le_nat_alt)
  moreover have "0 \<noteq> unat (tr_duration t)" using assms by (simp add: unat_gt_0)
  ultimately have "uint (transition_value t now) = uint (tr_from t)"
    by (simp add: transition_value_nat [OF assms(1)] value_nat_def lerp_def sdiv_pos)
  then show ?thesis by (simp add: word_uint_eq_iff)
qed

lemma transition_value_end:
  assumes "transition_ok t" "transition_remaining t now = 0"
  shows "transition_value t now = tr_to t"
proof -
  have "uint (transition_value t now) = uint (tr_to t)"
    using assms(2) by (simp add: transition_value_nat [OF assms(1)] transition_remaining_0 value_nat_def)
  then show ?thesis by (simp add: word_uint_eq_iff)
qed

text \<open>A fade never overshoots: at every time its value lies between where it started and
  where it ends, for both curves.\<close>

theorem fade_between_endpoints:
  assumes "transition_ok t"
  shows "min (tr_from t) (tr_to t) \<le> transition_value t now \<and>
    transition_value t now \<le> max (tr_from t) (tr_to t)"
  using value_nat_bounds [OF progress_le, of t now]
  by (auto simp: word_le_def transition_value_nat [OF assms] min_def max_def split: if_splits)

text \<open>A fade moves one way only: as time passes an upward fade never falls back and a
  downward fade never rises.\<close>

theorem fade_monotone:
  assumes "transition_ok t" and "now \<le> now'"
  shows "(tr_from t \<le> tr_to t \<longrightarrow> transition_value t now \<le> transition_value t now') \<and>
    (tr_to t \<le> tr_from t \<longrightarrow> transition_value t now' \<le> transition_value t now)"
  using value_nat_mono [OF progress_mono [OF assms(2)] progress_le]
  by (simp add: word_le_def transition_value_nat [OF assms(1)])

text \<open>A fade starts where it was retargeted from and ends exactly on its target: its value
  is the start value until its start time, and the target once no time remains.\<close>

theorem fade_endpoints:
  assumes "transition_ok t"
  shows "(tr_duration t \<noteq> 0 \<and> now \<le> tr_start t \<longrightarrow> transition_value t now = tr_from t) \<and>
    (transition_remaining t now = 0 \<longrightarrow> transition_value t now = tr_to t)"
  using transition_value_start [OF assms] transition_value_end [OF assms] by blast

definition sample_fade :: transition where
  "sample_fade = \<lparr>tr_from = 0, tr_to = 757, tr_start = 1000, tr_duration = 400, tr_curve = Smooth\<rparr>"

lemma sample_fade_ok [simp]: "transition_ok sample_fade"
  by (simp add: transition_ok_def sample_fade_def)

lemma fade_between_endpoints_witness: "transition_value sample_fade 1100 \<le> 757"
  using fade_between_endpoints [OF sample_fade_ok, of 1100] by (simp add: sample_fade_def)

lemma fade_monotone_witness:
  "transition_value sample_fade 1100 \<le> transition_value sample_fade 1300"
  using fade_monotone [OF sample_fade_ok, of 1100 1300] by (simp add: sample_fade_def)

lemma fade_endpoints_witness:
  "transition_value sample_fade 1000 = 0 \<and> transition_value sample_fade 1400 = 757"
  using fade_endpoints [OF sample_fade_ok, of 1000] fade_endpoints [OF sample_fade_ok, of 1400]
  by (simp add: sample_fade_def transition_remaining_def sat_sub_def)

end
