(* ===== verification/Intent_Record.thy ===== *)
theory Intent_Record
  imports Light
begin

text \<open>
  The durable record of \<open>firmware/app/src/runtime.rs\<close>: the light's intent and startup
  policy, their 9-byte encoding, the decoder with its migration of the older record
  formats, and the intent restored at boot.
\<close>

section \<open>Definitions\<close>

datatype fault = NoFault | FaultStorage | FaultInvalidRecord | FaultOutput | FaultRebooting

record startup =
  su_power :: u8
  su_level :: "u8 option"
  su_temperature :: "color_temperature option"

definition startup_default :: startup where
  "startup_default = \<lparr>su_power = 0, su_level = None, su_temperature = None\<rparr>"

record saved_state =
  sv_intended :: light_state
  sv_startup :: startup
  sv_migrated :: bool

definition saved_default :: saved_state where
  "saved_default =
     \<lparr>sv_intended = light_default, sv_startup = startup_default, sv_migrated = False\<rparr>"

definition encode_record :: "light_state \<Rightarrow> startup \<Rightarrow> u8 list" where
  "encode_record s su =
     (let temperature = to_le_bytes16 (temperature_get (ls_temperature s));
          startup_temperature = to_le_bytes16
            (case su_temperature su of None \<Rightarrow> 0 | Some t \<Rightarrow> temperature_get t)
      in [3, (if ls_on s then 1 else 0), level_get (ls_level s),
          temperature ! 0, temperature ! 1, su_power su,
          (case su_level su of None \<Rightarrow> 255 | Some l \<Rightarrow> l),
          startup_temperature ! 0, startup_temperature ! 1])"

definition decode_current :: "u8 \<Rightarrow> u8 \<Rightarrow> u8 \<Rightarrow> u8 \<Rightarrow> u8 \<Rightarrow> u8 \<Rightarrow> u8 \<Rightarrow> u8 \<Rightarrow> fault + saved_state" where
  "decode_current on l lo hi pw startup_level slo shi =
     (case temperature_new (from_le_bytes16 lo hi) of
        None \<Rightarrow> Inl FaultInvalidRecord
      | Some temperature \<Rightarrow>
         (let saved = (\<lambda>startup_temperature.
            \<lparr>sv_intended = \<lparr>ls_on = on \<noteq> 0, ls_level = Level l, ls_temperature = temperature\<rparr>,
             sv_startup = \<lparr>su_power = (if pw = 1 then 1 else 0),
               su_level = (if startup_level \<noteq> 255 then Some startup_level else None),
               su_temperature = startup_temperature\<rparr>,
             sv_migrated = 1 < pw\<rparr>);
              value = from_le_bytes16 slo shi
          in if value = 0 then Inr (saved None)
             else (case temperature_new value of
                     None \<Rightarrow> Inl FaultInvalidRecord
                   | Some t \<Rightarrow> Inr (saved (Some t)))))"

definition decode_presets :: "u8 \<Rightarrow> u8 \<Rightarrow> u8 \<Rightarrow> u8 \<Rightarrow> saved_state" where
  "decode_presets on preset one two =
     \<lparr>sv_intended = light_default\<lparr>ls_on := on \<noteq> 0,
        ls_temperature :=
          (if preset = 0 then preset_temperature PresetOne else preset_temperature PresetTwo)\<rparr>,
      sv_startup = startup_default\<lparr>su_power :=
        (if (if preset = 0 then one else two) = 1 then 1 else 0)\<rparr>,
      sv_migrated = True\<rparr>"

fun decode_record :: "u8 list \<Rightarrow> fault + saved_state" where
  "decode_record [version, on, l, lo, hi, pw, startup_level, slo, shi] =
     (if version = 3 \<and> on \<le> 1 \<and> 1 \<le> l \<and> l \<le> 254 \<and> pw \<le> 3
      then decode_current on l lo hi pw startup_level slo shi
      else Inl FaultInvalidRecord)"
| "decode_record [version, on, preset, one, two] =
     (if version = 2 \<and> on \<le> 1 \<and> preset \<le> 1 \<and> one \<le> 3 \<and> two \<le> 3
      then Inr (decode_presets on preset one two)
      else Inl FaultInvalidRecord)"
| "decode_record _ = Inl FaultInvalidRecord"

text \<open>\<open>None\<close> is the panic of the failed \<open>expect\<close>.\<close>

definition startup_intent :: "light_state \<Rightarrow> startup \<Rightarrow> light_state option" where
  "startup_intent restored su =
     (let restored = (if su_power su = 1 then restored\<lparr>ls_on := False\<rparr> else restored);
          with_temperature = (\<lambda>s. case su_temperature su of
             None \<Rightarrow> s | Some t \<Rightarrow> s\<lparr>ls_temperature := t\<rparr>)
      in case su_level su of
           None \<Rightarrow> Some (with_temperature restored)
         | Some l \<Rightarrow>
             (case level_new (max l 1) of
                None \<Rightarrow> None
              | Some l \<Rightarrow> Some (with_temperature (restored\<lparr>ls_level := l\<rparr>))))"

section \<open>What a decoded record holds\<close>

definition startup_ok :: "startup \<Rightarrow> bool" where
  "startup_ok su \<longleftrightarrow> (su_power su = 0 \<or> su_power su = 1) \<and> su_level su \<noteq> Some 255 \<and>
     (case su_temperature su of None \<Rightarrow> True | Some t \<Rightarrow> temperature_ok t)"

lemma startup_default_ok [simp]: "startup_ok startup_default"
  by (simp add: startup_ok_def startup_default_def)

lemma decode_current_ok:
  assumes "decode_current on l lo hi pw sl slo shi = Inr saved" "1 \<le> l" "l \<le> 254"
  shows "state_ok (sv_intended saved) \<and> startup_ok (sv_startup saved)"
  using assms by (auto simp: decode_current_def state_ok_def startup_ok_def level_ok_def Let_def
      word_le_nat_alt split: if_splits option.splits)

lemma decode_presets_ok:
  "state_ok (sv_intended (decode_presets on preset one two))"
  "startup_ok (sv_startup (decode_presets on preset one two))"
proof -
  have "temperature_ok (ColorTemperature 303)" "temperature_ok (ColorTemperature 200)"
    by (simp_all add: temperature_ok_def)
  then show "state_ok (sv_intended (decode_presets on preset one two))"
    by (simp add: decode_presets_def state_ok_def light_default_def)
  show "startup_ok (sv_startup (decode_presets on preset one two))"
    by (simp add: decode_presets_def startup_ok_def startup_default_def)
qed

lemma decode_record_ok:
  "decode_record bytes = Inr saved \<Longrightarrow> state_ok (sv_intended saved) \<and> startup_ok (sv_startup saved)"
  by (induction bytes rule: decode_record.induct)
    (auto simp: decode_presets_ok dest: decode_current_ok split: if_splits)

lemma startup_intent_Some:
  assumes "startup_ok su" "state_ok s"
  shows "\<exists>t. startup_intent s su = Some t \<and> state_ok t \<and> (ls_on t \<longrightarrow> ls_on s)"
proof -
  have "level_ok (Level (max l 1))" if "l \<noteq> 255" for l :: u8
  proof -
    have "unat l \<noteq> 255" using that by (simp add: word_unat_eq_iff)
    moreover have "unat l < 256" using unat_bound [of l] by simp
    ultimately show ?thesis by (simp add: level_ok_def unat_max_word)
  qed
  then show ?thesis
    using assms by (auto simp: startup_intent_def startup_ok_def state_ok_def Let_def
        level_new_None split: option.splits)
qed

lemma decode_current_encoded:
  assumes "temperature_ok t" "startup_ok su"
  shows "decode_current on l (ucast (temperature_get t)) (ucast (drop_bit 8 (temperature_get t)))
      (su_power su) (case su_level su of None \<Rightarrow> 255 | Some n \<Rightarrow> n)
      (ucast (case su_temperature su of None \<Rightarrow> 0 | Some t \<Rightarrow> temperature_get t))
      (ucast (drop_bit 8 (case su_temperature su of None \<Rightarrow> 0 | Some t \<Rightarrow> temperature_get t))) =
    Inr \<lparr>sv_intended = \<lparr>ls_on = on \<noteq> 0, ls_level = Level l, ls_temperature = t\<rparr>,
      sv_startup = su, sv_migrated = False\<rparr>"
proof -
  have new: "temperature_new (temperature_get t) = Some t" if "temperature_ok t" for t
    using that by (cases t) simp
  have "temperature_get t \<noteq> 0" if "temperature_ok t" for t
    using that by (auto simp: temperature_ok_def)
  moreover have "(if su_power su = 1 then 1 else 0) = su_power su" "\<not> 1 < su_power su"
    using assms(2) by (auto simp: startup_ok_def)
  moreover have "(if (case su_level su of None \<Rightarrow> 255 | Some n \<Rightarrow> n) \<noteq> 255
      then Some (case su_level su of None \<Rightarrow> 255 | Some n \<Rightarrow> n) else None) = su_level su"
    using assms(2) by (auto simp: startup_ok_def split: option.splits)
  moreover have "case su_temperature su of None \<Rightarrow> True | Some t \<Rightarrow> temperature_ok t"
    using assms(2) by (simp add: startup_ok_def)
  ultimately show ?thesis
    using assms(1) new
    by (cases "su_temperature su") (simp_all only: decode_current_def Let_def from_to_le_bytes16
        option.case if_True if_False refl simp_thms saved_state.select_convs, simp_all)
qed

lemma decode_encode:
  assumes "state_ok s" "startup_ok su"
  shows "decode_record (encode_record s su) =
    Inr \<lparr>sv_intended = s, sv_startup = su, sv_migrated = False\<rparr>"
proof -
  have l: "1 \<le> level_get (ls_level s)" "level_get (ls_level s) \<le> 254"
    using assms(1) by (simp_all add: state_ok_def level_ok_def word_le_nat_alt)
  have p: "su_power su \<le> 3" using assms(2) by (auto simp: startup_ok_def)
  have lvl: "Level (level_get x) = x" for x by (cases x) simp
  have s: "\<lparr>ls_on = (if ls_on s then 1 else 0 :: u8) \<noteq> 0,
      ls_level = Level (level_get (ls_level s)), ls_temperature = ls_temperature s\<rparr> = s"
    by (simp add: lvl)
  have t: "temperature_ok (ls_temperature s)" using assms(1) by (simp add: state_ok_def)
  have on: "(if ls_on s then 1 else 0 :: u8) \<le> 1" by simp
  show ?thesis
    unfolding encode_record_def Let_def to_le_bytes16_def nth_Cons_0 nth_Cons_Suc One_nat_def
      decode_record.simps
    using l p on decode_current_encoded [OF t assms(2)] s by simp
qed

section \<open>Properties\<close>

text \<open>C37. The record format round-trips: decoding an encoded intent and startup policy gives back
  exactly both, and asks for no migration.\<close>

theorem record_roundtrip:
  assumes "state_ok s" "startup_ok su"
  shows "decode_record (encode_record s su) =
    Inr \<lparr>sv_intended = s, sv_startup = su, sv_migrated = False\<rparr>"
  using assms by (rule decode_encode)

lemma record_roundtrip_witness:
  "decode_record [3, 0, 57, 47, 1, 0, 255, 0, 0] =
    Inr \<lparr>sv_intended = light_default, sv_startup = startup_default, sv_migrated = False\<rparr>"
proof -
  have "encode_record light_default startup_default = [3, 0, 57, 47, 1, 0, 255, 0, 0]" by code_simp
  then show ?thesis using record_roundtrip [OF light_default_ok startup_default_ok] by simp
qed

text \<open>Migration happens once: whatever accepted record was read, of any version, writing what
  was decoded and reading it again gives the same intent and policy, no longer marked as
  migrated; and every accepted record holds an intent and a policy in range.\<close>

theorem migration_is_idempotent:
  assumes "decode_record bytes = Inr saved"
  shows "state_ok (sv_intended saved) \<and> startup_ok (sv_startup saved) \<and>
    decode_record (encode_record (sv_intended saved) (sv_startup saved)) =
      Inr (saved\<lparr>sv_migrated := False\<rparr>)"
  using decode_record_ok [OF assms] decode_encode [of "sv_intended saved" "sv_startup saved"]
  by (cases saved) simp

lemma migration_is_idempotent_witness:
  "decode_record (encode_record (light_default\<lparr>ls_on := True, ls_temperature := ColorTemperature 200\<rparr>)
      (startup_default\<lparr>su_power := 1\<rparr>)) =
    Inr \<lparr>sv_intended = light_default\<lparr>ls_on := True, ls_temperature := ColorTemperature 200\<rparr>,
      sv_startup = startup_default\<lparr>su_power := 1\<rparr>, sv_migrated = False\<rparr>"
proof -
  have "decode_record [2, 1, 1, 3, 1] =
      Inr \<lparr>sv_intended = light_default\<lparr>ls_on := True, ls_temperature := ColorTemperature 200\<rparr>,
        sv_startup = startup_default\<lparr>su_power := 1\<rparr>, sv_migrated = True\<rparr>"
    by (simp add: decode_presets_def)
  from migration_is_idempotent [OF this] show ?thesis by simp
qed

text \<open>A startup policy never lights the lamp: the intent restored at boot exists (the policy's
  level is always legal), is in range, and is On only if the saved intent was On and the
  policy is not Off.\<close>

theorem startup_never_lights:
  assumes "decode_record bytes = Inr saved"
  shows "\<exists>t. startup_intent (sv_intended saved) (sv_startup saved) = Some t \<and> state_ok t \<and>
    (ls_on t \<longrightarrow> ls_on (sv_intended saved) \<and> su_power (sv_startup saved) = 0)"
proof -
  have ok: "state_ok (sv_intended saved)" "startup_ok (sv_startup saved)"
    using decode_record_ok [OF assms] by simp_all
  obtain t where t: "startup_intent (sv_intended saved) (sv_startup saved) = Some t" "state_ok t"
    "ls_on t \<longrightarrow> ls_on (sv_intended saved)"
    using startup_intent_Some [OF ok(2,1)] by blast
  have "su_power (sv_startup saved) = 1 \<Longrightarrow> \<not> ls_on t"
    using t(1) by (auto simp: startup_intent_def Let_def split: option.splits)
  then have "ls_on t \<longrightarrow> su_power (sv_startup saved) = 0"
    using ok(2) by (auto simp: startup_ok_def)
  with t show ?thesis by blast
qed

lemma startup_never_lights_witness:
  "\<exists>t. startup_intent (light_default\<lparr>ls_on := True\<rparr>) (startup_default\<lparr>su_power := 1\<rparr>) = Some t \<and> \<not> ls_on t"
proof -
  have "decode_record (encode_record (light_default\<lparr>ls_on := True\<rparr>) (startup_default\<lparr>su_power := 1\<rparr>)) =
      Inr \<lparr>sv_intended = light_default\<lparr>ls_on := True\<rparr>, sv_startup = startup_default\<lparr>su_power := 1\<rparr>,
        sv_migrated = False\<rparr>"
    by (rule decode_encode)
      (simp_all add: state_ok_def light_default_def startup_ok_def startup_default_def)
  from startup_never_lights [OF this] show ?thesis by auto
qed

end
