(* ===== verification/Runtime.thy ===== *)
theory Runtime
  imports Adapters Transition Controller Intent_Record
begin

text \<open>
  The light runtime of \<open>firmware/app/src/runtime.rs\<close>. \<open>Runtime\<close> and the \<open>State\<close> behind
  its \<open>RefCell\<close> are one record, the clock cell included; every method is a function from
  that record to its result and the record after the call. No method lends the cell while
  it is borrowed, so the flattening is exact. The key-value store, the hardware and
  rs-matter's \<open>VENDOR_KEYS_START\<close> are the environment, the first argument of every
  method that reaches them. A failed \<open>expect\<close> or \<open>unwrap\<close> is the outcome \<open>Panic\<close>.
\<close>

section \<open>State\<close>

record ('k, 'h) runtime_env =
  env_kv :: "'k kv_ops"
  env_hw :: "'h hardware_ops"
  env_vendor_keys_start :: u16

definition INTENT_KEY :: "('k, 'h) runtime_env \<Rightarrow> u16" where
  "INTENT_KEY E = env_vendor_keys_start E + 3"

record ('k, 'h) runtime =
  r_kv :: 'k
  r_now :: u64
  r_target :: light_state
  r_controller :: controller
  r_hardware :: 'h
  r_level :: "level_transition option"
  r_temperature :: "transition option"
  r_fault :: fault
  r_dirty :: bool
  r_startup :: startup
  r_load_fault :: "fault option"
  r_off_after_load :: bool
  r_next_verify :: u64
  r_retry_at :: u64
  r_failures :: u32
  r_storage_failures :: u32
  r_recoveries :: u32
  r_revision :: u32

record snapshot =
  sn_intended :: light_state
  sn_applied :: "light_state option"
  sn_applied_frame :: "output_frame option"
  sn_fault :: fault
  sn_output_failures :: u32
  sn_storage_failures :: u32
  sn_recoveries :: u32
  sn_revision :: u32

datatype off_effect = FastFade | NoFade | SlowFade | DyingLight

datatype start_up_on_off = StartOff | StartOn | StartToggle

section \<open>Loading\<close>

definition load_record ::
  "('k, 'h) runtime_env \<Rightarrow> 'k \<Rightarrow> (fault + saved_state) \<times> 'k" where
  "load_record E kv =
     (case kv_load (env_kv E) (INTENT_KEY E) kv of
        (Inl _, kv) \<Rightarrow> (Inl FaultStorage, kv)
      | (Inr None, kv) \<Rightarrow> (Inr saved_default, kv)
      | (Inr (Some bytes), kv) \<Rightarrow> (decode_record bytes, kv))"

definition runtime_load :: "('k, 'h) runtime_env \<Rightarrow> 'k \<Rightarrow> 'h \<Rightarrow> ('k, 'h) runtime option" where
  "runtime_load E kv hw =
     (let (off, hw) = hw_shutdown (env_hw E) hw;
          off_failed = is_err off;
          (loaded, kv) = load_record E kv;
          load_fault = (case loaded of Inl f \<Rightarrow> Some f | Inr _ \<Rightarrow> None);
          saved = (case loaded of Inl _ \<Rightarrow> saved_default | Inr saved \<Rightarrow> saved)
      in (case startup_intent (sv_intended saved) (sv_startup saved) of
            None \<Rightarrow> None
          | Some target \<Rightarrow> Some
              \<lparr>r_kv = kv, r_now = 0, r_target = target,
               r_controller = controller_new (Some target), r_hardware = hw,
               r_level = None, r_temperature = None,
               r_fault = (case load_fault of Some f \<Rightarrow> f
                          | None \<Rightarrow> if off_failed then FaultOutput else NoFault),
               r_dirty = (sv_migrated saved \<or> target \<noteq> sv_intended saved),
               r_startup = sv_startup saved, r_load_fault = load_fault,
               r_off_after_load = False, r_next_verify = 0,
               r_retry_at = (if off_failed \<or> load_fault = Some FaultStorage then 5000 else 0),
               r_failures = (if off_failed then 1 else 0),
               r_storage_failures = (if load_fault = Some FaultStorage then 1 else 0),
               r_recoveries = 0, r_revision = 0\<rparr>))"

section \<open>Readers\<close>

definition applied_frame :: "('k, 'h) runtime \<Rightarrow> output_frame option" where
  "applied_frame s = ctl_applied (r_controller s)"

definition runtime_snapshot :: "('k, 'h) runtime \<Rightarrow> snapshot" where
  "runtime_snapshot s =
     \<lparr>sn_intended = r_target s, sn_applied = applied_state (r_controller s),
      sn_applied_frame = applied_frame s, sn_fault = r_fault s,
      sn_output_failures = r_failures s, sn_storage_failures = r_storage_failures s,
      sn_recoveries = r_recoveries s, sn_revision = r_revision s\<rparr>"

definition acknowledged :: "('k, 'h) runtime \<Rightarrow> error_code + light_state" where
  "acknowledged s =
     (case applied_state (r_controller s) of Some a \<Rightarrow> Inr a | None \<Rightarrow> Inl InvalidState)"

definition reported :: "('k, 'h) runtime \<Rightarrow> error_code + light_state" where
  "reported s =
     (if r_fault s \<noteq> NoFault \<or> applied_state (r_controller s) = None then Inl InvalidState
      else Inr (r_target s))"

definition writable :: "('k, 'h) runtime \<Rightarrow> (unit, error_code) outcome" where
  "writable s =
     (if r_fault s = FaultRebooting then Err Busy
      else if r_load_fault s \<noteq> None then Err InvalidState
      else Ok ())"

definition startup_power :: "('k, 'h) runtime \<Rightarrow> start_up_on_off option" where
  "startup_power s = (if su_power (r_startup s) = 1 then Some StartOff else None)"

definition startup_level :: "('k, 'h) runtime \<Rightarrow> u8 option" where
  "startup_level s = su_level (r_startup s)"

definition startup_temperature :: "('k, 'h) runtime \<Rightarrow> color_temperature option" where
  "startup_temperature s = su_temperature (r_startup s)"

definition level_remaining_ms :: "('k, 'h) runtime \<Rightarrow> u64" where
  "level_remaining_ms s =
     (case r_level s of None \<Rightarrow> 0 | Some t \<Rightarrow> level_transition_remaining t (r_now s))"

definition temperature_remaining_ms :: "('k, 'h) runtime \<Rightarrow> u64" where
  "temperature_remaining_ms s =
     (case r_temperature s of None \<Rightarrow> 0 | Some t \<Rightarrow> transition_remaining t (r_now s))"

section \<open>The environment calls\<close>

definition on_hardware ::
  "('h \<Rightarrow> 'x \<times> 'h) \<Rightarrow> ('k, 'h) runtime \<Rightarrow> 'x \<times> ('k, 'h) runtime" where
  "on_hardware f s = (case f (r_hardware s) of (x, h) \<Rightarrow> (x, s\<lparr>r_hardware := h\<rparr>))"

definition store_record ::
  "('k, 'h) runtime_env \<Rightarrow> light_state \<Rightarrow> startup \<Rightarrow> ('k, 'h) runtime
    \<Rightarrow> (error_code + unit) \<times> ('k, 'h) runtime" where
  "store_record E target su s =
     (case kv_store (env_kv E) (INTENT_KEY E) (encode_record target su) (r_kv s) of
        (x, kv) \<Rightarrow> (x, s\<lparr>r_kv := kv\<rparr>))"

definition shutdown :: "('k, 'h) runtime_env \<Rightarrow> ('k, 'h) runtime \<Rightarrow> bool \<times> ('k, 'h) runtime" where
  "shutdown E s =
     (case on_hardware (hw_shutdown (env_hw E)) s of (x, s) \<Rightarrow> (\<not> is_err x, s))"

definition invalidate :: "('k, 'h) runtime \<Rightarrow> ('k, 'h) runtime" where
  "invalidate s = s\<lparr>r_controller := invalidate_applied (r_controller s)\<rparr>"

definition bump :: "('k, 'h) runtime \<Rightarrow> ('k, 'h) runtime" where
  "bump s = s\<lparr>r_revision := r_revision s + 1\<rparr>"

section \<open>Saving\<close>

definition save_startup ::
  "('k, 'h) runtime_env \<Rightarrow> startup \<Rightarrow> ('k, 'h) runtime
    \<Rightarrow> (unit, error_code) outcome \<times> ('k, 'h) runtime" where
  "save_startup E su s =
     and_then (writable s, s) (\<lambda>_ s.
       if su = r_startup s \<and> \<not> r_dirty s then (Ok (), s)
       else (case store_record E (r_target s) su s of
           (Inl error, s) \<Rightarrow>
             (Err error, s\<lparr>r_storage_failures := sat_add (r_storage_failures s) 1\<rparr>)
         | (Inr _, s) \<Rightarrow> (Ok (), bump (s\<lparr>r_startup := su, r_dirty := False\<rparr>)))) id"

definition set_startup ::
  "('k, 'h) runtime_env \<Rightarrow> start_up_on_off option \<Rightarrow> ('k, 'h) runtime
    \<Rightarrow> (unit, error_code) outcome \<times> ('k, 'h) runtime" where
  "set_startup E value s =
     (case value of
        None \<Rightarrow> save_startup E ((r_startup s)\<lparr>su_power := 0\<rparr>) s
      | Some StartOff \<Rightarrow> save_startup E ((r_startup s)\<lparr>su_power := 1\<rparr>) s
      | Some StartOn \<Rightarrow> (Err ConstraintError, s)
      | Some StartToggle \<Rightarrow> (Err ConstraintError, s))"

definition set_startup_level ::
  "('k, 'h) runtime_env \<Rightarrow> u8 option \<Rightarrow> ('k, 'h) runtime
    \<Rightarrow> (unit, error_code) outcome \<times> ('k, 'h) runtime" where
  "set_startup_level E value s =
     (if value = Some 255 then (Err ConstraintError, s)
      else save_startup E ((r_startup s)\<lparr>su_level := value\<rparr>) s)"

definition set_startup_temperature ::
  "('k, 'h) runtime_env \<Rightarrow> color_temperature option \<Rightarrow> ('k, 'h) runtime
    \<Rightarrow> (unit, error_code) outcome \<times> ('k, 'h) runtime" where
  "set_startup_temperature E value s =
     save_startup E ((r_startup s)\<lparr>su_temperature := value\<rparr>) s"

definition save_intent ::
  "('k, 'h) runtime_env \<Rightarrow> ('k, 'h) runtime \<Rightarrow> (unit, error_code) outcome \<times> ('k, 'h) runtime" where
  "save_intent E s =
     (if \<not> r_dirty s then (Ok (), s)
      else (case store_record E (r_target s) (r_startup s) s of
          (Inl error, s) \<Rightarrow>
            (let s = s\<lparr>r_storage_failures := sat_add (r_storage_failures s) 1,
                       r_fault := FaultStorage\<rparr>;
                 (stopped, s) = shutdown E s;
                 s = (if stopped then s else s\<lparr>r_failures := sat_add (r_failures s) 1\<rparr>);
                 s = bump (invalidate s)
             in (Err error, s\<lparr>r_retry_at := sat_add (r_now s) 5000\<rparr>))
        | (Inr _, s) \<Rightarrow> (Ok (), s\<lparr>r_dirty := False\<rparr>)))"

definition output_failed ::
  "('k, 'h) runtime_env \<Rightarrow> u64 \<Rightarrow> ('k, 'h) runtime \<Rightarrow> ('k, 'h) runtime" where
  "output_failed E now s =
     (let (_, s) = shutdown E s;
          s = invalidate s
      in bump (s\<lparr>r_fault := FaultOutput, r_failures := sat_add (r_failures s) 1,
                r_retry_at := sat_add now 5000\<rparr>))"

section \<open>The effective frame and its application\<close>

text \<open>\<open>None\<close> is the panic of an \<open>expect\<close> on an out-of-range ramp value.\<close>

definition effective_level ::
  "('k, 'h) runtime \<Rightarrow> u64 \<Rightarrow> (light_state \<times> output_brightness) option" where
  "effective_level s now =
     (let state = r_target s;
          brightness = of_brightness (from_state state)
      in (case r_level s of
            None \<Rightarrow> Some (state, brightness)
          | Some track \<Rightarrow>
              (if level_transition_remaining track now \<noteq> 0 then
                 (case brightness_new (level_transition_value track now) of
                    None \<Rightarrow> None
                  | Some brightness \<Rightarrow>
                      Some (state\<lparr>ls_on := brightness \<noteq> brightness_ZERO,
                              ls_level := to_level_clamped brightness,
                              ls_temperature := (case lt_off_temperature track of
                                  Some t \<Rightarrow> t | None \<Rightarrow> ls_temperature state)\<rparr>,
                            brightness))
               else Some (state, brightness))))"

definition effective :: "('k, 'h) runtime \<Rightarrow> u64 \<Rightarrow> output_frame option" where
  "effective s now =
     (case effective_level s now of
        None \<Rightarrow> None
      | Some (state, brightness) \<Rightarrow>
          (case r_temperature s of
             None \<Rightarrow> Some \<lparr>of_state = state, of_brightness = brightness\<rparr>
           | Some track \<Rightarrow>
               (case temperature_new (transition_value track now) of
                  None \<Rightarrow> None
                | Some t \<Rightarrow> Some \<lparr>of_state = state\<lparr>ls_temperature := t\<rparr>,
                               of_brightness = brightness\<rparr>)))"

definition drop_finished :: "u64 \<Rightarrow> ('k, 'h) runtime \<Rightarrow> ('k, 'h) runtime" where
  "drop_finished now s =
     (let s = (case r_level s of
            Some t \<Rightarrow> if level_transition_remaining t now = 0 then s\<lparr>r_level := None\<rparr> else s
          | None \<Rightarrow> s)
      in (case r_temperature s of
            Some t \<Rightarrow> if transition_remaining t now = 0 then s\<lparr>r_temperature := None\<rparr> else s
          | None \<Rightarrow> s))"

definition restore_from_zero :: "u64 \<Rightarrow> ('k, 'h) runtime \<Rightarrow> ('k, 'h) runtime" where
  "restore_from_zero now s =
     s\<lparr>r_level := (if ls_on (r_target s) then
           Some \<lparr>lt_ramp = \<lparr>tr_from = 0,
                   tr_to = brightness_get (from_level (ls_level (r_target s))),
                   tr_start = now, tr_duration = DEFAULT_TRANSITION_MS, tr_curve = Smooth\<rparr>,
                 lt_then = None, lt_off_temperature = None\<rparr>
         else None),
       r_temperature := None\<rparr>"

definition reconcile_to ::
  "('k, 'h) runtime_env \<Rightarrow> u64 \<Rightarrow> output_frame \<Rightarrow> ('k, 'h) runtime
    \<Rightarrow> (unit, error_code) outcome \<times> ('k, 'h) runtime" where
  "reconcile_to E now frame s =
     (let c = snd (controller_command (SetLevel (ls_level (of_state frame))) (r_controller s));
          c = snd (controller_command (SetTemperature (ls_temperature (of_state frame))) c);
          c = snd (controller_command (SetPower (ls_on (of_state frame))) c);
          previous = ctl_applied c;
          (result, c, hw) = reconcile_frame (hw_apply_frame (env_hw E)) frame c (r_hardware s);
          s = s\<lparr>r_controller := c, r_hardware := hw\<rparr>
      in if is_err result then (Err Failure, output_failed E now s)
         else
           (let s = (if r_fault s = FaultOutput
                     then s\<lparr>r_recoveries := sat_add (r_recoveries s) 1\<rparr> else s);
                s = s\<lparr>r_fault := NoFault, r_retry_at := 0\<rparr>;
                s = (if previous \<noteq> applied_frame s then
                       (let s = s\<lparr>r_next_verify := sat_add now 5000\<rparr>
                        in if previous = None then bump s else s)
                     else s)
            in (Ok (), drop_finished now s)))"

definition reconcile ::
  "('k, 'h) runtime_env \<Rightarrow> u64 \<Rightarrow> ('k, 'h) runtime
    \<Rightarrow> (unit, error_code) outcome \<times> ('k, 'h) runtime" where
  "reconcile E now s =
     and_then
       (if applied_frame s = None then
          (let (stopped, s) = shutdown E s
           in if stopped then (Ok (), restore_from_zero now s)
              else (Err Failure, output_failed E now s))
        else (Ok (), s))
       (\<lambda>_ s. case effective s now of
           None \<Rightarrow> (Panic, s)
         | Some frame \<Rightarrow> reconcile_to E now frame s) id"

definition commit ::
  "('k, 'h) runtime_env \<Rightarrow> light_state \<Rightarrow> ('k, 'h) runtime
    \<Rightarrow> (unit, error_code) outcome \<times> ('k, 'h) runtime" where
  "commit E target s =
     (let s = bump (s\<lparr>r_dirty := (r_dirty s \<or> r_target s \<noteq> target), r_target := target\<rparr>)
      in and_then (save_intent E s) (\<lambda>_ s. reconcile E (r_now s) s) id)"

end
