(* ===== verification/Requests.thy ===== *)
theory Requests
  imports Runtime
begin

text \<open>
  The requests of the light runtime (\<open>firmware/app/src/runtime.rs\<close>): what Matter, the
  console and the recovery actions ask of it, and the periodic \<open>tick\<close>. Every request ends
  in \<open>commit\<close> or \<open>reconcile\<close>. \<open>runtime_op\<close> lists the methods that change state, and
  \<open>reachable\<close> is every state that some sequence of calls reaches from a boot.
\<close>

section \<open>Requests\<close>

definition duration :: "u64 \<Rightarrow> u64" where
  "duration requested = (if requested = 0 then DEFAULT_TRANSITION_MS else requested)"

definition current_frame :: "('k, 'h) runtime \<Rightarrow> output_frame" where
  "current_frame s =
     (case applied_frame s of
        Some frame \<Rightarrow> frame
      | None \<Rightarrow> from_state ((r_target s)\<lparr>ls_on := False\<rparr>))"

definition ramp :: "u16 \<Rightarrow> u16 \<Rightarrow> u64 \<Rightarrow> u64 \<Rightarrow> curve \<Rightarrow> transition" where
  "ramp fr to start dur c =
     \<lparr>tr_from = fr, tr_to = to, tr_start = start, tr_duration = dur, tr_curve = c\<rparr>"

definition recall_scene ::
  "('k, 'h) runtime_env \<Rightarrow> light_state \<Rightarrow> u64 \<Rightarrow> ('k, 'h) runtime
    \<Rightarrow> (unit, error_code) outcome \<times> ('k, 'h) runtime" where
  "recall_scene E target duration_ms s =
     (if MAX_TRANSITION_MS < duration_ms then (Err ConstraintError, s)
      else and_then (writable s, s) (\<lambda>_ s.
        if target = r_target s then commit E target s
        else
          (let current = current_frame s;
               duration_ms = duration duration_ms;
               animate = (of_brightness current \<noteq> brightness_ZERO \<or> ls_on target);
               s = s\<lparr>r_level := (if animate then Some
                   \<lparr>lt_ramp = ramp (brightness_get (of_brightness current))
                      (brightness_get (of_brightness (from_state target))) (r_now s) duration_ms Smooth,
                    lt_then = None,
                    lt_off_temperature =
                      (if \<not> ls_on target then Some (ls_temperature (of_state current)) else None)\<rparr>
                   else None)\<rparr>;
               s = s\<lparr>r_temperature := (if animate \<and> ls_on target then Some
                   (ramp (temperature_get (ls_temperature (of_state current)))
                      (temperature_get (ls_temperature target)) (r_now s) duration_ms Smooth)
                   else None)\<rparr>
           in commit E target s)) id)"

definition request ::
  "('k, 'h) runtime_env \<Rightarrow> light_state \<Rightarrow> ('k, 'h) runtime
    \<Rightarrow> (unit, error_code) outcome \<times> ('k, 'h) runtime" where
  "request E target s = recall_scene E target 0 s"

definition set_power ::
  "('k, 'h) runtime_env \<Rightarrow> bool \<Rightarrow> ('k, 'h) runtime
    \<Rightarrow> (unit, error_code) outcome \<times> ('k, 'h) runtime" where
  "set_power E on s =
     and_then (writable s, s) (\<lambda>_ s.
       let target = (r_target s)\<lparr>ls_on := on\<rparr>
       in if on \<noteq> ls_on (r_target s) then
            (let current = current_frame s;
                 s = s\<lparr>r_level := Some
                   \<lparr>lt_ramp = ramp (brightness_get (of_brightness current))
                      (brightness_get (of_brightness (from_state target)))
                      (r_now s) DEFAULT_TRANSITION_MS Smooth,
                    lt_then = None,
                    lt_off_temperature =
                      (if \<not> on then Some (ls_temperature (of_state current)) else None)\<rparr>\<rparr>;
                 s = (if \<not> on then s\<lparr>r_temperature := None\<rparr>
                      else if ls_temperature (of_state current) \<noteq> ls_temperature target then
                        s\<lparr>r_temperature := Some
                          (ramp (temperature_get (ls_temperature (of_state current)))
                             (temperature_get (ls_temperature target))
                             (r_now s) DEFAULT_TRANSITION_MS Smooth)\<rparr>
                      else s)
             in commit E target s)
          else commit E target s) id"

definition runtime_level_transition ::
  "('k, 'h) runtime_env \<Rightarrow> u8 \<Rightarrow> bool \<Rightarrow> u64 \<Rightarrow> curve \<Rightarrow> ('k, 'h) runtime
    \<Rightarrow> (unit, error_code) outcome \<times> ('k, 'h) runtime" where
  "runtime_level_transition E l with_on_off duration_ms c s =
     (if l = 255 \<or> MAX_TRANSITION_MS < duration_ms then (Err ConstraintError, s)
      else and_then (writable s, s) (\<lambda>_ s.
        case level_new (max l 1) of
          None \<Rightarrow> (Panic, s)
        | Some new_level \<Rightarrow>
          (let current = current_frame s;
               target = (r_target s)\<lparr>ls_level := new_level,
                 ls_on := (if with_on_off then level_get level_MIN < l else ls_on (r_target s))\<rparr>
           in if target = r_target s \<and> c = Smooth
                 \<or> \<not> ls_on target \<and> \<not> ls_on (r_target s) \<and> \<not> with_on_off
              then commit E target s
              else
                (let animate = (duration_ms \<noteq> 0 \<and>
                       (of_brightness current \<noteq> brightness_ZERO \<or> ls_on target));
                     was_on = ls_on (r_target s);
                     s = s\<lparr>r_level := (if animate then Some
                       \<lparr>lt_ramp = ramp (brightness_get (of_brightness current))
                          (brightness_get (of_brightness (from_state target)))
                          (r_now s) duration_ms c,
                        lt_then = None,
                        lt_off_temperature =
                          (if \<not> ls_on target then Some (ls_temperature (of_state current)) else None)\<rparr>
                       else None)\<rparr>;
                     s = (if \<not> ls_on target then s\<lparr>r_temperature := None\<rparr>
                          else if \<not> was_on
                            \<and> ls_temperature (of_state current) \<noteq> ls_temperature target then
                            s\<lparr>r_temperature := Some
                              (ramp (temperature_get (ls_temperature (of_state current)))
                                 (temperature_get (ls_temperature target)) (r_now s) duration_ms c)\<rparr>
                          else s)
                 in commit E target s))) id)"

definition set_level_transition ::
  "('k, 'h) runtime_env \<Rightarrow> u8 \<Rightarrow> bool \<Rightarrow> u64 \<Rightarrow> ('k, 'h) runtime
    \<Rightarrow> (unit, error_code) outcome \<times> ('k, 'h) runtime" where
  "set_level_transition E l with_on_off duration_ms s =
     runtime_level_transition E l with_on_off (duration duration_ms) Smooth s"

definition set_level ::
  "('k, 'h) runtime_env \<Rightarrow> level \<Rightarrow> bool \<Rightarrow> ('k, 'h) runtime
    \<Rightarrow> (unit, error_code) outcome \<times> ('k, 'h) runtime" where
  "set_level E l with_on_off s = set_level_transition E (level_get l) with_on_off 0 s"

definition set_level_rate ::
  "('k, 'h) runtime_env \<Rightarrow> u8 \<Rightarrow> bool \<Rightarrow> u64 \<Rightarrow> ('k, 'h) runtime
    \<Rightarrow> (unit, error_code) outcome \<times> ('k, 'h) runtime" where
  "set_level_rate E l with_on_off duration_ms s =
     runtime_level_transition E l with_on_off duration_ms Linear s"

definition off_ramp :: "off_effect \<Rightarrow> u16 \<Rightarrow> u16 \<times> u64 \<times> u64" where
  "off_ramp effect fr =
     (case effect of
        FastFade \<Rightarrow> (0, 800, 0)
      | NoFade \<Rightarrow> (0, 0, 0)
      | SlowFade \<Rightarrow> (fr div 2, 800, 12000)
      | DyingLight \<Rightarrow> (min (fr * 6 div 5) (brightness_get brightness_MAX), 500, 1000))"

definition off_with_effect ::
  "('k, 'h) runtime_env \<Rightarrow> off_effect \<Rightarrow> ('k, 'h) runtime
    \<Rightarrow> (unit, error_code) outcome \<times> ('k, 'h) runtime" where
  "off_with_effect E effect s =
     and_then (writable s, s) (\<lambda>_ s.
       let current = current_frame s;
           start = r_now s;
           fr = brightness_get (of_brightness current);
           (middle, first_ms, last_ms) = off_ramp effect fr;
           s = s\<lparr>r_level := (if of_brightness current \<noteq> brightness_ZERO \<and> first_ms \<noteq> 0 then Some
             \<lparr>lt_ramp = ramp fr middle start first_ms Smooth,
              lt_then = (if last_ms \<noteq> 0
                then Some (ramp middle 0 (start + first_ms) last_ms Smooth) else None),
              lt_off_temperature = Some (ls_temperature (of_state current))\<rparr>
             else None),
             r_temperature := None\<rparr>
       in commit E ((r_target s)\<lparr>ls_on := False\<rparr>) s) id"

definition runtime_temperature_transition ::
  "('k, 'h) runtime_env \<Rightarrow> color_temperature \<Rightarrow> u64 \<Rightarrow> curve \<Rightarrow> ('k, 'h) runtime
    \<Rightarrow> (unit, error_code) outcome \<times> ('k, 'h) runtime" where
  "runtime_temperature_transition E t duration_ms c s =
     (if MAX_TRANSITION_MS < duration_ms then (Err ConstraintError, s)
      else and_then (writable s, s) (\<lambda>_ s.
        let current = current_frame s;
            s = (if ls_on (r_target s) \<and> (t \<noteq> ls_temperature (r_target s) \<or> c = Linear)
                 then s\<lparr>r_temperature := (if duration_ms \<noteq> 0 then Some
                     (ramp (temperature_get (ls_temperature (of_state current))) (temperature_get t)
                        (r_now s) duration_ms c)
                   else None)\<rparr>
                 else s)
        in commit E ((r_target s)\<lparr>ls_temperature := t\<rparr>) s) id)"

definition set_temperature_transition ::
  "('k, 'h) runtime_env \<Rightarrow> color_temperature \<Rightarrow> u64 \<Rightarrow> ('k, 'h) runtime
    \<Rightarrow> (unit, error_code) outcome \<times> ('k, 'h) runtime" where
  "set_temperature_transition E t duration_ms s =
     runtime_temperature_transition E t (duration duration_ms) Smooth s"

definition set_temperature ::
  "('k, 'h) runtime_env \<Rightarrow> color_temperature \<Rightarrow> ('k, 'h) runtime
    \<Rightarrow> (unit, error_code) outcome \<times> ('k, 'h) runtime" where
  "set_temperature E t s = set_temperature_transition E t 0 s"

definition set_temperature_rate ::
  "('k, 'h) runtime_env \<Rightarrow> color_temperature \<Rightarrow> u64 \<Rightarrow> ('k, 'h) runtime
    \<Rightarrow> (unit, error_code) outcome \<times> ('k, 'h) runtime" where
  "set_temperature_rate E t duration_ms s = runtime_temperature_transition E t duration_ms Linear s"

definition stop_level_transition ::
  "('k, 'h) runtime_env \<Rightarrow> ('k, 'h) runtime \<Rightarrow> (unit, error_code) outcome \<times> ('k, 'h) runtime" where
  "stop_level_transition E s =
     and_then (writable s, s) (\<lambda>_ s.
       case r_level s of
         None \<Rightarrow> (Ok (), s)
       | Some stopped \<Rightarrow>
           (case applied_frame s of
              None \<Rightarrow> (Err InvalidState, s)
            | Some applied \<Rightarrow>
                (let s = s\<lparr>r_level := None\<rparr>;
                     target = \<lparr>ls_on =
                         brightness_DENOMINATOR div 2 < brightness_get (of_brightness applied),
                       ls_level = to_level_clamped (of_brightness applied),
                       ls_temperature = (case lt_off_temperature stopped of
                         Some t \<Rightarrow> t | None \<Rightarrow> ls_temperature (r_target s))\<rparr>
                 in commit E target s))) id"

definition stop_temperature_transition ::
  "('k, 'h) runtime_env \<Rightarrow> ('k, 'h) runtime \<Rightarrow> (unit, error_code) outcome \<times> ('k, 'h) runtime" where
  "stop_temperature_transition E s =
     and_then (writable s, s) (\<lambda>_ s.
       case r_temperature s of
         None \<Rightarrow> (Ok (), s)
       | Some _ \<Rightarrow>
           (case applied_state (r_controller s) of
              None \<Rightarrow> (Err InvalidState, s)
            | Some applied \<Rightarrow>
                (let s = s\<lparr>r_temperature := None\<rparr>
                 in commit E ((r_target s)\<lparr>ls_temperature := ls_temperature applied\<rparr>) s))) id"

section \<open>Off, verification and reboot\<close>

definition runtime_off ::
  "('k, 'h) runtime_env \<Rightarrow> ('k, 'h) runtime \<Rightarrow> (unit, error_code) outcome \<times> ('k, 'h) runtime" where
  "runtime_off E s =
     (let (stopped, s) = shutdown E s;
          s = (invalidate s)\<lparr>r_level := None, r_temperature := None\<rparr>;
          s = s\<lparr>r_dirty := (r_dirty s \<or> ls_on (r_target s)),
                r_target := (r_target s)\<lparr>ls_on := False\<rparr>\<rparr>
      in if r_load_fault s = Some FaultStorage then
           (let s = s\<lparr>r_off_after_load := True, r_dirty := False\<rparr>
            in if stopped then (Ok (), s)
               else (Err Failure, s\<lparr>r_failures := sat_add (r_failures s) 1\<rparr>))
         else
           (let s = s\<lparr>r_dirty := (r_dirty s \<or> r_load_fault s = Some FaultInvalidRecord)\<rparr>
            in and_then (save_intent E s) (\<lambda>_ s.
                 let s = bump (s\<lparr>r_load_fault := None\<rparr>)
                 in if stopped then reconcile E (r_now s) s
                    else (Err Failure, output_failed E (r_now s) s)) id))"

definition runtime_verify ::
  "('k, 'h) runtime_env \<Rightarrow> ('k, 'h) runtime \<Rightarrow> (unit, error_code) outcome \<times> ('k, 'h) runtime" where
  "runtime_verify E s =
     (case applied_frame s of
        None \<Rightarrow> (Err InvalidState, s)
      | Some applied \<Rightarrow>
          (case on_hardware (hw_verify_frame (env_hw E) applied) s of (x, s) \<Rightarrow>
             if is_err x then (Err Failure, output_failed E (r_now s) s) else (Ok (), s)))"

definition runtime_registers ::
  "('k, 'h) runtime_env \<Rightarrow> ('k, 'h) runtime
    \<Rightarrow> (u8 list, error_code) outcome \<times> ('k, 'h) runtime" where
  "runtime_registers E s =
     (case on_hardware (hw_registers (env_hw E)) s of
        (Inr d, s) \<Rightarrow> (Ok d, s)
      | (Inl _, s) \<Rightarrow> (Err Failure, output_failed E (r_now s) s))"

definition prepare_reboot ::
  "('k, 'h) runtime_env \<Rightarrow> ('k, 'h) runtime \<Rightarrow> bool \<times> ('k, 'h) runtime" where
  "prepare_reboot E s =
     (let (verified, s) = shutdown E s;
          s = (invalidate s)\<lparr>r_fault := FaultRebooting\<rparr>
      in (verified, bump s))"

definition watchdog_test_ready ::
  "('k, 'h) runtime_env \<Rightarrow> ('k, 'h) runtime \<Rightarrow> (unit, error_code) outcome \<times> ('k, 'h) runtime" where
  "watchdog_test_ready E s =
     (if r_dirty s \<or> r_fault s \<noteq> NoFault \<or> r_level s \<noteq> None \<or> r_temperature s \<noteq> None
      then (Err InvalidState, s) else runtime_verify E s)"

section \<open>The periodic tick\<close>

text \<open>\<open>Err ()\<close> is the early return of \<open>tick\<close> while the record stays unreadable.\<close>

definition tick_reload ::
  "('k, 'h) runtime_env \<Rightarrow> u64 \<Rightarrow> ('k, 'h) runtime \<Rightarrow> (unit, unit) outcome \<times> ('k, 'h) runtime" where
  "tick_reload E now s =
     (if r_load_fault s = Some FaultStorage then
        (case load_record E (r_kv s) of
           (Inr saved, kv) \<Rightarrow>
             (case startup_intent (sv_intended saved) (sv_startup saved) of
                None \<Rightarrow> (Panic, s\<lparr>r_kv := kv\<rparr>)
              | Some target \<Rightarrow>
                  (let target = (if r_off_after_load s then target\<lparr>ls_on := False\<rparr> else target)
                   in (Ok (), bump (s\<lparr>r_kv := kv, r_target := target,
                         r_controller := controller_new (Some target),
                         r_startup := sv_startup saved,
                         r_dirty := (sv_migrated saved \<or> target \<noteq> sv_intended saved),
                         r_load_fault := None, r_fault := NoFault\<rparr>))))
         | (Inl f, kv) \<Rightarrow>
             (Err (), s\<lparr>r_kv := kv, r_load_fault := Some f, r_fault := f,
                r_storage_failures := sat_add (r_storage_failures s)
                  (if f = FaultStorage then 1 else 0),
                r_retry_at := sat_add now 5000\<rparr>))
      else (Ok (), s))"

definition tick_verify ::
  "('k, 'h) runtime_env \<Rightarrow> u64 \<Rightarrow> ('k, 'h) runtime \<Rightarrow> (unit, unit) outcome \<times> ('k, 'h) runtime" where
  "tick_verify E now s =
     (if r_next_verify s \<le> now then
        (let s = s\<lparr>r_next_verify := sat_add now 5000\<rparr>
         in case applied_frame s of
              None \<Rightarrow> (Panic, s)
            | Some applied \<Rightarrow>
                (case on_hardware (hw_verify_frame (env_hw E) applied) s of (x, s) \<Rightarrow>
                   (Ok (), if is_err x then output_failed E now s else s)))
      else (Ok (), s))"

definition tick_apply ::
  "('k, 'h) runtime_env \<Rightarrow> u64 \<Rightarrow> ('k, 'h) runtime \<Rightarrow> (unit, unit) outcome \<times> ('k, 'h) runtime" where
  "tick_apply E now s =
     (case effective s now of
        None \<Rightarrow> (Panic, s)
      | Some frame \<Rightarrow>
          (if applied_frame s \<noteq> Some frame then
             (case reconcile E now s of
                (Panic, s) \<Rightarrow> (Panic, s)
              | (_, s) \<Rightarrow> (Ok (), s))
           else tick_verify E now (drop_finished now s)))"

definition runtime_tick ::
  "('k, 'h) runtime_env \<Rightarrow> u64 \<Rightarrow> ('k, 'h) runtime \<Rightarrow> (unit, unit) outcome \<times> ('k, 'h) runtime" where
  "runtime_tick E now s =
     (let s = s\<lparr>r_now := now\<rparr>
      in if r_fault s = FaultRebooting \<or> now < r_retry_at s then (Ok (), s)
         else and_then (tick_reload E now s) (\<lambda>_ s.
           if r_load_fault s \<noteq> None then (Err (), s)
           else (case save_intent E s of
               (Ok _, s) \<Rightarrow> tick_apply E now s
             | (Err _, s) \<Rightarrow> (Err (), s)
             | (Panic, s) \<Rightarrow> (Panic, s))) id)"

section \<open>Calls and reachable states\<close>

datatype runtime_op =
  OpRequest light_state
| OpRecallScene light_state u64
| OpSetPower bool
| OpSetLevel level bool
| OpSetLevelTransition u8 bool u64
| OpSetLevelRate u8 bool u64
| OpOffWithEffect off_effect
| OpSetTemperature color_temperature
| OpSetTemperatureTransition color_temperature u64
| OpSetTemperatureRate color_temperature u64
| OpStopLevel
| OpStopTemperature
| OpSetStartup "start_up_on_off option"
| OpSetStartupLevel "u8 option"
| OpSetStartupTemperature "color_temperature option"
| OpOff
| OpVerify
| OpRegisters
| OpWatchdogTest
| OpPrepareReboot
| OpTick u64

text \<open>The data of a call; the reports of \<open>registers\<close>, \<open>prepare_reboot\<close> and \<open>tick\<close> are dropped.\<close>

definition no_data :: "('a, 'e) outcome \<times> 's \<Rightarrow> (unit, error_code) outcome \<times> 's" where
  "no_data m = (case m of (Ok _, s) \<Rightarrow> (Ok (), s) | (Err _, s) \<Rightarrow> (Err Failure, s) | (Panic, s) \<Rightarrow> (Panic, s))"

primrec run_op ::
  "('k, 'h) runtime_env \<Rightarrow> runtime_op \<Rightarrow> ('k, 'h) runtime
    \<Rightarrow> (unit, error_code) outcome \<times> ('k, 'h) runtime" where
  "run_op E (OpRequest target) s = request E target s"
| "run_op E (OpRecallScene target ms) s = recall_scene E target ms s"
| "run_op E (OpSetPower on) s = set_power E on s"
| "run_op E (OpSetLevel l w) s = set_level E l w s"
| "run_op E (OpSetLevelTransition l w ms) s = set_level_transition E l w ms s"
| "run_op E (OpSetLevelRate l w ms) s = set_level_rate E l w ms s"
| "run_op E (OpOffWithEffect e) s = off_with_effect E e s"
| "run_op E (OpSetTemperature t) s = set_temperature E t s"
| "run_op E (OpSetTemperatureTransition t ms) s = set_temperature_transition E t ms s"
| "run_op E (OpSetTemperatureRate t ms) s = set_temperature_rate E t ms s"
| "run_op E OpStopLevel s = stop_level_transition E s"
| "run_op E OpStopTemperature s = stop_temperature_transition E s"
| "run_op E (OpSetStartup v) s = set_startup E v s"
| "run_op E (OpSetStartupLevel v) s = set_startup_level E v s"
| "run_op E (OpSetStartupTemperature v) s = set_startup_temperature E v s"
| "run_op E OpOff s = runtime_off E s"
| "run_op E OpVerify s = runtime_verify E s"
| "run_op E OpRegisters s = no_data (runtime_registers E s)"
| "run_op E OpWatchdogTest s = watchdog_test_ready E s"
| "run_op E OpPrepareReboot s = (Ok (), snd (prepare_reboot E s))"
| "run_op E (OpTick now) s = no_data (runtime_tick E now s)"

primrec op_ok :: "runtime_op \<Rightarrow> bool" where
  "op_ok (OpRequest target) = state_ok target"
| "op_ok (OpRecallScene target ms) = state_ok target"
| "op_ok (OpSetPower on) = True"
| "op_ok (OpSetLevel l w) = level_ok l"
| "op_ok (OpSetLevelTransition l w ms) = True"
| "op_ok (OpSetLevelRate l w ms) = True"
| "op_ok (OpOffWithEffect e) = True"
| "op_ok (OpSetTemperature t) = temperature_ok t"
| "op_ok (OpSetTemperatureTransition t ms) = temperature_ok t"
| "op_ok (OpSetTemperatureRate t ms) = temperature_ok t"
| "op_ok OpStopLevel = True"
| "op_ok OpStopTemperature = True"
| "op_ok (OpSetStartup v) = True"
| "op_ok (OpSetStartupLevel v) = True"
| "op_ok (OpSetStartupTemperature v) = (case v of None \<Rightarrow> True | Some t \<Rightarrow> temperature_ok t)"
| "op_ok OpOff = True"
| "op_ok OpVerify = True"
| "op_ok OpRegisters = True"
| "op_ok OpWatchdogTest = True"
| "op_ok OpPrepareReboot = True"
| "op_ok (OpTick now) = True"

inductive reachable :: "('k, 'h) runtime_env \<Rightarrow> ('k, 'h) runtime \<Rightarrow> bool" for E where
  boot: "runtime_load E kv hw = Some s \<Longrightarrow> reachable E s"
| call: "reachable E s \<Longrightarrow> op_ok op \<Longrightarrow> run_op E op s = (r, t) \<Longrightarrow> reachable E t"

end
