(* ===== verification/Runtime_Safety.thy ===== *)
theory Runtime_Safety
  imports Requests
begin

text \<open>
  The light runtime never panics: the well-formedness of its state is kept by every call,
  on every hardware and every store, and under it no \<open>expect\<close> or \<open>unwrap\<close> can fail.
  \<open>safe m\<close> says that a call did not panic and left a well-formed state.
\<close>

section \<open>Well-formed states\<close>

definition level_track_ok :: "level_transition \<Rightarrow> bool" where
  "level_track_ok t \<longleftrightarrow>
     (\<forall>r \<in> {lt_ramp t} \<union> set_option (lt_then t).
        transition_ok r \<and> unat (tr_from r) \<le> 2530 \<and> unat (tr_to r) \<le> 2530) \<and>
     (\<forall>c \<in> set_option (lt_off_temperature t). temperature_ok c)"

definition temperature_track_ok :: "transition \<Rightarrow> bool" where
  "temperature_track_ok t \<longleftrightarrow> transition_ok t \<and>
     temperature_ok (ColorTemperature (tr_from t)) \<and> temperature_ok (ColorTemperature (tr_to t))"

definition runtime_ok :: "('k, 'h) runtime \<Rightarrow> bool" where
  "runtime_ok s \<longleftrightarrow> state_ok (r_target s) \<and> controller_ok (r_controller s) \<and>
     startup_ok (r_startup s) \<and>
     (\<forall>t \<in> set_option (r_level s). level_track_ok t) \<and>
     (\<forall>t \<in> set_option (r_temperature s). temperature_track_ok t)"

lemma temperature_ok_get [simp]: "temperature_ok (ColorTemperature (temperature_get t)) = temperature_ok t"
  by (cases t) simp

lemma brightness_ok_get: "brightness_ok b \<Longrightarrow> unat (brightness_get b) \<le> 2530"
  by (simp add: brightness_ok_def)

lemma brightness_ok_wrap [simp]: "brightness_ok (OutputBrightness (brightness_get b)) = brightness_ok b"
  by (cases b) simp

lemma transition_value_range:
  assumes "transition_ok t"
  shows "unat (transition_value t now) \<le> max (unat (tr_from t)) (unat (tr_to t))"
    "min (unat (tr_from t)) (unat (tr_to t)) \<le> unat (transition_value t now)"
  using value_nat_bounds [OF progress_le, of t now]
  unfolding transition_value_nat [OF assms, of now, symmetric]
  unfolding uint_nat of_nat_max [symmetric] of_nat_min [symmetric] of_nat_le_iff by simp_all

lemma level_value_ok:
  assumes "level_track_ok t"
  shows "brightness_new (level_transition_value t now) = Some (OutputBrightness (level_transition_value t now))"
    "brightness_ok (OutputBrightness (level_transition_value t now))"
proof -
  have r: "unat (transition_value r now) \<le> 2530"
    if "r \<in> {lt_ramp t} \<union> set_option (lt_then t)" for r
  proof -
    have "transition_ok r" "unat (tr_from r) \<le> 2530" "unat (tr_to r) \<le> 2530"
      using that assms unfolding level_track_ok_def by blast+
    then show ?thesis using transition_value_range(1) [of r now] by simp
  qed
  then have "unat (level_transition_value t now) \<le> 2530"
    by (auto simp: level_transition_value_def split: option.splits)
  then show "brightness_new (level_transition_value t now) = Some (OutputBrightness (level_transition_value t now))"
    "brightness_ok (OutputBrightness (level_transition_value t now))"
    by (simp_all add: brightness_ok_def)
qed

lemma temperature_value_ok:
  assumes "temperature_track_ok t"
  shows "temperature_ok (ColorTemperature (transition_value t now))"
  using assms transition_value_range [of t now]
  by (auto simp: temperature_track_ok_def temperature_ok_def max_def min_def split: if_splits)

lemma effective_Some:
  assumes "runtime_ok s"
  obtains frame where "effective s now = Some frame" "frame_ok frame"
proof -
  have t: "state_ok (r_target s)" using assms by (simp add: runtime_ok_def)
  obtain st b where l: "effective_level s now = Some (st, b)" "state_ok st" "brightness_ok b"
  proof (cases "r_level s")
    case None
    have "frame_ok (from_state (r_target s))" using t by simp
    with None that t show ?thesis by (simp add: effective_level_def frame_ok_def Let_def)
  next
    case (Some track)
    then have ok: "level_track_ok track" using assms by (simp add: runtime_ok_def)
    have "frame_ok (from_state (r_target s))" using t by simp
    moreover have "\<And>c. lt_off_temperature track = Some c \<Longrightarrow> temperature_ok c"
      using ok by (simp add: level_track_ok_def)
    ultimately show ?thesis
      using that Some t level_value_ok [OF ok, of now]
      by (cases "level_transition_remaining track now = 0"; cases "lt_off_temperature track")
        (simp_all add: effective_level_def state_ok_def frame_ok_def Let_def)
  qed
  show thesis
  proof (cases "r_temperature s")
    case None
    with l that show ?thesis by (simp add: effective_def frame_ok_def)
  next
    case (Some track)
    then have "temperature_track_ok track" using assms by (simp add: runtime_ok_def)
    then have v: "temperature_ok (ColorTemperature (transition_value track now))"
      by (rule temperature_value_ok)
    then have new: "temperature_new (transition_value track now) =
        Some (ColorTemperature (transition_value track now))" by simp
    show ?thesis using l that v Some by (simp add: effective_def new frame_ok_def state_ok_def)
  qed
qed

section \<open>Calls that keep them\<close>

definition safe :: "('a, 'e) outcome \<times> ('k, 'h) runtime \<Rightarrow> bool" where
  "safe m \<longleftrightarrow> fst m \<noteq> Panic \<and> runtime_ok (snd m)"

lemma safe_simps [simp]:
  "safe (Ok a, s) = runtime_ok s" "safe (Err e, s) = runtime_ok s" "\<not> safe (Panic, s)"
  by (simp_all add: safe_def)

lemma safe_and_then:
  assumes "safe m" and "\<And>a s. runtime_ok s \<Longrightarrow> m = (Ok a, s) \<Longrightarrow> safe (k a s)"
  shows "safe (and_then m k id)"
  using assms by (cases m) (auto simp: and_then_def safe_def split: outcome.splits)

lemma runtime_ok_updates [simp]:
  "runtime_ok (s\<lparr>r_kv := kv\<rparr>) = runtime_ok s" "runtime_ok (s\<lparr>r_now := n\<rparr>) = runtime_ok s"
  "runtime_ok (s\<lparr>r_hardware := h\<rparr>) = runtime_ok s" "runtime_ok (s\<lparr>r_fault := f\<rparr>) = runtime_ok s"
  "runtime_ok (s\<lparr>r_dirty := d\<rparr>) = runtime_ok s"
  "runtime_ok (s\<lparr>r_load_fault := lf\<rparr>) = runtime_ok s"
  "runtime_ok (s\<lparr>r_off_after_load := d\<rparr>) = runtime_ok s"
  "runtime_ok (s\<lparr>r_next_verify := n\<rparr>) = runtime_ok s"
  "runtime_ok (s\<lparr>r_retry_at := n\<rparr>) = runtime_ok s"
  "runtime_ok (s\<lparr>r_failures := c\<rparr>) = runtime_ok s"
  "runtime_ok (s\<lparr>r_storage_failures := c\<rparr>) = runtime_ok s"
  "runtime_ok (s\<lparr>r_recoveries := c\<rparr>) = runtime_ok s"
  "runtime_ok (s\<lparr>r_revision := c\<rparr>) = runtime_ok s"
  by (simp_all add: runtime_ok_def)

lemma runtime_ok_target: "runtime_ok s \<Longrightarrow> state_ok t \<Longrightarrow> runtime_ok (s\<lparr>r_target := t\<rparr>)"
  by (simp add: runtime_ok_def)

lemma runtime_ok_startup: "runtime_ok s \<Longrightarrow> startup_ok su \<Longrightarrow> runtime_ok (s\<lparr>r_startup := su\<rparr>)"
  by (simp add: runtime_ok_def)

lemma runtime_ok_controller:
  "runtime_ok s \<Longrightarrow> controller_ok c \<Longrightarrow> runtime_ok (s\<lparr>r_controller := c\<rparr>)"
  by (simp add: runtime_ok_def)

lemma runtime_ok_level:
  "runtime_ok s \<Longrightarrow> (\<And>t. l = Some t \<Longrightarrow> level_track_ok t) \<Longrightarrow> runtime_ok (s\<lparr>r_level := l\<rparr>)"
  by (simp add: runtime_ok_def)

lemma runtime_ok_temperature:
  "runtime_ok s \<Longrightarrow> (\<And>t. l = Some t \<Longrightarrow> temperature_track_ok t) \<Longrightarrow>
     runtime_ok (s\<lparr>r_temperature := l\<rparr>)"
  by (simp add: runtime_ok_def)

lemmas runtime_ok_intros = runtime_ok_target runtime_ok_startup runtime_ok_controller
  runtime_ok_level runtime_ok_temperature

lemma bump_ok [simp]: "runtime_ok (bump s) = runtime_ok s"
  by (simp add: bump_def)

lemma invalidate_ok [simp]: "runtime_ok s \<Longrightarrow> runtime_ok (invalidate s)"
  by (simp add: invalidate_def runtime_ok_def controller_ok_def invalidate_applied_def)

lemma on_hardware_ok: "on_hardware f s = (x, t) \<Longrightarrow> runtime_ok t = runtime_ok s"
  by (auto simp: on_hardware_def split: prod.splits)

lemma shutdown_ok: "shutdown E s = (x, t) \<Longrightarrow> runtime_ok t = runtime_ok s"
  by (auto simp: shutdown_def dest: on_hardware_ok split: prod.splits)

lemma output_failed_ok [simp]: "runtime_ok s \<Longrightarrow> runtime_ok (output_failed E now s)"
  by (auto simp: output_failed_def Let_def dest: shutdown_ok split: prod.splits)

lemma store_record_ok: "store_record E t su s = (x, s') \<Longrightarrow> runtime_ok s' = runtime_ok s"
  by (auto simp: store_record_def split: prod.splits)

lemma save_intent_safe [simp]: "runtime_ok s \<Longrightarrow> safe (save_intent E s)"
  by (auto simp: save_intent_def Let_def dest!: store_record_ok shutdown_ok
      split: prod.splits sum.splits)

lemma drop_finished_ok [simp]: "runtime_ok s \<Longrightarrow> runtime_ok (drop_finished now s)"
  by (auto simp: drop_finished_def Let_def runtime_ok_def split: option.splits)

lemma level_track_ramp:
  assumes "unat a \<le> 2530" "unat b \<le> 2530" "unat d \<le> 60000000" "\<And>t. ot = Some t \<Longrightarrow> temperature_ok t"
  shows "level_track_ok \<lparr>lt_ramp = ramp a b start d c, lt_then = None, lt_off_temperature = ot\<rparr>"
  using assms by (simp add: level_track_ok_def ramp_def transition_ok_def)

lemma restore_from_zero_ok [simp]: "runtime_ok s \<Longrightarrow> runtime_ok (restore_from_zero now s)"
  using brightness_ok_get [OF from_level_ok, of "ls_level (r_target s)"]
  by (simp add: restore_from_zero_def runtime_ok_def level_track_ok_def transition_ok_def
      DEFAULT_TRANSITION_MS_def state_ok_def)

lemma reconcile_to_safe:
  assumes "runtime_ok s" "frame_ok frame"
  shows "safe (reconcile_to E now frame s)"
proof -
  define c where "c = snd (controller_command (SetPower (ls_on (of_state frame)))
    (snd (controller_command (SetTemperature (ls_temperature (of_state frame)))
      (snd (controller_command (SetLevel (ls_level (of_state frame))) (r_controller s))))))"
  have c: "controller_ok c"
    using assms unfolding c_def
    by (intro controller_command_ok) (simp_all add: runtime_ok_def command_ok_def frame_ok_def state_ok_def)
  obtain r c' h where eq:
    "reconcile_frame (hw_apply_frame (env_hw E)) frame c (r_hardware s) = (r, c', h)"
    by (cases "reconcile_frame (hw_apply_frame (env_hw E)) frame c (r_hardware s)")
  have "c' = c\<lparr>ctl_applied := Some frame\<rparr> \<or> c' = c\<lparr>ctl_applied := None\<rparr>"
    using eq by (cases r) (auto dest: reconcile_frame_Inr reconcile_frame_Inl)
  then have "controller_ok c'"
    using c assms(2) by (auto simp: controller_ok_def)
  then have "runtime_ok (s\<lparr>r_controller := c', r_hardware := h\<rparr>)"
    using assms(1) by (simp add: runtime_ok_def)
  then show ?thesis
    unfolding reconcile_to_def Let_def c_def [symmetric] eq by simp
qed

lemma reconcile_safe:
  assumes "runtime_ok s"
  shows "safe (reconcile E now s)"
  unfolding reconcile_def
proof (rule safe_and_then)
  show "safe (if applied_frame s = None then let (stopped, s) = shutdown E s
      in if stopped then (Ok (), restore_from_zero now s) else (Err Failure, output_failed E now s)
      else (Ok (), s))"
    using assms by (auto dest: shutdown_ok split: prod.splits)
next
  fix t :: "('a, 'b) runtime"
  assume "runtime_ok t"
  then obtain f where "effective t now = Some f" "frame_ok f" by (rule effective_Some)
  with \<open>runtime_ok t\<close> show "safe (case effective t now of None \<Rightarrow> (Panic, t)
      | Some frame \<Rightarrow> reconcile_to E now frame t)"
    by (simp add: reconcile_to_safe)
qed

lemma commit_safe:
  assumes "runtime_ok s" "state_ok target"
  shows "safe (commit E target s)"
  unfolding commit_def Let_def
  using assms by (intro safe_and_then save_intent_safe reconcile_safe) (simp_all add: runtime_ok_target)

lemma safe_writable:
  assumes "runtime_ok s" "safe (k () s)"
  shows "safe (and_then (writable s, s) k id)"
  using assms by (auto simp: writable_def)

section \<open>Every call\<close>

lemma current_frame_ok: "runtime_ok s \<Longrightarrow> frame_ok (current_frame s)"
  by (auto simp: current_frame_def applied_frame_def runtime_ok_def controller_ok_def state_ok_def
      intro!: from_state_ok split: option.splits)

lemma current_frame_parts:
  assumes "runtime_ok s"
  shows "unat (brightness_get (of_brightness (current_frame s))) \<le> 2530"
    "temperature_ok (ls_temperature (of_state (current_frame s)))"
    "state_ok (of_state (current_frame s))"
  using current_frame_ok [OF assms] by (simp_all add: frame_ok_def brightness_ok_def state_ok_def)

lemma from_state_brightness: "state_ok s \<Longrightarrow> unat (brightness_get (of_brightness (from_state s))) \<le> 2530"
  using from_state_ok [of s] by (simp add: frame_ok_def brightness_ok_def)

lemma temperature_track_ramp:
  assumes "temperature_ok a" "temperature_ok b" "unat d \<le> 60000000"
  shows "temperature_track_ok (ramp (temperature_get a) (temperature_get b) start d c)"
  using assms by (simp add: temperature_track_ok_def ramp_def transition_ok_def)

lemma default_duration: "unat DEFAULT_TRANSITION_MS \<le> 60000000"
  by (simp add: DEFAULT_TRANSITION_MS_def)

lemma duration_le: "\<not> MAX_TRANSITION_MS < d \<Longrightarrow> unat d \<le> 60000000"
  by (simp add: MAX_TRANSITION_MS_def word_less_nat_alt)

lemma duration_default_le: "\<not> MAX_TRANSITION_MS < d \<Longrightarrow> unat (duration d) \<le> 60000000"
  using duration_le [of d] default_duration by (simp add: duration_def)

lemma zero_brightness: "unat (brightness_get brightness_ZERO) \<le> 2530"
  by (simp add: brightness_ZERO_def)

lemma target_ok: "runtime_ok s \<Longrightarrow> state_ok (r_target s)"
  by (simp add: runtime_ok_def)

lemmas track_intros = commit_safe runtime_ok_level runtime_ok_temperature level_track_ramp
  temperature_track_ramp current_frame_parts from_state_brightness default_duration
  duration_default_le zero_brightness target_ok

lemma max_level_new: "l \<noteq> 255 \<Longrightarrow> level_new (max l 1) = Some (Level (max l 1)) \<and> level_ok (Level (max l 1))"
  for l :: u8
proof -
  assume "l \<noteq> 255"
  then have "unat l \<noteq> 255" by (simp add: word_unat_eq_iff)
  moreover have "unat l < 256" using unat_bound [of l] by simp
  ultimately show ?thesis by (simp add: level_ok_def unat_max_word)
qed

lemma recall_scene_safe:
  assumes "runtime_ok s" "state_ok target"
  shows "safe (recall_scene E target ms s)"
proof -
  have t: "temperature_ok (ls_temperature target)" using assms(2) by (simp add: state_ok_def)
  show ?thesis
    using assms t
    by (auto simp: recall_scene_def Let_def intro!: safe_writable track_intros split: if_splits)
qed

lemma set_power_safe: "runtime_ok s \<Longrightarrow> safe (set_power E on s)"
proof -
  assume s: "runtime_ok s"
  then have t: "state_ok ((r_target s)\<lparr>ls_on := on\<rparr>)" "temperature_ok (ls_temperature (r_target s))"
    by (auto simp: runtime_ok_def state_ok_def)
  show ?thesis
    using s t
    by (auto simp: set_power_def Let_def intro!: safe_writable track_intros split: if_splits)
qed

lemma runtime_level_transition_safe:
  assumes s: "runtime_ok s"
  shows "safe (runtime_level_transition E l w ms c s)"
proof (cases "l = 255 \<or> MAX_TRANSITION_MS < ms")
  case True
  with s show ?thesis by (auto simp: runtime_level_transition_def)
next
  case False
  then have l: "level_new (max l 1) = Some (Level (max l 1))" "level_ok (Level (max l 1))"
    and ms: "unat ms \<le> 60000000"
    using max_level_new [of l] duration_le [of ms] by auto
  have t: "state_ok ((r_target s)\<lparr>ls_level := Level (max l 1), ls_on := b\<rparr>)"
    "temperature_ok (ls_temperature (r_target s))" for b
    using s l(2) by (auto simp: runtime_ok_def state_ok_def)
  show ?thesis
    using s ms t False unfolding runtime_level_transition_def l option.case
    by (auto simp: Let_def intro!: safe_writable track_intros split: if_splits)
qed

lemma off_ramp_range:
  assumes "off_ramp effect a = (m, f, l)" "unat a \<le> 2530"
  shows "unat m \<le> 2530" "unat f \<le> 60000000" "unat l \<le> 60000000"
  using assms by (auto simp: off_ramp_def unat_min_word brightness_MAX_def unat_div
      split: off_effect.splits)

lemma off_with_effect_safe: "runtime_ok s \<Longrightarrow> safe (off_with_effect E effect s)"
proof -
  assume s: "runtime_ok s"
  define a where "a = brightness_get (of_brightness (current_frame s))"
  obtain m f l where r: "off_ramp effect a = (m, f, l)" by (cases "off_ramp effect a")
  have a: "unat a \<le> 2530" using current_frame_parts [OF s] by (simp add: a_def)
  note range = off_ramp_range [OF r a]
  have t: "state_ok ((r_target s)\<lparr>ls_on := False\<rparr>)" using s by (simp add: runtime_ok_def state_ok_def)
  have lt: "level_track_ok \<lparr>lt_ramp = ramp a m n f Smooth,
      lt_then = (if l \<noteq> 0 then Some (ramp m 0 n' l Smooth) else None),
      lt_off_temperature = Some (ls_temperature (of_state (current_frame s)))\<rparr>" for n n'
    using range a current_frame_parts [OF s]
    by (simp add: level_track_ok_def ramp_def transition_ok_def)
  show ?thesis
    unfolding off_with_effect_def
  proof (rule safe_writable [OF s])
    show "safe (let current = current_frame s; start = r_now s;
        fr = brightness_get (of_brightness current); (middle, first_ms, last_ms) = off_ramp effect fr;
        s = s\<lparr>r_level := (if of_brightness current \<noteq> brightness_ZERO \<and> first_ms \<noteq> 0 then Some
             \<lparr>lt_ramp = ramp fr middle start first_ms Smooth,
              lt_then = (if last_ms \<noteq> 0
                then Some (ramp middle 0 (start + first_ms) last_ms Smooth) else None),
              lt_off_temperature = Some (ls_temperature (of_state current))\<rparr>
             else None), r_temperature := None\<rparr>
        in commit E ((r_target s)\<lparr>ls_on := False\<rparr>) s)"
      unfolding Let_def a_def [symmetric] r prod.case
      using s t lt by (intro commit_safe runtime_ok_level runtime_ok_temperature)
        (auto split: if_splits)
  qed
qed

lemma runtime_temperature_transition_safe:
  assumes s: "runtime_ok s" and c: "temperature_ok t"
  shows "safe (runtime_temperature_transition E t ms c s)"
proof (cases "MAX_TRANSITION_MS < ms")
  case False
  then have ms: "unat ms \<le> 60000000" by (rule duration_le)
  have t: "state_ok ((r_target s)\<lparr>ls_temperature := t\<rparr>)"
    using s c by (auto simp: runtime_ok_def state_ok_def)
  show ?thesis
    using s c ms t False
    by (auto simp: runtime_temperature_transition_def Let_def intro!: safe_writable track_intros
        split: if_splits)
qed (simp add: runtime_temperature_transition_def s)

lemma stop_level_safe: "runtime_ok s \<Longrightarrow> safe (stop_level_transition E s)"
proof -
  assume s: "runtime_ok s"
  have f: "frame_ok f" if "applied_frame s = Some f" for f
    using s that by (simp add: runtime_ok_def controller_ok_def applied_frame_def)
  have t: "temperature_ok t" if "r_level s = Some track" "lt_off_temperature track = Some t" for track t
    using s that by (simp add: runtime_ok_def level_track_ok_def)
  have "temperature_ok (ls_temperature (r_target s))"
    using s by (simp add: runtime_ok_def state_ok_def)
  with f t s show ?thesis
    by (auto simp: stop_level_transition_def Let_def frame_ok_def state_ok_def
        intro!: safe_writable commit_safe runtime_ok_level split: option.splits)
qed

lemma stop_temperature_safe: "runtime_ok s \<Longrightarrow> safe (stop_temperature_transition E s)"
proof -
  assume s: "runtime_ok s"
  have "state_ok a" if "applied_state (r_controller s) = Some a" for a
    using s that by (auto simp: runtime_ok_def controller_ok_def applied_state_def frame_ok_def
        split: option.splits)
  then show ?thesis
    using s target_ok [OF s]
    by (auto simp: stop_temperature_transition_def Let_def state_ok_def
        intro!: safe_writable commit_safe runtime_ok_temperature split: option.splits)
qed

lemma save_startup_safe:
  assumes "runtime_ok s" "startup_ok su"
  shows "safe (save_startup E su s)"
  unfolding save_startup_def
  using assms by (intro safe_writable)
    (auto dest!: store_record_ok simp: runtime_ok_startup split: prod.splits sum.splits)

lemma startup_of: "runtime_ok s \<Longrightarrow> startup_ok (r_startup s)"
  by (simp add: runtime_ok_def)

lemma set_startup_safe: "runtime_ok s \<Longrightarrow> safe (set_startup E v s)"
  using startup_of [of s]
  by (auto simp: set_startup_def startup_ok_def intro!: save_startup_safe
      split: option.splits start_up_on_off.splits)

lemma set_startup_level_safe: "runtime_ok s \<Longrightarrow> safe (set_startup_level E v s)"
  using startup_of [of s]
  by (auto simp: set_startup_level_def startup_ok_def intro!: save_startup_safe)

lemma set_startup_temperature_safe:
  "runtime_ok s \<Longrightarrow> (\<And>t. v = Some t \<Longrightarrow> temperature_ok t) \<Longrightarrow> safe (set_startup_temperature E v s)"
  using startup_of [of s]
  by (auto simp: set_startup_temperature_def startup_ok_def intro!: save_startup_safe split: option.splits)

lemma runtime_off_safe:
  assumes s: "runtime_ok s"
  shows "safe (runtime_off E s)"
proof -
  obtain b t where sh: "shutdown E s = (b, t)" by (cases "shutdown E s")
  then have t: "runtime_ok t" using s shutdown_ok by blast
  define u where "u = (invalidate t)\<lparr>r_level := None, r_temperature := None\<rparr>"
  define v where "v = u\<lparr>r_dirty := (r_dirty u \<or> ls_on (r_target u)),
    r_target := (r_target u)\<lparr>ls_on := False\<rparr>\<rparr>"
  have u: "runtime_ok u" unfolding u_def using t by (intro runtime_ok_level runtime_ok_temperature) simp_all
  then have "state_ok ((r_target u)\<lparr>ls_on := False\<rparr>)" by (simp add: runtime_ok_def state_ok_def)
  then have v: "runtime_ok v" unfolding v_def using u by (intro runtime_ok_target) simp_all
  show ?thesis
    unfolding runtime_off_def sh Let_def prod.case u_def [symmetric] v_def [symmetric]
    using v by (auto intro!: safe_and_then reconcile_safe)
qed

lemma runtime_verify_safe: "runtime_ok s \<Longrightarrow> safe (runtime_verify E s)"
  by (auto simp: runtime_verify_def dest: on_hardware_ok split: option.splits prod.splits)

lemma prepare_reboot_safe: "runtime_ok s \<Longrightarrow> runtime_ok (snd (prepare_reboot E s))"
  by (auto simp: prepare_reboot_def Let_def dest: shutdown_ok split: prod.splits)

lemma runtime_registers_safe: "runtime_ok s \<Longrightarrow> safe (runtime_registers E s)"
  by (auto simp: runtime_registers_def dest: on_hardware_ok split: prod.splits sum.splits)

lemma load_record_ok:
  "load_record E kv = (Inr saved, kv') \<Longrightarrow> state_ok (sv_intended saved) \<and> startup_ok (sv_startup saved)"
  by (auto simp: load_record_def saved_default_def split: prod.splits sum.splits option.splits
      dest: decode_record_ok)

lemma tick_reload_safe:
  assumes s: "runtime_ok s"
  shows "safe (tick_reload E now s)"
proof (cases "r_load_fault s = Some FaultStorage")
  case True
  obtain x kv where l: "load_record E (r_kv s) = (x, kv)" by (cases "load_record E (r_kv s)")
  show ?thesis
  proof (cases x)
    case (Inl f)
    with l s True show ?thesis by (simp add: tick_reload_def)
  next
    case (Inr saved)
    have ok: "state_ok (sv_intended saved)" "startup_ok (sv_startup saved)"
      using load_record_ok [OF l [unfolded Inr]] by simp_all
    obtain target where t: "startup_intent (sv_intended saved) (sv_startup saved) = Some target"
      "state_ok target"
      using startup_intent_Some [OF ok(2,1)] by blast
    then have t': "state_ok (if r_off_after_load s then target\<lparr>ls_on := False\<rparr> else target)"
      by (simp add: state_ok_def)
    then have "controller_ok (controller_new (Some (if r_off_after_load s then target\<lparr>ls_on := False\<rparr> else target)))"
      by (simp add: controller_ok_def)
    with t' s ok l True Inr t(1) show ?thesis
      by (simp add: tick_reload_def Let_def runtime_ok_def bump_def)
  qed
qed (simp add: tick_reload_def s)

lemma tick_apply_safe:
  assumes s: "runtime_ok s"
  shows "safe (tick_apply E now s)"
proof -
  obtain f where f: "effective s now = Some f" using s by (rule effective_Some)
  have v: "safe (tick_verify E now t)" if "runtime_ok t" "applied_frame t \<noteq> None" for t
    using that by (auto simp: tick_verify_def Let_def applied_frame_def dest: on_hardware_ok
        split: prod.splits option.splits)
  have a: "applied_frame (drop_finished now s) = applied_frame s"
    by (auto simp: drop_finished_def Let_def applied_frame_def split: option.splits)
  show ?thesis
    using reconcile_safe [OF s, of E now] s v [of "drop_finished now s"] a f
    by (auto simp: tick_apply_def safe_def split: prod.splits outcome.splits)
qed

lemma runtime_tick_safe:
  assumes s: "runtime_ok s"
  shows "safe (runtime_tick E now s)"
proof -
  have "safe (case save_intent E t of (Ok _, s) \<Rightarrow> tick_apply E now s
      | (Err _, s) \<Rightarrow> (Err (), s) | (Panic, s) \<Rightarrow> (Panic, s))" if "runtime_ok t" for t
    using save_intent_safe [OF that, of E] tick_apply_safe [of _ E now]
    by (auto simp: safe_def split: prod.splits outcome.splits)
  then show ?thesis
    using s tick_reload_safe [of "s\<lparr>r_now := now\<rparr>" E now]
    by (auto simp: runtime_tick_def Let_def intro!: safe_and_then)
qed

lemma no_data_safe: "safe m \<Longrightarrow> safe (no_data m)"
  by (cases m) (auto simp: no_data_def safe_def split: outcome.splits)

lemma run_op_safe:
  assumes "runtime_ok s" "op_ok op"
  shows "safe (run_op E op s)"
  using assms
  by (cases op) (auto simp: request_def set_level_def set_level_transition_def set_level_rate_def
      set_temperature_def set_temperature_transition_def set_temperature_rate_def
      watchdog_test_ready_def
      intro!: recall_scene_safe set_power_safe runtime_level_transition_safe off_with_effect_safe
        runtime_temperature_transition_safe stop_level_safe stop_temperature_safe set_startup_safe
        set_startup_level_safe set_startup_temperature_safe runtime_off_safe runtime_verify_safe
        runtime_registers_safe prepare_reboot_safe runtime_tick_safe no_data_safe
      split: option.splits)

lemma runtime_load_ok:
  "\<exists>s. runtime_load E kv hw = Some s \<and> runtime_ok s"
proof -
  obtain x kv' where l: "load_record E kv = (x, kv')" by (cases "load_record E kv")
  define saved where "saved = (case x of Inl _ \<Rightarrow> saved_default | Inr saved \<Rightarrow> saved)"
  have ok: "state_ok (sv_intended saved)" "startup_ok (sv_startup saved)"
    using load_record_ok [of E kv] l by (auto simp: saved_def saved_default_def split: sum.splits)
  obtain target where "startup_intent (sv_intended saved) (sv_startup saved) = Some target" "state_ok target"
    using startup_intent_Some [OF ok(2,1)] by blast
  with ok show ?thesis
    unfolding runtime_load_def Let_def l prod.case saved_def [symmetric]
    by (cases "hw_shutdown (env_hw E) hw") (simp add: runtime_ok_def controller_ok_def)
qed

lemma reachable_ok: "reachable E s \<Longrightarrow> runtime_ok s"
proof (induction rule: reachable.induct)
  case (boot kv hw s)
  then show ?case using runtime_load_ok [of E kv hw] by simp
next
  case (call s op r t)
  then show ?case using run_op_safe [of s op E] by (simp add: safe_def)
qed

end
