(* ===== verification/Runtime_Sound.thy ===== *)
theory Runtime_Sound
  imports Runtime_Safety
begin

text \<open>
  The promises of the light runtime on a platform, that is on a hardware that shows what it
  acknowledged and a store with atomic writes: an acknowledged frame is on the hardware and
  stands only while there is no fault, an unreadable record or unsaved intent; and intent
  that is not marked dirty is in the store. Both are invariants of every call.
\<close>

section \<open>What every call keeps\<close>

definition record_of :: "light_state \<Rightarrow> u8 list option \<Rightarrow> bool" where
  "record_of target b = (case b of
     None \<Rightarrow> target = light_default
   | Some bytes \<Rightarrow> (\<exists>su. startup_ok su \<and> bytes = encode_record target su) \<or>
       (\<exists>saved. decode_record bytes = Inr saved \<and> sv_intended saved = target))"

definition durable ::
  "('k \<Rightarrow> u16 \<Rightarrow> u8 list option) \<Rightarrow> ('k, 'h) runtime_env \<Rightarrow> ('k, 'h) runtime \<Rightarrow> bool" where
  "durable recs E s \<longleftrightarrow> startup_ok (r_startup s) \<and>
     r_load_fault s \<in> {None, Some FaultStorage, Some FaultInvalidRecord} \<and>
     (\<not> r_dirty s \<and> r_load_fault s = None \<longrightarrow> record_of (r_target s) (recs (r_kv s) (INTENT_KEY E)))"

definition truthful :: "('h \<Rightarrow> output_frame \<Rightarrow> bool) \<Rightarrow> ('k, 'h) runtime \<Rightarrow> bool" where
  "truthful showing s \<longleftrightarrow> (\<forall>f. applied_frame s = Some f \<longrightarrow>
     showing (r_hardware s) f \<and> r_fault s = NoFault \<and> r_load_fault s = None)"

definition saved_first :: "('k, 'h) runtime \<Rightarrow> bool" where
  "saved_first s \<longleftrightarrow> (applied_frame s \<noteq> None \<longrightarrow> \<not> r_dirty s)"

lemma applied_frame_updates [simp]:
  "applied_frame (s\<lparr>r_kv := kv\<rparr>) = applied_frame s"
  "applied_frame (s\<lparr>r_now := n\<rparr>) = applied_frame s"
  "applied_frame (s\<lparr>r_target := t\<rparr>) = applied_frame s"
  "applied_frame (s\<lparr>r_hardware := h\<rparr>) = applied_frame s"
  "applied_frame (s\<lparr>r_level := l\<rparr>) = applied_frame s"
  "applied_frame (s\<lparr>r_temperature := c\<rparr>) = applied_frame s"
  "applied_frame (s\<lparr>r_fault := f\<rparr>) = applied_frame s"
  "applied_frame (s\<lparr>r_dirty := d\<rparr>) = applied_frame s"
  "applied_frame (s\<lparr>r_startup := su\<rparr>) = applied_frame s"
  "applied_frame (s\<lparr>r_load_fault := lf\<rparr>) = applied_frame s"
  "applied_frame (s\<lparr>r_off_after_load := d\<rparr>) = applied_frame s"
  "applied_frame (s\<lparr>r_next_verify := n\<rparr>) = applied_frame s"
  "applied_frame (s\<lparr>r_retry_at := n\<rparr>) = applied_frame s"
  "applied_frame (s\<lparr>r_failures := m\<rparr>) = applied_frame s"
  "applied_frame (s\<lparr>r_storage_failures := m\<rparr>) = applied_frame s"
  "applied_frame (s\<lparr>r_recoveries := m\<rparr>) = applied_frame s"
  "applied_frame (s\<lparr>r_revision := m\<rparr>) = applied_frame s"
  "applied_frame (s\<lparr>r_controller := c'\<rparr>) = ctl_applied c'"
  "applied_frame (bump s) = applied_frame s"
  "applied_frame (invalidate s) = None"
  by (simp_all add: applied_frame_def bump_def invalidate_def invalidate_applied_def)

text \<open>The part of the state that the output side never touches.\<close>

definition record_view ::
  "('k, 'h) runtime \<Rightarrow> 'k \<times> light_state \<times> bool \<times> startup \<times> fault option \<times> u64" where
  "record_view s = (r_kv s, r_target s, r_dirty s, r_startup s, r_load_fault s, r_now s)"

lemma record_view_updates [simp]:
  "record_view (s\<lparr>r_hardware := h\<rparr>) = record_view s"
  "record_view (s\<lparr>r_controller := c\<rparr>) = record_view s"
  "record_view (s\<lparr>r_level := l\<rparr>) = record_view s"
  "record_view (s\<lparr>r_temperature := t\<rparr>) = record_view s"
  "record_view (s\<lparr>r_fault := f\<rparr>) = record_view s"
  "record_view (s\<lparr>r_next_verify := n\<rparr>) = record_view s"
  "record_view (s\<lparr>r_retry_at := n\<rparr>) = record_view s"
  "record_view (s\<lparr>r_failures := m\<rparr>) = record_view s"
  "record_view (s\<lparr>r_storage_failures := m\<rparr>) = record_view s"
  "record_view (s\<lparr>r_recoveries := m\<rparr>) = record_view s"
  "record_view (s\<lparr>r_revision := m\<rparr>) = record_view s"
  "record_view (bump s) = record_view s"
  "record_view (invalidate s) = record_view s"
  by (simp_all add: record_view_def bump_def invalidate_def)

lemma record_viewD:
  assumes "record_view t = record_view s"
  shows "r_kv t = r_kv s" "r_target t = r_target s" "r_dirty t = r_dirty s"
    "r_startup t = r_startup s" "r_load_fault t = r_load_fault s" "r_now t = r_now s"
  using assms by (simp_all add: record_view_def)

lemma durable_view: "record_view t = record_view s \<Longrightarrow> durable recs E t = durable recs E s"
  by (simp add: durable_def record_view_def)

lemma shutdown_simp:
  "shutdown E s = (\<not> is_err (fst (hw_shutdown (env_hw E) (r_hardware s))),
     s\<lparr>r_hardware := snd (hw_shutdown (env_hw E) (r_hardware s))\<rparr>)"
  by (simp add: shutdown_def on_hardware_def split: prod.split)

lemma output_failed_simps [simp]:
  "applied_frame (output_failed E now s) = None"
  "record_view (output_failed E now s) = record_view s"
  "r_fault (output_failed E now s) = FaultOutput"
  by (simp_all add: output_failed_def Let_def shutdown_simp)
    (simp add: bump_def)

lemma drop_finished_simps [simp]:
  "applied_frame (drop_finished now s) = applied_frame s"
  "record_view (drop_finished now s) = record_view s"
  "r_hardware (drop_finished now s) = r_hardware s"
  "r_fault (drop_finished now s) = r_fault s"
  by (simp_all add: drop_finished_def Let_def split: option.split)

lemma restore_from_zero_simps [simp]:
  "applied_frame (restore_from_zero now s) = applied_frame s"
  "record_view (restore_from_zero now s) = record_view s"
  "r_hardware (restore_from_zero now s) = r_hardware s"
  by (simp_all add: restore_from_zero_def)

lemma unknown_truthful [simp]: "applied_frame s = None \<Longrightarrow> truthful showing s"
  "applied_frame s = None \<Longrightarrow> saved_first s"
  by (simp_all add: truthful_def saved_first_def)

lemma reconcile_to_cases:
  obtains (failed) "reconcile_to E now frame s = (Err Failure, snd (reconcile_to E now frame s))"
      "applied_frame (snd (reconcile_to E now frame s)) = None"
      "r_fault (snd (reconcile_to E now frame s)) = FaultOutput"
      "record_view (snd (reconcile_to E now frame s)) = record_view s"
  | (applied) b h t where "reconcile_to E now frame s = (Ok (), t)"
      "applied_frame t = Some frame" "r_hardware t = h" "r_fault t = NoFault"
      "record_view t = record_view s"
      "applied_frame s = Some frame \<and> h = r_hardware s \<or>
       hw_apply_frame (env_hw E) frame (r_hardware s) = (Inr b, h)"
proof -
  define c where "c = snd (controller_command (SetPower (ls_on (of_state frame)))
    (snd (controller_command (SetTemperature (ls_temperature (of_state frame)))
      (snd (controller_command (SetLevel (ls_level (of_state frame))) (r_controller s))))))"
  have c: "ctl_applied c = applied_frame s" by (simp add: c_def applied_frame_def)
  obtain r c' h where eq:
    "reconcile_frame (hw_apply_frame (env_hw E)) frame c (r_hardware s) = (r, c', h)"
    by (cases "reconcile_frame (hw_apply_frame (env_hw E)) frame c (r_hardware s)")
  note unf = reconcile_to_def Let_def c_def [symmetric] eq prod.case
  show thesis
  proof (cases r)
    case (Inl e)
    then show thesis by (intro failed) (simp_all add: unf)
  next
    case (Inr b)
    then have c': "c' = c\<lparr>ctl_applied := Some frame\<rparr>" using eq by (auto dest: reconcile_frame_Inr)
    have "applied_frame s = Some frame \<and> h = r_hardware s \<or>
        hw_apply_frame (env_hw E) frame (r_hardware s) = (Inr (), h)"
      using eq Inr c by (cases b) (auto dest: reconcile_frame_unchanged reconcile_frame_applied)
    then show thesis
      using Inr c'
      by (intro applied [where b = "()" and h = h and t = "snd (reconcile_to E now frame s)"])
        (simp_all add: unf, simp_all add: bump_def)
  qed
qed

lemma reconcile_to_view [simp]: "record_view (snd (reconcile_to E now frame s)) = record_view s"
  by (cases rule: reconcile_to_cases [of E now frame s]) simp_all

lemma reconcile_view [simp]: "record_view (snd (reconcile E now s)) = record_view s"
  by (auto simp: reconcile_def Let_def shutdown_simp and_then_def split: option.splits)

section \<open>What a call asks of the light\<close>

text \<open>
  The light as its clients see it: one durable target. \<open>requested\<close> is what a call asks of
  that target, and \<open>stored_intent\<close> the target that a boot would read from the store.
\<close>

primrec requested :: "runtime_op \<Rightarrow> light_state \<Rightarrow> light_state option" where
  "requested (OpRequest target) s = Some target"
| "requested (OpRecallScene target ms) s = Some target"
| "requested (OpSetPower on) s = Some (s\<lparr>ls_on := on\<rparr>)"
| "requested (OpSetLevel l w) s = Some (s\<lparr>ls_level := Level (max (level_get l) 1),
     ls_on := (if w then 1 < level_get l else ls_on s)\<rparr>)"
| "requested (OpSetLevelTransition l w ms) s = Some (s\<lparr>ls_level := Level (max l 1),
     ls_on := (if w then 1 < l else ls_on s)\<rparr>)"
| "requested (OpSetLevelRate l w ms) s = Some (s\<lparr>ls_level := Level (max l 1),
     ls_on := (if w then 1 < l else ls_on s)\<rparr>)"
| "requested (OpOffWithEffect e) s = Some (s\<lparr>ls_on := False\<rparr>)"
| "requested (OpSetTemperature t) s = Some (s\<lparr>ls_temperature := t\<rparr>)"
| "requested (OpSetTemperatureTransition t ms) s = Some (s\<lparr>ls_temperature := t\<rparr>)"
| "requested (OpSetTemperatureRate t ms) s = Some (s\<lparr>ls_temperature := t\<rparr>)"
| "requested OpStopLevel s = None"
| "requested OpStopTemperature s = None"
| "requested (OpSetStartup v) s = None"
| "requested (OpSetStartupLevel v) s = None"
| "requested (OpSetStartupTemperature v) s = None"
| "requested OpOff s = None"
| "requested OpVerify s = None"
| "requested OpRegisters s = None"
| "requested OpWatchdogTest s = None"
| "requested OpPrepareReboot s = None"
| "requested (OpTick now) s = None"

definition stored_intent ::
  "('k \<Rightarrow> u16 \<Rightarrow> u8 list option) \<Rightarrow> ('k, 'h) runtime_env \<Rightarrow> 'k \<Rightarrow> light_state option" where
  "stored_intent recs E kv = (case recs kv (INTENT_KEY E) of
     None \<Rightarrow> Some light_default
   | Some bytes \<Rightarrow> (case decode_record bytes of Inl _ \<Rightarrow> None | Inr saved \<Rightarrow> Some (sv_intended saved)))"

lemma record_of_stored_intent:
  "record_of target (recs kv (INTENT_KEY E)) \<Longrightarrow> state_ok target \<Longrightarrow> stored_intent recs E kv = Some target"
  by (auto simp: record_of_def stored_intent_def decode_encode split: option.splits)

lemma save_intent_target [simp]: "r_target (snd (save_intent E s)) = r_target s"
  by (auto simp: save_intent_def store_record_def Let_def shutdown_simp bump_def invalidate_def
      split: prod.split sum.split)

lemma commit_target [simp]: "r_target (snd (commit E target s)) = target"
  using record_viewD(2) [OF reconcile_view]
  by (auto simp: commit_def Let_def and_then_def bump_def split: prod.split outcome.split
      dest!: arg_cong [where f = "\<lambda>x. r_target (snd x)"])

lemma reconcile_Ok:
  assumes "reconcile E now s = (Ok u, t)"
  shows "r_fault t = NoFault \<and> (\<exists>f. applied_frame t = Some f)"
proof -
  have "reconcile_to E now f x = (Ok u, t) \<Longrightarrow> ?thesis" for f x
    by (cases rule: reconcile_to_cases [of E now f x]) auto
  then show ?thesis
    using assms by (auto simp: reconcile_def Let_def and_then_def split: option.splits prod.splits
        outcome.splits if_splits)
qed

lemma commit_Ok:
  assumes "commit E target s = (Ok u, t)"
  shows "r_fault t = NoFault \<and> (\<exists>f. applied_frame t = Some f) \<and> r_target t = target"
  using assms commit_target [of E target s] reconcile_Ok
  by (auto simp: commit_def Let_def and_then_def split: prod.splits outcome.splits)

lemma writable_cases:
  "writable s = Ok () \<and> r_fault s \<noteq> FaultRebooting \<and> r_load_fault s = None \<or>
   writable s \<in> {Err Busy, Err InvalidState} \<and> (r_fault s = FaultRebooting \<or> r_load_fault s \<noteq> None)"
  by (simp add: writable_def)

text \<open>A request either is refused and changes nothing, or is one commit of what it asks.\<close>

definition commits ::
  "('k, 'h) runtime_env \<Rightarrow> light_state \<Rightarrow> ('k, 'h) runtime
    \<Rightarrow> (unit, error_code) outcome \<times> ('k, 'h) runtime \<Rightarrow> bool" where
  "commits E target s m \<longleftrightarrow> (\<exists>e \<in> {ConstraintError, Busy, InvalidState}. m = (Err e, s)) \<or>
     (\<exists>l c. m = commit E target (s\<lparr>r_level := l, r_temperature := c\<rparr>))"

lemma commits_commit:
  "commits E target s (commit E target s)"
  "commits E target s (commit E target (s\<lparr>r_level := l\<rparr>))"
  "commits E target s (commit E target (s\<lparr>r_temperature := c\<rparr>))"
  "commits E target s (commit E target (s\<lparr>r_level := l, r_temperature := c\<rparr>))"
proof -
  have "s\<lparr>r_level := r_level s, r_temperature := r_temperature s\<rparr> = s"
    "s\<lparr>r_level := l, r_temperature := r_temperature s\<rparr> = s\<lparr>r_level := l\<rparr>"
    "s\<lparr>r_level := r_level s, r_temperature := c\<rparr> = s\<lparr>r_temperature := c\<rparr>"
    by simp_all
  then show "commits E target s (commit E target s)"
    "commits E target s (commit E target (s\<lparr>r_level := l\<rparr>))"
    "commits E target s (commit E target (s\<lparr>r_temperature := c\<rparr>))"
    "commits E target s (commit E target (s\<lparr>r_level := l, r_temperature := c\<rparr>))"
    unfolding commits_def by metis+
qed

lemma commits_writable:
  assumes "writable s = Ok () \<Longrightarrow> commits E target s (k () s)"
  shows "commits E target s (and_then (writable s, s) k id)"
  using writable_cases [of s] assms by (auto simp: commits_def [of E target s "(Err _, s)"])

lemma commits_if:
  "(b \<Longrightarrow> commits E target s x) \<Longrightarrow> (\<not> b \<Longrightarrow> commits E target s y) \<Longrightarrow>
     commits E target s (if b then x else y)"
  by simp

lemma commits_commit_if:
  "commits E target s (commit E target x) \<Longrightarrow> commits E target s (commit E target y) \<Longrightarrow>
     commits E target s (commit E target (if b then x else y))"
  by simp

lemma commits_refused: "commits E target s (Err ConstraintError, s)"
  by (simp add: commits_def)

lemmas commits_intros = commits_writable commits_if commits_commit_if commits_commit commits_refused

lemma level_transition_commits:
  "commits E ((r_target s)\<lparr>ls_level := Level (max l 1),
       ls_on := (if w then 1 < l else ls_on (r_target s))\<rparr>) s
     (runtime_level_transition E l w ms c s)"
proof (cases "l = 255")
  case True
  then show ?thesis by (simp add: runtime_level_transition_def commits_refused)
next
  case False
  have e: "level_new (max l 1) = Some (Level (max l 1))" using max_level_new [OF False] by blast
  show ?thesis
    unfolding runtime_level_transition_def Let_def e option.case level_MIN_def level_get.simps
    by (intro commits_intros)
qed

lemma request_commits:
  assumes "requested op (r_target s) = Some target" "op_ok op"
  shows "commits E target s (run_op E op s)"
proof -
  have recall: "commits E t s (recall_scene E t ms s)" for t ms
    unfolding recall_scene_def Let_def by (intro commits_intros)
  have temperature: "commits E ((r_target s)\<lparr>ls_temperature := t\<rparr>) s
      (runtime_temperature_transition E t ms c s)" for t ms c
    unfolding runtime_temperature_transition_def Let_def
    by (intro commits_if commits_refused commits_writable) (auto intro: commits_commit)
  have power: "commits E ((r_target s)\<lparr>ls_on := on\<rparr>) s (set_power E on s)" for on
    unfolding set_power_def Let_def by (intro commits_intros)
  have off: "commits E ((r_target s)\<lparr>ls_on := False\<rparr>) s (off_with_effect E e s)" for e
    unfolding off_with_effect_def Let_def
    by (intro commits_writable) (auto intro: commits_commit split: prod.split)
  show ?thesis
    using assms recall temperature power off level_transition_commits
    by (cases op) (auto simp: request_def set_level_def set_level_transition_def set_level_rate_def
        set_temperature_def set_temperature_transition_def set_temperature_rate_def
        split del: if_split)
qed

lemma requested_ok:
  assumes "requested op s = Some target" "op_ok op" "state_ok s"
    and "\<And>l w ms. op = OpSetLevelTransition l w ms \<or> op = OpSetLevelRate l w ms \<Longrightarrow> l \<noteq> 255"
  shows "state_ok target"
proof -
  have "level_ok (Level (max l 1))" if "l \<noteq> 255" for l using max_level_new [OF that] by blast
  moreover have "level_get l \<noteq> 255" if "level_ok l" for l using that by (auto simp: level_ok_def)
  ultimately show ?thesis using assms by (cases op) (auto simp: state_ok_def)
qed

section \<open>The platform\<close>

locale platform = hw: hardware "env_hw E" showing + kv: atomic_store "env_kv E" recs
  for E :: "('k, 'h) runtime_env" and showing :: "'h \<Rightarrow> output_frame \<Rightarrow> bool"
    and recs :: "'k \<Rightarrow> u16 \<Rightarrow> u8 list option"
begin

definition good :: "'x \<times> ('k, 'h) runtime \<Rightarrow> bool" where
  "good m \<longleftrightarrow> durable recs E (snd m) \<and> truthful showing (snd m) \<and> saved_first (snd m)"

lemma good_simp [simp]:
  "good (x, s) \<longleftrightarrow> durable recs E s \<and> truthful showing s \<and> saved_first s"
  by (simp add: good_def)

lemma good_pair: "good m \<Longrightarrow> good (x, snd m)"
  by (simp add: good_def)

lemma good_any: "good (y, s) \<Longrightarrow> good (x, s)"
  by simp

lemma good_and_then:
  assumes "good m" and "\<And>a s. good (a, s) \<Longrightarrow> m = (Ok a, s) \<Longrightarrow> good (k a s)"
  shows "good (and_then m k id)"
  using assms by (cases m) (auto simp: and_then_def split: outcome.splits)

lemma reconcile_to_truthful:
  assumes "truthful showing s" "r_load_fault s = None"
  shows "truthful showing (snd (reconcile_to E now frame s))"
proof (cases rule: reconcile_to_cases [of E now frame s])
  case (applied b h t)
  then have "showing h frame"
    using assms(1) by (auto simp: truthful_def dest: hw.apply_shows)
  with applied assms(2) show ?thesis
    by (auto simp: truthful_def dest: record_viewD)
qed simp

lemma reconcile_good:
  assumes "durable recs E s" "truthful showing s" "r_load_fault s = None" "\<not> r_dirty s"
  shows "good (reconcile E now s)"
proof -
  have "truthful showing (snd (reconcile E now s))"
    using assms(2,3)
    by (auto simp: reconcile_def Let_def shutdown_simp and_then_def restore_from_zero_def
        intro!: reconcile_to_truthful split: option.splits)
  moreover have "\<not> r_dirty (snd (reconcile E now s))"
    using assms(4) record_viewD(3) [OF reconcile_view] by metis
  moreover have "durable recs E (snd (reconcile E now s))"
    using assms(1) durable_view [OF reconcile_view] by metis
  ultimately show ?thesis by (simp add: good_def saved_first_def)
qed

lemma save_intent_cases:
  assumes "startup_ok (r_startup s)"
  obtains (clean) "save_intent E s = (Ok (), s)" "\<not> r_dirty s"
  | (stored) kv where "save_intent E s = (Ok (), s\<lparr>r_kv := kv, r_dirty := False\<rparr>)" "r_dirty s"
      "record_of (r_target s) (recs kv (INTENT_KEY E))"
  | (failed) e t where "save_intent E s = (Err e, t)" "r_dirty t" "applied_frame t = None"
      "r_startup t = r_startup s" "r_load_fault t = r_load_fault s" "r_target t = r_target s"
      "r_fault t = FaultStorage" "r_retry_at t = sat_add (r_now s) 5000"
proof (cases "r_dirty s")
  case True
  obtain x kv where st:
    "kv_store (env_kv E) (INTENT_KEY E) (encode_record (r_target s) (r_startup s)) (r_kv s) = (x, kv)"
    by (cases "kv_store (env_kv E) (INTENT_KEY E) (encode_record (r_target s) (r_startup s)) (r_kv s)")
  show thesis
  proof (cases x)
    case (Inl e)
    show thesis
      using True st Inl
      by (intro failed [OF _])
        (simp add: save_intent_def store_record_def Let_def shutdown_simp,
         simp_all add: bump_def invalidate_def applied_frame_def invalidate_applied_def)
  next
    case (Inr u)
    then have "recs kv (INTENT_KEY E) = Some (encode_record (r_target s) (r_startup s))"
      using st kv.store_puts by blast
    then have "record_of (r_target s) (recs kv (INTENT_KEY E))"
      using assms by (auto simp: record_of_def)
    then show thesis
      using True st Inr by (intro stored) (simp_all add: save_intent_def store_record_def)
  qed
qed (simp add: clean save_intent_def)

lemma commit_good:
  assumes "durable recs E s" "truthful showing s" "r_load_fault s = None"
  shows "good (commit E target s)"
proof -
  define u where "u = bump (s\<lparr>r_dirty := (r_dirty s \<or> r_target s \<noteq> target), r_target := target\<rparr>)"
  have su: "startup_ok (r_startup u)" and lf: "r_load_fault u = None"
    using assms by (simp_all add: durable_def u_def bump_def)
  have d: "durable recs E u" using assms by (auto simp: durable_def u_def bump_def)
  have t: "truthful showing u" using assms by (simp add: truthful_def u_def) (simp add: bump_def)
  have c: "commit E target s = and_then (save_intent E u) (\<lambda>_ s. reconcile E (r_now s) s) id"
    by (simp add: commit_def Let_def u_def)
  show ?thesis
  using su
  proof (cases rule: save_intent_cases)
    case clean
    then show ?thesis using d t lf by (simp add: c reconcile_good)
  next
    case (stored kv)
    then show ?thesis
      using t su lf unfolding c stored(1) and_then_simps
      by (intro reconcile_good) (simp_all add: durable_def truthful_def)
  next
    case (failed e v)
    then show ?thesis using su lf unfolding c failed(1) and_then_simps by (simp add: durable_def)
  qed
qed

lemma good_writable:
  assumes "good ((), s)" and "r_load_fault s = None \<Longrightarrow> r_fault s \<noteq> FaultRebooting \<Longrightarrow> good (k () s)"
  shows "good (and_then (writable s, s) k id)"
  using assms by (auto simp: writable_def)

lemma track_updates [simp]:
  "durable recs E (s\<lparr>r_level := l\<rparr>) = durable recs E s"
  "truthful showing (s\<lparr>r_level := l\<rparr>) = truthful showing s"
  "durable recs E (s\<lparr>r_temperature := c\<rparr>) = durable recs E s"
  "truthful showing (s\<lparr>r_temperature := c\<rparr>) = truthful showing s"
  "r_load_fault (s\<lparr>r_level := l\<rparr>) = r_load_fault s"
  by (simp_all add: durable_def truthful_def)

lemma commit_good_if:
  assumes "durable recs E s" "truthful showing s" "r_load_fault s = None"
  shows "good (commit E target (if b then s\<lparr>r_temperature := x\<rparr>
    else if b' then s\<lparr>r_temperature := y\<rparr> else s))"
  using assms by (intro commit_good) simp_all

lemma level_transition_good:
  assumes "good ((), s)"
  shows "good (runtime_level_transition E l w ms c s)"
proof -
  have d: "durable recs E s" "truthful showing s" "saved_first s" using assms by simp_all
  show ?thesis
  proof (cases "l = 255 \<or> MAX_TRANSITION_MS < ms")
    case True
    then show ?thesis using d unfolding runtime_level_transition_def if_P [OF True] by simp
  next
    case False
    show ?thesis
      unfolding runtime_level_transition_def if_not_P [OF False]
    proof (rule good_writable [OF assms], goal_cases)
      case 1
      show ?case
        using d 1(1)
        by (cases "level_new (max l 1)")
          (simp_all only: Let_def option.case good_simp simp_thms if_split [of good]
            commit_good commit_good_if track_updates runtime.simps)
    qed
  qed
qed

lemma request_good:
  assumes "good ((), s)"
  shows "good (recall_scene E target ms s)" "good (set_power E on s)"
    "good (runtime_level_transition E l w ms c s)" "good (off_with_effect E effect s)"
    "good (runtime_temperature_transition E t ms c s)" "good (stop_level_transition E s)"
    "good (stop_temperature_transition E s)"
proof -
  have d: "durable recs E s" "truthful showing s" "saved_first s" using assms by simp_all
  show "good (recall_scene E target ms s)"
    using d by (auto simp: recall_scene_def Let_def intro!: good_writable commit_good split: if_splits)
  show "good (set_power E on s)"
    using d by (auto simp: set_power_def Let_def intro!: good_writable commit_good)
  show "good (runtime_level_transition E l w ms c s)" using assms by (rule level_transition_good)
  show "good (off_with_effect E effect s)"
    using d by (auto simp: off_with_effect_def Let_def intro!: good_writable commit_good
        split: prod.split)
  show "good (runtime_temperature_transition E t ms c s)"
    using d by (auto simp: runtime_temperature_transition_def Let_def intro!: good_writable commit_good)
  show "good (stop_level_transition E s)"
    using d by (auto simp: stop_level_transition_def Let_def intro!: good_writable commit_good
        split: option.split)
  show "good (stop_temperature_transition E s)"
    using d by (auto simp: stop_temperature_transition_def Let_def intro!: good_writable commit_good
        split: option.split)
qed

lemma save_startup_good:
  assumes g: "good ((), s)" and su: "startup_ok su"
  shows "good (save_startup E su s)"
  unfolding save_startup_def
proof (rule good_writable [OF g], goal_cases)
  case 1
  obtain x kv where st:
    "kv_store (env_kv E) (INTENT_KEY E) (encode_record (r_target s) su) (r_kv s) = (x, kv)"
    by (cases "kv_store (env_kv E) (INTENT_KEY E) (encode_record (r_target s) su) (r_kv s)")
  have d: "durable recs E s" "truthful showing s" "saved_first s" using g by simp_all
  show ?case
  proof (cases x)
    case (Inl e)
    then have "recs kv (INTENT_KEY E) = recs (r_kv s) (INTENT_KEY E) \<or>
        recs kv (INTENT_KEY E) = Some (encode_record (r_target s) su)"
      using st kv.store_atomic by blast
    then have "record_of (r_target s) (recs (r_kv s) (INTENT_KEY E)) \<Longrightarrow>
        record_of (r_target s) (recs kv (INTENT_KEY E))"
      using su by (auto simp: record_of_def)
    with d st Inl show ?thesis
      by (simp add: store_record_def durable_def truthful_def saved_first_def)
  next
    case (Inr u)
    then have "recs kv (INTENT_KEY E) = Some (encode_record (r_target s) su)"
      using st kv.store_puts by blast
    then have "record_of (r_target s) (recs kv (INTENT_KEY E))"
      using su by (auto simp: record_of_def)
    with d st Inr su show ?thesis
      by (simp add: store_record_def durable_def truthful_def saved_first_def) (simp add: bump_def)
  qed
qed

lemma startup_good:
  assumes g: "good ((), s)"
  shows "good (set_startup E v s)" "good (set_startup_level E n s)"
    "(\<And>t. w = Some t \<Longrightarrow> temperature_ok t) \<Longrightarrow> good (set_startup_temperature E w s)"
proof -
  have su: "startup_ok (r_startup s)" using g by (simp add: durable_def)
  show "good (set_startup E v s)"
    using g su by (auto simp: set_startup_def startup_ok_def good_def [of "(Err ConstraintError, s)"]
        intro!: save_startup_good split: option.split start_up_on_off.split)
  show "good (set_startup_level E n s)"
    using g su by (auto simp: set_startup_level_def startup_ok_def good_def [of "(Err ConstraintError, s)"]
        intro!: save_startup_good)
  show "good (set_startup_temperature E w s)" if "\<And>t. w = Some t \<Longrightarrow> temperature_ok t"
    using g su that by (auto simp: set_startup_temperature_def startup_ok_def simp del: good_simp
        intro!: save_startup_good split: option.split)
qed

lemma output_failed_good:
  assumes "durable recs E s"
  shows "good (x, output_failed E now s)"
  using assms by (simp add: durable_view [OF output_failed_simps(2)])

lemma off_unchanged: "\<not> ls_on t \<Longrightarrow> t\<lparr>ls_on := False\<rparr> = t"
  by (cases t) simp

lemma runtime_off_good:
  assumes g: "good ((), s)"
  shows "good (runtime_off E s)"
proof -
  obtain b t where sh: "shutdown E s = (b, t)" by (cases "shutdown E s")
  then obtain h where t: "t = s\<lparr>r_hardware := h\<rparr>" by (simp add: shutdown_simp) blast
  define u where "u = (invalidate t)\<lparr>r_level := None, r_temperature := None\<rparr>"
  define v where "v = u\<lparr>r_dirty := (r_dirty u \<or> ls_on (r_target u)),
    r_target := (r_target u)\<lparr>ls_on := False\<rparr>\<rparr>"
  have a: "applied_frame v = None" by (simp add: v_def u_def)
  have "record_view u = record_view s" by (simp add: u_def t)
  from durable_view [OF this] have "durable recs E u" using g by simp
  moreover have "r_kv v = r_kv u" "r_startup v = r_startup u" "r_load_fault v = r_load_fault u"
    by (simp_all add: v_def)
  moreover have "r_dirty v \<or> r_target v = r_target u \<and> \<not> r_dirty u"
    by (auto simp: v_def off_unchanged)
  ultimately have dv: "durable recs E v" by (auto simp: durable_def)
  show ?thesis
  proof (cases "r_load_fault v = Some FaultStorage")
    case True
    then show ?thesis
      unfolding runtime_off_def sh Let_def prod.case u_def [symmetric] v_def [symmetric] if_P [OF True]
      using dv a by (simp add: durable_def)
  next
    case False
    define w where "w = v\<lparr>r_dirty := (r_dirty v \<or> r_load_fault v = Some FaultInvalidRecord)\<rparr>"
    have aw: "applied_frame w = None" and su: "startup_ok (r_startup w)"
      using a dv by (simp_all add: w_def durable_def)
    have end_good: "good (if b then reconcile E (r_now y) y
        else (Err Failure, output_failed E (r_now y) y))"
      if "y = bump (x\<lparr>r_load_fault := None\<rparr>)" "applied_frame x = None" "startup_ok (r_startup x)"
        "\<not> r_dirty x" "record_of (r_target x) (recs (r_kv x) (INTENT_KEY E))" for x y
    proof -
      have "durable recs E y" "truthful showing y" "r_load_fault y = None" "\<not> r_dirty y"
        using that by (simp_all add: durable_def bump_def)
      then show ?thesis by (auto intro: reconcile_good output_failed_good simp del: good_simp)
    qed
    have "good (and_then (save_intent E w) (\<lambda>_ s. let s = bump (s\<lparr>r_load_fault := None\<rparr>)
        in if b then reconcile E (r_now s) s
           else (Err Failure, output_failed E (r_now s) s)) id)"
      using su
    proof (cases rule: save_intent_cases)
      case clean
      then have "r_load_fault v \<noteq> Some FaultInvalidRecord" "\<not> r_dirty v" by (simp_all add: w_def)
      have "r_load_fault v = None"
        using False dv \<open>r_load_fault v \<noteq> Some FaultInvalidRecord\<close> by (auto simp: durable_def)
      show ?thesis
        unfolding clean(1) and_then_simps Let_def
        by (rule end_good [OF refl aw su]) (use clean dv \<open>r_load_fault v = None\<close> in \<open>simp_all add: durable_def w_def\<close>)
    next
      case (stored kv)
      then show ?thesis
        unfolding stored(1) and_then_simps Let_def
        by (intro end_good [OF refl]) (use aw su in simp_all)
    next
      case (failed e x)
      then show ?thesis
        using su dv unfolding failed(1) and_then_simps by (simp add: durable_def w_def)
    qed
    then show ?thesis
      unfolding runtime_off_def sh Let_def prod.case u_def [symmetric] v_def [symmetric]
        if_not_P [OF False] w_def [symmetric] .
  qed
qed

lemma on_hardware_good:
  assumes "good ((), s)" "on_hardware f s = (x, t)"
    and "\<And>h h' g. f h = (x, h') \<Longrightarrow> showing h g \<Longrightarrow> showing h' g"
  shows "good ((), t)"
  using assms by (auto simp: on_hardware_def durable_def truthful_def saved_first_def split: prod.splits)

lemma on_hardware_durable:
  "good ((), s) \<Longrightarrow> on_hardware f s = (x, t) \<Longrightarrow> durable recs E t"
  by (auto simp: on_hardware_def durable_def split: prod.splits)

lemma runtime_verify_good:
  assumes g: "good ((), s)"
  shows "good (runtime_verify E s)"
proof (cases "applied_frame s")
  case (Some f)
  obtain x t where h: "on_hardware (hw_verify_frame (env_hw E) f) s = (x, t)"
    by (cases "on_hardware (hw_verify_frame (env_hw E) f) s")
  show ?thesis
  proof (cases x)
    case (Inl e)
    with g h Some show ?thesis
      using output_failed_good [OF on_hardware_durable [OF g h]] by (simp add: runtime_verify_def)
  next
    case (Inr u)
    have "good ((), t)"
      using g h by (rule on_hardware_good) (auto simp: Inr dest: hw.verify_keeps)
    with h Some Inr show ?thesis by (simp add: runtime_verify_def)
  qed
qed (use g in \<open>simp add: runtime_verify_def\<close>)

lemma runtime_registers_good:
  assumes g: "good ((), s)"
  shows "good (runtime_registers E s)"
proof -
  obtain x t where h: "on_hardware (hw_registers (env_hw E)) s = (x, t)"
    by (cases "on_hardware (hw_registers (env_hw E)) s")
  show ?thesis
  proof (cases x)
    case (Inl e)
    with g h show ?thesis
      using output_failed_good [OF on_hardware_durable [OF g h]] by (simp add: runtime_registers_def)
  next
    case (Inr u)
    have "good ((), t)"
      using g h by (rule on_hardware_good) (auto simp: Inr dest: hw.registers_keeps)
    with h Inr show ?thesis by (simp add: runtime_registers_def)
  qed
qed

lemma prepare_reboot_good:
  assumes "good ((), s)"
  shows "good (prepare_reboot E s)"
  using assms by (simp add: prepare_reboot_def shutdown_simp Let_def durable_def)
    (simp add: bump_def invalidate_def)

lemma load_record_kv: "load_record E kv = (x, kv') \<Longrightarrow> recs kv' = recs kv"
  using kv.load_keeps [of "INTENT_KEY E" kv]
  by (auto simp: load_record_def split: prod.splits sum.splits option.splits)

lemma load_record_Inr:
  assumes "load_record E kv = (Inr saved, kv')"
  shows "recs kv (INTENT_KEY E) = None \<and> saved = saved_default \<or>
    (\<exists>b. recs kv (INTENT_KEY E) = Some b \<and> decode_record b = Inr saved)"
  using assms kv.load_returns [of "INTENT_KEY E" kv]
  by (auto simp: load_record_def split: prod.splits sum.splits option.splits)

lemma load_record_of:
  assumes "load_record E kv = (Inr saved, kv')"
  shows "record_of (sv_intended saved) (recs kv' (INTENT_KEY E))" "startup_ok (sv_startup saved)"
proof -
  show "record_of (sv_intended saved) (recs kv' (INTENT_KEY E))"
    using load_record_Inr [OF assms] load_record_kv [OF assms]
    by (auto simp: record_of_def saved_default_def)
  show "startup_ok (sv_startup saved)" using load_record_ok [OF assms] by simp
qed

lemma load_record_Inl:
  "load_record E kv = (Inl f, kv') \<Longrightarrow> f = FaultStorage \<or> f = FaultInvalidRecord"
proof -
  have "decode_record b = Inl f \<Longrightarrow> f = FaultInvalidRecord" for b
    by (induction b rule: decode_record.induct)
      (auto simp: decode_current_def Let_def split: if_splits option.splits)
  then show "load_record E kv = (Inl f, kv') \<Longrightarrow> ?thesis"
    by (auto simp: load_record_def split: prod.splits sum.splits option.splits)
qed

lemma load_record_Invalid:
  assumes "load_record E kv = (Inl FaultInvalidRecord, kv')"
  obtains b where "recs kv (INTENT_KEY E) = Some b" "is_err (decode_record b)"
  using assms kv.load_returns [of "INTENT_KEY E" kv]
  by (auto simp: load_record_def split: prod.splits sum.splits option.splits)

lemma tick_reload_good:
  assumes g: "good ((), s)"
  shows "good (tick_reload E now s)"
proof (cases "r_load_fault s = Some FaultStorage")
  case True
  have a: "applied_frame s = None" using g True by (auto simp: truthful_def)
  have su: "startup_ok (r_startup s)" using g by (simp add: durable_def)
  obtain x kv where l: "load_record E (r_kv s) = (x, kv)" by (cases "load_record E (r_kv s)")
  show ?thesis
  proof (cases x)
    case (Inl f)
    then show ?thesis using True a su l load_record_Inl [of "r_kv s" f kv]
      by (auto simp: tick_reload_def durable_def)
  next
    case (Inr saved)
    show ?thesis
    proof (cases "startup_intent (sv_intended saved) (sv_startup saved)")
      case None
      then show ?thesis using True a su l Inr by (simp add: tick_reload_def durable_def)
    next
      case (Some target)
      then show ?thesis using True su l Inr load_record_of [OF l [unfolded Inr]]
        by (auto simp: tick_reload_def Let_def durable_def) (auto simp: bump_def)
    qed
  qed
qed (use g in \<open>simp add: tick_reload_def\<close>)

lemma tick_verify_good:
  assumes g: "good ((), s)"
  shows "good (tick_verify E now s)"
proof -
  define u where "u = s\<lparr>r_next_verify := sat_add now 5000\<rparr>"
  have gu: "good ((), u)" using g by (simp add: u_def durable_def truthful_def saved_first_def)
  show ?thesis
  proof (cases "applied_frame u")
    case None
    then show ?thesis using g gu by (auto simp: tick_verify_def Let_def simp flip: u_def)
  next
    case (Some f)
    obtain x t where h: "on_hardware (hw_verify_frame (env_hw E) f) u = (x, t)"
      by (cases "on_hardware (hw_verify_frame (env_hw E) f) u")
    have "good ((), if is_err x then output_failed E now t else t)"
    proof (cases x)
      case (Inl e)
      then show ?thesis using output_failed_good [OF on_hardware_durable [OF gu h]] by simp
    next
      case (Inr y)
      have "good ((), t)" using gu h by (rule on_hardware_good) (auto simp: Inr dest: hw.verify_keeps)
      then show ?thesis by (simp add: Inr)
    qed
    then show ?thesis
      using g Some h unfolding tick_verify_def Let_def u_def [symmetric] by simp
  qed
qed

lemma tick_apply_good:
  assumes g: "good ((), s)" and "r_load_fault s = None" "\<not> r_dirty s"
  shows "good (tick_apply E now s)"
proof (cases "effective s now")
  case (Some f)
  have r: "good (reconcile E now s)" using assms by (intro reconcile_good) simp_all
  have d: "good ((), drop_finished now s)"
    using g by (simp add: durable_view [OF drop_finished_simps(2)] truthful_def saved_first_def
        record_viewD [OF drop_finished_simps(2)])
  show ?thesis
    using r tick_verify_good [OF d, of now] Some
    by (auto simp: tick_apply_def good_def split: prod.split outcome.split)
qed (use g in \<open>simp add: tick_apply_def\<close>)

lemma runtime_tick_good:
  assumes g: "good ((), s)"
  shows "good (runtime_tick E now s)"
proof -
  have gn: "good ((), s\<lparr>r_now := now\<rparr>)" using g by (simp add: durable_def truthful_def saved_first_def)
  have save: "good (case save_intent E t of (Ok _, s) \<Rightarrow> tick_apply E now s
      | (Err _, s) \<Rightarrow> (Err (), s) | (Panic, s) \<Rightarrow> (Panic, s))"
    if gt: "good ((), t)" and lf: "r_load_fault t = None" for t
  proof -
    have su: "startup_ok (r_startup t)" using gt by (simp add: durable_def)
    then show ?thesis
    proof (cases rule: save_intent_cases)
      case clean
      then show ?thesis using gt lf by (simp add: tick_apply_good)
    next
      case (stored kv)
      have "good ((), t\<lparr>r_kv := kv, r_dirty := False\<rparr>)"
        using gt lf stored by (simp add: durable_def truthful_def saved_first_def)
      then show ?thesis using lf stored by (simp add: tick_apply_good)
    next
      case (failed e v)
      then show ?thesis using su lf by (simp add: durable_def)
    qed
  qed
  show ?thesis
    using gn tick_reload_good [OF gn, of now] save
    by (auto simp: runtime_tick_def Let_def intro!: good_and_then intro: good_any simp del: good_simp)
qed

lemma no_data_good: "good m \<Longrightarrow> good (no_data m)"
  by (cases m) (auto simp: no_data_def split: outcome.split)

lemma run_op_good:
  assumes "good ((), s)" "op_ok op"
  shows "good (run_op E op s)"
  using assms
  by (cases op) (auto simp: request_def set_level_def set_level_transition_def set_level_rate_def
      set_temperature_def set_temperature_transition_def set_temperature_rate_def
      watchdog_test_ready_def simp del: good_simp
      intro: good_any intro!: request_good startup_good runtime_verify_good runtime_off_good
        no_data_good runtime_registers_good runtime_tick_good good_pair prepare_reboot_good
      split: option.splits)

lemma runtime_load_good:
  assumes "runtime_load E kv hw = Some s"
  shows "good ((), s)"
proof -
  obtain x kv' where l: "load_record E kv = (x, kv')" by (cases "load_record E kv")
  define saved where "saved = (case x of Inl _ \<Rightarrow> saved_default | Inr saved \<Rightarrow> saved)"
  have su: "startup_ok (sv_startup saved)"
    using l by (auto simp: saved_def saved_default_def dest: load_record_of split: sum.split)
  have r: "record_of (sv_intended saved) (recs kv' (INTENT_KEY E))" if "x = Inr y" for y
    using l that load_record_of by (simp add: saved_def)
  obtain target where "startup_intent (sv_intended saved) (sv_startup saved) = Some target"
    using assms unfolding runtime_load_def Let_def l prod.case saved_def [symmetric]
    by (cases "startup_intent (sv_intended saved) (sv_startup saved)")
      (simp_all split: prod.splits)
  then have "applied_frame s = None \<and> r_startup s = sv_startup saved \<and> r_kv s = kv' \<and>
      r_load_fault s = (case x of Inl f \<Rightarrow> Some f | Inr _ \<Rightarrow> None) \<and>
      (r_dirty s \<or> r_target s = sv_intended saved)"
    using assms unfolding runtime_load_def Let_def l prod.case saved_def [symmetric]
    by (cases "hw_shutdown (env_hw E) hw") (auto simp: applied_frame_def)
  then show ?thesis
    using su r load_record_Inl [of kv _ kv'] l by (cases x) (auto simp: durable_def)
qed

lemma reachable_good: "reachable E s \<Longrightarrow> good ((), s)"
proof (induction rule: reachable.induct)
  case (boot kv hw s)
  then show ?case by (rule runtime_load_good)
next
  case (call s op r t)
  then show ?case using run_op_good [of s op] by simp
qed

text \<open>A boot of the lamp from a store that holds the target.\<close>

lemma load_stored:
  assumes "stored_intent recs E kv = Some target" "runtime_load E kv h = Some t"
  shows "r_load_fault t \<noteq> Some FaultInvalidRecord \<and>
    (r_load_fault t = None \<longrightarrow> startup_intent target (r_startup t) = Some (r_target t))"
proof -
  obtain x kv' where l: "load_record E kv = (x, kv')" by (cases "load_record E kv")
  define saved where "saved = (case x of Inl _ \<Rightarrow> saved_default | Inr saved \<Rightarrow> saved)"
  obtain i where i: "startup_intent (sv_intended saved) (sv_startup saved) = Some i"
    using assms(2) unfolding runtime_load_def Let_def l prod.case saved_def [symmetric]
    by (cases "startup_intent (sv_intended saved) (sv_startup saved)") (simp_all split: prod.splits)
  then have t: "r_startup t = sv_startup saved \<and> r_target t = i \<and>
      r_load_fault t = (case x of Inl f \<Rightarrow> Some f | Inr _ \<Rightarrow> None)"
    using assms(2) unfolding runtime_load_def Let_def l prod.case saved_def [symmetric]
    by (cases "hw_shutdown (env_hw E) h") auto
  show ?thesis
  proof (cases x)
    case (Inl f)
    have "f \<noteq> FaultInvalidRecord"
    proof
      assume "f = FaultInvalidRecord"
      then obtain b where "recs kv (INTENT_KEY E) = Some b" "is_err (decode_record b)"
        using l Inl load_record_Invalid by blast
      with assms(1) show False by (simp add: stored_intent_def is_err_def split: sum.splits)
    qed
    with t Inl show ?thesis by simp
  next
    case (Inr y)
    then have "sv_intended saved = target"
      using load_record_Inr [OF l [unfolded Inr]] assms(1)
      by (auto simp: saved_def stored_intent_def saved_default_def)
    with t i Inr show ?thesis by simp
  qed
qed

lemma reachable_stored:
  assumes "reachable E s" "\<not> r_dirty s" "r_load_fault s = None"
  shows "stored_intent recs E (r_kv s) = Some (r_target s)"
  using reachable_good [OF assms(1)] assms(2,3) target_ok [OF reachable_ok [OF assms(1)]]
  by (simp add: durable_def record_of_stored_intent)

end

end
