(* ===== verification/Runtime_Props.thy ===== *)
theory Runtime_Props
  imports Runtime_Sound
begin

text \<open>
  The properties of the light runtime, over every reachable state. Their witnesses run the
  bench image: the simulated output and the store of the runtime tests.
\<close>

section \<open>The bench and the lamp\<close>

definition bench_env :: "u16 \<Rightarrow> (test_store, simulated_output) runtime_env" where
  "bench_env keys = \<lparr>env_kv = test_kv, env_hw = sim_ops, env_vendor_keys_start = keys\<rparr>"

definition lamp_env :: "('w, 'b) board \<Rightarrow> u16 \<Rightarrow> (test_store, 'w pca) runtime_env" where
  "lamp_env b keys = \<lparr>env_kv = test_kv, env_hw = physical_ops b, env_vendor_keys_start = keys\<rparr>"

interpretation bench: platform "bench_env keys" sim_shows ts_records for keys
  by (rule platform.intro) (simp_all add: bench_env_def sim.hardware_axioms test_kv.atomic_store_axioms)

interpretation lamp: platform "lamp_env b keys" pca_shows ts_records for b :: "('w, 'b) board" and keys
  by (rule platform.intro)
    (simp_all add: lamp_env_def physical.hardware_axioms test_kv.atomic_store_axioms)

definition bench_boot :: "(test_store, simulated_output) runtime" where
  "bench_boot = (case runtime_load (bench_env 0) test_store_default sim_default of Some s \<Rightarrow> s)"

definition bench_lit :: "(test_store, simulated_output) runtime" where
  "bench_lit = snd (run_op (bench_env 0) (OpSetPower True) bench_boot)"

lemma bench_boot_reachable: "reachable (bench_env 0) bench_boot"
proof -
  obtain s where "runtime_load (bench_env 0) test_store_default sim_default = Some s"
    using runtime_load_ok [of "bench_env 0" test_store_default sim_default] by blast
  then show ?thesis by (auto simp: bench_boot_def intro: reachable.boot)
qed

lemma bench_lit_reachable: "reachable (bench_env 0) bench_lit"
  unfolding bench_lit_def
  by (rule reachable.call [OF bench_boot_reachable _ prod.collapse [symmetric]]) simp

lemma bench_lit_applied:
  "map_option of_brightness (applied_frame bench_lit) = Some brightness_ZERO"
  "r_fault bench_lit = NoFault" "r_load_fault bench_lit = None"
  "ls_on (r_target bench_lit)" "\<not> r_dirty bench_lit"
  by code_simp+

section \<open>Properties\<close>

text \<open>C1. The light runtime never panics: from every state that calls can reach after a boot,
  on every hardware and every store, every further call returns and leaves a well-formed
  state (target, acknowledged frame, fades and startup policy in range).\<close>

theorem runtime_never_panics:
  assumes "reachable E s" "op_ok op"
  shows "fst (run_op E op s) \<noteq> Panic \<and> runtime_ok (snd (run_op E op s))"
  using run_op_safe [OF reachable_ok [OF assms(1)] assms(2)] by (simp add: safe_def)

lemma runtime_never_panics_witness: "fst (run_op (bench_env 0) (OpTick 200) bench_lit) \<noteq> Panic"
  using runtime_never_panics [OF bench_lit_reachable, of "OpTick 200"] by simp

text \<open>C2. An acknowledged frame is the truth: whenever the runtime holds one, the hardware
  shows exactly that frame, no fault and no unreadable record is outstanding, and the
  intent behind it is already saved.\<close>

theorem acknowledged_frame_is_shown:
  assumes "platform E showing recs" "reachable E s" "applied_frame s = Some f"
  shows "showing (r_hardware s) f \<and> r_fault s = NoFault \<and> r_load_fault s = None \<and> \<not> r_dirty s"
  using platform.reachable_good [OF assms(1,2)] assms(3)
  by (simp add: platform.good_simp [OF assms(1)] truthful_def saved_first_def)

lemma acknowledged_frame_is_shown_witness:
  "\<exists>f. applied_frame bench_lit = Some f \<and> sim_shows (r_hardware bench_lit) f"
  using acknowledged_frame_is_shown [OF bench.platform_axioms bench_lit_reachable] bench_lit_applied(1)
  by (cases "applied_frame bench_lit") auto

lemma request_refined:
  assumes "platform E showing recs" "reachable E s" "op_ok op"
    and "requested op (r_target s) = Some target" "run_op E op s = (r, t)"
  shows "(r = Ok () \<longrightarrow> r_target t = target \<and> stored_intent recs E (r_kv t) = Some target \<and>
      r_fault t = NoFault \<and> (\<exists>f. applied_frame t = Some f \<and> showing (r_hardware t) f)) \<and>
    (r_target t = r_target s \<or> r_target t = target)"
proof -
  have reach: "reachable E t" using assms(2,3,5) by (rule reachable.call)
  have g: "truthful showing t" "saved_first t"
    using platform.reachable_good [OF assms(1) reach] by (simp_all add: platform.good_simp [OF assms(1)])
  have "commits E target s (r, t)" using request_commits [OF assms(4,3), of E] assms(5) by simp
  then consider (refused) e where "r = Err e" "t = s"
    | (commit) u where "commit E target u = (r, t)"
    by (auto simp: commits_def)
  then show ?thesis
  proof cases
    case refused
    then show ?thesis by simp
  next
    case commit
    have c: "r = Ok () \<Longrightarrow> r_fault t = NoFault \<and> (\<exists>f. applied_frame t = Some f)"
      using commit_Ok [of E target u] commit by blast
    moreover have "r = Ok () \<Longrightarrow> stored_intent recs E (r_kv t) = Some (r_target t)"
      using c g platform.reachable_stored [OF assms(1) reach]
      by (auto simp: truthful_def saved_first_def)
    moreover have "r_target t = target" using commit_target [of E target u] commit by simp
    ultimately show ?thesis using g by (auto simp: truthful_def)
  qed
qed

text \<open>C4. The runtime refines one durable light: a request that returns \<open>Ok\<close> has made the
  target exactly what it asked, saved that target in the store, and left an acknowledged
  frame on the hardware with no fault; a request that fails leaves either the old target or
  the one it asked.\<close>

theorem request_refines_target:
  assumes "platform E showing recs" "reachable E s" "op_ok op"
    and "requested op (r_target s) = Some target" "run_op E op s = (r, t)"
  shows "(r = Ok () \<longrightarrow> r_target t = target \<and> stored_intent recs E (r_kv t) = Some target \<and>
      r_fault t = NoFault \<and> (\<exists>f. applied_frame t = Some f \<and> showing (r_hardware t) f)) \<and>
    (r_target t = r_target s \<or> r_target t = target)"
  by (rule request_refined [OF assms])

lemma request_refines_target_witness:
  "\<exists>t. run_op (bench_env 0) (OpSetPower False) bench_lit = (Ok (), t) \<and> \<not> ls_on (r_target t) \<and>
    stored_intent ts_records (bench_env 0) (r_kv t) = Some (r_target t)"
proof -
  obtain r t where rt: "run_op (bench_env 0) (OpSetPower False) bench_lit = (r, t)"
    by (cases "run_op (bench_env 0) (OpSetPower False) bench_lit")
  moreover have "fst (run_op (bench_env 0) (OpSetPower False) bench_lit) = Ok ()" by code_simp
  ultimately show ?thesis
    using request_refines_target [OF bench.platform_axioms bench_lit_reachable _ _ rt] by auto
qed



text \<open>C6. Intent is saved before output: when the record of a new target cannot be written, the
  request fails with the store's error, the output is shut down instead of driven, no frame
  stays acknowledged, and the unsaved target is kept for a retry five seconds later.\<close>

theorem failed_save_parks_output:
  assumes "r_dirty s \<or> r_target s \<noteq> target"
    and "fst (kv_store (env_kv E) (INTENT_KEY E) (encode_record target (r_startup s)) (r_kv s)) = Inl e"
  shows "\<exists>t. commit E target s = (Err e, t) \<and> applied_frame t = None \<and>
    r_hardware t = snd (hw_shutdown (env_hw E) (r_hardware s)) \<and> r_fault t = FaultStorage \<and>
    r_dirty t \<and> r_target t = target \<and> r_retry_at t = sat_add (r_now s) 5000"
proof -
  obtain kv where "kv_store (env_kv E) (INTENT_KEY E) (encode_record target (r_startup s)) (r_kv s) = (Inl e, kv)"
    using assms(2) by (metis prod.collapse)
  then show ?thesis
    using assms(1)
    by (auto simp: commit_def Let_def save_intent_def store_record_def shutdown_simp bump_def
        invalidate_def applied_frame_def invalidate_applied_def and_then_def)
qed

lemma failed_save_parks_output_witness:
  "\<exists>t. commit (bench_env 0) light_default (bench_lit\<lparr>r_kv := (r_kv bench_lit)\<lparr>ts_fail_store := True\<rparr>\<rparr>)
     = (Err Failure, t) \<and> applied_frame t = None"
proof -
  have "r_target bench_lit \<noteq> light_default" using bench_lit_applied(4) by (auto simp: light_default_def)
  then show ?thesis
    using failed_save_parks_output [of "bench_lit\<lparr>r_kv := (r_kv bench_lit)\<lparr>ts_fail_store := True\<rparr>\<rparr>"
        light_default "bench_env 0" Failure]
    by (auto simp: bench_env_def test_kv_def test_store_store_def)
qed

end
