(* ===== verification/Runtime_Fades.thy ===== *)
theory Runtime_Fades
  imports Runtime_Props
begin

text \<open>
  How the light runtime moves the output: recovery starts from a proven zero, a stop picks
  the nearest state that can be stored, commands that only change remembered settings leave
  the running fade alone.
\<close>

section \<open>Recovery starts from zero\<close>

lemma effective_restored:
  assumes "runtime_ok s" "now \<noteq> - 1"
  shows "\<exists>f. effective (restore_from_zero now s) now = Some f \<and> of_brightness f = brightness_ZERO"
proof (cases "ls_on (r_target s)")
  case False
  then show ?thesis
    by (simp add: effective_def effective_level_def restore_from_zero_def Let_def from_state_def)
next
  case True
  define r where "r = \<lparr>tr_from = 0, tr_to = brightness_get (from_level (ls_level (r_target s))),
    tr_start = now, tr_duration = DEFAULT_TRANSITION_MS, tr_curve = Smooth\<rparr>"
  have "transition_value r now = tr_from r"
    by (rule transition_value_start) (simp_all add: r_def transition_ok_def DEFAULT_TRANSITION_MS_def)
  then have v: "transition_value r now = 0" by (simp add: r_def)
  have "unat now \<noteq> 2 ^ 64 - 1"
    using assms(2) by (auto simp: word_unat_eq_iff unsigned_minus_1_eq_mask mask_eq_exp_minus_1)
  then have "unat now < 2 ^ 64 - 1" using unat_bound [of now] by simp
  then have "unat (sat_sub (sat_add now DEFAULT_TRANSITION_MS) now) \<noteq> 0"
    by (simp add: unat_sat_sub unat_sat_add DEFAULT_TRANSITION_MS_def)
  then have n: "sat_sub (sat_add now DEFAULT_TRANSITION_MS) now \<noteq> 0" by auto
  have e: "brightness_new 0 = Some brightness_ZERO"
    by (simp add: brightness_ZERO_def brightness_ok_def)
  show ?thesis
    using True v n unfolding r_def
    by (simp add: effective_def effective_level_def restore_from_zero_def Let_def
        level_transition_remaining_def level_transition_value_def e)
qed

text \<open>C30. Recovery never assumes what the lamp shows: a reconciliation that starts without an
  acknowledged frame (a boot, or after any fault) succeeds only after the hardware confirmed
  a shutdown, and the first frame it then applies has brightness zero.\<close>

theorem recovery_starts_from_zero:
  assumes "runtime_ok s" "now \<noteq> - 1" "applied_frame s = None" "reconcile E now s = (Ok u, t)"
  shows "\<exists>f h. hw_shutdown (env_hw E) (r_hardware s) = (Inr (), h) \<and>
    hw_apply_frame (env_hw E) f h = (Inr (), r_hardware t) \<and>
    applied_frame t = Some f \<and> of_brightness f = brightness_ZERO"
proof -
  obtain x h where sh: "hw_shutdown (env_hw E) (r_hardware s) = (x, h)"
    by (cases "hw_shutdown (env_hw E) (r_hardware s)")
  define y where "y = s\<lparr>r_hardware := h\<rparr>"
  have x: "x = Inr ()"
    using assms(3,4) sh by (cases x) (auto simp: reconcile_def shutdown_simp Let_def and_then_def)
  obtain f where f: "effective (restore_from_zero now y) now = Some f" "of_brightness f = brightness_ZERO"
    using effective_restored [of y now] assms(1,2) by (auto simp: y_def)
  have "reconcile_to E now f (restore_from_zero now y) = (Ok u, t)"
    using assms(3,4) sh x f(1) by (simp add: reconcile_def shutdown_simp Let_def y_def)
  then have "applied_frame t = Some f \<and> hw_apply_frame (env_hw E) f h = (Inr (), r_hardware t)"
    using assms(3)
    by (cases rule: reconcile_to_cases [of E now f "restore_from_zero now y"]) (auto simp: y_def)
  with sh x f(2) show ?thesis by blast
qed

lemma bench_boot_ok: "runtime_ok bench_boot" by (rule reachable_ok [OF bench_boot_reachable])

lemma recovery_starts_from_zero_witness:
  "\<exists>t f. reconcile (bench_env 0) 100 bench_boot = (Ok (), t) \<and> applied_frame t = Some f \<and>
     of_brightness f = brightness_ZERO"
proof -
  obtain r t where rt: "reconcile (bench_env 0) 100 bench_boot = (r, t)"
    by (cases "reconcile (bench_env 0) 100 bench_boot")
  moreover have "fst (reconcile (bench_env 0) 100 bench_boot) = Ok ()"
    "applied_frame bench_boot = None" by code_simp+
  ultimately show ?thesis
    using recovery_starts_from_zero [OF bench_boot_ok, of 100 "bench_env 0" "()" t] by auto
qed

section \<open>Stopping a fade\<close>

lemma stop_rounding:
  assumes "brightness_ok b"
    and "s = \<lparr>ls_on = brightness_DENOMINATOR div 2 < brightness_get b, ls_level = to_level_clamped b,
      ls_temperature = t\<rparr>"
  shows "nat \<bar>uint (brightness_get (of_brightness (from_state s))) - uint (brightness_get b)\<bar> \<le> 126"
proof -
  define n where "n = unat (brightness_get b)"
  have n: "n \<le> 2530" using assms(1) by (simp add: n_def brightness_ok_def)
  have on: "ls_on s \<longleftrightarrow> 126 < n"
    by (simp add: assms(2) n_def brightness_DENOMINATOR_def word_less_nat_alt unat_div)
  have lvl: "unat (level_get (ls_level s)) = (if n \<le> 253 then 1 else 1 + (n - 249) div 9)"
    unfolding n_def using unat_to_level_clamped [OF assms(1)] by (simp add: assms(2))
  have "level_ok (ls_level s)" using assms by simp
  note fl = unat_from_level [OF this]
  have out: "unat (brightness_get (of_brightness (from_state s))) =
      (if n \<le> 126 then 0 else if n \<le> 253 then 253 else 253 + 9 * ((n - 249) div 9))"
    using on lvl fl by (auto simp: from_state_def brightness_ZERO_def)
  have "9 * ((n - 249) div 9) \<le> n - 249" "n - 249 < 9 * ((n - 249) div 9) + 9"
    using div_mult_mod_eq [of "n - 249" 9] mod_less_divisor [of 9 "n - 249"] by linarith+
  then have "\<bar>int (unat (brightness_get (of_brightness (from_state s)))) - int n\<bar> \<le> 126"
    using n unfolding out by (auto split: if_splits)
  then show ?thesis by (simp add: n_def)
qed

text \<open>C31. Stopping a level fade moves the light by at most half of the stock 1% step: the level
  and power it stores put out a brightness within 126 of the one acknowledged at the stop (one
  percent is 253), so a stop in the dark tail of a fade to off cannot flash the lamp.\<close>

theorem stop_moves_half_a_percent:
  assumes "runtime_ok s" "r_level s \<noteq> None" "applied_frame s = Some f"
    and "r_fault s \<noteq> FaultRebooting" "r_load_fault s = None"
  shows "nat \<bar>uint (brightness_get (of_brightness (from_state (r_target (snd (stop_level_transition E s))))))
      - uint (brightness_get (of_brightness f))\<bar> \<le> 126"
proof -
  obtain track where track: "r_level s = Some track" using assms(2) by blast
  define target where "target =
    \<lparr>ls_on = brightness_DENOMINATOR div 2 < brightness_get (of_brightness f),
     ls_level = to_level_clamped (of_brightness f),
     ls_temperature = (case lt_off_temperature track of Some t \<Rightarrow> t | None \<Rightarrow> ls_temperature (r_target s))\<rparr>"
  have "brightness_ok (of_brightness f)"
    using assms(1,3) by (simp add: runtime_ok_def controller_ok_def applied_frame_def frame_ok_def)
  moreover have "r_target (snd (stop_level_transition E s)) = target"
    using assms track
    by (simp add: stop_level_transition_def writable_def Let_def target_def split: option.split)
  ultimately show ?thesis using stop_rounding [OF _ target_def] by simp
qed

lemma bench_lit_ok: "runtime_ok bench_lit" by (rule reachable_ok [OF bench_lit_reachable])

definition bench_fading :: "(test_store, simulated_output) runtime" where
  "bench_fading = snd (run_op (bench_env 0) (OpTick 200) bench_lit)"

lemma bench_fading_reachable: "reachable (bench_env 0) bench_fading"
  unfolding bench_fading_def
  by (rule reachable.call [OF bench_lit_reachable _ prod.collapse [symmetric]]) simp

lemma bench_fading_state:
  "map_option of_brightness (applied_frame bench_fading) = Some (OutputBrightness 378)"
  "r_level bench_fading \<noteq> None" "r_fault bench_fading = NoFault" "r_load_fault bench_fading = None"
  by code_simp+

lemma stop_moves_half_a_percent_witness:
  "nat \<bar>uint (brightness_get (of_brightness (from_state
     (r_target (snd (stop_level_transition (bench_env 0) bench_fading)))))) - 378\<bar> \<le> 126"
  using stop_moves_half_a_percent [OF reachable_ok [OF bench_fading_reachable], of _ "bench_env 0"]
    bench_fading_state by auto

section \<open>Commands that leave a running fade alone\<close>

definition keeps_fades :: "u64 \<Rightarrow> ('k, 'h) runtime \<Rightarrow> ('k, 'h) runtime \<Rightarrow> bool" where
  "keeps_fades now s t \<longleftrightarrow>
     (r_level t = r_level s \<or>
      r_level t = None \<and> (\<exists>x. r_level s = Some x \<and> level_transition_remaining x now = 0)) \<and>
     (r_temperature t = r_temperature s \<or>
      r_temperature t = None \<and> (\<exists>x. r_temperature s = Some x \<and> transition_remaining x now = 0))"

lemma keeps_fades_same:
  "r_level t = r_level s \<Longrightarrow> r_temperature t = r_temperature s \<Longrightarrow> keeps_fades now s t"
  by (simp add: keeps_fades_def)

lemma keeps_fades_drop:
  "r_level x = r_level s \<Longrightarrow> r_temperature x = r_temperature s \<Longrightarrow> keeps_fades now s (drop_finished now x)"
  by (auto simp: drop_finished_def keeps_fades_def Let_def split: option.split)

lemma output_failed_fades [simp]:
  "r_level (output_failed E now s) = r_level s"
  "r_temperature (output_failed E now s) = r_temperature s"
  by (simp_all add: output_failed_def shutdown_simp Let_def bump_def invalidate_def)

lemma reconcile_to_keeps_fades: "keeps_fades now s (snd (reconcile_to E now frame s))"
  by (auto simp: reconcile_to_def Let_def bump_def split: prod.split
      intro!: keeps_fades_drop intro: keeps_fades_same)

lemma reconcile_keeps_fades:
  assumes "applied_frame s \<noteq> None"
  shows "keeps_fades now s (snd (reconcile E now s))"
  using assms reconcile_to_keeps_fades
  by (auto simp: reconcile_def intro: keeps_fades_same split: option.split)

lemma save_intent_fades:
  "r_level (snd (save_intent E s)) = r_level s"
  "r_temperature (snd (save_intent E s)) = r_temperature s"
  "r_now (snd (save_intent E s)) = r_now s"
  "save_intent E s = (Ok u, t) \<Longrightarrow> applied_frame t = applied_frame s"
  by (auto simp: save_intent_def store_record_def shutdown_simp Let_def bump_def invalidate_def
      split: prod.splits sum.splits if_splits)

lemma commit_keeps_fades:
  assumes "applied_frame s \<noteq> None"
  shows "keeps_fades (r_now s) s (snd (commit E target s))"
proof -
  define u where "u = bump (s\<lparr>r_dirty := (r_dirty s \<or> r_target s \<noteq> target), r_target := target\<rparr>)"
  have u: "r_level u = r_level s" "r_temperature u = r_temperature s" "r_now u = r_now s"
    "applied_frame u = applied_frame s"
    by (simp_all add: u_def) (simp_all add: bump_def)
  obtain x v where sv: "save_intent E u = (x, v)" by (cases "save_intent E u")
  note sf = save_intent_fades(1-3) [of E u, unfolded sv snd_conv]
  show ?thesis
  proof (cases x)
    case (Ok y)
    then have "keeps_fades (r_now v) v (snd (reconcile E (r_now v) v))"
      using assms u(4) save_intent_fades(4) [of E u y v] sv by (intro reconcile_keeps_fades) simp
    then show ?thesis
      using Ok u sf sv unfolding commit_def Let_def u_def [symmetric] by (simp add: keeps_fades_def)
  qed (use u sf sv in \<open>simp_all add: commit_def Let_def keeps_fades_def flip: u_def\<close>)
qed

primrec positional :: "runtime_op \<Rightarrow> bool" where
  "positional (OpRequest target) = True"
| "positional (OpRecallScene target ms) = True"
| "positional (OpSetPower on) = True"
| "positional (OpSetLevel l w) = True"
| "positional (OpSetLevelTransition l w ms) = True"
| "positional (OpSetLevelRate l w ms) = False"
| "positional (OpOffWithEffect e) = False"
| "positional (OpSetTemperature t) = True"
| "positional (OpSetTemperatureTransition t ms) = True"
| "positional (OpSetTemperatureRate t ms) = False"
| "positional OpStopLevel = False"
| "positional OpStopTemperature = False"
| "positional (OpSetStartup v) = False"
| "positional (OpSetStartupLevel v) = False"
| "positional (OpSetStartupTemperature v) = False"
| "positional OpOff = False"
| "positional OpVerify = False"
| "positional OpRegisters = False"
| "positional OpWatchdogTest = False"
| "positional OpPrepareReboot = False"
| "positional (OpTick now) = False"

definition repeats :: "('k, 'h) runtime_env \<Rightarrow> ('k, 'h) runtime
    \<Rightarrow> (unit, error_code) outcome \<times> ('k, 'h) runtime \<Rightarrow> bool" where
  "repeats E s m \<longleftrightarrow> (\<exists>e. m = (Err e, s)) \<or> m = commit E (r_target s) s"

lemma repeats_intros:
  "repeats E s (Err e, s)" "repeats E s (commit E (r_target s) s)"
  "repeats E s (k () s) \<Longrightarrow> repeats E s (and_then (writable s, s) k id)"
  using writable_cases [of s] by (auto simp: repeats_def [of E s "(Err _, s)"] repeats_def [of E s "commit E (r_target s) s"])

lemma positional_repeats:
  assumes "positional op" "requested op (r_target s) = Some (r_target s)" "op_ok op"
  shows "repeats E s (run_op E op s)"
proof -
  have recall: "repeats E s (recall_scene E (r_target s) ms s)" for ms
    by (auto simp: recall_scene_def intro: repeats_intros(1) intro!: repeats_intros(3) repeats_intros(2))
  have power: "repeats E s (set_power E on s)" if "(r_target s)\<lparr>ls_on := on\<rparr> = r_target s" for on
  proof -
    have "on = ls_on (r_target s)" using arg_cong [OF that, of ls_on] by simp
    then show ?thesis
      unfolding set_power_def Let_def that by (intro repeats_intros(3)) (simp add: repeats_intros)
  qed
  have temperature: "repeats E s (runtime_temperature_transition E t ms Smooth s)"
    if "(r_target s)\<lparr>ls_temperature := t\<rparr> = r_target s" for t ms
  proof -
    have "t = ls_temperature (r_target s)" using arg_cong [OF that, of ls_temperature] by simp
    then show ?thesis
      by (auto simp: runtime_temperature_transition_def Let_def that
          intro: repeats_intros(1) intro!: repeats_intros(3) repeats_intros(2))
  qed
  have level: "repeats E s (runtime_level_transition E l w ms Smooth s)"
    if "(r_target s)\<lparr>ls_level := Level (max l 1), ls_on := (if w then 1 < l else ls_on (r_target s))\<rparr>
      = r_target s" for l w ms
  proof (cases "l = 255")
    case True
    then show ?thesis by (simp add: runtime_level_transition_def repeats_intros)
  next
    case False
    have e: "level_new (max l 1) = Some (Level (max l 1))" using max_level_new [OF False] by blast
    show ?thesis
      unfolding runtime_level_transition_def
    proof (split if_split, intro conjI impI repeats_intros(1) repeats_intros(3), goal_cases)
      case 1
      show ?case
        unfolding Let_def e option.case level_MIN_def level_get.simps that
        by (simp only: refl simp_thms if_True repeats_intros(2))
    qed
  qed
  show ?thesis
    using assms recall power temperature level
    by (cases op) (auto simp: request_def set_level_def set_level_transition_def
        set_temperature_def set_temperature_transition_def split del: if_split)
qed



lemma reconcile_off_fades:
  assumes "\<not> ls_on (r_target s)"
  shows "r_level (snd (reconcile E now s)) = r_level s \<or> r_level (snd (reconcile E now s)) = None"
proof (cases "applied_frame s")
  case (Some f)
  then show ?thesis using reconcile_keeps_fades [of s now E] by (auto simp: keeps_fades_def)
next
  case None
  define y where "y = restore_from_zero now (s\<lparr>r_hardware := snd (hw_shutdown (env_hw E) (r_hardware s))\<rparr>)"
  have "r_level y = None" using assms by (simp add: y_def restore_from_zero_def)
  then have "r_level (snd (reconcile_to E now f y)) = None" for f
    using reconcile_to_keeps_fades [of now y E f] by (auto simp: keeps_fades_def)
  with \<open>r_level y = None\<close> None show ?thesis
    by (auto simp: reconcile_def shutdown_simp Let_def simp flip: y_def split: option.split)
qed

text \<open>A level command without on/off cannot relight the lamp: while the target is Off it changes
  the remembered level only, the target stays Off, and the level fade is the one that was
  running or none.\<close>

theorem level_without_on_off_stays_dark:
  assumes "\<not> ls_on (r_target s)" "run_op E op s = (r, t)"
    and "op = OpSetLevelTransition l False ms \<or> op = OpSetLevelRate l False ms"
  shows "\<not> ls_on (r_target t) \<and> (r_level t = r_level s \<or> r_level t = None)"
proof -
  define T where "T n = (r_target s)\<lparr>ls_level := n, ls_on := False\<rparr>" for n
  have off: "\<not> ls_on (T n)" for n using assms(1) by (simp add: T_def)
  have c: "\<not> ls_on (r_target (snd (commit E (T n) s))) \<and>
      (r_level (snd (commit E (T n) s)) = r_level s \<or> r_level (snd (commit E (T n) s)) = None)" for n
  proof -
    define u where "u = bump (s\<lparr>r_dirty := (r_dirty s \<or> r_target s \<noteq> T n), r_target := T n\<rparr>)"
    have u: "r_level u = r_level s" "r_target u = T n" by (simp_all add: u_def bump_def)
    obtain x v where sv: "save_intent E u = (x, v)" by (cases "save_intent E u")
    have v: "r_level v = r_level s" "\<not> ls_on (r_target v)"
      using save_intent_fades(1) [of E u] save_intent_target [of E u] off by (simp_all add: sv u)
    have "snd (commit E (T n) s) = (case x of Ok _ \<Rightarrow> snd (reconcile E (r_now v) v) | _ \<Rightarrow> v)"
      using sv unfolding commit_def Let_def u_def [symmetric]
      by (simp add: and_then_def split: outcome.split)
    then show ?thesis
      using v reconcile_off_fades [OF v(2), of E "r_now v"] commit_target [of E "T n" s] off
      by (simp split: outcome.splits)
  qed
  have y: "runtime_level_transition E l False d cv s = (x, y) \<Longrightarrow>
      y = s \<or> (\<exists>n. y = snd (commit E (T n) s))" for d cv x y
    using assms(1) writable_cases [of s]
    by (auto simp: runtime_level_transition_def Let_def T_def dest!: arg_cong [where f = snd]
        split: if_splits option.splits)
  obtain d cv where "runtime_level_transition E l False d cv s = (r, t)"
    using assms(2,3) by (auto simp: set_level_transition_def set_level_rate_def)
  from y [OF this] show ?thesis
  proof (elim disjE exE)
    show "t = s \<Longrightarrow> ?thesis" using assms(1) by simp
    show "t = snd (commit E (T n) s) \<Longrightarrow> ?thesis" for n using c [of n] by simp
  qed
qed

lemma level_without_on_off_stays_dark_witness:
  "\<not> ls_on (r_target (snd (run_op (bench_env 0) (OpSetLevelTransition 200 False 0) bench_boot)))"
proof -
  have "\<not> ls_on (r_target bench_boot)" by code_simp
  then show ?thesis
    using level_without_on_off_stays_dark [of bench_boot "bench_env 0" "OpSetLevelTransition 200 False 0"]
    by (metis prod.collapse)
qed

end
