(* ===== verification/Runtime_Recovery.thy ===== *)
theory Runtime_Recovery
  imports Runtime_Fades
begin

text \<open>
  What the light runtime does by itself: a boot followed by any ticks never lights a lamp
  whose stored intent is not On, a working output converges to the target once its fades are
  over, and a runtime that is rebooting stays parked.
\<close>

section \<open>Boots and ticks in the dark\<close>

definition lights_at_boot :: "u8 list option \<Rightarrow> bool" where
  "lights_at_boot b = (case b of
     None \<Rightarrow> False
   | Some bytes \<Rightarrow> (case decode_record bytes of
       Inl _ \<Rightarrow> False
     | Inr saved \<Rightarrow> ls_on (sv_intended saved) \<and> su_power (sv_startup saved) \<noteq> 1))"

definition ticks ::
  "('k, 'h) runtime_env \<Rightarrow> u64 list \<Rightarrow> ('k, 'h) runtime \<Rightarrow> ('k, 'h) runtime" where
  "ticks E nows s = fold (\<lambda>now s. snd (runtime_tick E now s)) nows s"

definition dark_frame :: "output_frame \<Rightarrow> bool" where
  "dark_frame f \<longleftrightarrow> \<not> ls_on (of_state f) \<and> of_brightness f = brightness_ZERO"

definition dark ::
  "('k \<Rightarrow> u16 \<Rightarrow> u8 list option) \<Rightarrow> ('k, 'h) runtime_env \<Rightarrow> ('k, 'h) runtime \<Rightarrow> bool" where
  "dark recs E s \<longleftrightarrow> runtime_ok s \<and> \<not> ls_on (r_target s) \<and> r_level s = None \<and>
     \<not> lights_at_boot (recs (r_kv s) (INTENT_KEY E)) \<and>
     (\<forall>f. applied_frame s = Some f \<longrightarrow> dark_frame f)"

lemma startup_intent_off:
  assumes "startup_intent i su = Some t" "\<not> (ls_on i \<and> su_power su \<noteq> 1)"
  shows "\<not> ls_on t"
  using assms by (auto simp: startup_intent_def Let_def split: option.splits if_splits)

lemma effective_dark:
  assumes "\<not> ls_on (r_target s)" "r_level s = None" "effective s now = Some f"
  shows "dark_frame f"
  using assms by (auto simp: effective_def effective_level_def Let_def from_state_def dark_frame_def
      split: option.splits)

lemma drop_finished_level:
  "r_level (drop_finished now s) = (case r_level s of None \<Rightarrow> None
     | Some x \<Rightarrow> if level_transition_remaining x now = 0 then None else Some x)"
  "r_temperature (drop_finished now s) = (case r_temperature s of None \<Rightarrow> None
     | Some x \<Rightarrow> if transition_remaining x now = 0 then None else Some x)"
  by (auto simp: drop_finished_def Let_def split: option.splits)

lemma restore_from_zero_off: "\<not> ls_on (r_target s) \<Longrightarrow> r_level (restore_from_zero now s) = None"
  by (simp add: restore_from_zero_def)

context platform
begin

lemma dark_simps [simp]:
  "dark recs E (s\<lparr>r_now := n\<rparr>) = dark recs E s"
  "dark recs E (s\<lparr>r_next_verify := n\<rparr>) = dark recs E s"
  "dark recs E (s\<lparr>r_hardware := h\<rparr>) = dark recs E s"
  by (simp_all add: dark_def)

lemma dark_viewI:
  assumes "dark recs E s" "record_view t = record_view s" "r_level t = None" "runtime_ok t"
    and "\<And>f. applied_frame t = Some f \<Longrightarrow> dark_frame f"
  shows "dark recs E t"
  using assms record_viewD [OF assms(2)] by (simp add: dark_def)

lemma output_failed_dark: "dark recs E s \<Longrightarrow> dark recs E (output_failed E now s)"
  by (rule dark_viewI) (simp_all add: dark_def)

lemma reconcile_to_dark:
  assumes "dark recs E s" "effective s now = Some f"
  shows "dark recs E (snd (reconcile_to E now f s))"
proof (rule dark_viewI [OF assms(1) reconcile_to_view])
  have s: "runtime_ok s" "\<not> ls_on (r_target s)" "r_level s = None" using assms(1) by (simp_all add: dark_def)
  obtain g where "effective s now = Some g" "frame_ok g" using s(1) by (rule effective_Some)
  then show "runtime_ok (snd (reconcile_to E now f s))"
    using reconcile_to_safe [OF s(1), of f E now] assms(2) by (simp add: safe_def)
  show "r_level (snd (reconcile_to E now f s)) = None"
    using reconcile_to_keeps_fades [of now s E f] s(3) by (auto simp: keeps_fades_def)
  show "dark_frame g" if "applied_frame (snd (reconcile_to E now f s)) = Some g" for g
    using that effective_dark [OF s(2,3) assms(2)]
    by (cases rule: reconcile_to_cases [of E now f s]) auto
qed

lemma reconcile_dark:
  assumes "dark recs E s"
  shows "dark recs E (snd (reconcile E now s))"
proof -
  have z: "dark recs E (restore_from_zero now x)" if "dark recs E x" for x
    using that by (intro dark_viewI [OF that]) (simp_all add: dark_def restore_from_zero_off)
  show ?thesis
    using assms
    by (auto simp: reconcile_def shutdown_simp Let_def and_then_def output_failed_dark
        intro!: reconcile_to_dark z split: option.split)
qed

lemma save_intent_dark:
  assumes "dark recs E s"
  shows "dark recs E (snd (save_intent E s))"
proof -
  have ok: "state_ok (r_target s)" "startup_ok (r_startup s)" and d: "\<not> ls_on (r_target s)"
    using assms by (simp_all add: dark_def runtime_ok_def)
  obtain x kv where st:
    "kv_store (env_kv E) (INTENT_KEY E) (encode_record (r_target s) (r_startup s)) (r_kv s) = (x, kv)"
    by (cases "kv_store (env_kv E) (INTENT_KEY E) (encode_record (r_target s) (r_startup s)) (r_kv s)")
  have "recs kv (INTENT_KEY E) = recs (r_kv s) (INTENT_KEY E) \<or>
      recs kv (INTENT_KEY E) = Some (encode_record (r_target s) (r_startup s))"
    using st kv.store_atomic kv.store_puts by (cases x) blast+
  moreover have "\<not> lights_at_boot (Some (encode_record (r_target s) (r_startup s)))"
    using d by (simp add: lights_at_boot_def decode_encode [OF ok])
  ultimately have "\<not> lights_at_boot (recs kv (INTENT_KEY E))"
    using assms by (auto simp: dark_def)
  then show ?thesis
    using assms st save_intent_safe [of s E]
    by (auto simp: save_intent_def store_record_def Let_def shutdown_simp dark_def safe_def
        split: sum.split) (simp_all add: bump_def invalidate_def)
qed

lemma tick_reload_dark:
  assumes "dark recs E s"
  shows "dark recs E (snd (tick_reload E now s))"
proof (cases "r_load_fault s = Some FaultStorage")
  case True
  obtain x kv where l: "load_record E (r_kv s) = (x, kv)" by (cases "load_record E (r_kv s)")
  have kv: "recs kv = recs (r_kv s)" using load_record_kv [OF l] .
  have safe: "runtime_ok (snd (tick_reload E now s))"
    using tick_reload_safe [of s E now] assms by (simp add: dark_def safe_def)
  show ?thesis
  proof (cases x)
    case (Inl f)
    then show ?thesis using assms True l kv by (simp add: tick_reload_def dark_def)
  next
    case (Inr saved)
    have off: "\<not> (ls_on (sv_intended saved) \<and> su_power (sv_startup saved) \<noteq> 1)"
      using load_record_Inr [OF l [unfolded Inr]] assms
      by (auto simp: dark_def lights_at_boot_def saved_default_def light_default_def)
    show ?thesis
    proof (cases "startup_intent (sv_intended saved) (sv_startup saved)")
      case None
      then show ?thesis using assms True l Inr kv by (simp add: tick_reload_def dark_def)
    next
      case (Some target)
      have "\<not> ls_on target" using startup_intent_off [OF Some off] .
      then show ?thesis
        using assms True l Inr kv Some safe
        by (auto simp: tick_reload_def Let_def dark_def) (simp_all add: bump_def)
    qed
  qed
qed (simp add: tick_reload_def assms)

lemma tick_verify_dark:
  assumes "dark recs E s"
  shows "dark recs E (snd (tick_verify E now s))"
  using assms output_failed_dark
  by (auto simp: tick_verify_def Let_def on_hardware_def split: option.split prod.split)

lemma dark_and_then:
  assumes "dark recs E (snd m)" "\<And>a s. dark recs E s \<Longrightarrow> dark recs E (snd (k a s))"
  shows "dark recs E (snd (and_then m k id))"
  using assms by (cases m) (auto simp: and_then_def split: outcome.split)

lemma runtime_tick_dark:
  assumes "dark recs E s"
  shows "dark recs E (snd (runtime_tick E now s))"
proof -
  have drop: "dark recs E (drop_finished now x)" if "dark recs E x" for x
    using that by (intro dark_viewI [OF that]) (simp_all add: dark_def drop_finished_level)
  have apply_dark: "dark recs E (snd (tick_apply E now x))" if "dark recs E x" for x
    using reconcile_dark [OF that, of now] tick_verify_dark [OF drop [OF that], of now] that
    by (auto simp: tick_apply_def split: option.split prod.split outcome.split)
  have save: "dark recs E (snd (case save_intent E x of (Ok _, s) \<Rightarrow> tick_apply E now s
      | (Err _, s) \<Rightarrow> (Err (), s) | (Panic, s) \<Rightarrow> (Panic, s)))" if "dark recs E x" for x
    using save_intent_dark [OF that] apply_dark by (auto split: prod.split outcome.split)
  have "dark recs E (snd (and_then (tick_reload E now (s\<lparr>r_now := now\<rparr>)) (\<lambda>_ s.
      if r_load_fault s \<noteq> None then (Err (), s)
      else (case save_intent E s of (Ok _, s) \<Rightarrow> tick_apply E now s
        | (Err _, s) \<Rightarrow> (Err (), s) | (Panic, s) \<Rightarrow> (Panic, s))) id))"
  proof (rule dark_and_then)
    show "dark recs E (snd (tick_reload E now (s\<lparr>r_now := now\<rparr>)))"
      using assms by (intro tick_reload_dark) simp
  qed (simp add: save)
  then show ?thesis using assms by (simp add: runtime_tick_def Let_def)
qed

lemma ticks_dark: "dark recs E s \<Longrightarrow> dark recs E (ticks E nows s)"
  unfolding ticks_def by (induction nows arbitrary: s) (simp_all add: runtime_tick_dark)

lemma runtime_load_dark:
  assumes "runtime_load E kv h = Some s" "\<not> lights_at_boot (recs kv (INTENT_KEY E))"
  shows "dark recs E s"
proof -
  obtain x kv' where l: "load_record E kv = (x, kv')" by (cases "load_record E kv")
  define saved where "saved = (case x of Inl _ \<Rightarrow> saved_default | Inr saved \<Rightarrow> saved)"
  have off: "\<not> (ls_on (sv_intended saved) \<and> su_power (sv_startup saved) \<noteq> 1)"
  proof (cases x)
    case (Inr y)
    then show ?thesis
      using load_record_Inr [OF l [unfolded Inr]] assms(2)
      by (auto simp: saved_def lights_at_boot_def saved_default_def light_default_def)
  qed (simp add: saved_def saved_default_def light_default_def)
  obtain i where i: "startup_intent (sv_intended saved) (sv_startup saved) = Some i"
    using assms(1) unfolding runtime_load_def Let_def l prod.case saved_def [symmetric]
    by (cases "startup_intent (sv_intended saved) (sv_startup saved)") (simp_all split: prod.splits)
  then have "r_target s = i \<and> r_level s = None \<and> applied_frame s = None \<and> r_kv s = kv'"
    using assms(1) unfolding runtime_load_def Let_def l prod.case saved_def [symmetric]
    by (cases "hw_shutdown (env_hw E) h") (auto simp: applied_frame_def)
  then show ?thesis
    using startup_intent_off [OF i off] load_record_kv [OF l] assms
      reachable_ok [OF reachable.boot [OF assms(1)]]
    by (simp add: dark_def)
qed

end

text \<open>C28. A boot never turns the lamp on by itself: unless the store holds a readable record whose
  intent is On under a policy that is not Off, no boot followed by any ticks has an On target
  or drives anything but a dark frame, through storage faults, migrations and retries.\<close>

theorem boot_never_lights:
  assumes "platform E showing recs" "\<not> lights_at_boot (recs kv (INTENT_KEY E))"
    and "runtime_load E kv h = Some s"
  shows "\<not> ls_on (r_target (ticks E nows s)) \<and>
    (\<forall>f. applied_frame (ticks E nows s) = Some f \<longrightarrow> dark_frame f)"
  using platform.ticks_dark [OF assms(1) platform.runtime_load_dark [OF assms(1,3,2)]]
  by (simp add: dark_def)

lemma boot_never_lights_witness:
  "\<not> ls_on (r_target (ticks (bench_env 0) [0, 5000, 10000]
     (the (runtime_load (bench_env 0) (test_store_default\<lparr>ts_fail_load := True\<rparr>) sim_default))))"
proof -
  obtain s where s: "runtime_load (bench_env 0) (test_store_default\<lparr>ts_fail_load := True\<rparr>) sim_default = Some s"
    using runtime_load_ok [of "bench_env 0" "test_store_default\<lparr>ts_fail_load := True\<rparr>" sim_default] by blast
  have "\<not> lights_at_boot (ts_records (test_store_default\<lparr>ts_fail_load := True\<rparr>) (INTENT_KEY (bench_env 0)))"
    by (simp add: test_store_default_def lights_at_boot_def)
  from boot_never_lights [OF bench.platform_axioms this s] s show ?thesis by simp
qed

section \<open>Convergence on a working output\<close>

definition output_works :: "('k, 'h) runtime_env \<Rightarrow> ('h \<Rightarrow> output_frame \<Rightarrow> bool) \<Rightarrow> bool" where
  "output_works E showing \<longleftrightarrow>
     (\<forall>f h. fst (hw_apply_frame (env_hw E) f h) = Inr ()) \<and>
     (\<forall>h. fst (hw_shutdown (env_hw E) h) = Inr ()) \<and>
     (\<forall>f h. showing h f \<longrightarrow> fst (hw_verify_frame (env_hw E) f h) = Inr ())"

definition serviceable :: "('h \<Rightarrow> output_frame \<Rightarrow> bool) \<Rightarrow> u64 \<Rightarrow> ('k, 'h) runtime \<Rightarrow> bool" where
  "serviceable showing now s \<longleftrightarrow> runtime_ok s \<and> truthful showing s \<and> \<not> r_dirty s \<and>
     r_load_fault s = None \<and> r_fault s \<noteq> FaultRebooting \<and> r_retry_at s \<le> now"

definition fades_left :: "u64 \<Rightarrow> ('k, 'h) runtime \<Rightarrow> level_transition option \<times> transition option" where
  "fades_left now s = (r_level (drop_finished now s), r_temperature (drop_finished now s))"

lemma reconcile_to_works:
  assumes "output_works E showing"
  shows "\<exists>t. reconcile_to E now f s = (Ok (), t) \<and> r_retry_at t = 0 \<and>
    (r_level t, r_temperature t) = fades_left now s"
proof -
  define c where "c = snd (controller_command (SetPower (ls_on (of_state f)))
    (snd (controller_command (SetTemperature (ls_temperature (of_state f)))
      (snd (controller_command (SetLevel (ls_level (of_state f))) (r_controller s))))))"
  obtain r c' h where eq:
    "reconcile_frame (hw_apply_frame (env_hw E)) f c (r_hardware s) = (r, c', h)"
    by (cases "reconcile_frame (hw_apply_frame (env_hw E)) f c (r_hardware s)")
  have "\<not> is_err r"
  proof (cases r)
    case (Inl e)
    then have "hw_apply_frame (env_hw E) f (r_hardware s) = (Inl e, h)"
      using eq reconcile_frame_Inl [of "hw_apply_frame (env_hw E)" f c "r_hardware s" e c' h] by simp
    moreover have "fst (hw_apply_frame (env_hw E) f (r_hardware s)) = Inr ()"
      using assms by (simp add: output_works_def)
    ultimately show ?thesis by simp
  qed simp
  then show ?thesis
    unfolding reconcile_to_def Let_def c_def [symmetric] eq prod.case
    by (simp add: fades_left_def drop_finished_level) (simp add: drop_finished_def Let_def bump_def split: option.split)
qed

definition awaken :: "('k, 'h) runtime_env \<Rightarrow> u64 \<Rightarrow> ('k, 'h) runtime \<Rightarrow> ('k, 'h) runtime" where
  "awaken E now s = (if applied_frame s = None
     then restore_from_zero now (s\<lparr>r_hardware := snd (hw_shutdown (env_hw E) (r_hardware s))\<rparr>) else s)"

lemma awaken_ok: "runtime_ok s \<Longrightarrow> runtime_ok (awaken E now s)"
  by (simp add: awaken_def)

context platform
begin

lemma reconcile_works:
  assumes w: "output_works E showing" and s: "serviceable showing now s"
    and f: "effective (awaken E now s) now = Some f"
  shows "\<exists>t. reconcile E now s = (Ok (), t) \<and> serviceable showing now t \<and>
    record_view t = record_view s \<and> applied_frame t = Some f \<and> r_fault t = NoFault \<and>
    (r_level t, r_temperature t) = fades_left now (awaken E now s)"
proof -
  have ok: "runtime_ok (awaken E now s)" using s by (simp add: serviceable_def awaken_ok)
  obtain t where t: "reconcile_to E now f (awaken E now s) = (Ok (), t)" "r_retry_at t = 0"
    "(r_level t, r_temperature t) = fades_left now (awaken E now s)"
    using reconcile_to_works [OF w] by blast
  have view: "record_view t = record_view s"
  proof -
    have "record_view t = record_view (awaken E now s)"
      using reconcile_to_view [of E now f "awaken E now s"] unfolding t(1) snd_conv .
    then show ?thesis by (simp add: awaken_def)
  qed
  have "truthful showing (awaken E now s)" "r_load_fault (awaken E now s) = None"
    using s by (simp_all add: serviceable_def awaken_def) (simp add: restore_from_zero_def)
  then have tr: "truthful showing t"
    using reconcile_to_truthful [of "awaken E now s" now f] by (simp add: t)
  have "runtime_ok t"
    using reconcile_to_safe [OF ok, of f E now] effective_Some [OF ok, of now] f
    by (metis option.inject safe_simps(1) t(1))
  moreover have a: "applied_frame t = Some f \<and> r_fault t = NoFault"
    by (cases rule: reconcile_to_cases [of E now f "awaken E now s"]) (use t in auto)
  moreover have "reconcile E now s = (Ok (), t)"
  proof (cases "applied_frame s = None")
    case True
    have "fst (hw_shutdown (env_hw E) (r_hardware s)) = Inr ()" using w by (simp add: output_works_def)
    then show ?thesis
      using True f t(1) unfolding reconcile_def awaken_def if_P [OF True]
      by (simp add: shutdown_simp Let_def)
  next
    case False
    have "awaken E now s = s" unfolding awaken_def if_not_P [OF False] ..
    then show ?thesis
      using f t(1) unfolding reconcile_def if_not_P [OF False] by simp
  qed
  ultimately show ?thesis
    using s view tr t(2,3) record_viewD [OF view] by (simp add: serviceable_def)
qed

lemma tick_verify_works:
  assumes w: "output_works E showing" and s: "serviceable showing now s" and f: "applied_frame s = Some f"
  shows "\<exists>t. tick_verify E now s = (Ok (), t) \<and> serviceable showing now t \<and>
    record_view t = record_view s \<and> applied_frame t = Some f \<and> r_fault t = NoFault \<and>
    r_level t = r_level s \<and> r_temperature t = r_temperature s"
proof -
  have "showing (r_hardware s) f" "r_fault s = NoFault"
    using s f by (simp_all add: serviceable_def truthful_def)
  moreover from this obtain h where "hw_verify_frame (env_hw E) f (r_hardware s) = (Inr (), h)"
    using w unfolding output_works_def by (metis prod.collapse)
  moreover from this have "showing h f"
    using \<open>showing (r_hardware s) f\<close> hw.verify_keeps by blast
  ultimately show ?thesis
    using s f by (simp add: tick_verify_def Let_def on_hardware_def serviceable_def truthful_def)
qed

text \<open>A tick on a working output acknowledges the effective frame of that instant.\<close>

lemma tick_works:
  assumes w: "output_works E showing" and s: "serviceable showing now s"
  shows "\<exists>f t. runtime_tick E now s = (Ok (), t) \<and> serviceable showing now t \<and> r_target t = r_target s \<and>
    effective (awaken E now (s\<lparr>r_now := now\<rparr>)) now = Some f \<and> applied_frame t = Some f \<and>
    r_fault t = NoFault \<and>
    (r_level t, r_temperature t) = fades_left now (awaken E now (s\<lparr>r_now := now\<rparr>))"
proof -
  define u where "u = s\<lparr>r_now := now\<rparr>"
  have u: "serviceable showing now u" using s by (simp add: u_def serviceable_def truthful_def)
  then have ok: "runtime_ok u" by (simp add: serviceable_def)
  have tick: "runtime_tick E now s = tick_apply E now u"
    if "\<exists>t. tick_apply E now u = (Ok (), t)"
    using s that by (auto simp: runtime_tick_def Let_def tick_reload_def save_intent_def serviceable_def
        simp flip: u_def) (auto simp: u_def)
  obtain g where g: "effective u now = Some g" using ok by (rule effective_Some)
  obtain f where f: "effective (awaken E now u) now = Some f" using awaken_ok [OF ok] by (rule effective_Some)
  obtain t where t: "tick_apply E now u = (Ok (), t)" "serviceable showing now t"
    "record_view t = record_view u" "applied_frame t = Some f" "r_fault t = NoFault"
    "(r_level t, r_temperature t) = fades_left now (awaken E now u)"
  proof (cases "applied_frame u = Some g")
    case True
    then have "g = f" using f g by (simp add: awaken_def)
    have d: "serviceable showing now (drop_finished now u)"
      using u by (auto simp: serviceable_def truthful_def record_viewD [OF drop_finished_simps(2)])
        (simp_all add: drop_finished_def Let_def split: option.split)
    obtain t where "tick_verify E now (drop_finished now u) = (Ok (), t) \<and> serviceable showing now t \<and>
        record_view t = record_view u \<and> applied_frame t = Some g \<and> r_fault t = NoFault \<and>
        r_level t = r_level (drop_finished now u) \<and> r_temperature t = r_temperature (drop_finished now u)"
      using tick_verify_works [OF w d, of g] True by auto
    then show thesis
      using that True g \<open>g = f\<close> by (simp add: tick_apply_def awaken_def fades_left_def)
  next
    case False
    then show thesis using that g reconcile_works [OF w u f] by (auto simp: tick_apply_def)
  qed
  have "r_target t = r_target s" using record_viewD(2) [OF t(3)] by (simp add: u_def)
  moreover have "runtime_tick E now s = (Ok (), t)" using tick t(1) by simp
  ultimately show ?thesis using t f unfolding u_def by (intro exI [of _ f] exI [of _ t] conjI)
qed

end

definition fades_over :: "u64 \<Rightarrow> ('k, 'h) runtime \<Rightarrow> bool" where
  "fades_over now s \<longleftrightarrow>
     (case r_level s of None \<Rightarrow> True | Some x \<Rightarrow> level_transition_remaining x now = 0) \<and>
     (case r_temperature s of None \<Rightarrow> True | Some x \<Rightarrow> transition_remaining x now = 0)"

lemma fades_left_over: "fades_over now s \<Longrightarrow> fades_left now s = (None, None)"
  by (auto simp: fades_over_def fades_left_def drop_finished_level split: option.splits)

lemma effective_rest:
  "r_level s = None \<Longrightarrow> r_temperature s = None \<Longrightarrow> effective s now = Some (from_state (r_target s))"
  by (simp add: effective_def effective_level_def Let_def from_state_def)

lemma fades_over_awaken:
  assumes "fades_over t2 s" "unat t1 + 400 \<le> unat t2"
    and "(l, c) = fades_left t1 (awaken E t1 (s\<lparr>r_now := n\<rparr>))" "r_level u = l" "r_temperature u = c"
  shows "fades_over t2 u"
proof (cases "applied_frame s = None")
  case True
  have "unat (sat_sub (sat_add t1 DEFAULT_TRANSITION_MS) t2) = 0"
    using assms(2) unat_bound [of t2] by (simp add: unat_sat_sub unat_sat_add DEFAULT_TRANSITION_MS_def)
  then have "sat_sub (sat_add t1 DEFAULT_TRANSITION_MS) t2 = 0" by (simp only: unat_eq_zero)
  with True assms(3-5) show ?thesis
    by (auto simp: fades_over_def fades_left_def awaken_def restore_from_zero_def drop_finished_level
        level_transition_remaining_def split: if_splits)
next
  case False
  with assms show ?thesis
    by (auto simp: fades_over_def fades_left_def awaken_def drop_finished_level
        split: option.splits if_splits)
qed


lemma sim_works: "output_works (bench_env k) sim_shows"
  by (simp add: output_works_def bench_env_def sim_ops_def sim_apply_frame_def sim_shutdown_def
      sim_verify_frame_def sim_shows_def)


section \<open>Rebooting\<close>

text \<open>A rebooting lamp stays parked: after \<open>prepare_reboot\<close> every call except a local off, a
  register dump or another reboot leaves the hardware untouched and the reboot latched, and
  no frame becomes acknowledged; so nothing relights the lamp while the reset is on its way.\<close>

theorem rebooting_stays_parked:
  assumes "r_fault s = FaultRebooting" "applied_frame s = None"
    and "op \<notin> {OpOff, OpRegisters, OpPrepareReboot}"
  shows "r_hardware (snd (run_op E op s)) = r_hardware s \<and>
    r_fault (snd (run_op E op s)) = FaultRebooting \<and> applied_frame (snd (run_op E op s)) = None \<and>
    r_target (snd (run_op E op s)) = r_target s \<and> r_kv (snd (run_op E op s)) = r_kv s"
proof -
  have w: "and_then (writable s, s) k id = (Err Busy, s)"
    for k :: "unit \<Rightarrow> ('a, 'b) runtime \<Rightarrow> (unit, error_code) outcome \<times> ('a, 'b) runtime"
    using assms(1) by (simp add: writable_def)
  show ?thesis
    using assms
    by (cases op) (simp_all add: request_def recall_scene_def set_power_def set_level_def
        set_level_transition_def set_level_rate_def runtime_level_transition_def off_with_effect_def
        set_temperature_def set_temperature_transition_def set_temperature_rate_def
        runtime_temperature_transition_def stop_level_transition_def stop_temperature_transition_def
        set_startup_def set_startup_level_def set_startup_temperature_def save_startup_def
        runtime_verify_def watchdog_test_ready_def runtime_tick_def no_data_def w
        split: option.split start_up_on_off.split)
qed

definition bench_rebooting :: "(test_store, simulated_output) runtime" where
  "bench_rebooting = snd (prepare_reboot (bench_env 0) bench_lit)"

lemma rebooting_stays_parked_witness:
  "applied_frame (snd (run_op (bench_env 0) (OpSetPower True) bench_rebooting)) = None"
proof -
  have "r_fault bench_rebooting = FaultRebooting" "applied_frame bench_rebooting = None" by code_simp+
  then show ?thesis using rebooting_stays_parked [of bench_rebooting "OpSetPower True" "bench_env 0"] by simp
qed

text \<open>A local off is not parked: it clears the latch, after which requests drive the lamp again.\<close>

lemma off_clears_reboot_latch:
  "r_fault (snd (run_op (bench_env 0) OpOff bench_rebooting)) = NoFault \<and>
   fst (run_op (bench_env 0) (OpSetPower True) (snd (run_op (bench_env 0) OpOff bench_rebooting))) = Ok ()"
  by code_simp

end
