(* ===== verification/Recovery.thy ===== *)
theory Recovery
  imports Prelude
begin

text \<open>
  The local recovery policies of \<open>firmware/app/src/recovery.rs\<close>: when the transport is
  restarted on missing local IPv6, on a stale association and on repeated driver failures,
  and how long each restart waits. Locale \<open>incident_clock\<close> is what the health timers of
  the application share (also \<open>QueueHealth\<close> of \<open>network_tx.rs\<close>): the start of the current
  run of bad evidence. A policy is specified on the history of its observations.
\<close>

section \<open>Definitions\<close>

text \<open>An \<open>Ipv6Addr\<close> is its 128 bits; the three tests are those of the Rust standard library.\<close>

type_synonym ipv6_addr = "128 word"

definition is_unspecified :: "ipv6_addr \<Rightarrow> bool" where
  "is_unspecified a \<longleftrightarrow> a = 0"

definition is_multicast :: "ipv6_addr \<Rightarrow> bool" where
  "is_multicast a \<longleftrightarrow> drop_bit 120 a = 0xff"

definition is_loopback :: "ipv6_addr \<Rightarrow> bool" where
  "is_loopback a \<longleftrightarrow> a = 1"

definition usable_local_ipv6 :: "bool \<Rightarrow> ipv6_addr list \<Rightarrow> bool" where
  "usable_local_ipv6 operational addresses \<longleftrightarrow> operational \<and>
     list_ex (\<lambda>a. \<not> is_unspecified a \<and> \<not> is_multicast a \<and> \<not> is_loopback a) addresses"

record local_net_health =
  lh_missing_since :: "u64 option"

definition local_restart_due :: "u64 \<Rightarrow> bool \<Rightarrow> bool \<Rightarrow> local_net_health \<Rightarrow> bool \<times> local_net_health" where
  "local_restart_due now_ms associated local_ready h =
     (if \<not> associated \<or> local_ready then (False, h\<lparr>lh_missing_since := None\<rparr>)
      else (let since = (case lh_missing_since h of None \<Rightarrow> now_ms | Some t \<Rightarrow> t)
            in (60000 \<le> sat_sub now_ms since, h\<lparr>lh_missing_since := Some since\<rparr>)))"

record driver_errors =
  de_consecutive :: u8

definition driver_errors_observe :: "bool \<Rightarrow> driver_errors \<Rightarrow> bool \<times> driver_errors" where
  "driver_errors_observe internal_failure d =
     (let d = d\<lparr>de_consecutive := (if internal_failure then sat_add (de_consecutive d) 1 else 0)\<rparr>
      in (3 \<le> de_consecutive d, d))"

record associated_health =
  ah_failed_since :: "u64 option"

definition associated_restart_due :: "u64 \<Rightarrow> bool \<Rightarrow> bool \<Rightarrow> associated_health \<Rightarrow> bool \<times> associated_health" where
  "associated_restart_due now_ms associated radio_ok h =
     (if \<not> associated \<or> radio_ok then (False, h\<lparr>ah_failed_since := None\<rparr>)
      else (let since = (case ah_failed_since h of None \<Rightarrow> now_ms | Some t \<Rightarrow> t)
            in (60000 \<le> sat_sub now_ms since, h\<lparr>ah_failed_since := Some since\<rparr>)))"

record restart_backoff =
  rb_failures :: u8

definition next_delay_secs :: "u64 \<Rightarrow> restart_backoff \<Rightarrow> u64 \<times> restart_backoff" where
  "next_delay_secs healthy_for_ms b =
     (let b = (if 120000 \<le> healthy_for_ms then b\<lparr>rb_failures := 0\<rparr> else b);
          seconds = min (push_bit (unat (min (rb_failures b) 4)) 5) 60
      in (seconds, b\<lparr>rb_failures := sat_add (rb_failures b) 1\<rparr>))"

definition local_net_health_default :: local_net_health where
  "local_net_health_default = \<lparr>lh_missing_since = None\<rparr>"

definition associated_health_default :: associated_health where
  "associated_health_default = \<lparr>ah_failed_since = None\<rparr>"

definition driver_errors_default :: driver_errors where
  "driver_errors_default = \<lparr>de_consecutive = 0\<rparr>"

definition restart_backoff_default :: restart_backoff where
  "restart_backoff_default = \<lparr>rb_failures = 0\<rparr>"

section \<open>Clocks of an incident\<close>

text \<open>
  Observations are given oldest first. \<open>incident bad obs\<close> is the run of bad ones that the
  last observation belongs to, newest first.
\<close>

definition incident :: "('e \<Rightarrow> bool) \<Rightarrow> (u64 \<times> 'e) list \<Rightarrow> (u64 \<times> 'e) list" where
  "incident bad obs = takeWhile (\<lambda>o'. bad (snd o')) (rev obs)"

definition incident_start :: "('e \<Rightarrow> bool) \<Rightarrow> (u64 \<times> 'e) list \<Rightarrow> u64 option" where
  "incident_start bad obs =
     (if incident bad obs = [] then None else Some (fst (last (incident bad obs))))"

definition observe_all :: "(u64 \<Rightarrow> 'e \<Rightarrow> 's \<Rightarrow> bool \<times> 's) \<Rightarrow> (u64 \<times> 'e) list \<Rightarrow> 's \<Rightarrow> 's" where
  "observe_all observe obs s = fold (\<lambda>(now, e) s. snd (observe now e s)) obs s"

lemma incident_snoc:
  "incident bad (obs @ [(now, e)]) = (if bad e then (now, e) # incident bad obs else [])"
  by (simp add: incident_def)

lemma incident_start_snoc:
  "incident_start bad (obs @ [(now, e)]) =
     (if bad e then Some (case incident_start bad obs of None \<Rightarrow> now | Some t \<Rightarrow> t) else None)"
  by (simp add: incident_start_def incident_snoc)

lemma observe_all_snoc:
  "observe_all observe (obs @ [(now, e)]) s = snd (observe now e (observe_all observe obs s))"
  by (simp add: observe_all_def)

locale incident_clock =
  fixes observe :: "u64 \<Rightarrow> 'e \<Rightarrow> 's \<Rightarrow> bool \<times> 's" and bad :: "'e \<Rightarrow> bool" and since :: "'s \<Rightarrow> u64 option"
  assumes since_good: "\<not> bad e \<Longrightarrow> since (snd (observe now e s)) = None"
    and since_bad: "bad e \<Longrightarrow>
      since (snd (observe now e s)) = Some (case since s of None \<Rightarrow> now | Some t \<Rightarrow> t)"
begin

lemma since_history:
  "since s = None \<Longrightarrow> since (observe_all observe obs s) = incident_start bad obs"
proof (induction obs rule: rev_induct)
  case Nil
  then show ?case by (simp add: observe_all_def incident_start_def incident_def)
next
  case (snoc o' obs)
  then show ?case
    by (cases o') (simp add: observe_all_snoc incident_start_snoc since_good since_bad)
qed

end

locale grace_timer = incident_clock observe bad since
  for observe :: "u64 \<Rightarrow> 'e \<Rightarrow> 's \<Rightarrow> bool \<times> 's" and bad :: "'e \<Rightarrow> bool" and since :: "'s \<Rightarrow> u64 option" +
  assumes due_good: "\<not> bad e \<Longrightarrow> \<not> fst (observe now e s)"
    and due_bad: "bad e \<Longrightarrow> fst (observe now e s) \<longleftrightarrow>
      60000 \<le> unat now - unat (case since s of None \<Rightarrow> now | Some t \<Rightarrow> t)"
begin

lemma due_history:
  assumes "since s = None"
  shows "fst (observe now e (observe_all observe obs s)) \<longleftrightarrow>
    (case incident_start bad (obs @ [(now, e)]) of
       None \<Rightarrow> False | Some t \<Rightarrow> 60000 \<le> unat now - unat t)"
  using since_history [OF assms, of obs]
  by (cases "bad e") (simp_all add: due_good due_bad incident_start_snoc split: option.split)

end

text \<open>Evidence is the pair of what the timer is told: whether Wi-Fi is associated, and whether the
  local check passed.\<close>

definition local_observe :: "u64 \<Rightarrow> bool \<times> bool \<Rightarrow> local_net_health \<Rightarrow> bool \<times> local_net_health" where
  "local_observe now e h = local_restart_due now (fst e) (snd e) h"

definition associated_observe :: "u64 \<Rightarrow> bool \<times> bool \<Rightarrow> associated_health \<Rightarrow> bool \<times> associated_health" where
  "associated_observe now e h = associated_restart_due now (fst e) (snd e) h"

definition unhealthy :: "bool \<times> bool \<Rightarrow> bool" where
  "unhealthy e \<longleftrightarrow> fst e \<and> \<not> snd e"

lemma word_60000_le: "60000 \<le> sat_sub a b \<longleftrightarrow> 60000 \<le> unat a - unat (b :: u64)"
  by (simp add: word_le_nat_alt unat_sat_sub)

interpretation local_timer: grace_timer local_observe unhealthy lh_missing_since
  by unfold_locales
    (auto simp: local_observe_def local_restart_due_def unhealthy_def Let_def word_60000_le)

interpretation associated_timer: grace_timer associated_observe unhealthy ah_failed_since
  by unfold_locales
    (auto simp: associated_observe_def associated_restart_due_def unhealthy_def Let_def word_60000_le)

section \<open>Properties\<close>

text \<open>A restart for missing local IPv6 follows sixty continuous seconds of it and nothing else:
  whatever was observed before, the timer asks for a restart exactly when the lamp is
  associated without usable IPv6 now, and has been in every observation since one at least
  60 s ago. An absent access point never asks for one.\<close>

theorem ipv6_restart_after_continuous_minute:
  "fst (local_restart_due now associated ready (observe_all local_observe obs local_net_health_default)) \<longleftrightarrow>
   (case incident_start unhealthy (obs @ [(now, (associated, ready))]) of
      None \<Rightarrow> False | Some t \<Rightarrow> 60000 \<le> unat now - unat t)"
  using local_timer.due_history [of local_net_health_default now "(associated, ready)" obs]
  by (simp add: local_net_health_default_def local_observe_def)

text \<open>A restart for a stale association follows sixty continuous seconds of failing radio
  queries while associated, whatever was observed before.\<close>

theorem stale_association_restart_after_minute:
  "fst (associated_restart_due now associated radio_ok
      (observe_all associated_observe obs associated_health_default)) \<longleftrightarrow>
   (case incident_start unhealthy (obs @ [(now, (associated, radio_ok))]) of
      None \<Rightarrow> False | Some t \<Rightarrow> 60000 \<le> unat now - unat t)"
  using associated_timer.due_history [of associated_health_default now "(associated, radio_ok)" obs]
  by (simp add: associated_health_default_def associated_observe_def)

lemma consecutive_failures:
  "unat (de_consecutive (fold (\<lambda>f d. snd (driver_errors_observe f d)) fs driver_errors_default)) =
     min 255 (length (takeWhile id (rev fs)))"
proof (induction fs rule: rev_induct)
  case Nil
  then show ?case by (simp add: driver_errors_default_def)
next
  case (snoc f fs)
  then show ?case by (auto simp: driver_errors_observe_def Let_def unat_sat_add)
qed

text \<open>The third consecutive internal driver failure asks for a new controller, and only such a
  run does: an expected association failure in between starts the count again, and the
  saturating counter never forgets a long run.\<close>

theorem driver_restart_on_third_failure:
  "fst (driver_errors_observe f (fold (\<lambda>f d. snd (driver_errors_observe f d)) fs driver_errors_default)) \<longleftrightarrow>
   f \<and> 2 \<le> length (takeWhile id (rev fs))"
  using consecutive_failures [of "fs @ [f]"]
  by (cases f) (auto simp: driver_errors_observe_def Let_def word_le_nat_alt)

definition delays :: "u64 list \<Rightarrow> restart_backoff \<Rightarrow> restart_backoff" where
  "delays hs b = fold (\<lambda>h b. snd (next_delay_secs h b)) hs b"

lemma failures_history:
  "unat (rb_failures (delays hs restart_backoff_default)) =
     min 255 (length (takeWhile (\<lambda>h. h < 120000) (rev hs)) +
       (if \<exists>h \<in> set hs. 120000 \<le> h then 1 else 0))"
proof (induction hs rule: rev_induct)
  case Nil
  then show ?case by (simp add: delays_def restart_backoff_default_def)
next
  case (snoc h hs)
  then show ?case
    by (auto simp: delays_def next_delay_secs_def Let_def unat_sat_add not_le not_less min_def)
qed

lemma backoff_seconds:
  "unat (fst (next_delay_secs h b)) =
     min 60 (5 * 2 ^ min 4 (if 120000 \<le> h then 0 else unat (rb_failures b)))"
proof -
  define k where "k = min 4 (if 120000 \<le> h then 0 else unat (rb_failures b))"
  have "k = 0 \<or> k = 1 \<or> k = 2 \<or> k = 3 \<or> k = 4" unfolding k_def by linarith
  then have "unat (push_bit k 5 :: u64) = 5 * 2 ^ k" by (elim disjE) simp_all
  moreover have "unat (min (if 120000 \<le> h then 0 else rb_failures b) 4) = k"
    by (simp add: unat_min_word k_def min.commute)
  ultimately show ?thesis
    by (auto simp: next_delay_secs_def Let_def unat_min_word k_def min.commute split: if_splits)
qed

text \<open>The restarts since the last run that stayed healthy for two minutes, that one included.\<close>

definition restarts_since_healthy :: "u64 list \<Rightarrow> nat" where
  "restarts_since_healthy hs = length (takeWhile (\<lambda>h. h < 120000) (rev hs)) -
     (if \<exists>h \<in> set hs. 120000 \<le> h then 0 else 1)"

text \<open>Restart delays double from five seconds up to a minute and start again only after a run
  that was healthy for two minutes: whatever the history, the next delay is
  \<open>min 60 (5 * 2 ^ n)\<close> for the number \<open>n\<close> of restarts since that run; neither the shift
  nor the counter overflows.\<close>

theorem backoff_doubles_to_a_minute:
  "unat (fst (next_delay_secs h (delays hs restart_backoff_default))) =
     min 60 (5 * 2 ^ restarts_since_healthy (hs @ [h]))"
proof -
  define n where "n = (if 120000 \<le> h then 0 else length (takeWhile (\<lambda>h. h < 120000) (rev hs)) +
    (if \<exists>h \<in> set hs. 120000 \<le> h then 1 else 0 :: nat))"
  have "restarts_since_healthy (hs @ [h]) = n"
    by (auto simp: restarts_since_healthy_def n_def not_le not_less)
  moreover have "min 4 (if 120000 \<le> h then 0 else unat (rb_failures (delays hs restart_backoff_default))) = min 4 n"
    by (auto simp: failures_history n_def)
  moreover have "min 60 (5 * 2 ^ min 4 n) = min 60 (5 * 2 ^ n :: nat)"
  proof (cases "n \<le> 4")
    case False
    then have "(2 :: nat) ^ 4 \<le> 2 ^ n" by (intro power_increasing) simp_all
    with False show ?thesis by simp
  qed simp
  ultimately show ?thesis by (simp only: backoff_seconds)
qed

end
