(* ===== verification/Network_Tx.thy ===== *)
theory Network_Tx
  imports Recovery
begin

text \<open>
  The transmit-queue watch of \<open>firmware/app/src/network_tx.rs\<close>: \<open>QueueHealth\<close>, the
  \<open>GuardedDriver\<close> that feeds it around the station's network driver, the escalation policy
  \<open>QueueRecovery\<close> and \<open>healthy_until\<close>. The wrapped driver (embassy-net's \<open>Driver\<close> trait
  of the radio crate) is a parameter; the callbacks of the guard and its timer alarm are a
  list of effects; the clock is an argument of each call.
\<close>

section \<open>Queue policies\<close>

record queue_recovery =
  qr_recreated :: bool

definition queue_recovery_default :: queue_recovery where
  "queue_recovery_default = \<lparr>qr_recreated = False\<rparr>"

definition record_health :: "u64 \<Rightarrow> queue_recovery \<Rightarrow> queue_recovery" where
  "record_health healthy_for_ms q =
     (if 120000 \<le> healthy_for_ms then q\<lparr>qr_recreated := False\<rparr> else q)"

definition reboot_required :: "queue_recovery \<Rightarrow> bool \<times> queue_recovery" where
  "reboot_required q = (qr_recreated q, q\<lparr>qr_recreated := True\<rparr>)"

definition STALL_MS :: u64 where "STALL_MS = 60000"

record queue_health =
  qh_blocked_since :: "u64 option"
  qh_reported :: bool

definition queue_health_default :: queue_health where
  "queue_health_default = \<lparr>qh_blocked_since = None, qh_reported = False\<rparr>"

definition queue_observe :: "u64 \<Rightarrow> bool \<Rightarrow> bool \<Rightarrow> queue_health \<Rightarrow> bool \<times> queue_health" where
  "queue_observe now linked capacity h =
     (if \<not> linked \<or> capacity then (False, h\<lparr>qh_blocked_since := None, qh_reported := False\<rparr>)
      else (let since = (case qh_blocked_since h of None \<Rightarrow> now | Some t \<Rightarrow> t);
                h = h\<lparr>qh_blocked_since := Some since\<rparr>
            in if \<not> qh_reported h \<and> STALL_MS \<le> sat_sub now since
               then (True, h\<lparr>qh_reported := True\<rparr>) else (False, h)))"

definition queue_remaining_ms :: "u64 \<Rightarrow> queue_health \<Rightarrow> u64 option" where
  "queue_remaining_ms now h =
     (case qh_blocked_since h of
        None \<Rightarrow> None
      | Some since \<Rightarrow> if qh_reported h then None else Some (sat_sub STALL_MS (sat_sub now since)))"

definition tx_healthy_until :: "u64 \<Rightarrow> u64 option \<Rightarrow> u64" where
  "tx_healthy_until now blocked_since = (case blocked_since of None \<Rightarrow> now | Some since \<Rightarrow> min now since)"

section \<open>The guarded driver\<close>

datatype link_state = LinkDown | LinkUp

record ('d, 'r, 't) net_driver =
  nd_receive :: "'d \<Rightarrow> 'r option \<times> 'd"
  nd_transmit :: "'d \<Rightarrow> 't option \<times> 'd"
  nd_link_state :: "'d \<Rightarrow> link_state \<times> 'd"

datatype guard_effect = ObserveHealth "u64 option" | Stalled | Alarm u64

record 'd guarded_driver =
  gd_inner :: 'd
  gd_health :: queue_health
  gd_effects :: "guard_effect list"

definition guarded_new :: "'d \<Rightarrow> 'd guarded_driver" where
  "guarded_new inner = \<lparr>gd_inner = inner, gd_health = queue_health_default, gd_effects = []\<rparr>"

definition guard_effect :: "guard_effect \<Rightarrow> 'd guarded_driver \<Rightarrow> 'd guarded_driver" where
  "guard_effect e g = g\<lparr>gd_effects := gd_effects g @ [e]\<rparr>"

definition guard_alive :: "u64 \<Rightarrow> 'd guarded_driver \<Rightarrow> 'd guarded_driver" where
  "guard_alive now g =
     guard_effect (ObserveHealth None)
       (g\<lparr>gd_health := snd (queue_observe now True True (gd_health g))\<rparr>)"

definition guarded_receive ::
  "('d, 'r, 't) net_driver \<Rightarrow> u64 \<Rightarrow> 'd guarded_driver \<Rightarrow> 'r option \<times> 'd guarded_driver" where
  "guarded_receive D now g =
     (let (tokens, inner) = nd_receive D (gd_inner g);
          g = g\<lparr>gd_inner := inner\<rparr>
      in (tokens, if tokens \<noteq> None then guard_alive now g else g))"

definition guarded_transmit ::
  "('d, 'r, 't) net_driver \<Rightarrow> u64 \<Rightarrow> 'd guarded_driver \<Rightarrow> 't option \<times> 'd guarded_driver" where
  "guarded_transmit D now g =
     (let (token, inner) = nd_transmit D (gd_inner g);
          g = g\<lparr>gd_inner := inner\<rparr>
      in (token, if token \<noteq> None then guard_alive now g else g))"

text \<open>\<open>link == Up && transmit(cx).is_some()\<close>: the driver is only probed while the link is up.\<close>

definition guarded_probe ::
  "('d, 'r, 't) net_driver \<Rightarrow> 'd guarded_driver \<Rightarrow> (link_state \<times> bool) \<times> 'd guarded_driver" where
  "guarded_probe D g =
     (let (link, inner) = nd_link_state D (gd_inner g)
      in if link = LinkUp then
           (let (token, inner) = nd_transmit D inner
            in ((link, token \<noteq> None), g\<lparr>gd_inner := inner\<rparr>))
         else ((link, False), g\<lparr>gd_inner := inner\<rparr>))"

definition guarded_link_state ::
  "('d, 'r, 't) net_driver \<Rightarrow> u64 \<Rightarrow> 'd guarded_driver \<Rightarrow> link_state \<times> 'd guarded_driver" where
  "guarded_link_state D now g =
     (let ((link, capacity), g) = guarded_probe D g;
          (stalled, h) = queue_observe now (link = LinkUp) capacity (gd_health g);
          g = g\<lparr>gd_health := h\<rparr>;
          g = guard_effect (ObserveHealth (qh_blocked_since (gd_health g))) g;
          g = (if stalled then guard_effect Stalled g else g);
          g = (case queue_remaining_ms now (gd_health g) of
                 Some remaining \<Rightarrow> guard_effect (Alarm remaining) g
               | None \<Rightarrow> g)
      in (link, g))"

section \<open>One report per incident\<close>

locale one_shot_timer = incident_clock observe bad since
  for observe :: "u64 \<Rightarrow> 'e \<Rightarrow> 's \<Rightarrow> bool \<times> 's" and bad :: "'e \<Rightarrow> bool" and since :: "'s \<Rightarrow> u64 option" +
  fixes reported :: "'s \<Rightarrow> bool"
  assumes due_good: "\<not> bad e \<Longrightarrow> \<not> fst (observe now e s) \<and> \<not> reported (snd (observe now e s))"
    and due_bad: "bad e \<Longrightarrow> fst (observe now e s) \<longleftrightarrow> \<not> reported s \<and>
      60000 \<le> unat now - unat (case since s of None \<Rightarrow> now | Some t \<Rightarrow> t)"
    and reported_bad: "bad e \<Longrightarrow>
      reported (snd (observe now e s)) \<longleftrightarrow> reported s \<or> fst (observe now e s)"
begin

lemma reported_history:
  assumes "since s = None" "\<not> reported s"
  shows "reported (observe_all observe obs s) \<longleftrightarrow>
    (case incident_start bad obs of None \<Rightarrow> False
     | Some t \<Rightarrow> \<exists>o' \<in> set (incident bad obs). 60000 \<le> unat (fst o') - unat t)"
proof (induction obs rule: rev_induct)
  case Nil
  then show ?case using assms by (simp add: observe_all_def incident_start_def incident_def)
next
  case (snoc o' obs)
  obtain now e where o': "o' = (now, e)" by (cases o')
  show ?case
  proof (cases "bad e")
    case True
    have none: "incident_start bad obs = None \<Longrightarrow> incident bad obs = []"
      by (simp add: incident_start_def split: if_splits)
    show ?thesis
      using True snoc since_history [OF assms(1), of obs] none
      by (auto simp: o' observe_all_snoc incident_start_snoc incident_snoc reported_bad due_bad
          split: option.splits)
  next
    case False
    then show ?thesis using due_good by (simp add: o' observe_all_snoc incident_start_snoc)
  qed
qed

lemma due_history:
  assumes "since s = None" "\<not> reported s"
  shows "fst (observe now e (observe_all observe obs s)) \<longleftrightarrow>
    (case incident_start bad (obs @ [(now, e)]) of None \<Rightarrow> False
     | Some t \<Rightarrow> 60000 \<le> unat now - unat t \<and>
         (bad e \<and> incident_start bad obs = Some t \<longrightarrow>
           (\<forall>o' \<in> set (incident bad obs). unat (fst o') - unat t < 60000)))"
  using since_history [OF assms(1), of obs] reported_history [OF assms, of obs]
  by (cases "bad e") (auto simp: due_good due_bad incident_start_snoc not_le split: option.splits)

end

definition queue_evidence :: "u64 \<Rightarrow> bool \<times> bool \<Rightarrow> queue_health \<Rightarrow> bool \<times> queue_health" where
  "queue_evidence now e h = queue_observe now (fst e) (snd e) h"

interpretation queue_timer: one_shot_timer queue_evidence unhealthy qh_blocked_since qh_reported
  by unfold_locales
    (auto simp: queue_evidence_def queue_observe_def unhealthy_def Let_def STALL_MS_def word_60000_le)

section \<open>Properties\<close>

text \<open>A stuck transmit queue is reported once per incident, at the first observation that
  comes at least sixty seconds after the queue was first seen full with the link up; a link
  loss or any transmit capacity ends the incident and its clock.\<close>

theorem stall_reported_once_after_minute:
  "fst (queue_observe now linked capacity (observe_all queue_evidence obs queue_health_default)) \<longleftrightarrow>
   (case incident_start unhealthy (obs @ [(now, (linked, capacity))]) of None \<Rightarrow> False
    | Some t \<Rightarrow> 60000 \<le> unat now - unat t \<and>
        (unhealthy (linked, capacity) \<and> incident_start unhealthy obs = Some t \<longrightarrow>
          (\<forall>o' \<in> set (incident unhealthy obs). unat (fst o') - unat t < 60000)))"
  using queue_timer.due_history [of queue_health_default now "(linked, capacity)" obs]
  by (simp add: queue_health_default_def queue_evidence_def)

lemma stall_reported_once_after_minute_witness:
  "fst (queue_observe 61000 True False
    (observe_all queue_evidence [(0, (True, True)), (1000, (True, False))] queue_health_default))"
proof -
  have "incident unhealthy [(0, (True, True)), (1000, (True, False))] = [(1000, (True, False))]"
    "incident_start unhealthy ([(0, (True, True)), (1000, (True, False))] @ [(61000, (True, False))]) = Some 1000"
    by (simp_all add: incident_start_def incident_def unhealthy_def)
  then show ?thesis
    using stall_reported_once_after_minute [of 61000 True False "[(0, (True, True)), (1000, (True, False))]"]
    by (simp add: unhealthy_def)
qed

lemma link_state_effects:
  assumes "guarded_link_state D now g = (link, g')"
  shows "\<exists>capacity g1. guarded_probe D g = ((link, capacity), g1) \<and>
    gd_health g' = snd (queue_observe now (link = LinkUp) capacity (gd_health g)) \<and>
    gd_effects g' = gd_effects g @ ObserveHealth (qh_blocked_since (gd_health g')) #
      (if fst (queue_observe now (link = LinkUp) capacity (gd_health g)) then [Stalled] else []) @
      (case queue_remaining_ms now (gd_health g') of Some r \<Rightarrow> [Alarm r] | None \<Rightarrow> [])"
proof -
  obtain l c g1 where p: "guarded_probe D g = ((l, c), g1)" by (metis prod.collapse)
  have same: "gd_health g1 = gd_health g" "gd_effects g1 = gd_effects g"
    using p by (auto simp: guarded_probe_def Let_def split: prod.splits if_splits)
  show ?thesis
    using assms p same
    by (cases "queue_observe now (l = LinkUp) c (gd_health g)")
      (auto simp: guarded_link_state_def Let_def guard_effect_def split: option.splits)
qed


text \<open>A driver whose link is up and whose queue is full.\<close>

definition stuck_driver :: "(unit, unit, unit) net_driver" where
  "stuck_driver = \<lparr>nd_receive = (\<lambda>d. (None, d)), nd_transmit = (\<lambda>d. (None, d)),
     nd_link_state = (\<lambda>d. (LinkUp, d))\<rparr>"


end
