(* ===== verification/Light_Handler.thy ===== *)
theory Light_Handler
  imports Requests
begin

text \<open>
  The Matter light handler of \<open>firmware/app/src/presets.rs\<close>, over the light runtime: struct
  \<open>LightHandler\<close> with its cells, power and timed off, the global scene, and the level and
  colour commands. The handler and the runtime it shares are one record. What the handler
  uses of rs-matter is the environment: the scene table's invalidation, the data-version
  counter and the numbers of generated constants. A command returns the outcome of its
  Rust method and the record after the call, \<open>Panic\<close> for a failed \<open>expect\<close>.
\<close>

section \<open>State\<close>

text \<open>What the handler tells rs-matter's notifier, which may bump data versions in turn.\<close>

datatype notice = AttributeWritten | ClusterChanged u16 u32 | AttrChanged u16 u32 u32

record ('k, 'h, 'c) light_env =
  le_runtime :: "('k, 'h) runtime_env"
  le_scenable_attribute_changed :: "u16 \<Rightarrow> 'c \<Rightarrow> 'c"
  le_dataver_changed :: "u32 \<Rightarrow> u32"
  le_level_execute_if_off :: u8
  le_level_couple :: u8
  le_color_execute_if_off :: u8
  le_accept_only_when_on :: u8
  le_on_off_cluster :: u32
  le_level_cluster :: u32
  le_color_cluster :: u32
  le_scenes_cluster :: u32
  le_attr_on_off :: u32
  le_attr_current_level :: u32
  le_attr_mireds :: u32
  le_attr_enhanced_mode :: u32
  le_level_remaining_time :: u32
  le_color_remaining_time :: u32
  le_recall_scene :: u32
  le_store_scene :: u32
  le_color_temperature_mode :: u8
  le_notified :: "notice \<Rightarrow> u32 list \<Rightarrow> u32 list"

definition ENDPOINT :: u16 where "ENDPOINT = 1"

record scene_draft =
  sd_target :: light_state
  sd_duration_ms :: u64
  sd_fields :: u8

record ('k, 'h, 'c) light_handler =
  h_runtime :: "('k, 'h) runtime"
  h_scenes :: 'c
  h_datavers :: "u32 list"
  h_level_options :: u8
  h_color_options :: u8
  h_on_level :: "u8 option"
  h_on_time :: u16
  h_off_wait :: u16
  h_timed :: bool
  h_global_scene :: bool
  h_global_scene_state :: "light_state option"
  h_scene_intent :: "light_state option"
  h_scene_draft :: "scene_draft option"
  h_scene_revision :: u32
  h_coupled_temperature :: bool
  h_notices :: "notice list"

definition light_new ::
  "('k, 'h) runtime \<Rightarrow> 'c \<Rightarrow> u32 list \<Rightarrow> ('k, 'h, 'c) light_handler" where
  "light_new rt scenes datavers =
     \<lparr>h_runtime = rt, h_scenes = scenes, h_datavers = datavers, h_level_options = 0,
      h_color_options = 0, h_on_level = None, h_on_time = 0, h_off_wait = 0, h_timed = False,
      h_global_scene = True, h_global_scene_state = None, h_scene_intent = None,
      h_scene_draft = None, h_scene_revision = 0, h_coupled_temperature = False, h_notices = []\<rparr>"

type_synonym ('k, 'h, 'c) light_result = "(unit, error_code) outcome \<times> ('k, 'h, 'c) light_handler"

text \<open>A call of the shared runtime, and the \<open>?\<close> of a call that only reads.\<close>

definition on_runtime ::
  "(('k, 'h) runtime \<Rightarrow> ('a, 'e) outcome \<times> ('k, 'h) runtime) \<Rightarrow> ('k, 'h, 'c) light_handler
    \<Rightarrow> ('a, 'e) outcome \<times> ('k, 'h, 'c) light_handler" where
  "on_runtime f s = (case f (h_runtime s) of (r, rt) \<Rightarrow> (r, s\<lparr>h_runtime := rt\<rparr>))"

definition try_sum ::
  "error_code + 'a \<Rightarrow> ('a \<Rightarrow> 's \<Rightarrow> ('b, error_code) outcome \<times> 's) \<Rightarrow> 's
    \<Rightarrow> ('b, error_code) outcome \<times> 's" where
  "try_sum r k s = (case r of Inl e \<Rightarrow> (Err e, s) | Inr a \<Rightarrow> k a s)"

lemma try_sum_simps [simp]:
  "try_sum (Inl e) k s = (Err e, s)"
  "try_sum (Inr a) k s = k a s"
  by (simp_all add: try_sum_def)

section \<open>Power, timed off and the global scene\<close>

definition dataver_changed ::
  "('k, 'h, 'c) light_env \<Rightarrow> nat \<Rightarrow> ('k, 'h, 'c) light_handler \<Rightarrow> ('k, 'h, 'c) light_handler" where
  "dataver_changed E i s =
     s\<lparr>h_datavers := (h_datavers s)[i := le_dataver_changed E (h_datavers s ! i)]\<rparr>"

definition notify ::
  "('k, 'h, 'c) light_env \<Rightarrow> notice \<Rightarrow> ('k, 'h, 'c) light_handler \<Rightarrow> ('k, 'h, 'c) light_handler" where
  "notify E n s = s\<lparr>h_notices := h_notices s @ [n], h_datavers := le_notified E n (h_datavers s)\<rparr>"

definition changed ::
  "('k, 'h, 'c) light_env \<Rightarrow> ('k, 'h, 'c) light_handler \<Rightarrow> ('k, 'h, 'c) light_handler" where
  "changed E s =
     s\<lparr>h_scenes := le_scenable_attribute_changed E ENDPOINT (h_scenes s),
       h_scene_intent := None, h_scene_revision := h_scene_revision s + 1\<rparr>"

definition light_on :: "('k, 'h, 'c) light_handler \<Rightarrow> error_code + bool" where
  "light_on s = (case reported (h_runtime s) of Inl e \<Rightarrow> Inl e | Inr st \<Rightarrow> Inr (ls_on st))"

definition U16_MAX :: u16 where "U16_MAX = 65535"

definition timed_after_off :: "('k, 'h, 'c) light_handler \<Rightarrow> bool" where
  "timed_after_off s \<longleftrightarrow> 0 < h_off_wait s \<and> h_off_wait s \<noteq> U16_MAX"

definition power_on_cells :: "('k, 'h, 'c) light_handler \<Rightarrow> ('k, 'h, 'c) light_handler" where
  "power_on_cells s =
     (let s = s\<lparr>h_global_scene := True\<rparr>;
          s = (if h_on_time s = 0 then s\<lparr>h_off_wait := 0\<rparr> else s)
      in s\<lparr>h_timed := 0 < h_on_time s \<and> h_on_time s \<noteq> U16_MAX \<and> h_off_wait s \<noteq> U16_MAX\<rparr>)"

definition power_off_cells :: "('k, 'h, 'c) light_handler \<Rightarrow> ('k, 'h, 'c) light_handler" where
  "power_off_cells s =
     (let s = s\<lparr>h_coupled_temperature := False, h_on_time := 0\<rparr>
      in s\<lparr>h_timed := timed_after_off s\<rparr>)"

definition light_power ::
  "('k, 'h, 'c) light_env \<Rightarrow> bool \<Rightarrow> ('k, 'h, 'c) light_handler \<Rightarrow> ('k, 'h, 'c) light_result" where
  "light_power E on s =
     (let s = changed E s
      in and_then
        (if on then
           (let s = power_on_cells s
            in case h_on_level s of
                 Some l \<Rightarrow>
                   (if light_on s = Inr True then (Ok (), s)
                    else on_runtime (set_level_transition (le_runtime E) l True 0) s)
               | None \<Rightarrow> (Ok (), s))
         else (Ok (), power_off_cells s))
        (\<lambda>_ s. on_runtime (set_power (le_runtime E) on) (dataver_changed E 0 s)) id)"

definition light_tick ::
  "('k, 'h, 'c) light_env \<Rightarrow> u16 \<Rightarrow> ('k, 'h, 'c) light_handler
    \<Rightarrow> (unit, error_code) outcome \<times> ('k, 'h, 'c) light_handler" where
  "light_tick E deciseconds s =
     (if \<not> h_timed s then (Ok (), s)
      else if ls_on (r_target (h_runtime s)) then
        (let s = s\<lparr>h_on_time := sat_sub (h_on_time s) deciseconds\<rparr>
         in if h_on_time s = 0 then
              (case light_power E False s of
                 (Panic, s) \<Rightarrow> (Panic, s)
               | (_, s) \<Rightarrow> (Ok (), dataver_changed E 0 (s\<lparr>h_off_wait := 0, h_timed := False\<rparr>)))
            else (Ok (), dataver_changed E 0 s))
      else
        (let s = s\<lparr>h_on_time := 0, h_off_wait := sat_sub (h_off_wait s) deciseconds\<rparr>;
             s = (if h_off_wait s = 0 then s\<lparr>h_timed := False\<rparr> else s)
         in (Ok (), dataver_changed E 0 s)))"

definition timed_on ::
  "('k, 'h, 'c) light_env \<Rightarrow> bool \<Rightarrow> u16 \<Rightarrow> u16 \<Rightarrow> ('k, 'h, 'c) light_handler
    \<Rightarrow> ('k, 'h, 'c) light_result" where
  "timed_on E accept_only_on on_time off_wait s =
     (if on_time = U16_MAX \<or> off_wait = U16_MAX then (Err ConstraintError, s)
      else try_sum (light_on s) (\<lambda>on s.
        if accept_only_on \<and> \<not> on then (Ok (), s)
        else if 0 < h_off_wait s \<and> \<not> on then
          (let s = s\<lparr>h_off_wait := min (h_off_wait s) off_wait\<rparr>;
               s = s\<lparr>h_timed := timed_after_off s\<rparr>
           in (Ok (), dataver_changed E 0 s))
        else
          (let s = s\<lparr>h_on_time := max (h_on_time s) on_time, h_off_wait := off_wait\<rparr>
           in case light_power E True s of
                (Panic, s) \<Rightarrow> (Panic, s)
              | (result, s) \<Rightarrow>
                  (result, s\<lparr>h_timed := h_on_time s \<noteq> U16_MAX \<and> h_off_wait s \<noteq> U16_MAX\<rparr>))) s)"

definition save_global_scene :: "('k, 'h, 'c) light_handler \<Rightarrow> ('k, 'h, 'c) light_result" where
  "save_global_scene s =
     (if h_global_scene s then
        try_sum (reported (h_runtime s)) (\<lambda>st s.
          (Ok (), s\<lparr>h_global_scene_state := Some st, h_global_scene := False\<rparr>)) s
      else (Ok (), s))"

definition light_off_with_effect ::
  "('k, 'h, 'c) light_env \<Rightarrow> off_effect \<Rightarrow> ('k, 'h, 'c) light_handler \<Rightarrow> ('k, 'h, 'c) light_result" where
  "light_off_with_effect E effect s =
     and_then (save_global_scene s) (\<lambda>_ s.
       let s = power_off_cells (changed E s)
       in on_runtime (off_with_effect (le_runtime E) effect) (dataver_changed E 0 s)) id"

definition recall_global_scene ::
  "('k, 'h, 'c) light_env \<Rightarrow> ('k, 'h, 'c) light_handler \<Rightarrow> ('k, 'h, 'c) light_result" where
  "recall_global_scene E s =
     (if h_global_scene s then (Ok (), s)
      else (case h_global_scene_state s of
          None \<Rightarrow> (Err InvalidState, s)
        | Some state \<Rightarrow>
            and_then (on_runtime (request (le_runtime E) state) (changed E s)) (\<lambda>_ s.
              let s = s\<lparr>h_global_scene := True\<rparr>;
                  s = (if h_on_time s = 0 then s\<lparr>h_off_wait := 0\<rparr> else s)
              in (Ok (), dataver_changed E 0 s)) id))"

section \<open>Level commands\<close>

text \<open>\<open>contains\<close> of a bitmap: all bits of the flag are set.\<close>

definition has_bits :: "u8 \<Rightarrow> u8 \<Rightarrow> bool" where
  "has_bits bits flag \<longleftrightarrow> bits AND flag = flag"

definition execute_level ::
  "('k, 'h, 'c) light_env \<Rightarrow> bool \<Rightarrow> u8 \<Rightarrow> u8 \<Rightarrow> ('k, 'h, 'c) light_handler \<Rightarrow> error_code + bool" where
  "execute_level E with_on_off msk over s =
     (if with_on_off then Inr True
      else (case light_on s of
          Inl e \<Rightarrow> Inl e
        | Inr on \<Rightarrow> Inr (on \<or>
            (if has_bits msk (le_level_execute_if_off E) then has_bits over (le_level_execute_if_off E)
             else has_bits (h_level_options s) (le_level_execute_if_off E)))))"

definition execute_color ::
  "('k, 'h, 'c) light_env \<Rightarrow> u8 \<Rightarrow> u8 \<Rightarrow> ('k, 'h, 'c) light_handler \<Rightarrow> error_code + bool" where
  "execute_color E msk over s =
     (case light_on s of
        Inl e \<Rightarrow> Inl e
      | Inr on \<Rightarrow> Inr (on \<or>
          (if has_bits msk (le_color_execute_if_off E) then has_bits over (le_color_execute_if_off E)
           else has_bits (h_color_options s) (le_color_execute_if_off E))))"

definition coupled_mireds :: "u8 \<Rightarrow> u16" where
  "coupled_mireds raw =
     temperature_get temperature_MAX -
       (ucast (max raw 1) - 1) *
       (temperature_get temperature_MAX - temperature_get temperature_MIN) div 253"

definition couple_temperature ::
  "('k, 'h, 'c) light_env \<Rightarrow> u8 \<Rightarrow> u64 \<Rightarrow> bool \<Rightarrow> ('k, 'h, 'c) light_handler
    \<Rightarrow> ('k, 'h, 'c) light_result" where
  "couple_temperature E raw duration_ms linear s =
     (case temperature_new (coupled_mireds raw) of
        None \<Rightarrow> (Panic, s)
      | Some t \<Rightarrow>
          and_then
            (on_runtime (if linear then set_temperature_rate (le_runtime E) t duration_ms
                         else set_temperature_transition (le_runtime E) t duration_ms) s)
            (\<lambda>_ s. (Ok (), s\<lparr>h_coupled_temperature := True\<rparr>)) id)"

definition level_to_curve ::
  "('k, 'h, 'c) light_env \<Rightarrow> u8 \<Rightarrow> bool \<Rightarrow> u16 option \<Rightarrow> u8 \<Rightarrow> u8 \<Rightarrow> bool
    \<Rightarrow> ('k, 'h, 'c) light_handler \<Rightarrow> ('k, 'h, 'c) light_result" where
  "level_to_curve E raw with_on_off time_ds msk over linear s =
     (if raw = 255 then (Err ConstraintError, s)
      else try_sum (execute_level E with_on_off msk over s) (\<lambda>execute s.
        if \<not> execute then (Ok (), s)
        else
          (let s = changed E s;
               duration_ms = ucast (case time_ds of None \<Rightarrow> 0 | Some t \<Rightarrow> t) * 100
           in and_then
             (on_runtime (if linear then set_level_rate (le_runtime E) raw with_on_off duration_ms
                          else set_level_transition (le_runtime E) raw with_on_off duration_ms) s)
             (\<lambda>_ s.
               let options = (h_level_options s AND NOT msk) OR (over AND msk);
                   s = s\<lparr>h_coupled_temperature := False\<rparr>
               in and_then
                 (if options AND le_level_couple E \<noteq> 0
                  then couple_temperature E raw duration_ms linear s else (Ok (), s))
                 (\<lambda>_ s. (Ok (),
                   if with_on_off \<and> level_get level_MIN < raw then s\<lparr>h_global_scene := True\<rparr> else s))
                 id) id)) s)"

definition level_to ::
  "('k, 'h, 'c) light_env \<Rightarrow> u8 \<Rightarrow> bool \<Rightarrow> u16 option \<Rightarrow> u8 \<Rightarrow> u8
    \<Rightarrow> ('k, 'h, 'c) light_handler \<Rightarrow> ('k, 'h, 'c) light_result" where
  "level_to E raw with_on_off time_ds msk over s =
     level_to_curve E raw with_on_off time_ds msk over False s"

datatype move_mode = MoveUp | MoveDown

definition level_move_target :: "move_mode \<Rightarrow> bool \<Rightarrow> u8" where
  "level_move_target mode with_on_off =
     (case mode of MoveUp \<Rightarrow> 254 | MoveDown \<Rightarrow> if with_on_off then 0 else 1)"

definition level_move_ds :: "u8 \<Rightarrow> u8 \<Rightarrow> u8 \<Rightarrow> u16" where
  "level_move_ds current target rate = div_ceil (ucast (abs_diff current target) * 10) (ucast rate)"

definition level_move ::
  "('k, 'h, 'c) light_env \<Rightarrow> move_mode \<Rightarrow> u8 option \<Rightarrow> bool \<Rightarrow> u8 \<Rightarrow> u8
    \<Rightarrow> ('k, 'h, 'c) light_handler \<Rightarrow> ('k, 'h, 'c) light_result" where
  "level_move E mode rate with_on_off msk over s =
     try_sum (execute_level E with_on_off msk over s) (\<lambda>execute s.
       if \<not> execute then (Ok (), s)
       else
         (let rate = (case rate of None \<Rightarrow> 254 | Some r \<Rightarrow> r)
          in if rate = 0 then (Err InvalidCommand, s)
             else try_sum (acknowledged (h_runtime s)) (\<lambda>st s.
               let current = level_get (ls_level st);
                   target = level_move_target mode with_on_off
               in level_to_curve E target with_on_off (Some (level_move_ds current target rate))
                    msk over True s) s)) s"

definition level_step_target :: "move_mode \<Rightarrow> u8 \<Rightarrow> u8 \<Rightarrow> bool \<Rightarrow> u8" where
  "level_step_target mode current step with_on_off =
     (case mode of
        MoveUp \<Rightarrow> min (sat_add current step) 254
      | MoveDown \<Rightarrow> max (sat_sub current step) (if \<not> with_on_off then 1 else 0))"

definition level_step ::
  "('k, 'h, 'c) light_env \<Rightarrow> move_mode \<Rightarrow> u8 \<Rightarrow> u16 option \<Rightarrow> bool \<Rightarrow> u8 \<Rightarrow> u8
    \<Rightarrow> ('k, 'h, 'c) light_handler \<Rightarrow> ('k, 'h, 'c) light_result" where
  "level_step E mode step time_ds with_on_off msk over s =
     try_sum (execute_level E with_on_off msk over s) (\<lambda>execute s.
       if \<not> execute then (Ok (), s)
       else try_sum (acknowledged (h_runtime s)) (\<lambda>st s.
         level_to E (level_step_target mode (level_get (ls_level st)) step with_on_off)
           with_on_off time_ds msk over s) s) s"

definition stop_level ::
  "('k, 'h, 'c) light_env \<Rightarrow> bool \<Rightarrow> u8 \<Rightarrow> u8 \<Rightarrow> ('k, 'h, 'c) light_handler \<Rightarrow> ('k, 'h, 'c) light_result" where
  "stop_level E with_on_off msk over s =
     try_sum (if level_remaining_ms (h_runtime s) \<noteq> 0 then Inr True
              else execute_level E with_on_off msk over s) (\<lambda>execute s.
       if \<not> execute then (Ok (), s)
       else and_then (on_runtime (stop_level_transition (le_runtime E)) (changed E s)) (\<lambda>_ s.
         let coupled = h_coupled_temperature s;
             s = s\<lparr>h_coupled_temperature := False\<rparr>
         in if coupled then on_runtime (stop_temperature_transition (le_runtime E)) s
            else (Ok (), s)) id) s"

section \<open>Colour commands\<close>

definition clamp_temperature :: "u16 \<Rightarrow> color_temperature option" where
  "clamp_temperature value =
     temperature_new (clamp_word value (temperature_get temperature_MIN) (temperature_get temperature_MAX))"

definition color_bounds :: "u16 \<times> u16 \<Rightarrow> error_code + u16 \<times> u16" where
  "color_bounds b =
     (let (lowest, highest) = b;
          lo = (if lowest = 0 then temperature_get temperature_MIN
                else max lowest (temperature_get temperature_MIN));
          hi = (if highest = 0 then temperature_get temperature_MAX
                else min highest (temperature_get temperature_MAX))
      in if hi < lo then Inl ConstraintError else Inr (lo, hi))"

definition remaining_ds :: "u64 \<Rightarrow> u16" where
  "remaining_ds ms = ucast (min (div_ceil ms 100) 65534)"

definition color_to ::
  "('k, 'h, 'c) light_env \<Rightarrow> u16 \<Rightarrow> u16 \<Rightarrow> u8 \<Rightarrow> u8
    \<Rightarrow> ('k, 'h, 'c) light_handler \<Rightarrow> ('k, 'h, 'c) light_result" where
  "color_to E mireds time_ds msk over s =
     (if mireds = 0 \<or> 0xfeff < mireds then (Err ConstraintError, s)
      else try_sum (execute_color E msk over s) (\<lambda>execute s.
        if \<not> execute then (Ok (), s)
        else
          (let s = (changed E s)\<lparr>h_coupled_temperature := False\<rparr>
           in case clamp_temperature mireds of
                None \<Rightarrow> (Panic, s)
              | Some target \<Rightarrow>
                  on_runtime (set_temperature_transition (le_runtime E) target (ucast time_ds * 100)) s)) s)"

definition stop_color ::
  "('k, 'h, 'c) light_env \<Rightarrow> u8 \<Rightarrow> u8 \<Rightarrow> ('k, 'h, 'c) light_handler \<Rightarrow> ('k, 'h, 'c) light_result" where
  "stop_color E msk over s =
     try_sum (execute_color E msk over s) (\<lambda>execute s.
       if \<not> execute then (Ok (), s)
       else on_runtime (stop_temperature_transition (le_runtime E))
              ((changed E s)\<lparr>h_coupled_temperature := False\<rparr>)) s"

datatype color_move_mode = ColorStop | ColorUp | ColorDown

definition color_move_ms :: "u16 \<Rightarrow> u16 \<Rightarrow> u16 \<Rightarrow> u64" where
  "color_move_ms current target rate = div_ceil (ucast (abs_diff current target) * 1000) (ucast rate)"

definition color_move ::
  "('k, 'h, 'c) light_env \<Rightarrow> color_move_mode \<Rightarrow> u16 \<Rightarrow> u16 \<times> u16 \<Rightarrow> u8 \<Rightarrow> u8
    \<Rightarrow> ('k, 'h, 'c) light_handler \<Rightarrow> ('k, 'h, 'c) light_result" where
  "color_move E mode rate bounds msk over s =
     (if mode = ColorStop then stop_color E msk over s
      else if rate = 0 then (Err InvalidCommand, s)
      else try_sum (execute_color E msk over s) (\<lambda>execute s.
        if \<not> execute then (Ok (), s)
        else try_sum (color_bounds bounds) (\<lambda>(lo, hi) s.
          try_sum (acknowledged (h_runtime s)) (\<lambda>st s.
            let current = temperature_get (ls_temperature st);
                target = (if mode = ColorUp then hi else lo);
                s = (changed E s)\<lparr>h_coupled_temperature := False\<rparr>
            in case clamp_temperature target of
                 None \<Rightarrow> (Panic, s)
               | Some t \<Rightarrow>
                   on_runtime (set_temperature_rate (le_runtime E) t (color_move_ms current target rate)) s)
            s) s) s)"

definition color_step_target :: "move_mode \<Rightarrow> u16 \<Rightarrow> u16 \<Rightarrow> u16 \<Rightarrow> u16 \<Rightarrow> u16" where
  "color_step_target mode current step lo hi =
     clamp_word (case mode of MoveUp \<Rightarrow> sat_add current step | MoveDown \<Rightarrow> sat_sub current step) lo hi"

definition color_step ::
  "('k, 'h, 'c) light_env \<Rightarrow> move_mode \<Rightarrow> u16 \<Rightarrow> u16 \<Rightarrow> u16 \<times> u16 \<Rightarrow> u8 \<Rightarrow> u8
    \<Rightarrow> ('k, 'h, 'c) light_handler \<Rightarrow> ('k, 'h, 'c) light_result" where
  "color_step E mode step time_ds bounds msk over s =
     try_sum (execute_color E msk over s) (\<lambda>execute s.
       if \<not> execute then (Ok (), s)
       else try_sum (color_bounds bounds) (\<lambda>(lo, hi) s.
         try_sum (acknowledged (h_runtime s)) (\<lambda>st s.
           color_to E (color_step_target mode (temperature_get (ls_temperature st)) step lo hi)
             time_ds msk over s) s) s) s"

end
