(* ===== verification/Scenes.thy ===== *)
theory Scenes
  imports Light_Handler
begin

text \<open>
  Scenes of \<open>firmware/app/src/presets.rs\<close>: the draft that stages a recall cluster by cluster,
  \<open>AtomicScenes\<close> around rs-matter's scene handler, and the three adapters that capture the
  light and stage its recalls. rs-matter's handler is the parameter \<open>inner\<close>; it reaches
  the light only through the adapters. An attribute-value pair is a record of what its
  accessors return, so a malformed pair is an accessor that returns an error.
\<close>

section \<open>The scene draft\<close>

record avp =
  avp_id :: "error_code + u32"
  avp_u8 :: "error_code + u8 option"
  avp_u16 :: "error_code + u16 option"

definition begin_scene :: "('k, 'h, 'c) light_handler \<Rightarrow> ('k, 'h, 'c) light_result" where
  "begin_scene s =
     (if h_scene_draft s \<noteq> None then (Err Busy, s)
      else try_sum (reported (h_runtime s)) (\<lambda>st s.
        (Ok (), s\<lparr>h_scene_draft := Some \<lparr>sd_target = st, sd_duration_ms = 0, sd_fields = 0\<rparr>\<rparr>)) s)"

text \<open>One pair: the target with its field set, and the bit that marks the field as seen.\<close>

definition stage_field ::
  "('k, 'h, 'c) light_env \<Rightarrow> u32 \<Rightarrow> u32 \<Rightarrow> avp \<Rightarrow> light_state \<Rightarrow> error_code + light_state \<times> u8" where
  "stage_field E cluster i a target =
     (if cluster = 6 \<and> i = 0 then
        (case avp_u8 a of
           Inl e \<Rightarrow> Inl e
         | Inr v \<Rightarrow> (if v = Some 0 then Inr (target\<lparr>ls_on := False\<rparr>, 1)
                     else if v = Some 1 then Inr (target\<lparr>ls_on := True\<rparr>, 1)
                     else Inl ConstraintError))
      else if cluster = 8 \<and> i = 0 then
        (case avp_u8 a of
           Inl e \<Rightarrow> Inl e
         | Inr v \<Rightarrow> (case Option.bind v level_new of
               None \<Rightarrow> Inl ConstraintError
             | Some l \<Rightarrow> Inr (target\<lparr>ls_level := l\<rparr>, 2)))
      else if cluster = 0x300 \<and> i = 7 then
        (case avp_u16 a of
           Inl e \<Rightarrow> Inl e
         | Inr v \<Rightarrow> (case Option.bind v temperature_new of
               None \<Rightarrow> Inl ConstraintError
             | Some t \<Rightarrow> Inr (target\<lparr>ls_temperature := t\<rparr>, 4)))
      else if cluster = 0x300 \<and> i = 0x4001 then
        (case avp_u8 a of
           Inl e \<Rightarrow> Inl e
         | Inr v \<Rightarrow> (if v \<noteq> Some (le_color_temperature_mode E) then Inl ConstraintError
                     else Inr (target, 8)))
      else Inl InvalidCommand)"

fun stage_avps ::
  "('k, 'h, 'c) light_env \<Rightarrow> u32 \<Rightarrow> (error_code + avp) list \<Rightarrow> scene_draft
    \<Rightarrow> error_code + scene_draft" where
  "stage_avps E cluster [] d = Inr d"
| "stage_avps E cluster (Inl e # _) d = Inl e"
| "stage_avps E cluster (Inr a # rest) d =
     (case avp_id a of
        Inl e \<Rightarrow> Inl e
      | Inr i \<Rightarrow>
          (case stage_field E cluster i a (sd_target d) of
             Inl e \<Rightarrow> Inl e
           | Inr (target, field) \<Rightarrow>
               (if sd_fields d AND field \<noteq> 0 then Inl ConstraintError
                else stage_avps E cluster rest
                  (d\<lparr>sd_target := target, sd_fields := sd_fields d OR field\<rparr>))))"

definition stage_scene ::
  "('k, 'h, 'c) light_env \<Rightarrow> u32 \<Rightarrow> (error_code + avp) list \<Rightarrow> u32
    \<Rightarrow> ('k, 'h, 'c) light_handler \<Rightarrow> ('k, 'h, 'c) light_result" where
  "stage_scene E cluster avps duration_ms s =
     (case h_scene_draft s of
        None \<Rightarrow> (Err InvalidState, s)
      | Some draft \<Rightarrow>
          (if 60000000 < duration_ms then (Err ConstraintError, s)
           else try_sum (stage_avps E cluster avps (draft\<lparr>sd_duration_ms := ucast duration_ms\<rparr>))
             (\<lambda>draft s. (Ok (), s\<lparr>h_scene_draft := Some draft\<rparr>)) s))"

definition finish_scene ::
  "('k, 'h, 'c) light_env \<Rightarrow> ('k, 'h, 'c) light_handler \<Rightarrow> ('k, 'h, 'c) light_result" where
  "finish_scene E s =
     (case h_scene_draft s of
        None \<Rightarrow> (Err InvalidState, s)
      | Some draft \<Rightarrow>
          (let s = s\<lparr>h_scene_draft := None, h_coupled_temperature := False, h_on_time := 0,
                     h_off_wait := 0, h_timed := False\<rparr>
           in case on_runtime (recall_scene (le_runtime E) (sd_target draft) (sd_duration_ms draft)) s of
                (Panic, s) \<Rightarrow> (Panic, s)
              | (Err error, s) \<Rightarrow> (Err error, changed E s)
              | (Ok _, s) \<Rightarrow>
                  (let s = (if ls_on (sd_target draft) then s\<lparr>h_global_scene := True\<rparr> else s);
                       s = s\<lparr>h_scene_intent := Some (sd_target draft)\<rparr>
                   in (Ok (), dataver_changed E 0 s))))"

definition abort_scene ::
  "('k, 'h, 'c) light_env \<Rightarrow> ('k, 'h, 'c) light_handler \<Rightarrow> ('k, 'h, 'c) light_handler" where
  "abort_scene E s = changed E (s\<lparr>h_scene_draft := None\<rparr>)"

section \<open>Atomic recalls\<close>

definition scenes_invoke ::
  "('k, 'h, 'c) light_env \<Rightarrow> (('k, 'h, 'c) light_handler \<Rightarrow> ('k, 'h, 'c) light_result) \<Rightarrow> u32
    \<Rightarrow> ('k, 'h, 'c) light_handler \<Rightarrow> ('k, 'h, 'c) light_result" where
  "scenes_invoke E inner cmd s =
     (if cmd \<noteq> le_recall_scene E then
        (let stored = (cmd = le_store_scene E);
             (result, s) = inner s
         in (result, if stored \<and> result = Ok () then s\<lparr>h_scene_intent := None\<rparr> else s))
      else and_then (begin_scene s) (\<lambda>_ s.
        case inner s of
          (Panic, s) \<Rightarrow> (Panic, s)
        | (Err error, s) \<Rightarrow> (Err error, abort_scene E s)
        | (Ok _, s) \<Rightarrow> finish_scene E s) id)"

section \<open>The scene adapters\<close>

datatype scene_value = U8 u8 | U16 u16

definition scene_power_scenable :: "('k, 'h, 'c) light_env \<Rightarrow> u32 \<Rightarrow> bool" where
  "scene_power_scenable E i \<longleftrightarrow> i = le_attr_on_off E"

definition scene_level_scenable :: "('k, 'h, 'c) light_env \<Rightarrow> u32 \<Rightarrow> bool" where
  "scene_level_scenable E i \<longleftrightarrow> i = le_attr_current_level E"

definition scene_temperature_scenable :: "('k, 'h, 'c) light_env \<Rightarrow> u32 \<Rightarrow> bool" where
  "scene_temperature_scenable E i \<longleftrightarrow> i = le_attr_mireds E \<or> i = le_attr_enhanced_mode E"

definition scene_power_capture ::
  "('k, 'h, 'c) light_env \<Rightarrow> ('k, 'h, 'c) light_handler \<Rightarrow> error_code + (u32 \<times> scene_value) list" where
  "scene_power_capture E s =
     (case light_on s of
        Inl e \<Rightarrow> Inl e
      | Inr on \<Rightarrow> Inr [(le_attr_on_off E, U8 (if on then 1 else 0))])"

definition scene_level_capture ::
  "('k, 'h, 'c) light_env \<Rightarrow> ('k, 'h, 'c) light_handler \<Rightarrow> error_code + (u32 \<times> scene_value) list" where
  "scene_level_capture E s =
     (case reported (h_runtime s) of
        Inl e \<Rightarrow> Inl e
      | Inr st \<Rightarrow> Inr [(le_attr_current_level E, U8 (level_get (ls_level st)))])"

definition scene_temperature_capture ::
  "('k, 'h, 'c) light_env \<Rightarrow> ('k, 'h, 'c) light_handler \<Rightarrow> error_code + (u32 \<times> scene_value) list" where
  "scene_temperature_capture E s =
     (case reported (h_runtime s) of
        Inl e \<Rightarrow> Inl e
      | Inr st \<Rightarrow> Inr [(le_attr_mireds E, U16 (temperature_get (ls_temperature st))),
                      (le_attr_enhanced_mode E, U8 (le_color_temperature_mode E))])"

definition scene_power_apply ::
  "('k, 'h, 'c) light_env \<Rightarrow> (error_code + avp) list \<Rightarrow> u32
    \<Rightarrow> ('k, 'h, 'c) light_handler \<Rightarrow> ('k, 'h, 'c) light_result" where
  "scene_power_apply E avps ms s = stage_scene E (le_on_off_cluster E) avps ms s"

definition scene_level_apply ::
  "('k, 'h, 'c) light_env \<Rightarrow> (error_code + avp) list \<Rightarrow> u32
    \<Rightarrow> ('k, 'h, 'c) light_handler \<Rightarrow> ('k, 'h, 'c) light_result" where
  "scene_level_apply E avps ms s = stage_scene E (le_level_cluster E) avps ms s"

definition scene_temperature_apply ::
  "('k, 'h, 'c) light_env \<Rightarrow> (error_code + avp) list \<Rightarrow> u32
    \<Rightarrow> ('k, 'h, 'c) light_handler \<Rightarrow> ('k, 'h, 'c) light_result" where
  "scene_temperature_apply E avps ms s = stage_scene E (le_color_cluster E) avps ms s"

end
