(* ===== verification/Clusters.thy ===== *)
theory Clusters
  imports Scenes
begin

text \<open>
  The three Matter clusters of \<open>firmware/app/src/presets.rs\<close> (on/off, level, colour): their
  attribute reads and writes, their commands, the attribute reports and the maintenance
  loop. A request is a record of what its accessors return, each an error or a value, and
  is read in the order of the code. A read returns a sum; a write and a command return the
  outcome of the Rust method with the handler after it.
\<close>

section \<open>Reports\<close>

record report_state =
  rs_revision :: u32
  rs_output :: "light_state option"
  rs_scene_revision :: u32
  rs_dataver :: u32
  rs_remaining :: u16

definition report_remaining :: "nat \<Rightarrow> ('k, 'h, 'c) light_handler \<Rightarrow> u16" where
  "report_remaining index s =
     remaining_ds (if index = 1 then level_remaining_ms (h_runtime s)
                   else if index = 2 then temperature_remaining_ms (h_runtime s) else 0)"

definition read_report_state :: "nat \<Rightarrow> ('k, 'h, 'c) light_handler \<Rightarrow> report_state" where
  "read_report_state index s =
     \<lparr>rs_revision = sn_revision (runtime_snapshot (h_runtime s)),
      rs_output = (case reported (h_runtime s) of Inl _ \<Rightarrow> None | Inr st \<Rightarrow> Some st),
      rs_scene_revision = h_scene_revision s,
      rs_dataver = h_datavers s ! index,
      rs_remaining = report_remaining index s\<rparr>"

definition report_output ::
  "('k, 'h, 'c) light_env \<Rightarrow> report_state \<Rightarrow> report_state \<Rightarrow> ('k, 'h, 'c) light_handler
    \<Rightarrow> ('k, 'h, 'c) light_handler" where
  "report_output E latest previous s =
     (let s = (if rs_output latest \<noteq> rs_output previous
                  \<and> \<not> (h_scene_intent s \<noteq> None \<and> rs_output latest = h_scene_intent s)
               then changed E s else s)
      in if rs_scene_revision previous \<noteq> h_scene_revision s
         then notify E (ClusterChanged ENDPOINT (le_scenes_cluster E)) s else s)"

definition poll_report ::
  "('k, 'h, 'c) light_env \<Rightarrow> nat \<Rightarrow> u32 \<Rightarrow> report_state \<Rightarrow> ('k, 'h, 'c) light_handler
    \<Rightarrow> report_state \<times> ('k, 'h, 'c) light_handler" where
  "poll_report E index cluster previous s =
     (let now = read_report_state index s;
          s = (if index = 0 then report_output E now previous s else s);
          s = (if rs_revision now \<noteq> rs_revision previous \<or> rs_dataver now \<noteq> rs_dataver previous
               then notify E (ClusterChanged ENDPOINT cluster) s
               else if rs_remaining now \<noteq> rs_remaining previous
               then notify E (AttrChanged ENDPOINT cluster
                      (if index = 1 then le_level_remaining_time E else le_color_remaining_time E)) s
               else s)
      in (read_report_state index s, s))"

section \<open>On/off\<close>

definition dataver :: "nat \<Rightarrow> ('k, 'h, 'c) light_handler \<Rightarrow> u32" where
  "dataver i s = h_datavers s ! i"

definition read_on_off :: "('k, 'h, 'c) light_handler \<Rightarrow> error_code + bool" where
  "read_on_off s = light_on s"

definition read_global_scene_control :: "('k, 'h, 'c) light_handler \<Rightarrow> error_code + bool" where
  "read_global_scene_control s = Inr (h_global_scene s)"

definition read_on_time :: "('k, 'h, 'c) light_handler \<Rightarrow> error_code + u16" where
  "read_on_time s = Inr (h_on_time s)"

definition read_off_wait_time :: "('k, 'h, 'c) light_handler \<Rightarrow> error_code + u16" where
  "read_off_wait_time s = Inr (h_off_wait s)"

definition read_start_up_on_off :: "('k, 'h, 'c) light_handler \<Rightarrow> error_code + start_up_on_off option" where
  "read_start_up_on_off s = Inr (startup_power (h_runtime s))"

definition notify_written ::
  "('k, 'h, 'c) light_env \<Rightarrow> ('k, 'h, 'c) light_handler \<Rightarrow> ('k, 'h, 'c) light_result" where
  "notify_written E s = (Ok (), notify E AttributeWritten s)"

definition write_start_up_on_off ::
  "('k, 'h, 'c) light_env \<Rightarrow> start_up_on_off option \<Rightarrow> ('k, 'h, 'c) light_handler
    \<Rightarrow> ('k, 'h, 'c) light_result" where
  "write_start_up_on_off E v s =
     and_then (on_runtime (set_startup (le_runtime E) v) s) (\<lambda>_. notify_written E) id"

definition write_on_time ::
  "('k, 'h, 'c) light_env \<Rightarrow> u16 \<Rightarrow> ('k, 'h, 'c) light_handler \<Rightarrow> ('k, 'h, 'c) light_result" where
  "write_on_time E v s = notify_written E (s\<lparr>h_on_time := v\<rparr>)"

definition write_off_wait_time ::
  "('k, 'h, 'c) light_env \<Rightarrow> u16 \<Rightarrow> ('k, 'h, 'c) light_handler \<Rightarrow> ('k, 'h, 'c) light_result" where
  "write_off_wait_time E v s = notify_written E (s\<lparr>h_off_wait := v\<rparr>)"

definition handle_off ::
  "('k, 'h, 'c) light_env \<Rightarrow> ('k, 'h, 'c) light_handler \<Rightarrow> ('k, 'h, 'c) light_result" where
  "handle_off E s = light_power E False s"

definition handle_on ::
  "('k, 'h, 'c) light_env \<Rightarrow> ('k, 'h, 'c) light_handler \<Rightarrow> ('k, 'h, 'c) light_result" where
  "handle_on E s = light_power E True s"

definition handle_toggle ::
  "('k, 'h, 'c) light_env \<Rightarrow> ('k, 'h, 'c) light_handler \<Rightarrow> ('k, 'h, 'c) light_result" where
  "handle_toggle E s = try_sum (light_on s) (\<lambda>on. light_power E (\<not> on)) s"

datatype effect_identifier = DelayedAllOff | EffectDyingLight

definition off_effect_of :: "effect_identifier \<Rightarrow> u8 \<Rightarrow> off_effect option" where
  "off_effect_of i variant =
     (case i of
        DelayedAllOff \<Rightarrow>
          (if variant = 0 then Some FastFade else if variant = 1 then Some NoFade
           else if variant = 2 then Some SlowFade else None)
      | EffectDyingLight \<Rightarrow> (if variant = 0 then Some DyingLight else None))"

definition handle_off_with_effect ::
  "('k, 'h, 'c) light_env \<Rightarrow> error_code + effect_identifier \<Rightarrow> error_code + u8
    \<Rightarrow> ('k, 'h, 'c) light_handler \<Rightarrow> ('k, 'h, 'c) light_result" where
  "handle_off_with_effect E effect_identifier effect_variant =
     try_sum effect_identifier (\<lambda>i. try_sum effect_variant (\<lambda>v s.
       case off_effect_of i v of
         None \<Rightarrow> (Err InvalidCommand, s)
       | Some effect \<Rightarrow> light_off_with_effect E effect s))"

definition handle_on_with_recall_global_scene ::
  "('k, 'h, 'c) light_env \<Rightarrow> ('k, 'h, 'c) light_handler \<Rightarrow> ('k, 'h, 'c) light_result" where
  "handle_on_with_recall_global_scene E s = recall_global_scene E s"

definition handle_on_with_timed_off ::
  "('k, 'h, 'c) light_env \<Rightarrow> error_code + u8 \<Rightarrow> error_code + u16 \<Rightarrow> error_code + u16
    \<Rightarrow> ('k, 'h, 'c) light_handler \<Rightarrow> ('k, 'h, 'c) light_result" where
  "handle_on_with_timed_off E on_off_control on_time off_wait_time =
     try_sum on_off_control (\<lambda>c. try_sum on_time (\<lambda>t. try_sum off_wait_time (\<lambda>w.
       timed_on E (has_bits c (le_accept_only_when_on E)) t w)))"

section \<open>Level\<close>

definition read_current_level :: "('k, 'h, 'c) light_handler \<Rightarrow> error_code + u8 option" where
  "read_current_level s =
     (case reported (h_runtime s) of Inl e \<Rightarrow> Inl e | Inr st \<Rightarrow> Inr (Some (level_get (ls_level st))))"

definition read_level_remaining_time :: "('k, 'h, 'c) light_handler \<Rightarrow> error_code + u16" where
  "read_level_remaining_time s = Inr (remaining_ds (level_remaining_ms (h_runtime s)))"

definition read_min_level :: "('k, 'h, 'c) light_handler \<Rightarrow> error_code + u8" where
  "read_min_level s = Inr (level_get level_MIN)"

definition read_max_level :: "('k, 'h, 'c) light_handler \<Rightarrow> error_code + u8" where
  "read_max_level s = Inr (level_get level_MAX)"

definition read_level_options :: "('k, 'h, 'c) light_handler \<Rightarrow> error_code + u8" where
  "read_level_options s = Inr (h_level_options s)"

definition read_on_level :: "('k, 'h, 'c) light_handler \<Rightarrow> error_code + u8 option" where
  "read_on_level s = Inr (h_on_level s)"

definition read_start_up_current_level :: "('k, 'h, 'c) light_handler \<Rightarrow> error_code + u8 option" where
  "read_start_up_current_level s = Inr (startup_level (h_runtime s))"

definition write_level_options ::
  "('k, 'h, 'c) light_env \<Rightarrow> u8 \<Rightarrow> ('k, 'h, 'c) light_handler \<Rightarrow> ('k, 'h, 'c) light_result" where
  "write_level_options E v s =
     (if v AND NOT 3 \<noteq> 0 then (Err ConstraintError, s)
      else notify_written E (s\<lparr>h_level_options := v\<rparr>))"

definition write_on_level ::
  "('k, 'h, 'c) light_env \<Rightarrow> u8 option \<Rightarrow> ('k, 'h, 'c) light_handler \<Rightarrow> ('k, 'h, 'c) light_result" where
  "write_on_level E v s =
     (if v = Some 0 \<or> v = Some 255 then (Err ConstraintError, s)
      else notify_written E (s\<lparr>h_on_level := v\<rparr>))"

definition write_start_up_current_level ::
  "('k, 'h, 'c) light_env \<Rightarrow> u8 option \<Rightarrow> ('k, 'h, 'c) light_handler \<Rightarrow> ('k, 'h, 'c) light_result" where
  "write_start_up_current_level E v s =
     and_then (on_runtime (set_startup_level (le_runtime E) v) s) (\<lambda>_. notify_written E) id"

record level_options_request =
  lr_mask :: "error_code + u8"
  lr_override :: "error_code + u8"

record move_to_level_request = level_options_request +
  lr_level :: "error_code + u8"
  lr_transition_time :: "error_code + u16 option"

record level_move_request = level_options_request +
  lr_move_mode :: "error_code + move_mode"
  lr_rate :: "error_code + u8 option"

record level_step_request = level_options_request +
  lr_step_mode :: "error_code + move_mode"
  lr_step_size :: "error_code + u8"
  lr_step_time :: "error_code + u16 option"

text \<open>Both forms of a level command read the request in the same order; \<open>with_on_off\<close> tells them apart.\<close>

definition request_options ::
  "'r level_options_request_scheme \<Rightarrow> (u8 \<Rightarrow> u8 \<Rightarrow> 's \<Rightarrow> ('b, error_code) outcome \<times> 's) \<Rightarrow> 's
    \<Rightarrow> ('b, error_code) outcome \<times> 's" where
  "request_options r k = try_sum (lr_mask r) (\<lambda>msk. try_sum (lr_override r) (k msk))"

definition move_to_level ::
  "('k, 'h, 'c) light_env \<Rightarrow> bool \<Rightarrow> move_to_level_request \<Rightarrow> ('k, 'h, 'c) light_handler
    \<Rightarrow> ('k, 'h, 'c) light_result" where
  "move_to_level E with_on_off r =
     try_sum (lr_level r) (\<lambda>l. try_sum (lr_transition_time r) (\<lambda>t.
       request_options r (level_to E l with_on_off t)))"

definition move_level ::
  "('k, 'h, 'c) light_env \<Rightarrow> bool \<Rightarrow> level_move_request \<Rightarrow> ('k, 'h, 'c) light_handler
    \<Rightarrow> ('k, 'h, 'c) light_result" where
  "move_level E with_on_off r =
     try_sum (lr_move_mode r) (\<lambda>m. try_sum (lr_rate r) (\<lambda>rate.
       request_options r (level_move E m rate with_on_off)))"

definition step_level ::
  "('k, 'h, 'c) light_env \<Rightarrow> bool \<Rightarrow> level_step_request \<Rightarrow> ('k, 'h, 'c) light_handler
    \<Rightarrow> ('k, 'h, 'c) light_result" where
  "step_level E with_on_off r =
     try_sum (lr_step_mode r) (\<lambda>m. try_sum (lr_step_size r) (\<lambda>size. try_sum (lr_step_time r) (\<lambda>t.
       request_options r (level_step E m size t with_on_off))))"

definition halt_level ::
  "('k, 'h, 'c) light_env \<Rightarrow> bool \<Rightarrow> level_options_request \<Rightarrow> ('k, 'h, 'c) light_handler
    \<Rightarrow> ('k, 'h, 'c) light_result" where
  "halt_level E with_on_off r = request_options r (stop_level E with_on_off)"

definition handle_move_to_level where "handle_move_to_level E r = move_to_level E False r"
definition handle_move where "handle_move E r = move_level E False r"
definition handle_step where "handle_step E r = step_level E False r"
definition handle_stop where "handle_stop E r = halt_level E False r"
definition handle_move_to_level_with_on_off where "handle_move_to_level_with_on_off E r = move_to_level E True r"
definition handle_move_with_on_off where "handle_move_with_on_off E r = move_level E True r"
definition handle_step_with_on_off where "handle_step_with_on_off E r = step_level E True r"
definition handle_stop_with_on_off where "handle_stop_with_on_off E r = halt_level E True r"

definition handle_move_to_closest_frequency ::
  "('k, 'h, 'c) light_handler \<Rightarrow> ('k, 'h, 'c) light_result" where
  "handle_move_to_closest_frequency s = (Err InvalidCommand, s)"

section \<open>Colour\<close>

definition read_color_temperature_mireds :: "('k, 'h, 'c) light_handler \<Rightarrow> error_code + u16" where
  "read_color_temperature_mireds s =
     (case reported (h_runtime s) of Inl e \<Rightarrow> Inl e | Inr st \<Rightarrow> Inr (temperature_get (ls_temperature st)))"

definition read_color_remaining_time :: "('k, 'h, 'c) light_handler \<Rightarrow> error_code + u16" where
  "read_color_remaining_time s = Inr (remaining_ds (temperature_remaining_ms (h_runtime s)))"

datatype color_mode = ColorTemperatureMireds

definition read_color_mode :: "('k, 'h, 'c) light_handler \<Rightarrow> error_code + color_mode" where
  "read_color_mode s = Inr ColorTemperatureMireds"

definition read_color_options :: "('k, 'h, 'c) light_handler \<Rightarrow> error_code + u8" where
  "read_color_options s = Inr (h_color_options s)"

definition read_number_of_primaries :: "('k, 'h, 'c) light_handler \<Rightarrow> error_code + u8 option" where
  "read_number_of_primaries s = Inr None"

definition read_physical_min_mireds :: "('k, 'h, 'c) light_handler \<Rightarrow> error_code + u16" where
  "read_physical_min_mireds s = Inr (temperature_get temperature_MIN)"

definition read_physical_max_mireds :: "('k, 'h, 'c) light_handler \<Rightarrow> error_code + u16" where
  "read_physical_max_mireds s = Inr (temperature_get temperature_MAX)"

definition read_couple_min_mireds :: "('k, 'h, 'c) light_handler \<Rightarrow> error_code + u16" where
  "read_couple_min_mireds s = Inr (temperature_get temperature_MIN)"

definition read_start_up_mireds :: "('k, 'h, 'c) light_handler \<Rightarrow> error_code + u16 option" where
  "read_start_up_mireds s = Inr (map_option temperature_get (startup_temperature (h_runtime s)))"

definition write_color_options ::
  "('k, 'h, 'c) light_env \<Rightarrow> u8 \<Rightarrow> ('k, 'h, 'c) light_handler \<Rightarrow> ('k, 'h, 'c) light_result" where
  "write_color_options E v s =
     (if v AND NOT 1 \<noteq> 0 then (Err ConstraintError, s)
      else notify_written E (s\<lparr>h_color_options := v\<rparr>))"

definition write_start_up_mireds ::
  "('k, 'h, 'c) light_env \<Rightarrow> u16 option \<Rightarrow> ('k, 'h, 'c) light_handler \<Rightarrow> ('k, 'h, 'c) light_result" where
  "write_start_up_mireds E v s =
     (if (case v of None \<Rightarrow> False | Some m \<Rightarrow> m = 0 \<or> 0xfeff < m) then (Err ConstraintError, s)
      else (case map_option clamp_temperature v of
          Some None \<Rightarrow> (Panic, s)
        | t \<Rightarrow>
            and_then (on_runtime (set_startup_temperature (le_runtime E) (Option.bind t id)) s)
              (\<lambda>_. notify_written E) id))"

record color_options_request =
  cr_mask :: "error_code + u8"
  cr_override :: "error_code + u8"

record color_to_request = color_options_request +
  cr_mireds :: "error_code + u16"
  cr_time :: "error_code + u16"

record color_move_request = color_options_request +
  cr_move_mode :: "error_code + color_move_mode"
  cr_rate :: "error_code + u16"
  cr_minimum :: "error_code + u16"
  cr_maximum :: "error_code + u16"

record color_step_request = color_options_request +
  cr_step_mode :: "error_code + move_mode"
  cr_step_size :: "error_code + u16"
  cr_step_time :: "error_code + u16"
  cr_step_minimum :: "error_code + u16"
  cr_step_maximum :: "error_code + u16"

definition color_request_options ::
  "'r color_options_request_scheme \<Rightarrow> (u8 \<Rightarrow> u8 \<Rightarrow> 's \<Rightarrow> ('b, error_code) outcome \<times> 's) \<Rightarrow> 's
    \<Rightarrow> ('b, error_code) outcome \<times> 's" where
  "color_request_options r k = try_sum (cr_mask r) (\<lambda>msk. try_sum (cr_override r) (k msk))"

definition handle_move_to_color_temperature ::
  "('k, 'h, 'c) light_env \<Rightarrow> color_to_request \<Rightarrow> ('k, 'h, 'c) light_handler
    \<Rightarrow> ('k, 'h, 'c) light_result" where
  "handle_move_to_color_temperature E r =
     try_sum (cr_mireds r) (\<lambda>m. try_sum (cr_time r) (\<lambda>t. color_request_options r (color_to E m t)))"

definition handle_move_color_temperature ::
  "('k, 'h, 'c) light_env \<Rightarrow> color_move_request \<Rightarrow> ('k, 'h, 'c) light_handler
    \<Rightarrow> ('k, 'h, 'c) light_result" where
  "handle_move_color_temperature E r =
     try_sum (cr_move_mode r) (\<lambda>m. try_sum (cr_rate r) (\<lambda>rate.
       try_sum (cr_minimum r) (\<lambda>lo. try_sum (cr_maximum r) (\<lambda>hi.
         color_request_options r (color_move E m rate (lo, hi))))))"

definition handle_step_color_temperature ::
  "('k, 'h, 'c) light_env \<Rightarrow> color_step_request \<Rightarrow> ('k, 'h, 'c) light_handler
    \<Rightarrow> ('k, 'h, 'c) light_result" where
  "handle_step_color_temperature E r =
     try_sum (cr_step_mode r) (\<lambda>m. try_sum (cr_step_size r) (\<lambda>size. try_sum (cr_step_time r) (\<lambda>t.
       try_sum (cr_step_minimum r) (\<lambda>lo. try_sum (cr_step_maximum r) (\<lambda>hi.
         color_request_options r (color_step E m size t (lo, hi)))))))"

definition handle_stop_move_step ::
  "('k, 'h, 'c) light_env \<Rightarrow> color_options_request \<Rightarrow> ('k, 'h, 'c) light_handler
    \<Rightarrow> ('k, 'h, 'c) light_result" where
  "handle_stop_move_step E r = color_request_options r (stop_color E)"

text \<open>The hue, saturation, x/y, enhanced and loop commands, which this light does not declare.\<close>

datatype hue_command =
  MoveToHue | MoveHue | StepHue | MoveToSaturation | MoveSaturation | StepSaturation
| MoveToHueAndSaturation | MoveToColor | MoveColor | StepColor | EnhancedMoveToHue
| EnhancedMoveHue | EnhancedStepHue | EnhancedMoveToHueAndSaturation | ColorLoopSet

definition handle_hue_command ::
  "hue_command \<Rightarrow> ('k, 'h, 'c) light_handler \<Rightarrow> ('k, 'h, 'c) light_result" where
  "handle_hue_command c s = (Err InvalidCommand, s)"

section \<open>Maintenance\<close>

text \<open>One pass of the loop, from the clock it reads to the feeding of the watchdog: timed off in
  whole deciseconds since \<open>last\<close>, then the tick of the runtime.\<close>

definition maintenance_ticks :: "u64 \<Rightarrow> u64 \<Rightarrow> u16" where
  "maintenance_ticks now last_ms = ucast (min ((now - last_ms) div 100) (ucast U16_MAX))"

definition maintenance_pass ::
  "('k, 'h, 'c) light_env \<Rightarrow> u64 \<Rightarrow> u64 \<Rightarrow> ('k, 'h, 'c) light_handler
    \<Rightarrow> (u64, unit) outcome \<times> ('k, 'h, 'c) light_handler" where
  "maintenance_pass E now last_ms s =
     (let t = maintenance_ticks now last_ms;
          (r, s) = (if 0 < t then light_tick E t s else (Ok (), s));
          last_ms = (if 0 < t then last_ms + ucast t * 100 else last_ms)
      in if r = Panic then (Panic, s)
         else (case on_runtime (runtime_tick (le_runtime E) now) s of
             (Panic, s) \<Rightarrow> (Panic, s)
           | (_, s) \<Rightarrow> (Ok last_ms, s)))"

end
