(* ===== verification/Light_Safety.thy ===== *)
theory Light_Safety
  imports Clusters Runtime_Props
begin

text \<open>
  The light handler over the light runtime: \<open>light_op\<close> lists every call that rs-matter, the
  console and the maintenance loop make, \<open>light_reachable\<close> is every state some sequence of
  them reaches, and \<open>handler_ok\<close> its invariant. No call panics, and the runtime inside
  only moves by calls of its own, so what holds of every reachable runtime holds here.
\<close>

section \<open>Calls\<close>

text \<open>What rs-matter's scene handler may do with the light: stage some field sets in order, leave
  any scene table behind, and answer with a verdict of its own when every one was accepted.\<close>

type_synonym field_set = "u32 \<times> (error_code + avp) list \<times> u32"

fun stage_all ::
  "('k, 'h, 'c) light_env \<Rightarrow> field_set list \<Rightarrow> ('k, 'h, 'c) light_handler \<Rightarrow> ('k, 'h, 'c) light_result" where
  "stage_all E [] s = (Ok (), s)"
| "stage_all E ((cluster, avps, ms) # rest) s =
     and_then (stage_scene E cluster avps ms s) (\<lambda>_. stage_all E rest) id"

definition scene_registry ::
  "('k, 'h, 'c) light_env \<Rightarrow> field_set list \<Rightarrow> 'c \<Rightarrow> error_code option \<Rightarrow> ('k, 'h, 'c) light_handler
    \<Rightarrow> ('k, 'h, 'c) light_result" where
  "scene_registry E sets table verdict s =
     (case stage_all E sets s of
        (Ok _, s) \<Rightarrow> (case verdict of None \<Rightarrow> Ok () | Some e \<Rightarrow> Err e, s\<lparr>h_scenes := table\<rparr>)
      | (r, s) \<Rightarrow> (r, s\<lparr>h_scenes := table\<rparr>))"

datatype 'c light_op =
  LOff | LOn | LToggle
| LOffWithEffect "error_code + effect_identifier" "error_code + u8"
| LRecallGlobal
| LTimedOff "error_code + u8" "error_code + u16" "error_code + u16"
| LMoveToLevel bool move_to_level_request
| LMove bool level_move_request
| LStep bool level_step_request
| LStop bool level_options_request
| LColorTo color_to_request
| LColorMove color_move_request
| LColorStep color_step_request
| LColorStop color_options_request
| LHue hue_command | LClosestFrequency
| LWriteStartUpOnOff "start_up_on_off option"
| LWriteOnTime u16 | LWriteOffWait u16
| LWriteLevelOptions u8 | LWriteOnLevel "u8 option" | LWriteStartUpLevel "u8 option"
| LWriteColorOptions u8 | LWriteStartUpMireds "u16 option"
| LScenes u32 "field_set list" 'c "error_code option"
| LPoll nat u32 report_state
| LMaintenance u64 u64
| LRuntime runtime_op

primrec run_light ::
  "('k, 'h, 'c) light_env \<Rightarrow> 'c light_op \<Rightarrow> ('k, 'h, 'c) light_handler \<Rightarrow> ('k, 'h, 'c) light_result" where
  "run_light E LOff s = handle_off E s"
| "run_light E LOn s = handle_on E s"
| "run_light E LToggle s = handle_toggle E s"
| "run_light E (LOffWithEffect i v) s = handle_off_with_effect E i v s"
| "run_light E LRecallGlobal s = handle_on_with_recall_global_scene E s"
| "run_light E (LTimedOff c t w) s = handle_on_with_timed_off E c t w s"
| "run_light E (LMoveToLevel b r) s = move_to_level E b r s"
| "run_light E (LMove b r) s = move_level E b r s"
| "run_light E (LStep b r) s = step_level E b r s"
| "run_light E (LStop b r) s = halt_level E b r s"
| "run_light E (LColorTo r) s = handle_move_to_color_temperature E r s"
| "run_light E (LColorMove r) s = handle_move_color_temperature E r s"
| "run_light E (LColorStep r) s = handle_step_color_temperature E r s"
| "run_light E (LColorStop r) s = handle_stop_move_step E r s"
| "run_light E (LHue c) s = handle_hue_command c s"
| "run_light E LClosestFrequency s = handle_move_to_closest_frequency s"
| "run_light E (LWriteStartUpOnOff v) s = write_start_up_on_off E v s"
| "run_light E (LWriteOnTime v) s = write_on_time E v s"
| "run_light E (LWriteOffWait v) s = write_off_wait_time E v s"
| "run_light E (LWriteLevelOptions v) s = write_level_options E v s"
| "run_light E (LWriteOnLevel v) s = write_on_level E v s"
| "run_light E (LWriteStartUpLevel v) s = write_start_up_current_level E v s"
| "run_light E (LWriteColorOptions v) s = write_color_options E v s"
| "run_light E (LWriteStartUpMireds v) s = write_start_up_mireds E v s"
| "run_light E (LScenes cmd sets table verdict) s =
     scenes_invoke E (scene_registry E sets table verdict) cmd s"
| "run_light E (LPoll i c previous) s = (Ok (), snd (poll_report E i c previous s))"
| "run_light E (LMaintenance now last_ms) s = no_data (maintenance_pass E now last_ms s)"
| "run_light E (LRuntime op) s = on_runtime (run_op (le_runtime E) op) s"

definition light_op_ok :: "'c light_op \<Rightarrow> bool" where
  "light_op_ok op \<longleftrightarrow> (case op of LRuntime rop \<Rightarrow> op_ok rop | LPoll i _ _ \<Rightarrow> i < 3 | _ \<Rightarrow> True)"

inductive light_reachable :: "('k, 'h, 'c) light_env \<Rightarrow> ('k, 'h, 'c) light_handler \<Rightarrow> bool" for E where
  boot: "runtime_load (le_runtime E) kv hw = Some rt \<Longrightarrow> light_reachable E (light_new rt table [a, b, c])"
| call: "light_reachable E s \<Longrightarrow> light_op_ok op \<Longrightarrow> run_light E op s = (r, t) \<Longrightarrow> light_reachable E t"

section \<open>The invariant\<close>

definition handler_ok :: "('k, 'h, 'c) light_env \<Rightarrow> ('k, 'h, 'c) light_handler \<Rightarrow> bool" where
  "handler_ok E s \<longleftrightarrow> reachable (le_runtime E) (h_runtime s)
     \<and> pred_option state_ok (h_global_scene_state s)
     \<and> pred_option (\<lambda>d. state_ok (sd_target d)) (h_scene_draft s)"

definition light_safe :: "('k, 'h, 'c) light_env \<Rightarrow> ('a, 'e) outcome \<times> ('k, 'h, 'c) light_handler \<Rightarrow> bool" where
  "light_safe E m \<longleftrightarrow> fst m \<noteq> Panic \<and> handler_ok E (snd m)"

lemma light_safe_pair [simp]: "light_safe E (r, s) \<longleftrightarrow> r \<noteq> Panic \<and> handler_ok E s"
  by (simp add: light_safe_def)

lemma handler_ok_updates [simp]:
  "handler_ok E (s\<lparr>h_scenes := a\<rparr>) = handler_ok E s"
  "handler_ok E (s\<lparr>h_datavers := b\<rparr>) = handler_ok E s"
  "handler_ok E (s\<lparr>h_level_options := c\<rparr>) = handler_ok E s"
  "handler_ok E (s\<lparr>h_color_options := c\<rparr>) = handler_ok E s"
  "handler_ok E (s\<lparr>h_on_level := d\<rparr>) = handler_ok E s"
  "handler_ok E (s\<lparr>h_on_time := e\<rparr>) = handler_ok E s"
  "handler_ok E (s\<lparr>h_off_wait := e\<rparr>) = handler_ok E s"
  "handler_ok E (s\<lparr>h_timed := f\<rparr>) = handler_ok E s"
  "handler_ok E (s\<lparr>h_global_scene := f\<rparr>) = handler_ok E s"
  "handler_ok E (s\<lparr>h_scene_intent := g\<rparr>) = handler_ok E s"
  "handler_ok E (s\<lparr>h_scene_revision := h\<rparr>) = handler_ok E s"
  "handler_ok E (s\<lparr>h_coupled_temperature := f\<rparr>) = handler_ok E s"
  "handler_ok E (s\<lparr>h_notices := i\<rparr>) = handler_ok E s"
  by (simp_all add: handler_ok_def)

lemma handler_ok_cells [simp]:
  "handler_ok E (changed E' s) = handler_ok E s"
  "handler_ok E (dataver_changed E' j s) = handler_ok E s"
  "handler_ok E (notify E' n s) = handler_ok E s"
  "handler_ok E (power_on_cells s) = handler_ok E s"
  "handler_ok E (power_off_cells s) = handler_ok E s"
  by (simp_all add: changed_def dataver_changed_def notify_def power_on_cells_def power_off_cells_def Let_def)

lemma handler_ok_stored:
  "handler_ok E s \<Longrightarrow> handler_ok E (s\<lparr>h_scene_draft := None\<rparr>)"
  "handler_ok E s \<Longrightarrow> state_ok (sd_target d) \<Longrightarrow> handler_ok E (s\<lparr>h_scene_draft := Some d\<rparr>)"
  "handler_ok E s \<Longrightarrow> state_ok st \<Longrightarrow> handler_ok E (s\<lparr>h_global_scene_state := Some st\<rparr>)"
  by (simp_all add: handler_ok_def)

lemma handler_runtime_ok: "handler_ok E s \<Longrightarrow> runtime_ok (h_runtime s)"
  unfolding handler_ok_def using reachable_ok by blast

lemma reported_ok: "handler_ok E s \<Longrightarrow> reported (h_runtime s) = Inr st \<Longrightarrow> state_ok st"
  by (auto simp: reported_def handler_runtime_ok target_ok split: if_splits)

lemma saved_scene_ok: "handler_ok E s \<Longrightarrow> h_global_scene_state s = Some st \<Longrightarrow> state_ok st"
  by (simp add: handler_ok_def)

lemma scene_draft_ok: "handler_ok E s \<Longrightarrow> h_scene_draft s = Some d \<Longrightarrow> state_ok (sd_target d)"
  by (simp add: handler_ok_def)

text \<open>A call of the runtime, of any of its operations.\<close>

lemma light_safe_runtime:
  assumes "handler_ok E s" "op_ok op"
  shows "light_safe E (on_runtime (run_op (le_runtime E) op) s)"
proof -
  obtain r t where run: "run_op (le_runtime E) op (h_runtime s) = (r, t)" by fastforce
  have reach: "reachable (le_runtime E) (h_runtime s)" using assms(1) by (simp add: handler_ok_def)
  have "r \<noteq> Panic" using run_op_safe [OF reachable_ok [OF reach] assms(2), of "le_runtime E"] run
    by (simp add: safe_def)
  moreover have "reachable (le_runtime E) t" using reach assms(2) run by (rule reachable.call)
  ultimately show ?thesis using assms(1) run by (simp add: on_runtime_def handler_ok_def)
qed

lemma on_runtime_safe:
  assumes "handler_ok E s"
  shows "light_safe E (on_runtime (set_power (le_runtime E) on) s)"
    and "light_safe E (on_runtime (off_with_effect (le_runtime E) effect) s)"
    and "light_safe E (on_runtime (set_level_transition (le_runtime E) l b ms) s)"
    and "light_safe E (on_runtime (set_level_rate (le_runtime E) l b ms) s)"
    and "temperature_ok t \<Longrightarrow> light_safe E (on_runtime (set_temperature_transition (le_runtime E) t ms) s)"
    and "temperature_ok t \<Longrightarrow> light_safe E (on_runtime (set_temperature_rate (le_runtime E) t ms) s)"
    and "light_safe E (on_runtime (stop_level_transition (le_runtime E)) s)"
    and "light_safe E (on_runtime (stop_temperature_transition (le_runtime E)) s)"
    and "state_ok st \<Longrightarrow> light_safe E (on_runtime (request (le_runtime E) st) s)"
    and "state_ok st \<Longrightarrow> light_safe E (on_runtime (recall_scene (le_runtime E) st ms) s)"
    and "light_safe E (on_runtime (set_startup (le_runtime E) p) s)"
    and "light_safe E (on_runtime (set_startup_level (le_runtime E) v) s)"
    and "(\<And>t. ot = Some t \<Longrightarrow> temperature_ok t) \<Longrightarrow>
      light_safe E (on_runtime (set_startup_temperature (le_runtime E) ot) s)"
  using light_safe_runtime [OF assms, of "OpSetPower on"] light_safe_runtime [OF assms, of "OpOffWithEffect effect"]
    light_safe_runtime [OF assms, of "OpSetLevelTransition l b ms"]
    light_safe_runtime [OF assms, of "OpSetLevelRate l b ms"]
    light_safe_runtime [OF assms, of "OpSetTemperatureTransition t ms"]
    light_safe_runtime [OF assms, of "OpSetTemperatureRate t ms"]
    light_safe_runtime [OF assms, of OpStopLevel] light_safe_runtime [OF assms, of OpStopTemperature]
    light_safe_runtime [OF assms, of "OpRequest st"] light_safe_runtime [OF assms, of "OpRecallScene st ms"]
    light_safe_runtime [OF assms, of "OpSetStartup p"] light_safe_runtime [OF assms, of "OpSetStartupLevel v"]
    light_safe_runtime [OF assms, of "OpSetStartupTemperature ot"]
  by (simp_all add: on_runtime_def split: option.splits)

lemma light_safe_and_then:
  assumes "light_safe E m" and "\<And>a s. handler_ok E s \<Longrightarrow> light_safe E (k a s)"
  shows "light_safe E (and_then m k id)"
  using assms by (cases m; cases "fst m") auto

lemma light_safe_try:
  assumes "handler_ok E s" and "\<And>a. r = Inr a \<Longrightarrow> light_safe E (k a s)"
  shows "light_safe E (try_sum r k s)"
  using assms by (cases r) auto

lemmas safe_rules = light_safe_and_then light_safe_try on_runtime_safe

lemma clamp_temperature_Some: "\<exists>t. clamp_temperature v = Some t \<and> temperature_ok t"
  by (auto simp: clamp_temperature_def temperature_new_def clamp_word_def temperature_MIN_def
      temperature_MAX_def temperature_ok_def word_le_nat_alt word_less_nat_alt)

lemma light_power_safe: "handler_ok E s \<Longrightarrow> light_safe E (light_power E on s)"
  unfolding light_power_def Let_def by (auto intro!: safe_rules split: option.splits)

lemma save_global_scene_safe: "handler_ok E s \<Longrightarrow> light_safe E (save_global_scene s)"
  unfolding save_global_scene_def
  by (auto intro!: safe_rules handler_ok_stored reported_ok)

lemma light_off_with_effect_safe: "handler_ok E s \<Longrightarrow> light_safe E (light_off_with_effect E e s)"
  unfolding light_off_with_effect_def Let_def
  by (auto intro!: safe_rules save_global_scene_safe)

lemma recall_global_scene_safe: "handler_ok E s \<Longrightarrow> light_safe E (recall_global_scene E s)"
  unfolding recall_global_scene_def Let_def
  by (auto intro!: safe_rules intro: saved_scene_ok split: option.splits)

lemma light_tick_safe: "handler_ok E s \<Longrightarrow> light_safe E (light_tick E d s)"
  using light_power_safe [of E "s\<lparr>h_on_time := 0\<rparr>" False]
  unfolding light_tick_def Let_def by (auto split: prod.splits outcome.splits)

lemma timed_on_safe: "handler_ok E s \<Longrightarrow> light_safe E (timed_on E b t w s)"
  using light_power_safe [of E "s\<lparr>h_on_time := max (h_on_time s) t, h_off_wait := w\<rparr>" True]
  unfolding timed_on_def Let_def
  by (auto intro!: light_safe_try split: prod.splits outcome.splits)

lemma coupled_mireds_nat:
  assumes "raw \<noteq> 255"
  shows "unat (coupled_mireds raw) = 344 - (max (unat raw) 1 - 1) * 201 div 253"
proof -
  define m where "m = max (unat raw) 1"
  have "unat raw \<noteq> 255" using assms by (simp add: word_unat_eq_iff)
  then have m: "1 \<le> m" "m \<le> 254" using unat_bound [of raw] by (simp_all add: m_def)
  have "unat (ucast (max raw 1) :: u16) = m" by (simp add: unat_ucast_up unat_max_word m_def)
  then have s: "unat (ucast (max raw 1) - 1 :: u16) = m - 1" using m by (simp add: unat_sub_fits)
  have "(m - 1) * 201 \<le> 253 * 201" using m by (intro mult_le_mono1) linarith
  then have p: "unat ((ucast (max raw 1) - 1) * 201 :: u16) = (m - 1) * 201"
    and q: "(m - 1) * 201 div 253 \<le> 201"
    using unat_mult_fits [of "ucast (max raw 1) - 1" "201 :: u16"] s
    by (simp_all only: unat_numeral s) simp_all
  have d: "unat ((ucast (max raw 1) - 1) * 201 div 253 :: u16) = (m - 1) * 201 div 253"
    by (simp only: unat_div p) simp
  then have "unat (344 - (ucast (max raw 1) - 1) * 201 div 253 :: u16) = 344 - (m - 1) * 201 div 253"
    using q by (simp add: unat_sub_fits)
  then show ?thesis
    by (simp add: coupled_mireds_def temperature_MAX_def temperature_MIN_def m_def)
qed

lemma coupled_mireds_ok:
  assumes "raw \<noteq> 255"
  shows "\<exists>t. temperature_new (coupled_mireds raw) = Some t \<and> temperature_ok t"
proof -
  have "unat raw \<noteq> 255" using assms by (simp add: word_unat_eq_iff)
  then have "(max (unat raw) 1 - 1) * 201 div 253 \<le> 201" using unat_bound [of raw] by simp
  then have "143 \<le> unat (coupled_mireds raw)" "unat (coupled_mireds raw) \<le> 344"
    by (simp_all add: coupled_mireds_nat [OF assms])
  then show ?thesis
    by (auto simp: temperature_new_def temperature_ok_def word_le_nat_alt temperature_MIN_def
        temperature_MAX_def)
qed

lemma light_safe_clamp:
  assumes "\<And>t. temperature_ok t \<Longrightarrow> light_safe E (k t)"
  shows "light_safe E (case clamp_temperature v of None \<Rightarrow> (Panic, s) | Some t \<Rightarrow> k t)"
  using clamp_temperature_Some [of v] assms by auto

lemma couple_temperature_safe:
  assumes "handler_ok E s" "raw \<noteq> 255"
  shows "light_safe E (couple_temperature E raw ms linear s)"
proof -
  obtain t where t: "temperature_new (coupled_mireds raw) = Some t" "temperature_ok t"
    using coupled_mireds_ok [OF assms(2)] by blast
  show ?thesis
    using t(2) unfolding couple_temperature_def t(1) option.case
    by (auto intro!: safe_rules assms(1))
qed

lemma level_to_curve_safe:
  "handler_ok E s \<Longrightarrow> light_safe E (level_to_curve E raw w t m ov linear s)"
  unfolding level_to_curve_def Let_def
  by (auto intro!: safe_rules couple_temperature_safe)

lemma level_to_safe: "handler_ok E s \<Longrightarrow> light_safe E (level_to E raw w t m ov s)"
  unfolding level_to_def by (rule level_to_curve_safe)

lemma level_move_safe: "handler_ok E s \<Longrightarrow> light_safe E (level_move E mode rate w m ov s)"
  unfolding level_move_def Let_def by (auto intro!: light_safe_try level_to_curve_safe)

lemma level_step_safe: "handler_ok E s \<Longrightarrow> light_safe E (level_step E mode step t w m ov s)"
  unfolding level_step_def by (auto intro!: light_safe_try level_to_safe)

lemma stop_level_handler_safe: "handler_ok E s \<Longrightarrow> light_safe E (stop_level E w m ov s)"
  unfolding stop_level_def Let_def by (auto intro!: safe_rules)

lemma color_to_safe: "handler_ok E s \<Longrightarrow> light_safe E (color_to E mireds t m ov s)"
  unfolding color_to_def Let_def by (auto intro!: safe_rules light_safe_clamp)

lemma stop_color_safe: "handler_ok E s \<Longrightarrow> light_safe E (stop_color E m ov s)"
  unfolding stop_color_def by (auto intro!: safe_rules)

lemma color_move_safe: "handler_ok E s \<Longrightarrow> light_safe E (color_move E mode rate b m ov s)"
  unfolding color_move_def Let_def
  by (auto intro!: safe_rules stop_color_safe light_safe_clamp)

lemma color_step_safe: "handler_ok E s \<Longrightarrow> light_safe E (color_step E mode step t b m ov s)"
  unfolding color_step_def by (auto intro!: light_safe_try color_to_safe)

lemma begin_scene_safe: "handler_ok E s \<Longrightarrow> light_safe E (begin_scene s)"
  unfolding begin_scene_def by (auto intro!: light_safe_try handler_ok_stored reported_ok)

lemma stage_field_ok:
  assumes "stage_field E cluster i a st = Inr (st', f)" "state_ok st"
  shows "state_ok st'"
  using assms unfolding stage_field_def
  by (auto simp: state_ok_def level_ok_def temperature_ok_def bind_eq_Some_conv word_le_nat_alt temperature_MIN_def temperature_MAX_def
      split: if_splits sum.splits option.splits)

lemma stage_avps_ok:
  "stage_avps E cluster avps d = Inr d' \<Longrightarrow> state_ok (sd_target d) \<Longrightarrow> state_ok (sd_target d')"
proof (induction E cluster avps d rule: stage_avps.induct)
  case (3 E cluster a rest d)
  then obtain i target field where step: "avp_id a = Inr i"
    "stage_field E cluster i a (sd_target d) = Inr (target, field)" "sd_fields d AND field = 0"
    "stage_avps E cluster rest (d\<lparr>sd_target := target, sd_fields := sd_fields d OR field\<rparr>) = Inr d'"
    by (auto split: sum.splits if_splits)
  have "state_ok target" using stage_field_ok [OF step(2) 3(3)] .
  then show ?case using 3(1) [OF step(1,2) refl _ step(4)] step(3) by simp
qed simp_all

lemma stage_scene_safe:
  assumes "handler_ok E s"
  shows "light_safe E (stage_scene E cluster avps ms s)"
proof (cases "h_scene_draft s")
  case (Some d)
  then have "state_ok (sd_target (d\<lparr>sd_duration_ms := ucast ms\<rparr>))"
    using scene_draft_ok [OF assms] by simp
  then show ?thesis
    using assms Some stage_avps_ok [of E cluster avps "d\<lparr>sd_duration_ms := ucast ms\<rparr>"]
    unfolding stage_scene_def
    by (auto intro!: light_safe_try handler_ok_stored)
qed (simp add: stage_scene_def assms)

lemma stage_all_safe: "handler_ok E s \<Longrightarrow> light_safe E (stage_all E sets s)"
  by (induction E sets s rule: stage_all.induct) (auto intro!: light_safe_and_then stage_scene_safe)

lemma scene_registry_safe: "handler_ok E s \<Longrightarrow> light_safe E (scene_registry E sets table verdict s)"
  using stage_all_safe [of E s sets] unfolding scene_registry_def
  by (auto split: prod.splits outcome.splits option.splits)

lemma finish_scene_safe: "handler_ok E s \<Longrightarrow> light_safe E (finish_scene E s)"
proof (cases "h_scene_draft s")
  case (Some d)
  assume ok: "handler_ok E s"
  let ?s = "s\<lparr>h_scene_draft := None, h_coupled_temperature := False, h_on_time := 0,
    h_off_wait := 0, h_timed := False\<rparr>"
  have "light_safe E (on_runtime (recall_scene (le_runtime E) (sd_target d) (sd_duration_ms d)) ?s)"
    using ok scene_draft_ok [OF ok Some] by (auto intro!: on_runtime_safe simp: handler_ok_stored)
  then show ?thesis
    using Some unfolding finish_scene_def by (auto simp: Let_def split: prod.splits outcome.splits)
qed (simp add: finish_scene_def)

lemma scenes_invoke_safe:
  assumes "handler_ok E s"
  shows "light_safe E (scenes_invoke E (scene_registry E sets table verdict) cmd s)"
proof -
  have recall: "light_safe E (case scene_registry E sets table verdict u of (Panic, s) \<Rightarrow> (Panic, s)
      | (Err error, s) \<Rightarrow> (Err error, abort_scene E s) | (Ok _, s) \<Rightarrow> finish_scene E s)"
    if "handler_ok E u" for u
    using scene_registry_safe [OF that, of sets table verdict]
    by (auto simp: abort_scene_def handler_ok_stored finish_scene_safe split: prod.splits outcome.splits)
  show ?thesis
    using scene_registry_safe [OF assms, of sets table verdict] begin_scene_safe [OF assms] recall
    unfolding scenes_invoke_def by (auto simp: Let_def intro!: light_safe_and_then split: prod.splits)
qed

lemma write_safe:
  assumes "handler_ok E s"
  shows "light_safe E (write_start_up_on_off E p s)" "light_safe E (write_on_time E t s)"
    "light_safe E (write_off_wait_time E t s)" "light_safe E (write_level_options E o' s)"
    "light_safe E (write_on_level E l s)" "light_safe E (write_start_up_current_level E l s)"
    "light_safe E (write_color_options E o' s)"
  using assms
  by (auto simp: write_start_up_on_off_def write_on_time_def write_off_wait_time_def write_level_options_def
      write_on_level_def write_start_up_current_level_def write_color_options_def notify_written_def
      intro!: safe_rules)

lemma write_start_up_mireds_safe:
  assumes "handler_ok E s"
  shows "light_safe E (write_start_up_mireds E v s)"
proof (cases v)
  case None
  with assms show ?thesis
    by (auto simp: write_start_up_mireds_def notify_written_def intro!: safe_rules)
next
  case (Some m)
  obtain t where "clamp_temperature m = Some t" "temperature_ok t" using clamp_temperature_Some by blast
  with Some assms show ?thesis
    by (auto simp: write_start_up_mireds_def notify_written_def intro!: safe_rules)
qed

lemma poll_report_ok: "handler_ok E s \<Longrightarrow> handler_ok E (snd (poll_report E i c previous s))"
  by (simp add: poll_report_def report_output_def Let_def)

lemma on_tick_safe: "handler_ok E s \<Longrightarrow> light_safe E (on_runtime (runtime_tick (le_runtime E) now) s)"
  using light_safe_runtime [of E s "OpTick now"]
  by (auto simp: on_runtime_def no_data_def split: prod.splits outcome.splits)

lemma maintenance_pass_safe:
  assumes "handler_ok E s"
  shows "light_safe E (maintenance_pass E now last_ms s)"
proof -
  let ?t = "maintenance_ticks now last_ms"
  obtain r u where m: "(if 0 < ?t then light_tick E ?t s else (Ok (), s)) = (r, u)" by fastforce
  have "light_safe E (r, u)" using assms light_tick_safe [OF assms] by (simp flip: m)
  then have "r \<noteq> Panic" "light_safe E (on_runtime (runtime_tick (le_runtime E) now) u)"
    using on_tick_safe [of E u now] by simp_all
  then show ?thesis
    by (auto simp: maintenance_pass_def Let_def m split: prod.splits outcome.splits)
qed

lemma light_no_data_safe: "light_safe E m \<Longrightarrow> light_safe E (no_data m)"
  by (auto simp: no_data_def split: prod.splits outcome.splits)

lemma run_light_safe:
  assumes "handler_ok E s" "light_op_ok op"
  shows "light_safe E (run_light E op s)"
  using assms
  by (cases op)
    (auto simp: handle_off_def handle_on_def handle_toggle_def handle_off_with_effect_def
      handle_on_with_recall_global_scene_def handle_on_with_timed_off_def move_to_level_def move_level_def
      step_level_def halt_level_def request_options_def handle_move_to_color_temperature_def
      handle_move_color_temperature_def handle_step_color_temperature_def handle_stop_move_step_def
      color_request_options_def handle_hue_command_def handle_move_to_closest_frequency_def
      light_op_ok_def
      intro!: light_safe_try light_power_safe light_off_with_effect_safe recall_global_scene_safe
      timed_on_safe level_to_safe level_move_safe level_step_safe stop_level_handler_safe color_to_safe
      color_move_safe color_step_safe stop_color_safe write_safe write_start_up_mireds_safe
      scenes_invoke_safe poll_report_ok light_safe_runtime light_no_data_safe maintenance_pass_safe
      split: option.splits)

lemma light_reachable_ok: "light_reachable E s \<Longrightarrow> handler_ok E s"
proof (induction rule: light_reachable.induct)
  case (boot kv hw rt table a b c)
  then show ?case by (simp add: handler_ok_def light_new_def reachable.boot)
next
  case (call s op r t)
  then show ?case using run_light_safe [of E s op] by simp
qed

section \<open>Properties\<close>

text \<open>The bench light: the bench runtime under a handler whose scene table counts invalidations.\<close>

definition bench_light_env :: "(test_store, simulated_output, nat) light_env" where
  "bench_light_env =
     \<lparr>le_runtime = bench_env 0, le_scenable_attribute_changed = (\<lambda>_ n. n + 1),
      le_dataver_changed = (\<lambda>v. v + 1), le_level_execute_if_off = 1, le_level_couple = 2,
      le_color_execute_if_off = 1, le_accept_only_when_on = 1, le_on_off_cluster = 6,
      le_level_cluster = 8, le_color_cluster = 0x300, le_scenes_cluster = 0x62,
      le_attr_on_off = 0, le_attr_current_level = 0, le_attr_mireds = 7,
      le_attr_enhanced_mode = 0x4001, le_level_remaining_time = 1, le_color_remaining_time = 2,
      le_recall_scene = 5, le_store_scene = 4, le_color_temperature_mode = 2,
      le_notified = (\<lambda>n vs. case n of
          AttributeWritten \<Rightarrow> vs
        | ClusterChanged _ c \<Rightarrow> map (\<lambda>v. v + 1) vs
        | AttrChanged _ c _ \<Rightarrow> map (\<lambda>v. v + 1) vs)\<rparr>"

definition bench_light :: "(test_store, simulated_output, nat) light_handler" where
  "bench_light = light_new bench_boot 0 [1, 2, 3]"

lemma bench_light_env_simps [simp]:
  "le_runtime bench_light_env = bench_env 0"
  "le_attr_on_off bench_light_env = 0" "le_attr_current_level bench_light_env = 0"
  "le_attr_mireds bench_light_env = 7" "le_attr_enhanced_mode bench_light_env = 0x4001"
  "le_color_temperature_mode bench_light_env = 2"
  by (simp_all add: bench_light_env_def)

lemma bench_light_reachable: "light_reachable bench_light_env bench_light"
proof -
  obtain s where "runtime_load (bench_env 0) test_store_default sim_default = Some s"
    using runtime_load_ok [of "bench_env 0" test_store_default sim_default] by blast
  then show ?thesis by (auto simp: bench_light_def bench_boot_def intro: light_reachable.boot)
qed

lemma light_call_reachable:
  "light_reachable E s \<Longrightarrow> light_op_ok op \<Longrightarrow> light_reachable E (snd (run_light E op s))"
  by (rule light_reachable.call [OF _ _ prod.collapse [symmetric]])

text \<open>C8. The Matter light never panics and never bypasses the runtime: from every state that
  commands, attribute writes, scene recalls, reports, maintenance passes and console calls can
  reach after a boot, every further call returns, and the runtime it leaves is one that the
  runtime's own calls reach, so the guarantees on the runtime hold for every Matter client.\<close>

theorem light_never_panics:
  assumes "light_reachable E s" "light_op_ok op"
  shows "fst (run_light E op s) \<noteq> Panic \<and>
    reachable (le_runtime E) (h_runtime (snd (run_light E op s)))"
  using run_light_safe [OF light_reachable_ok [OF assms(1)] assms(2)]
  by (simp add: light_safe_def handler_ok_def)

lemma light_never_panics_witness:
  "fst (run_light bench_light_env LOn bench_light) \<noteq> Panic \<and>
   reachable (bench_env 0) (h_runtime (snd (run_light bench_light_env LOn bench_light)))"
  using light_never_panics [OF bench_light_reachable, of LOn] by (simp add: light_op_ok_def)

end
