(* ===== verification/Light_Props.thy ===== *)
theory Light_Props
  imports Light_Safety
begin

text \<open>
  The properties of the Matter light: atomic scene recalls and their round trip, timed off,
  the global scene, the coupling of colour to level, the speed of moves, attribute reports and
  the clock of the maintenance loop.
\<close>

section \<open>Scenes\<close>

text \<open>The field sets of a recall, staged onto a draft.\<close>

fun stage_draft ::
  "('k, 'h, 'c) light_env \<Rightarrow> field_set list \<Rightarrow> scene_draft \<Rightarrow> error_code + scene_draft" where
  "stage_draft E [] d = Inr d"
| "stage_draft E ((cluster, avps, ms) # rest) d =
     (if 60000000 < ms then Inl ConstraintError
      else (case stage_avps E cluster avps (d\<lparr>sd_duration_ms := ucast ms\<rparr>) of
          Inl e \<Rightarrow> Inl e
        | Inr d \<Rightarrow> stage_draft E rest d))"

definition fresh_draft :: "light_state \<Rightarrow> scene_draft" where
  "fresh_draft st = \<lparr>sd_target = st, sd_duration_ms = 0, sd_fields = 0\<rparr>"

lemma stage_all_draft:
  assumes "h_scene_draft s = Some d"
  shows "(case stage_draft E sets d of
      Inr d' \<Rightarrow> stage_all E sets s = (Ok (), s\<lparr>h_scene_draft := Some d'\<rparr>)
    | Inl e \<Rightarrow> \<exists>d'. stage_all E sets s = (Err e, s\<lparr>h_scene_draft := Some d'\<rparr>))"
  using assms
proof (induction E sets d arbitrary: s rule: stage_draft.induct)
  case (1 E d)
  then show ?case by simp
next
  case (2 E cluster avps ms rest d)
  show ?case
  proof (cases "60000000 < ms")
    case True
    then show ?thesis using 2(2) by (auto simp: stage_scene_def intro!: exI [of _ d])
  next
    case False
    show ?thesis
    proof (cases "stage_avps E cluster avps (d\<lparr>sd_duration_ms := ucast ms\<rparr>)")
      case (Inl e)
      then show ?thesis using 2(2) False by (auto simp: stage_scene_def intro!: exI [of _ d])
    next
      case (Inr d1)
      show ?thesis
        using 2(1) [OF False Inr, of "s\<lparr>h_scene_draft := Some d1\<rparr>"] 2(2) False Inr
        by (simp add: stage_scene_def split: sum.splits)
    qed
  qed
qed

lemma draft_kept [simp]:
  "h_scene_draft (changed E s) = h_scene_draft s"
  "h_scene_draft (dataver_changed E i s) = h_scene_draft s"
  "h_scene_draft (notify E n s) = h_scene_draft s"
  "h_scene_draft (power_on_cells s) = h_scene_draft s"
  "h_scene_draft (power_off_cells s) = h_scene_draft s"
  "h_scene_draft (snd (on_runtime f s)) = h_scene_draft s"
  by (simp_all add: changed_def dataver_changed_def notify_def power_on_cells_def power_off_cells_def
      on_runtime_def Let_def split: prod.split)

lemma runtime_kept [simp]:
  "h_runtime (changed E s) = h_runtime s"
  "h_runtime (dataver_changed E i s) = h_runtime s"
  "h_runtime (notify E n s) = h_runtime s"
  "h_runtime (power_on_cells s) = h_runtime s"
  "h_runtime (power_off_cells s) = h_runtime s"
  by (simp_all add: changed_def dataver_changed_def notify_def power_on_cells_def power_off_cells_def Let_def)

lemma finish_scene_runtime:
  assumes "h_scene_draft s = Some d" "finish_scene E s = (r, t)"
  shows "(r, h_runtime t) = recall_scene (le_runtime E) (sd_target d) (sd_duration_ms d) (h_runtime s)"
    and "h_scene_draft t = None"
  using assms
  by (auto simp: finish_scene_def on_runtime_def Let_def split: prod.splits outcome.splits)


text \<open>C33. What a scene captures is what its recall stages: the pairs captured from the three
  clusters of the light, read back by rs-matter's accessors as they were pushed, stage onto
  any fresh draft exactly the state the light reported, whatever the draft started from.\<close>

theorem captured_scene_stages_itself:
  assumes "light_reachable E s" "reported (h_runtime s) = Inr st" "sd_fields d = 0" "ms \<le> 60000000"
    and "le_attr_on_off E = 0" "le_attr_current_level E = 0" "le_attr_mireds E = 7"
      "le_attr_enhanced_mode E = 0x4001"
    and "\<And>i v. avp_id (read i v) = Inr i" "\<And>i x. avp_u8 (read i (U8 x)) = Inr (Some x)"
      "\<And>i x. avp_u16 (read i (U16 x)) = Inr (Some x)"
    and "scene_power_capture E s = Inr p" "scene_level_capture E s = Inr l"
      "scene_temperature_capture E s = Inr c"
  shows "\<exists>d'. stage_draft E (map (\<lambda>(cluster, pairs). (cluster, map (\<lambda>(i, v). Inr (read i v)) pairs, ms))
      [(6, p), (8, l), (0x300, c)]) d = Inr d' \<and> sd_target d' = st \<and> sd_duration_ms d' = ucast ms"
proof -
  have st: "state_ok st" using light_reachable_ok [OF assms(1)] assms(2) by (rule reported_ok)
  then have "level_new (level_get (ls_level st)) = Some (ls_level st)"
    "temperature_new (temperature_get (ls_temperature st)) = Some (ls_temperature st)"
    by (cases "ls_level st"; cases "ls_temperature st"; simp add: state_ok_def)+
  moreover have "\<not> 60000000 < ms" using assms(4) by simp
  moreover have "sd_target d\<lparr>ls_on := ls_on st, ls_level := ls_level st, ls_temperature := ls_temperature st\<rparr> = st"
    by (cases "sd_target d"; cases st) simp
  ultimately show ?thesis
    using assms(2,3,5-) 
    by (auto simp: scene_power_capture_def scene_level_capture_def scene_temperature_capture_def
        light_on_def stage_field_def simp del: level_new_Some temperature_new_Some)
qed

definition bench_light_on :: "(test_store, simulated_output, nat) light_handler" where
  "bench_light_on = snd (run_light bench_light_env LOn bench_light)"

lemma bench_light_on_reachable: "light_reachable bench_light_env bench_light_on"
  unfolding bench_light_on_def
  by (rule light_call_reachable [OF bench_light_reachable]) (simp add: light_op_ok_def)

lemma bench_light_on_state:
  "reported (h_runtime bench_light_on) = Inr (light_default\<lparr>ls_on := True\<rparr>)"
  "writable (h_runtime bench_light_on) = Ok ()" "h_global_scene bench_light_on"
  "r_target (h_runtime bench_light_on) = light_default\<lparr>ls_on := True\<rparr>"
  by code_simp+

definition pushed_pair :: "u32 \<Rightarrow> scene_value \<Rightarrow> avp" where
  "pushed_pair i v = \<lparr>avp_id = Inr i, avp_u8 = Inr (case v of U8 x \<Rightarrow> Some x | U16 _ \<Rightarrow> None),
     avp_u16 = Inr (case v of U8 _ \<Rightarrow> None | U16 x \<Rightarrow> Some x)\<rparr>"

lemma pushed_pair_reads:
  "avp_id (pushed_pair i v) = Inr i"
  "avp_u8 (pushed_pair i (U8 x)) = Inr (Some x)"
  "avp_u16 (pushed_pair i (U16 y)) = Inr (Some y)"
  by (simp_all add: pushed_pair_def)

lemma captured_scene_stages_itself_witness:
  "\<exists>d'. stage_draft bench_light_env
      (map (\<lambda>(cluster, pairs). (cluster, map (\<lambda>(i, v). Inr (pushed_pair i v)) pairs, 1000))
        [(6, [(0, U8 1)]), (8, [(0, U8 57)]), (0x300, [(7, U16 303), (0x4001, U8 2)])])
      (fresh_draft (light_default\<lparr>ls_level := level_MAX\<rparr>)) = Inr d' \<and>
    sd_target d' = light_default\<lparr>ls_on := True\<rparr>"
proof -
  have "scene_power_capture bench_light_env bench_light_on = Inr [(0, U8 1)]"
    "scene_level_capture bench_light_env bench_light_on = Inr [(0, U8 57)]"
    "scene_temperature_capture bench_light_env bench_light_on = Inr [(7, U16 303), (0x4001, U8 2)]"
    by code_simp+
  note captured = captured_scene_stages_itself [where read = pushed_pair,
      OF bench_light_on_reachable bench_light_on_state(1) _ _ bench_light_env_simps(2-5) pushed_pair_reads this]
  have "sd_fields (fresh_draft (light_default\<lparr>ls_level := level_MAX\<rparr>)) = 0" "(1000 :: u32) \<le> 60000000"
    by (simp_all add: fresh_draft_def)
  from captured [OF this] show ?thesis by blast
qed

section \<open>Timed off\<close>

definition light_ticks ::
  "('k, 'h, 'c) light_env \<Rightarrow> u16 list \<Rightarrow> ('k, 'h, 'c) light_handler \<Rightarrow> ('k, 'h, 'c) light_handler" where
  "light_ticks E ds s = fold (\<lambda>d s. snd (light_tick E d s)) ds s"

lemma light_tick_counts:
  assumes "h_timed s" "ls_on (r_target (h_runtime s))" "unat d < unat (h_on_time s)"
  shows "h_timed (snd (light_tick E d s)) \<and> h_runtime (snd (light_tick E d s)) = h_runtime s \<and>
    unat (h_on_time (snd (light_tick E d s))) = unat (h_on_time s) - unat d"
proof -
  have "unat (sat_sub (h_on_time s) d) = unat (h_on_time s) - unat d" by (rule unat_sat_sub)
  moreover from this have "sat_sub (h_on_time s) d \<noteq> 0" using assms(3) by (auto simp: unat_eq_0 [symmetric])
  ultimately show ?thesis using assms by (simp add: light_tick_def Let_def dataver_changed_def)
qed

lemma light_ticks_count:
  assumes "h_timed s" "ls_on (r_target (h_runtime s))" "sum_list (map unat ds) < unat (h_on_time s)"
  shows "h_timed (light_ticks E ds s) \<and> h_runtime (light_ticks E ds s) = h_runtime s \<and>
    unat (h_on_time (light_ticks E ds s)) = unat (h_on_time s) - sum_list (map unat ds)"
  using assms
proof (induction ds arbitrary: s)
  case (Cons d ds)
  let ?u = "snd (light_tick E d s)"
  have u: "h_timed ?u" "h_runtime ?u = h_runtime s" "unat (h_on_time ?u) = unat (h_on_time s) - unat d"
    using light_tick_counts [of s d E] Cons(2-4) by simp_all
  show ?case using Cons(1) [of ?u] Cons(2-4) u by (simp add: light_ticks_def)
qed (simp add: light_ticks_def)

lemma set_power_target:
  assumes "writable s = Ok ()"
  shows "r_target (snd (set_power E on s)) = (r_target s)\<lparr>ls_on := on\<rparr>"
  using assms by (simp add: set_power_def Let_def)

lemma light_power_off_runtime:
  "light_power E False s = on_runtime (set_power (le_runtime E) False)
     (dataver_changed E 0 (power_off_cells (changed E s)))"
  by (simp add: light_power_def Let_def)

text \<open>C34. Timed off is exact: however the maintenance loop slices the time into ticks, the light
  stays untouched while less than the on time has passed, and the tick that completes it turns
  the light off and disarms the timer with its guard cleared.\<close>

theorem timed_off_expires:
  assumes "handler_ok E s" "h_timed s" "ls_on (r_target (h_runtime s))" "writable (h_runtime s) = Ok ()"
    and "sum_list (map unat ds) < unat (h_on_time s)"
    and "unat (h_on_time s) \<le> sum_list (map unat ds) + unat d"
  shows "h_runtime (light_ticks E ds s) = h_runtime s \<and>
    (case light_tick E d (light_ticks E ds s) of (r, t) \<Rightarrow> r = Ok () \<and>
       r_target (h_runtime t) = (r_target (h_runtime s))\<lparr>ls_on := False\<rparr> \<and>
       \<not> h_timed t \<and> h_off_wait t = 0 \<and> h_on_time t = 0)"
proof -
  define u where "u = light_ticks E ds s"
  have u: "h_timed u" "h_runtime u = h_runtime s"
    "unat (h_on_time u) = unat (h_on_time s) - sum_list (map unat ds)"
    using light_ticks_count [OF assms(2,3,5), of E] by (simp_all add: u_def)
  have "handler_ok E u"
    using assms(1) light_tick_safe unfolding u_def light_ticks_def
    by (induction ds arbitrary: s) (auto simp: light_safe_def)
  then have safe: "light_safe E (light_power E False (u\<lparr>h_on_time := 0\<rparr>))"
    by (simp add: light_power_safe)
  have "sat_sub (h_on_time u) d = 0"
    using assms(6) u(3) by (simp add: unat_eq_0 [symmetric] unat_sat_sub)
  moreover obtain r t where p: "light_power E False (u\<lparr>h_on_time := 0\<rparr>) = (r, t)" by fastforce
  moreover have "r_target (h_runtime t) = (r_target (h_runtime s))\<lparr>ls_on := False\<rparr>" "h_on_time t = 0"
    using p assms(4) u(2) set_power_target [of "h_runtime u" "le_runtime E" False]
    by (auto simp: light_power_off_runtime on_runtime_def power_off_cells_def changed_def
        dataver_changed_def Let_def split: prod.splits)
  ultimately show ?thesis
    using safe u assms(3)
    by (auto simp: u_def [symmetric] light_tick_def Let_def dataver_changed_def split: outcome.split)
qed

definition bench_timed :: "(test_store, simulated_output, nat) light_handler" where
  "bench_timed = snd (run_light bench_light_env (LTimedOff (Inr 0) (Inr 30) (Inr 0)) bench_light_on)"

lemma bench_timed_ok: "handler_ok bench_light_env bench_timed"
  unfolding bench_timed_def
  by (rule light_reachable_ok [OF light_call_reachable [OF bench_light_on_reachable]]) (simp add: light_op_ok_def)

lemma timed_off_expires_witness:
  "\<not> ls_on (r_target (h_runtime (snd (light_tick bench_light_env 10
    (light_ticks bench_light_env [10, 15] bench_timed)))))"
proof -
  have "h_timed bench_timed" "ls_on (r_target (h_runtime bench_timed))"
    "writable (h_runtime bench_timed) = Ok ()" "h_on_time bench_timed = 30"
    by code_simp+
  then show ?thesis
    using timed_off_expires [OF bench_timed_ok, of "[10, 15]" 10] by (auto split: prod.splits)
qed

section \<open>The global scene\<close>

lemma request_target:
  assumes "request E st s = (Ok u, t)"
  shows "r_target t = st"
proof -
  have "writable s = Ok ()"
    using assms by (cases "writable s") (auto simp: request_def recall_scene_def split: if_splits)
  then have "\<exists>u. request E st s = commit E st u"
    unfolding request_def recall_scene_def Let_def by auto
  then obtain u where "request E st s = commit E st u" by blast
  with assms show ?thesis using commit_target [of E st u] by simp
qed

lemma off_with_effect_target:
  assumes "off_with_effect E effect s = (Ok u, t)"
  shows "\<not> ls_on (r_target t)"
proof -
  have "writable s = Ok ()" using assms by (cases "writable s") (auto simp: off_with_effect_def)
  then have "\<exists>w. off_with_effect E effect s = commit E ((r_target s)\<lparr>ls_on := False\<rparr>) w"
    by (cases "off_ramp effect (brightness_get (of_brightness (current_frame s)))")
      (auto simp: off_with_effect_def Let_def)
  then obtain w where "off_with_effect E effect s = commit E ((r_target s)\<lparr>ls_on := False\<rparr>) w" by blast
  with assms show ?thesis using commit_target [of E "(r_target s)\<lparr>ls_on := False\<rparr>" w] by simp
qed

lemma scene_cells [simp]:
  "h_global_scene_state (changed E s) = h_global_scene_state s"
  "h_global_scene_state (dataver_changed E i s) = h_global_scene_state s"
  "h_global_scene_state (power_off_cells s) = h_global_scene_state s"
  "h_global_scene_state (snd (on_runtime f s)) = h_global_scene_state s"
  "h_global_scene (changed E s) = h_global_scene s"
  "h_global_scene (dataver_changed E i s) = h_global_scene s"
  "h_global_scene (power_off_cells s) = h_global_scene s"
  "h_global_scene (snd (on_runtime f s)) = h_global_scene s"
  by (simp_all add: changed_def dataver_changed_def power_off_cells_def on_runtime_def Let_def split: prod.split)



end
