(* ===== verification/Light_Reports.thy ===== *)
theory Light_Reports
  imports Light_Props
begin

text \<open>
  Properties of the Matter light in time: the speed of level and colour moves, the coupling of
  colour to level, the attribute reports, the validity of a recalled scene and the clock of the
  maintenance loop.
\<close>

section \<open>Moves and coupling\<close>

lemma div_ceil_bounds:
  assumes "0 < unat b"
  shows "unat a \<le> unat (div_ceil a b) * unat b" "unat (div_ceil a b) * unat b < unat a + unat b"
proof -
  define n k where "n = unat a + unat b - 1" and "k = unat b"
  have e: "unat (div_ceil a b) * unat b = n - n mod k"
    using unat_div_ceil [OF assms, of a] by (simp add: n_def k_def minus_mod_eq_div_mult)
  have "n mod k < k" using assms by (simp add: k_def)
  with e assms show "unat a \<le> unat (div_ceil a b) * unat b" "unat (div_ceil a b) * unat b < unat a + unat b"
    unfolding n_def k_def by linarith+
qed

definition distance :: "nat \<Rightarrow> nat \<Rightarrow> nat" where
  "distance a b = (a - b) + (b - a)"

lemma unat_abs_diff_distance: "unat (abs_diff a b) = distance (unat a) (unat b)"
  by (simp add: unat_abs_diff distance_def)

text \<open>A move keeps the rate it was asked for: its fade takes at least the distance divided by
  the rate (levels per second in deciseconds, mireds per second in milliseconds) and less than
  one unit more, and neither product overflows.\<close>

theorem moves_keep_their_rate:
  assumes "rate \<noteq> 0" "color_rate \<noteq> 0"
  shows "10 * distance (unat l) (unat l') \<le> unat (level_move_ds l l' rate) * unat rate \<and>
    unat (level_move_ds l l' rate) * unat rate < 10 * distance (unat l) (unat l') + unat rate \<and>
    1000 * distance (unat m) (unat m') \<le> unat (color_move_ms m m' color_rate) * unat color_rate \<and>
    unat (color_move_ms m m' color_rate) * unat color_rate < 1000 * distance (unat m) (unat m') + unat color_rate"
proof -
  have b: "distance (unat l) (unat l') \<le> 255" "distance (unat m) (unat m') \<le> 65535"
    using unat_bound [of l] unat_bound [of l'] unat_bound [of m] unat_bound [of m']
    by (simp_all add: distance_def)
  have l: "unat (ucast (abs_diff l l') * 10 :: u16) = 10 * distance (unat l) (unat l')"
    using unat_mult_fits [of "ucast (abs_diff l l')" "10 :: u16"] b
    by (simp add: unat_ucast_up unat_abs_diff_distance)
  have m: "unat (ucast (abs_diff m m') * 1000 :: u64) = 1000 * distance (unat m) (unat m')"
    using unat_mult_fits [of "ucast (abs_diff m m')" "1000 :: u64"] b
    by (simp add: unat_ucast_up unat_abs_diff_distance)
  have r: "unat (ucast rate :: u16) = unat rate" "unat (ucast color_rate :: u64) = unat color_rate"
    "0 < unat rate" "0 < unat color_rate"
    using assms by (simp_all add: unat_ucast_up unat_gt_0)
  show ?thesis
    using div_ceil_bounds [of "ucast rate :: u16" "ucast (abs_diff l l') * 10"]
      div_ceil_bounds [of "ucast color_rate :: u64" "ucast (abs_diff m m') * 1000"]
    unfolding level_move_ds_def color_move_ms_def l m r(1,2) using r(3,4) by blast
qed

lemma moves_keep_their_rate_witness:
  "1970 \<le> unat (level_move_ds 57 254 50) * 50 \<and> 41000 \<le> unat (color_move_ms 303 344 7) * 7"
  using moves_keep_their_rate [of 50 7 57 254 303 344] by (simp add: distance_def)

text \<open>Coupled colour follows the level over the whole range: the lowest level is the warmest
  temperature and the highest the coolest, a higher level is never warmer, one level step
  moves the temperature by at most one mired, and every result is in range.\<close>

theorem coupling_spans_range:
  assumes "1 \<le> a" "a \<le> b" "b \<noteq> 255"
  shows "coupled_mireds 1 = 344 \<and> coupled_mireds 254 = 143 \<and>
    unat (coupled_mireds b) \<le> unat (coupled_mireds a) \<and>
    unat (coupled_mireds a) \<le> unat (coupled_mireds b) + (unat b - unat a) \<and>
    143 \<le> unat (coupled_mireds b) \<and> unat (coupled_mireds a) \<le> 344"
proof -
  define x k where "x = unat a - 1" and "k = unat b - unat a"
  have "unat b \<noteq> 255" using assms(3) by (simp add: word_unat_eq_iff)
  then have n: "1 \<le> unat a" "unat a \<le> unat b" "unat b \<le> 254"
    using assms(1,2) unat_bound [of b] by (simp_all add: word_le_nat_alt)
  then have "a \<noteq> 255" by auto
  then have a: "unat (coupled_mireds a) = 344 - x * 201 div 253"
    using n by (simp add: coupled_mireds_nat x_def max_def)
  have b: "unat (coupled_mireds b) = 344 - (x + k) * 201 div 253"
    using n assms(3) by (simp add: coupled_mireds_nat x_def k_def max_def)
  have mono: "x * 201 div 253 \<le> (x + k) * 201 div 253" by (intro div_le_mono) simp
  have "(x + k) * 201 div 253 \<le> (x * 201 + k * 253) div 253" by (intro div_le_mono) (simp add: algebra_simps)
  then have step: "(x + k) * 201 div 253 \<le> x * 201 div 253 + k" by simp
  have "(x + k) * 201 div 253 \<le> 253 * 201 div 253" using n by (intro div_le_mono) (simp add: x_def k_def)
  then have top: "(x + k) * 201 div 253 \<le> 201" by simp
  have "coupled_mireds 1 = 344" "coupled_mireds 254 = 143"
    using coupled_mireds_nat [of 1] coupled_mireds_nat [of 254] by (simp_all add: word_unat_eq_iff)
  moreover have "unat (coupled_mireds b) \<le> unat (coupled_mireds a)" using a b mono by linarith
  moreover have "unat (coupled_mireds a) \<le> unat (coupled_mireds b) + k" using a b step top by linarith
  moreover have "143 \<le> unat (coupled_mireds b)" "unat (coupled_mireds a) \<le> 344"
    using a b top by linarith+
  ultimately show ?thesis by (simp add: k_def)
qed

lemma coupling_spans_range_witness: "unat (coupled_mireds 58) \<le> unat (coupled_mireds 57)"
  using coupling_spans_range [of 57 58] by simp

section \<open>Reports\<close>

text \<open>What the last report said is still so: nothing the client can read has changed.\<close>

definition report_current :: "nat \<Rightarrow> report_state \<Rightarrow> ('k, 'h, 'c) light_handler \<Rightarrow> bool" where
  "report_current i p s \<longleftrightarrow>
     (let n = read_report_state i s
      in rs_revision n = rs_revision p \<and> rs_dataver n = rs_dataver p \<and> rs_remaining n = rs_remaining p \<and>
        (i = 0 \<longrightarrow> rs_scene_revision n = rs_scene_revision p \<and>
          (rs_output n = rs_output p \<or> h_scene_intent s \<noteq> None \<and> rs_output n = h_scene_intent s)))"

lemma read_after_notify [simp]:
  "rs_revision (read_report_state i (notify E n s)) = rs_revision (read_report_state i s)"
  "rs_output (read_report_state i (notify E n s)) = rs_output (read_report_state i s)"
  "rs_remaining (read_report_state i (notify E n s)) = rs_remaining (read_report_state i s)"
  "rs_scene_revision (read_report_state i s) = h_scene_revision s"
  by (simp_all add: read_report_state_def report_remaining_def notify_def)

lemma notices_simps [simp]:
  "h_notices (notify E n s) = h_notices s @ [n]"
  "h_notices (changed E s) = h_notices s"
  "h_scene_revision (notify E n s) = h_scene_revision s"
  "h_scene_revision (changed E s) = h_scene_revision s + 1"
  by (simp_all add: notify_def changed_def)

lemma report_output_notices:
  assumes "rs_scene_revision p \<noteq> h_scene_revision s + 1"
  shows "h_notices (report_output E n p s) = h_notices s @
    (if h_scene_revision s = rs_scene_revision p \<and>
        (rs_output n = rs_output p \<or> h_scene_intent s \<noteq> None \<and> rs_output n = h_scene_intent s)
     then [] else [ClusterChanged ENDPOINT (le_scenes_cluster E)])"
  using assms by (auto simp: report_output_def Let_def)

lemma poll_report_notices:
  assumes "rs_scene_revision p \<noteq> h_scene_revision s + 1"
  shows "h_notices (snd (poll_report E i c p s)) = h_notices s \<longleftrightarrow> report_current i p s"
proof -
  define n where "n = read_report_state i s"
  define s1 where "s1 = (if i = 0 then report_output E n p s else s)"
  have s1: "h_notices s1 = h_notices s @ (if i = 0 \<longrightarrow> h_scene_revision s = rs_scene_revision p \<and>
      (rs_output n = rs_output p \<or> h_scene_intent s \<noteq> None \<and> rs_output n = h_scene_intent s)
     then [] else [ClusterChanged ENDPOINT (le_scenes_cluster E)])"
    using report_output_notices [OF assms, of E n] by (auto simp: s1_def)
  have "h_notices (snd (poll_report E i c p s)) = h_notices s1 @
      (if rs_revision n \<noteq> rs_revision p \<or> rs_dataver n \<noteq> rs_dataver p
       then [ClusterChanged ENDPOINT c]
       else if rs_remaining n \<noteq> rs_remaining p
       then [AttrChanged ENDPOINT c (if i = 1 then le_level_remaining_time E else le_color_remaining_time E)]
       else [])"
    by (simp add: poll_report_def Let_def n_def s1_def)
  moreover have "rs_scene_revision n = h_scene_revision s" by (simp add: n_def)
  ultimately show ?thesis
    unfolding s1 report_current_def Let_def n_def [symmetric] by auto
qed



section \<open>A recalled scene\<close>

lemma recall_scene_commit:
  assumes "recall_scene E st ms s = (Ok u, t)"
  shows "\<exists>w. commit E st w = (Ok u, t)"
proof -
  have "\<not> MAX_TRANSITION_MS < ms" "writable s = Ok ()"
    using assms by (auto simp: recall_scene_def and_then_def split: if_splits outcome.splits)
  then have "\<exists>w. recall_scene E st ms s = commit E st w"
    unfolding recall_scene_def Let_def by auto
  with assms show ?thesis by metis
qed

lemma recalled_is_reported:
  assumes "recall_scene E st ms s = (Ok u, t)"
  shows "reported t = Inr st"
proof -
  obtain w where w: "commit E st w = (Ok u, t)" using recall_scene_commit [OF assms] by blast
  then have "r_target t = st" using commit_target [of E st w] by simp
  with commit_Ok [OF w] show ?thesis
    by (auto simp: reported_def applied_state_def applied_frame_def)
qed



section \<open>The maintenance clock\<close>

text \<open>The timed-off clock neither loses nor invents time: a maintenance pass consumes whole
  deciseconds, the remainder is carried to the next pass, the clock never runs ahead, and
  after any pass less than one decisecond is outstanding unless the passes were almost two
  hours apart.\<close>

theorem maintenance_keeps_time:
  assumes "handler_ok E s" "last_ms \<le> now"
  shows "\<exists>last' t. maintenance_pass E now last_ms s = (Ok last', t) \<and>
    unat last' = unat last_ms + 100 * unat (maintenance_ticks now last_ms) \<and> last' \<le> now \<and>
    (unat now - unat last_ms < 6553600 \<longrightarrow> unat now - unat last' < 100)"
proof -
  let ?n = "maintenance_ticks now last_ms"
  define gap where "gap = unat now - unat last_ms"
  have le: "unat last_ms \<le> unat now" using assms(2) by (simp add: word_le_nat_alt)
  have n: "unat ?n = min (gap div 100) 65535"
    using le
    by (simp add: maintenance_ticks_def U16_MAX_def unat_ucast_fits unat_min_word unat_div unat_sub_fits gap_def
        unat_ucast_up)
  then have le': "unat last_ms + unat ?n * 100 \<le> unat now" using le gap_def by linarith
  then have fits: "unat last_ms + unat ?n * 100 < 2 ^ 64" using unat_bound [of now] by simp
  have mult: "unat (ucast ?n * 100 :: u64) = unat ?n * 100"
    using unat_mult_fits [of "ucast ?n" "100 :: u64"] n by (simp add: unat_ucast_up)
  have sum: "unat (last_ms + ucast ?n * 100) = unat last_ms + unat ?n * 100"
    using unat_add_fits [of last_ms "ucast ?n * 100"] fits mult by simp
  define last' where "last' = (if 0 < ?n then last_ms + ucast ?n * 100 else last_ms)"
  have last': "unat last' = unat last_ms + 100 * unat ?n"
    using sum by (auto simp: last'_def word_gt_0)
  have "light_safe E (maintenance_pass E now last_ms s)" using assms(1) by (rule maintenance_pass_safe)
  then obtain t where "maintenance_pass E now last_ms s = (Ok last', t)"
    unfolding maintenance_pass_def Let_def last'_def by (auto split: prod.splits outcome.splits if_splits)
  moreover have "last' \<le> now" using last' le' by (simp add: word_le_nat_alt)
  moreover have "unat now - unat last' < 100" if "gap < 6553600"
  proof -
    have "gap div 100 \<le> 65535" using that by simp
    then have "unat ?n = gap div 100" using n by simp
    then have "unat now - unat last' = gap - gap div 100 * 100" using last' by (simp add: gap_def mult.commute)
    also have "\<dots> < 100" by (simp add: minus_div_mult_eq_mod)
    finally show ?thesis .
  qed
  ultimately show ?thesis using last' by (auto simp: gap_def)
qed

lemma maintenance_keeps_time_witness:
  "\<exists>last' t. maintenance_pass bench_light_env 1250 1000 bench_timed = (Ok last', t) \<and> 1250 - unat last' < 100"
  using maintenance_keeps_time [OF bench_timed_ok, of 1000 1250] by auto

end
