(* ===== verification/Network.thy ===== *)
theory Network
  imports Network_Tx Adapters
begin

text \<open>
  The Wi-Fi side of \<open>firmware/app/src/network.rs\<close> with the statics of \<open>network_driver.rs\<close>:
  the health counters, the network controller with its operation deadlines, and the monitor of
  the local interface. The statics and the cells of \<open>Controller\<close> are one record, the radio
  (esp-radio's \<open>WifiController\<close>) its last field, reached only through \<open>wifi_ops\<close>. The clock is
  an argument. An operation that awaits the radio returns an option: \<open>None\<close> is a call that
  does not complete before the deadline around it, which drops the operation there.
\<close>

section \<open>State\<close>

type_synonym i32 = "32 word"

definition I32_MIN :: i32 where "I32_MIN = 0x80000000"
definition U64_MAX :: u64 where "U64_MAX = - 1"

datatype wifi_error = WifiNotConnected | WifiDisconnected | WifiUnsupported | WifiOther

datatype net_ctl_error = OtherConnectionFailure | UnsupportedSecurity | NetOther error_code

datatype auth_method =
  AuthNone | AuthWep | AuthWpa | AuthWpa2Personal | AuthWpa3Personal | AuthWpa3ExtPsk
| AuthWpa3ExtPskMixed | AuthWpaWpa2Personal | AuthWpa2Wpa3Personal | AuthWpa2Enterprise | AuthOther

record access_point =
  ap_ssid :: "u8 list"
  ap_bssid :: "u8 list"
  ap_channel :: u8
  ap_signal :: "8 word"
  ap_auth :: "auth_method option"

record scan_config =
  sc_max :: nat
  sc_dwell_ms :: "u64 \<times> u64"
  sc_ssid :: "u8 list option"

record station_config =
  sta_ssid :: "u8 list"
  sta_password :: "u8 list"
  sta_channel :: "u8 option"

record 'w wifi_ops =
  wf_is_connected :: "'w \<Rightarrow> bool"
  wf_rssi :: "'w \<Rightarrow> wifi_error + i32"
  wf_disconnect :: "'w \<Rightarrow> (wifi_error + unit) option \<times> 'w"
  wf_set_config :: "station_config option \<Rightarrow> 'w \<Rightarrow> (wifi_error + unit) \<times> 'w"
  wf_scan :: "scan_config \<Rightarrow> 'w \<Rightarrow> (wifi_error + access_point list) option \<times> 'w"
  wf_connect :: "'w \<Rightarrow> (wifi_error + unit) option \<times> 'w"

record 'w net =
  n_restart :: bool
  n_disconnect :: bool
  n_disconnect_pending :: bool
  n_timeouts :: u32
  n_attempts :: u32
  n_connected :: u32
  n_restarts :: u32
  n_rssi :: i32
  n_local_ready :: u32
  n_ipv4_ready :: u32
  n_ip_timeouts :: u32
  n_healthy_since :: u64
  n_longest_healthy_ms :: u64
  n_tx_blocked_since :: u64
  n_tx_stall :: bool
  nc_connected :: bool
  nc_errors :: driver_errors
  nc_health :: associated_health
  n_wifi :: 'w

definition net_boot :: "'w \<Rightarrow> 'w net" where
  "net_boot w =
     \<lparr>n_restart = False, n_disconnect = False, n_disconnect_pending = False, n_timeouts = 0,
      n_attempts = 0, n_connected = 0, n_restarts = 0, n_rssi = I32_MIN, n_local_ready = 0,
      n_ipv4_ready = 0, n_ip_timeouts = 0, n_healthy_since = U64_MAX, n_longest_healthy_ms = 0,
      n_tx_blocked_since = U64_MAX, n_tx_stall = False, nc_connected = False,
      nc_errors = driver_errors_default, nc_health = associated_health_default, n_wifi = w\<rparr>"

definition controller_start :: "'w \<Rightarrow> 'w net \<Rightarrow> 'w net" where
  "controller_start w s =
     s\<lparr>nc_connected := False, nc_errors := driver_errors_default,
       nc_health := associated_health_default, n_wifi := w\<rparr>"

section \<open>Health counters\<close>

definition queue_health_report :: "u64 option \<Rightarrow> 'w net \<Rightarrow> 'w net" where
  "queue_health_report blocked_since s =
     s\<lparr>n_tx_blocked_since := (case blocked_since of None \<Rightarrow> U64_MAX | Some t \<Rightarrow> t)\<rparr>"

definition reset_health :: "'w net \<Rightarrow> 'w net" where
  "reset_health s = queue_health_report None s"

definition queue_stalled :: "'w net \<Rightarrow> 'w net" where
  "queue_stalled s = s\<lparr>n_tx_stall := True\<rparr>"

definition healthy_until :: "u64 \<Rightarrow> 'w net \<Rightarrow> u64" where
  "healthy_until now s =
     tx_healthy_until now (if n_tx_blocked_since s \<noteq> U64_MAX then Some (n_tx_blocked_since s) else None)"

definition request_disconnect :: "'w net \<Rightarrow> (error_code + unit) \<times> 'w net" where
  "request_disconnect s =
     (if n_connected s = 0 then (Inl InvalidState, s)
      else if n_disconnect_pending s then (Inl Busy, s)
      else (Inr (), s\<lparr>n_disconnect_pending := True, n_disconnect := True\<rparr>))"

definition current_healthy_ms :: "u64 \<Rightarrow> 'w net \<Rightarrow> u64" where
  "current_healthy_ms now_ms s =
     (let now_ms = healthy_until now_ms s;
          since = n_healthy_since s
      in if since = U64_MAX \<or> n_connected s = 0 \<or> n_local_ready s = 0 \<or> n_rssi s = I32_MIN
         then 0 else sat_sub now_ms since)"

definition healthy_for_ms :: "u64 \<Rightarrow> 'w net \<Rightarrow> u64" where
  "healthy_for_ms now_ms s = max (current_healthy_ms now_ms s) (n_longest_healthy_ms s)"

definition end_healthy_period :: "u64 \<Rightarrow> 'w net \<Rightarrow> 'w net" where
  "end_healthy_period now_ms s =
     (let now_ms = healthy_until now_ms s;
          since = n_healthy_since s;
          s = s\<lparr>n_healthy_since := U64_MAX\<rparr>
      in if since \<noteq> U64_MAX
         then s\<lparr>n_longest_healthy_ms := max (n_longest_healthy_ms s) (sat_sub now_ms since)\<rparr> else s)"

definition local_metrics :: "'w net \<Rightarrow> i32 option \<times> bool \<times> bool \<times> u32" where
  "local_metrics s =
     (if n_rssi s \<noteq> I32_MIN then Some (n_rssi s) else None,
      n_local_ready s \<noteq> 0, n_ipv4_ready s \<noteq> 0, n_ip_timeouts s)"

definition metrics :: "'w net \<Rightarrow> u32 \<times> u32 \<times> u32 \<times> bool" where
  "metrics s = (n_attempts s, n_timeouts s, n_restarts s, n_connected s \<noteq> 0)"

definition restarted :: "'w net \<Rightarrow> 'w net" where
  "restarted s =
     (let s = reset_health s
      in s\<lparr>n_restarts := n_restarts s + 1, n_connected := 0, n_rssi := I32_MIN, n_local_ready := 0,
           n_ipv4_ready := 0, n_healthy_since := U64_MAX, n_longest_healthy_ms := 0,
           n_disconnect_pending := False, n_disconnect := False\<rparr>)"

text \<open>\<open>with_timeout\<close>: the operation completed, or the deadline dropped it.\<close>

definition deadline :: "(net_ctl_error + 'a) option \<times> 'w net \<Rightarrow> (net_ctl_error + 'a) \<times> 'w net" where
  "deadline m = (case m of
       (Some result, s) \<Rightarrow> (result, s)
     | (None, s) \<Rightarrow> (Inl (NetOther TxTimeout), s\<lparr>n_timeouts := n_timeouts s + 1, n_restart := True\<rparr>))"

section \<open>The network controller\<close>

definition update_connected :: "u64 \<Rightarrow> bool \<Rightarrow> i32 option \<Rightarrow> 'w net \<Rightarrow> bool \<times> 'w net" where
  "update_connected now new_connected rssi s =
     (let s = s\<lparr>n_connected := (if new_connected then 1 else 0),
                n_rssi := (case rssi of None \<Rightarrow> I32_MIN | Some r \<Rightarrow> r)\<rparr>;
          s = (if \<not> new_connected
               then s\<lparr>n_local_ready := 0, n_ipv4_ready := 0, nc_health := associated_health_default\<rparr>
               else s);
          s = (if \<not> new_connected \<or> rssi = None then end_healthy_period now s else s);
          changed = (nc_connected s \<noteq> new_connected)
      in (changed, s\<lparr>nc_connected := new_connected\<rparr>))"

definition record_connection_result :: "u64 \<Rightarrow> net_ctl_error + unit \<Rightarrow> 'w net \<Rightarrow> 'w net" where
  "record_connection_result now result s =
     (let s = (if is_err result then snd (update_connected now False None s) else s);
          internal_failure = (result = Inl (NetOther NoNetworkInterface));
          (restart, errors) = driver_errors_observe internal_failure (nc_errors s);
          s = s\<lparr>nc_errors := errors\<rparr>
      in if restart then s\<lparr>n_restart := True\<rparr> else s)"

definition to_ctl_err :: "wifi_error \<Rightarrow> net_ctl_error" where
  "to_ctl_err e = (case e of
       WifiNotConnected \<Rightarrow> OtherConnectionFailure
     | WifiDisconnected \<Rightarrow> OtherConnectionFailure
     | WifiUnsupported \<Rightarrow> UnsupportedSecurity
     | WifiOther \<Rightarrow> NetOther NoNetworkInterface)"

definition to_err :: "wifi_error \<Rightarrow> error_code" where
  "to_err e = NoNetworkInterface"

text \<open>Calls of the radio, and the \<open>?\<close> on an awaited result that may be dropped.\<close>

definition on_wifi :: "('w \<Rightarrow> 'x \<times> 'w) \<Rightarrow> 'w net \<Rightarrow> 'x \<times> 'w net" where
  "on_wifi f s = (case f (n_wifi s) of (x, w) \<Rightarrow> (x, s\<lparr>n_wifi := w\<rparr>))"

definition awaited ::
  "('e + 'a) option \<times> 's \<Rightarrow> ('e \<Rightarrow> net_ctl_error) \<Rightarrow> ('a \<Rightarrow> 's \<Rightarrow> (net_ctl_error + 'b) option \<times> 's)
    \<Rightarrow> (net_ctl_error + 'b) option \<times> 's" where
  "awaited m err k = (case m of
       (None, s) \<Rightarrow> (None, s)
     | (Some (Inl e), s) \<Rightarrow> (Some (Inl (err e)), s)
     | (Some (Inr a), s) \<Rightarrow> k a s)"

lemma awaited_simps [simp]:
  "awaited (None, s) err k = (None, s)"
  "awaited (Some (Inl e), s) err k = (Some (Inl (err e)), s)"
  "awaited (Some (Inr a), s) err k = k a s"
  by (simp_all add: awaited_def)

text \<open>\<open>ctl.rssi().ok()\<close>.\<close>

definition radio_rssi :: "'w wifi_ops \<Rightarrow> 'w net \<Rightarrow> i32 option" where
  "radio_rssi W s = (case wf_rssi W (n_wifi s) of Inl _ \<Rightarrow> None | Inr r \<Rightarrow> Some r)"

definition disconnect_inner ::
  "'w wifi_ops \<Rightarrow> u64 \<Rightarrow> 'w net \<Rightarrow> (net_ctl_error + unit) option \<times> 'w net" where
  "disconnect_inner W now s =
     (let s = snd (update_connected now False None s)
      in if wf_is_connected W (n_wifi s)
         then awaited (on_wifi (wf_disconnect W) s) to_ctl_err (\<lambda>_ s. (Some (Inr ()), s))
         else (Some (Inr ()), s))"

definition MAX_SCAN_RESULTS :: nat where "MAX_SCAN_RESULTS = 10"

definition discovery_scan :: scan_config where
  "discovery_scan = \<lparr>sc_max = MAX_SCAN_RESULTS, sc_dwell_ms = (100, 300), sc_ssid = None\<rparr>"

text \<open>\<open>core::str::from_utf8\<close>, with its table of the well-formed byte sequences.\<close>

definition continuation :: "u8 \<Rightarrow> bool" where
  "continuation b \<longleftrightarrow> 0x80 \<le> b \<and> b \<le> 0xbf"

fun utf8_valid :: "u8 list \<Rightarrow> bool" where
  "utf8_valid [] = True"
| "utf8_valid (a # bs) =
     (if a < 0x80 then utf8_valid bs
      else if 0xc2 \<le> a \<and> a \<le> 0xdf then
        (case bs of b # cs \<Rightarrow> continuation b \<and> utf8_valid cs | [] \<Rightarrow> False)
      else if 0xe0 \<le> a \<and> a \<le> 0xef then
        (case bs of
           b # c # ds \<Rightarrow> continuation b \<and> continuation c \<and> (a = 0xe0 \<longrightarrow> 0xa0 \<le> b) \<and>
             (a = 0xed \<longrightarrow> b \<le> 0x9f) \<and> utf8_valid ds
         | _ \<Rightarrow> False)
      else if 0xf0 \<le> a \<and> a \<le> 0xf4 then
        (case bs of
           b # c # d # es \<Rightarrow> continuation b \<and> continuation c \<and> continuation d \<and>
             (a = 0xf0 \<longrightarrow> 0x90 \<le> b) \<and> (a = 0xf4 \<longrightarrow> b \<le> 0x8f) \<and> utf8_valid es
         | _ \<Rightarrow> False)
      else False)"

definition utf8_or_unknown :: "u8 list \<Rightarrow> u8 list" where
  "utf8_or_unknown bytes = (if utf8_valid bytes then bytes else [0x3f, 0x3f, 0x3f])"

datatype wifi_security = Unencrypted | Wep | WpaPersonal | Wpa2Personal | Wpa3Personal

definition ap_security :: "auth_method option \<Rightarrow> wifi_security list" where
  "ap_security auth = (case auth of
       Some AuthNone \<Rightarrow> [Unencrypted]
     | Some AuthWep \<Rightarrow> [Wep]
     | Some AuthWpa \<Rightarrow> [WpaPersonal]
     | Some AuthWpa2Personal \<Rightarrow> [Wpa2Personal]
     | Some AuthWpa3Personal \<Rightarrow> [Wpa3Personal]
     | Some AuthWpa3ExtPsk \<Rightarrow> [Wpa3Personal]
     | Some AuthWpa3ExtPskMixed \<Rightarrow> [Wpa3Personal]
     | Some AuthWpaWpa2Personal \<Rightarrow> [WpaPersonal, Wpa2Personal]
     | Some AuthWpa2Wpa3Personal \<Rightarrow> [Wpa2Personal, Wpa3Personal]
     | Some AuthWpa2Enterprise \<Rightarrow> [Wpa2Personal]
     | _ \<Rightarrow> [Wpa2Personal])"

record scan_info =
  si_ssid :: "u8 list"
  si_bssid :: "u8 list"
  si_channel :: u16
  si_rssi :: "8 word"
  si_security :: "wifi_security list"

definition scan_info_of :: "access_point \<Rightarrow> scan_info" where
  "scan_info_of ap = \<lparr>si_ssid = ap_ssid ap, si_bssid = ap_bssid ap, si_channel = ucast (ap_channel ap),
     si_rssi = ap_signal ap, si_security = ap_security (ap_auth ap)\<rparr>"

text \<open>The response callback is given each result in turn; its first error ends the scan.\<close>

fun scan_results ::
  "(scan_info \<Rightarrow> 'r \<Rightarrow> (error_code + unit) \<times> 'r) \<Rightarrow> access_point list \<Rightarrow> 'r \<Rightarrow> (error_code + unit) \<times> 'r" where
  "scan_results f [] r = (Inr (), r)"
| "scan_results f (ap # aps) r =
     (case f (scan_info_of ap) r of (Inl e, r) \<Rightarrow> (Inl e, r) | (Inr _, r) \<Rightarrow> scan_results f aps r)"

definition scan_inner ::
  "'w wifi_ops \<Rightarrow> u8 list option \<Rightarrow> (scan_info \<Rightarrow> 'r \<Rightarrow> (error_code + unit) \<times> 'r) \<Rightarrow> 'r \<Rightarrow> 'w net
    \<Rightarrow> (net_ctl_error + 'r) option \<times> 'w net" where
  "scan_inner W network f r s =
     (case on_wifi (wf_set_config W None) s of
        (Inl e, s) \<Rightarrow> (Some (Inl (to_ctl_err e)), s)
      | (Inr _, s) \<Rightarrow>
          (let config = (case network of
                 Some n \<Rightarrow> if n \<noteq> [] then discovery_scan\<lparr>sc_ssid := Some (utf8_or_unknown n)\<rparr>
                           else discovery_scan
               | None \<Rightarrow> discovery_scan)
           in awaited (on_wifi (wf_scan W config) s) (\<lambda>e. NetOther (to_err e)) (\<lambda>aps s.
                case scan_results f aps r of
                  (Inl e, _) \<Rightarrow> (Some (Inl (NetOther e)), s)
                | (Inr _, r) \<Rightarrow> (Some (Inr r), s))))"

text \<open>\<open>max_by_key\<close> keeps the last of the strongest.\<close>

fun strongest :: "access_point list \<Rightarrow> access_point option" where
  "strongest [] = None"
| "strongest (ap # aps) =
     (case strongest aps of
        None \<Rightarrow> Some ap
      | Some best \<Rightarrow> if sint (ap_signal best) < sint (ap_signal ap) then Some ap else Some best)"

datatype wireless_creds = WifiCreds "u8 list" "u8 list" | OtherCreds

definition connect_station ::
  "'w wifi_ops \<Rightarrow> u64 \<Rightarrow> u8 list \<Rightarrow> u8 list \<Rightarrow> u8 option \<Rightarrow> 'w net
    \<Rightarrow> (net_ctl_error + unit) option \<times> 'w net" where
  "connect_station W now ssid pass channel s =
     (case on_wifi (wf_set_config W
          (Some \<lparr>sta_ssid = ssid, sta_password = pass, sta_channel = channel\<rparr>)) s of
        (Inl e, s) \<Rightarrow> (Some (Inl (to_ctl_err e)), s)
      | (Inr _, s) \<Rightarrow> awaited (on_wifi (wf_connect W) s) to_ctl_err (\<lambda>_ s.
          (Some (Inr ()),
           snd (update_connected now (wf_is_connected W (n_wifi s)) (radio_rssi W s) s))))"

definition connect_inner ::
  "'w wifi_ops \<Rightarrow> u64 \<Rightarrow> wireless_creds \<Rightarrow> 'w net \<Rightarrow> (net_ctl_error + unit) option \<times> 'w net" where
  "connect_inner W now creds s =
     (case creds of
        OtherCreds \<Rightarrow> (Some (Inl (NetOther InvalidAction)), s)
      | WifiCreds ssid pass \<Rightarrow>
          (let ssid = utf8_or_unknown ssid;
               pass = utf8_or_unknown pass;
               s = s\<lparr>n_attempts := n_attempts s + 1\<rparr>;
               s = snd (update_connected now False None s);
               (left, s) = (if wf_is_connected W (n_wifi s)
                 then (case on_wifi (wf_disconnect W) s of (r, s) \<Rightarrow> (r \<noteq> None, s)) else (True, s))
           in if \<not> left then (None, s)
              else (case on_wifi (wf_scan W (discovery_scan\<lparr>sc_ssid := Some ssid\<rparr>)) s of
                  (None, s) \<Rightarrow> (None, s)
                | (Some scanned, s) \<Rightarrow>
                    connect_station W now ssid pass
                      (case scanned of Inl _ \<Rightarrow> None | Inr aps \<Rightarrow> map_option ap_channel (strongest aps)) s)))"

definition net_scan ::
  "'w wifi_ops \<Rightarrow> u64 \<Rightarrow> u8 list option \<Rightarrow> (scan_info \<Rightarrow> 'r \<Rightarrow> (error_code + unit) \<times> 'r) \<Rightarrow> 'r
    \<Rightarrow> 'w net \<Rightarrow> (net_ctl_error + 'r) \<times> 'w net" where
  "net_scan W now network f r s =
     (case deadline (scan_inner W network f r s) of
        (result, s) \<Rightarrow> (result, if is_err result then snd (update_connected now False None s) else s))"

definition net_connect ::
  "'w wifi_ops \<Rightarrow> u64 \<Rightarrow> wireless_creds \<Rightarrow> 'w net \<Rightarrow> (net_ctl_error + unit) \<times> 'w net" where
  "net_connect W now creds s =
     (case deadline (connect_inner W now creds s) of
        (result, s) \<Rightarrow> (result, record_connection_result now result s))"

text \<open>One turn of \<open>wait_changed\<close>; it returns when the result is true and sleeps otherwise.\<close>

definition fetch_connected :: "'w wifi_ops \<Rightarrow> u64 \<Rightarrow> 'w net \<Rightarrow> bool \<times> 'w net" where
  "fetch_connected W now s =
     (let new_connected = wf_is_connected W (n_wifi s);
          rssi = (if new_connected then radio_rssi W s else None);
          (changed, s) = update_connected now new_connected rssi s;
          (restart, health) = associated_restart_due now new_connected (rssi \<noteq> None) (nc_health s);
          s = s\<lparr>nc_health := health\<rparr>
      in (changed, if restart then s\<lparr>n_restart := True\<rparr> else s))"

definition wait_changed_turn :: "'w wifi_ops \<Rightarrow> u64 \<Rightarrow> 'w net \<Rightarrow> bool \<times> 'w net" where
  "wait_changed_turn W now s =
     (if n_disconnect_pending s then
        (let (result, s) = deadline (disconnect_inner W now s);
             s = record_connection_result now result s
         in (True, s\<lparr>n_disconnect_pending := False, n_disconnect := False\<rparr>))
      else fetch_connected W now s)"

text \<open>The diagnostic reads the radio only when no operation holds it.\<close>

definition diag_rssi :: "'w wifi_ops \<Rightarrow> bool \<Rightarrow> 'w net \<Rightarrow> 8 word option" where
  "diag_rssi W held s =
     (case (if held then None else radio_rssi W s) of
        None \<Rightarrow> None
      | Some r \<Rightarrow> if - 128 \<le> sint r \<and> sint r \<le> 127 then Some (scast r) else None)"

section \<open>The interface monitor\<close>

record netif_info =
  ni_operational :: bool
  ni_ipv4 :: "32 word list"
  ni_ipv6 :: "ipv6_addr list"

text \<open>The evidence of one pass over the interfaces, and the healthy interval it opens or closes.\<close>

definition interface_evidence :: "u64 \<Rightarrow> bool \<Rightarrow> bool \<Rightarrow> 'w net \<Rightarrow> 'w net" where
  "interface_evidence now ready v4 s =
     (let s = s\<lparr>n_local_ready := (if ready then 1 else 0), n_ipv4_ready := (if v4 then 1 else 0)\<rparr>
      in if n_connected s \<noteq> 0 \<and> ready \<and> n_rssi s \<noteq> I32_MIN
         then (if n_healthy_since s = U64_MAX then s\<lparr>n_healthy_since := now\<rparr> else s)
         else end_healthy_period now s)"

text \<open>One pass of the loop; \<open>None\<close> is the pass that goes on to sleep.\<close>

definition monitor_pass ::
  "u64 \<Rightarrow> netif_info list \<Rightarrow> local_net_health \<Rightarrow> 'w net
    \<Rightarrow> error_code option \<times> local_net_health \<times> 'w net" where
  "monitor_pass now infos health s =
     (let v4 = list_ex (\<lambda>i. ni_operational i \<and> ni_ipv4 i \<noteq> []) infos;
          ready = list_ex (\<lambda>i. usable_local_ipv6 (ni_operational i) (ni_ipv6 i)) infos;
          associated = (n_connected s \<noteq> 0);
          s = interface_evidence now ready v4 s;
          (due, health) = local_restart_due now associated ready health
      in if due then (Some NoNetworkInterface, health, s\<lparr>n_ip_timeouts := n_ip_timeouts s + 1\<rparr>)
         else (None, health, s))"

end
