(* ===== verification/Network_Props.thy ===== *)
theory Network_Props
  imports Network
begin

text \<open>
  Properties of the Wi-Fi side: \<open>net_run\<close> is every interleaving of radio operations, monitor
  passes, queue reports and diagnostics since a transport restart, under a clock that does
  not go back; the healthy interval is specified on it.
\<close>

section \<open>Runs of the transport\<close>

datatype 'w net_event =
  NetConnect wireless_creds
| NetScan "u8 list option"
| NetTurn
| NetMonitor "netif_info list" local_net_health
| NetRequestDisconnect
| NetQueue "u64 option"
| NetStalled
| NetRadio 'w
| NetController 'w

definition net_step :: "'w wifi_ops \<Rightarrow> u64 \<Rightarrow> 'w net_event \<Rightarrow> 'w net \<Rightarrow> 'w net" where
  "net_step W now ev s = (case ev of
       NetConnect creds \<Rightarrow> snd (net_connect W now creds s)
     | NetScan network \<Rightarrow> snd (net_scan W now network (\<lambda>i r. (Inr (), i # r)) [] s)
     | NetTurn \<Rightarrow> snd (wait_changed_turn W now s)
     | NetMonitor infos h \<Rightarrow> snd (snd (monitor_pass now infos h s))
     | NetRequestDisconnect \<Rightarrow> snd (request_disconnect s)
     | NetQueue blocked \<Rightarrow> queue_health_report blocked s
     | NetStalled \<Rightarrow> queue_stalled s
     | NetRadio w \<Rightarrow> s\<lparr>n_wifi := w\<rparr>
     | NetController w \<Rightarrow> controller_start w s)"

definition net_unhealthy :: "'w net \<Rightarrow> bool" where
  "net_unhealthy s \<longleftrightarrow> n_connected s = 0 \<or> n_local_ready s = 0 \<or> n_rssi s = I32_MIN"

text \<open>\<open>net_run W t0 bad now s\<close>: the transport restarted at \<open>t0\<close> is in state \<open>s\<close> at \<open>now\<close>, and
  \<open>bad\<close> is the last moment at which it was observed unhealthy.\<close>

inductive net_run :: "'w wifi_ops \<Rightarrow> u64 \<Rightarrow> u64 \<Rightarrow> u64 \<Rightarrow> 'w net \<Rightarrow> bool" for W t0 where
  start: "net_run W t0 t0 t0 (restarted s)"
| step: "net_run W t0 bad now s \<Longrightarrow> now \<le> now' \<Longrightarrow> t = net_step W now' ev s
    \<Longrightarrow> net_run W t0 (if net_unhealthy t then now' else bad) now' t"

section \<open>The healthy interval\<close>

definition honest :: "'w net \<Rightarrow> bool" where
  "honest s \<longleftrightarrow> (net_unhealthy s \<longrightarrow> n_healthy_since s = U64_MAX)"

definition tracked :: "u64 \<Rightarrow> u64 \<Rightarrow> u64 \<Rightarrow> 'w net \<Rightarrow> bool" where
  "tracked t0 bad now s \<longleftrightarrow> t0 \<le> bad \<and> bad \<le> now \<and>
     (n_healthy_since s \<noteq> U64_MAX \<longrightarrow> bad \<le> n_healthy_since s \<and> n_healthy_since s \<le> now) \<and>
     unat (n_longest_healthy_ms s) \<le> unat now - unat t0 \<and> honest s"

lemma tracked_updates [simp]:
  "tracked t0 b now (s\<lparr>n_restart := v\<rparr>) = tracked t0 b now s"
  "tracked t0 b now (s\<lparr>n_disconnect := v\<rparr>) = tracked t0 b now s"
  "tracked t0 b now (s\<lparr>n_disconnect_pending := v\<rparr>) = tracked t0 b now s"
  "tracked t0 b now (s\<lparr>n_timeouts := n\<rparr>) = tracked t0 b now s"
  "tracked t0 b now (s\<lparr>n_attempts := n\<rparr>) = tracked t0 b now s"
  "tracked t0 b now (s\<lparr>n_ipv4_ready := n\<rparr>) = tracked t0 b now s"
  "tracked t0 b now (s\<lparr>n_ip_timeouts := n\<rparr>) = tracked t0 b now s"
  "tracked t0 b now (s\<lparr>n_tx_blocked_since := m\<rparr>) = tracked t0 b now s"
  "tracked t0 b now (s\<lparr>n_tx_stall := v\<rparr>) = tracked t0 b now s"
  "tracked t0 b now (s\<lparr>nc_connected := v\<rparr>) = tracked t0 b now s"
  "tracked t0 b now (s\<lparr>nc_errors := e\<rparr>) = tracked t0 b now s"
  "tracked t0 b now (s\<lparr>nc_health := h\<rparr>) = tracked t0 b now s"
  "tracked t0 b now (s\<lparr>n_wifi := w\<rparr>) = tracked t0 b now s"
  by (simp_all add: tracked_def honest_def net_unhealthy_def)

lemma tracked_later: "tracked t0 b now s \<Longrightarrow> now \<le> now' \<Longrightarrow> tracked t0 b now' s"
  by (auto simp: tracked_def word_le_nat_alt)

lemma healthy_until_le: "healthy_until now s \<le> now"
  by (auto simp: healthy_until_def tx_healthy_until_def)

lemma end_healthy_period_simps [simp]:
  "n_healthy_since (end_healthy_period now s) = U64_MAX"
  "n_connected (end_healthy_period now s) = n_connected s"
  "n_local_ready (end_healthy_period now s) = n_local_ready s"
  "n_rssi (end_healthy_period now s) = n_rssi s"
  "nc_connected (end_healthy_period now s) = nc_connected s"
  "n_wifi (end_healthy_period now s) = n_wifi s"
  "n_restart (end_healthy_period now s) = n_restart s"
  "n_disconnect_pending (end_healthy_period now s) = n_disconnect_pending s"
  by (simp_all add: end_healthy_period_def Let_def)

text \<open>An interval that closes is never longer than the run.\<close>

lemma interval_length:
  assumes "t0 \<le> b" "b \<le> since" "since \<le> now"
  shows "unat (sat_sub (healthy_until now s) since) \<le> unat now - unat t0"
    "unat (sat_sub (healthy_until now s) since) \<le> unat now - unat b"
  using assms healthy_until_le [of now s] by (simp_all add: word_le_nat_alt unat_sat_sub diff_le_mono2 le_trans)

lemma longest_after_end:
  assumes "t0 \<le> b" "b \<le> now" "unat (n_longest_healthy_ms s) \<le> unat now - unat t0"
    and "n_healthy_since s \<noteq> U64_MAX \<longrightarrow> b \<le> n_healthy_since s \<and> n_healthy_since s \<le> now"
  shows "unat (n_longest_healthy_ms (end_healthy_period now s)) \<le> unat now - unat t0"
  using assms interval_length(1) [of t0 b "n_healthy_since s" now s]
  by (auto simp: end_healthy_period_def Let_def unat_max_word)

lemma end_healthy_period_tracked:
  assumes "t0 \<le> b" "b \<le> now" "unat (n_longest_healthy_ms s) \<le> unat now - unat t0"
    and "n_healthy_since s \<noteq> U64_MAX \<longrightarrow> b \<le> n_healthy_since s \<and> n_healthy_since s \<le> now"
  shows "tracked t0 b now (end_healthy_period now s)"
  using assms longest_after_end [OF assms] by (simp add: tracked_def honest_def)

lemma update_connected_tracked:
  assumes "tracked t0 b now s" "rssi \<noteq> Some I32_MIN"
  shows "tracked t0 b now (snd (update_connected now c rssi s))"
proof -
  let ?u = "s\<lparr>n_connected := (if c then 1 else 0), n_rssi := (case rssi of None \<Rightarrow> I32_MIN | Some r \<Rightarrow> r)\<rparr>"
  let ?v = "if \<not> c then ?u\<lparr>n_local_ready := 0, n_ipv4_ready := 0, nc_health := associated_health_default\<rparr> else ?u"
  have eq: "snd (update_connected now c rssi s) =
      (if \<not> c \<or> rssi = None then end_healthy_period now ?v else ?v)\<lparr>nc_connected := c\<rparr>"
    by (simp only: update_connected_def Let_def snd_conv)
  show ?thesis
  proof (cases "\<not> c \<or> rssi = None")
    case True
    have "tracked t0 b now (end_healthy_period now ?v)"
      using assms(1) by (intro end_healthy_period_tracked) (auto simp: tracked_def)
    with True show ?thesis unfolding eq by simp
  next
    case False
    then obtain r where "rssi = Some r" "r \<noteq> I32_MIN" using assms(2) by auto
    with False assms(1) show ?thesis
      unfolding eq by (auto simp: tracked_def honest_def net_unhealthy_def)
  qed
qed

lemma interface_evidence_tracked:
  assumes "tracked t0 b now s"
  shows "tracked t0 b now (interface_evidence now ready v4 s)"
proof -
  let ?u = "s\<lparr>n_local_ready := (if ready then 1 else 0), n_ipv4_ready := (if v4 then 1 else 0)\<rparr>"
  have "tracked t0 b now (end_healthy_period now ?u)"
    using assms by (intro end_healthy_period_tracked) (auto simp: tracked_def)
  then show ?thesis
    using assms unfolding interface_evidence_def Let_def
    by (auto simp: tracked_def honest_def net_unhealthy_def)
qed

lemma monitor_tracked:
  "tracked t0 b now s \<Longrightarrow> tracked t0 b now (snd (snd (monitor_pass now infos h s)))"
  by (auto simp: monitor_pass_def Let_def interface_evidence_tracked split: prod.split)

text \<open>A radio never reports the lowest 32-bit integer, which the counters use for no reading.\<close>

definition rssi_in_range :: "'w wifi_ops \<Rightarrow> bool" where
  "rssi_in_range W \<longleftrightarrow> (\<forall>w. wf_rssi W w \<noteq> Inr I32_MIN)"

lemma update_reading_tracked:
  assumes "rssi_in_range W" "tracked t0 b now s"
  shows "tracked t0 b now (snd (update_connected now c (radio_rssi W u) s))"
  using assms by (intro update_connected_tracked) (auto simp: rssi_in_range_def radio_rssi_def split: sum.splits)

lemma offline_tracked [simp]:
  "tracked t0 b now s \<Longrightarrow> tracked t0 b now (snd (update_connected now c None s))"
  by (rule update_connected_tracked) simp_all

lemma on_wifi_tracked: "on_wifi f s = (x, t) \<Longrightarrow> tracked t0 b now t = tracked t0 b now s"
  by (auto simp: on_wifi_def split: prod.splits)

lemma record_result_tracked [simp]:
  "tracked t0 b now s \<Longrightarrow> tracked t0 b now (record_connection_result now result s)"
  by (auto simp: record_connection_result_def Let_def split: prod.split)

lemma deadline_tracked [simp]: "tracked t0 b now (snd (deadline m)) = tracked t0 b now (snd m)"
  by (auto simp: deadline_def split: prod.splits option.splits)

lemma deadline_pair_tracked: "deadline m = (x, s) \<Longrightarrow> tracked t0 b now (snd m) \<Longrightarrow> tracked t0 b now s"
  by (metis deadline_tracked snd_conv)

lemma awaited_tracked:
  assumes "tracked t0 b now (snd m)" "\<And>a s. tracked t0 b now s \<Longrightarrow> tracked t0 b now (snd (k a s))"
  shows "tracked t0 b now (snd (awaited m err k))"
  using assms by (auto simp: awaited_def split: prod.splits option.splits sum.splits)

lemma wifi_call_tracked [simp]: "tracked t0 b now (snd (on_wifi f s)) = tracked t0 b now s"
  by (simp add: on_wifi_def split: prod.split)

lemma disconnect_inner_tracked:
  "tracked t0 b now s \<Longrightarrow> tracked t0 b now (snd (disconnect_inner W now s))"
  unfolding disconnect_inner_def Let_def by (auto intro!: awaited_tracked)

lemma scan_inner_tracked:
  "tracked t0 b now s \<Longrightarrow> tracked t0 b now (snd (scan_inner W network f r s))"
  unfolding scan_inner_def Let_def
  by (auto intro!: awaited_tracked simp: on_wifi_tracked split: prod.splits sum.splits)

lemma connect_station_tracked:
  assumes "rssi_in_range W" "tracked t0 b now s"
  shows "tracked t0 b now (snd (connect_station W now ssid pass channel s))"
  using assms(2) unfolding connect_station_def
  by (auto intro!: awaited_tracked update_reading_tracked [OF assms(1)] simp: on_wifi_tracked
      split: prod.splits sum.splits)

lemma connect_inner_tracked:
  assumes "rssi_in_range W" "tracked t0 b now s"
  shows "tracked t0 b now (snd (connect_inner W now creds s))"
proof (cases creds)
  case (WifiCreds ssid pass)
  have "tracked t0 b now (snd (update_connected now False None (s\<lparr>n_attempts := n_attempts s + 1\<rparr>)))"
    using assms(2) by simp
  then show ?thesis
    unfolding connect_inner_def WifiCreds wireless_creds.case Let_def
    by (auto intro!: connect_station_tracked [OF assms(1)] simp: on_wifi_tracked
        split: prod.splits option.splits)
qed (simp add: connect_inner_def assms(2))

lemma net_step_tracked:
  assumes "rssi_in_range W" "tracked t0 b now s"
  shows "tracked t0 b now (net_step W now ev s)"
proof (cases ev)
  case (NetConnect creds)
  then show ?thesis
    using deadline_pair_tracked [OF _ connect_inner_tracked [OF assms, of creds]]
    by (auto simp: net_step_def net_connect_def split: prod.split)
next
  case (NetScan network)
  then show ?thesis
    using deadline_pair_tracked [OF _ scan_inner_tracked [OF assms(2), of W network "\<lambda>i r. (Inr (), i # r)" "[]"]]
    by (auto simp: net_step_def net_scan_def split: prod.split)
next
  case NetTurn
  have "tracked t0 b now (snd (fetch_connected W now s))"
    using update_reading_tracked [OF assms, of _ s] assms(2)
    by (auto simp: fetch_connected_def Let_def split: prod.splits) (metis offline_tracked snd_conv)+
  then show ?thesis
    using NetTurn deadline_pair_tracked [OF _ disconnect_inner_tracked [OF assms(2), of W]]
    by (auto simp: net_step_def wait_changed_turn_def Let_def split: prod.splits)
qed (use assms(2) in \<open>auto simp: net_step_def monitor_tracked request_disconnect_def queue_health_report_def
      queue_stalled_def controller_start_def\<close>)

lemma restarted_tracked: "tracked t0 t0 t0 (restarted s)"
  by (simp add: tracked_def restarted_def reset_health_def queue_health_report_def Let_def honest_def)

lemma net_run_tracked:
  assumes "rssi_in_range W"
  shows "net_run W t0 bad now s \<Longrightarrow> tracked t0 bad now s"
proof (induction rule: net_run.induct)
  case (start s)
  show ?case by (rule restarted_tracked)
next
  case (step bad now s now' t ev)
  have t: "tracked t0 bad now' t"
    using net_step_tracked [OF assms tracked_later [OF step.IH step.hyps(2)]] step.hyps(3) by simp
  then show ?case by (auto simp: tracked_def honest_def)
qed

section \<open>Properties\<close>


text \<open>A radio that is associated at -50 dBm and completes every call.\<close>

definition steady_radio :: "unit wifi_ops" where
  "steady_radio = \<lparr>wf_is_connected = (\<lambda>_. True), wf_rssi = (\<lambda>_. Inr (- 50)),
     wf_disconnect = (\<lambda>w. (Some (Inr ()), w)), wf_set_config = (\<lambda>_ w. (Inr (), w)),
     wf_scan = (\<lambda>_ w. (Some (Inr []), w)), wf_connect = (\<lambda>w. (Some (Inr ()), w))\<rparr>"

definition steady_events :: "(u64 \<times> unit net_event) list" where
  "steady_events = [(1000, NetConnect (WifiCreds [0x61] [0x62])),
     (2000, NetMonitor [\<lparr>ni_operational = True, ni_ipv4 = [], ni_ipv6 = [0xfe80]\<rparr>] local_net_health_default)]"

definition steady_net :: "unit net" where
  "steady_net = fold (\<lambda>(now, ev). net_step steady_radio now ev) steady_events (restarted (net_boot ()))"


definition offline :: "'w net \<Rightarrow> bool" where
  "offline s \<longleftrightarrow> n_connected s = 0 \<and> \<not> nc_connected s \<and> n_rssi s = I32_MIN \<and> n_local_ready s = 0 \<and>
     n_ipv4_ready s = 0 \<and> n_healthy_since s = U64_MAX"

lemma offline_updates [simp]:
  "offline (s\<lparr>nc_errors := e\<rparr>) = offline s"
  "offline (s\<lparr>n_restart := b\<rparr>) = offline s"
  "offline (s\<lparr>n_timeouts := n\<rparr>) = offline s"
  "offline (s\<lparr>n_disconnect_pending := b\<rparr>) = offline s"
  "offline (s\<lparr>n_disconnect := b\<rparr>) = offline s"
  "offline (s\<lparr>n_wifi := w\<rparr>) = offline s"
  by (simp_all add: offline_def)

lemma update_offline [simp]: "offline (snd (update_connected now False None s))"
  by (simp add: offline_def update_connected_def Let_def) (simp add: end_healthy_period_def Let_def)

lemma update_restart [simp]: "n_restart (snd (update_connected now c rssi s)) = n_restart s"
  by (simp add: update_connected_def Let_def)

lemma record_result_offline: "is_err r \<or> offline s \<Longrightarrow> offline (record_connection_result now r s)"
  by (auto simp: record_connection_result_def Let_def split: prod.split)

lemma record_result_restart: "n_restart s \<Longrightarrow> n_restart (record_connection_result now r s)"
  by (auto simp: record_connection_result_def Let_def split: prod.split)

lemma deadline_offline: "offline (snd m) \<Longrightarrow> offline (snd (deadline m))"
  by (auto simp: deadline_def split: prod.splits option.splits)

lemma disconnect_inner_offline: "offline (snd (disconnect_inner W now s))"
proof -
  have "offline u" if "on_wifi f (snd (update_connected now False None s)) = (x, u)" for f :: "'a \<Rightarrow> 'x \<times> 'a" and x u
    using that update_offline [of now s] by (auto simp: on_wifi_def split: prod.splits)
  then show ?thesis
    by (auto simp: disconnect_inner_def Let_def awaited_def split: prod.splits option.splits sum.splits)
qed

text \<open>C20. A failed operation leaves no stale connection behind: when a connect or a scan fails, for
  whatever reason the radio, the credentials, the response or the deadline give, the lamp
  reports itself offline with its healthy interval closed, and a connect that its deadline
  dropped also asks for a new transport.\<close>

theorem failed_operation_reports_offline:
  assumes "net_connect W now creds s = (Inl e, t) \<or> net_scan W now network f r0 s = (Inl e, t)"
  shows "offline t \<and> current_healthy_ms later t = 0 \<and>
    (net_connect W now creds s = (Inl e, t) \<and> fst (connect_inner W now creds s) = None \<longrightarrow>
      e = NetOther TxTimeout \<and> n_restart t)"
proof -
  have "offline t"
    using assms by (auto simp: net_connect_def net_scan_def record_result_offline split: prod.splits)
  moreover have "e = NetOther TxTimeout \<and> n_restart t"
    if "net_connect W now creds s = (Inl e, t)" "fst (connect_inner W now creds s) = None"
    using that by (auto simp: net_connect_def deadline_def record_result_restart split: prod.splits)
  ultimately show ?thesis by (auto simp: offline_def current_healthy_ms_def Let_def)
qed

text \<open>A radio whose connection attempts never complete.\<close>

definition hanging_radio :: "unit wifi_ops" where
  "hanging_radio = steady_radio\<lparr>wf_connect := (\<lambda>w. (None, w))\<rparr>"

lemma failed_operation_reports_offline_witness:
  "\<exists>t. net_connect hanging_radio 3000 (WifiCreds [0x61] [0x62]) steady_net = (Inl (NetOther TxTimeout), t) \<and>
     offline t \<and> n_restart t"
proof -
  have r: "fst (net_connect hanging_radio 3000 (WifiCreds [0x61] [0x62]) steady_net) = Inl (NetOther TxTimeout)"
    and c: "fst (connect_inner hanging_radio 3000 (WifiCreds [0x61] [0x62]) steady_net) = None"
    by code_simp+
  from r obtain t where
    t: "net_connect hanging_radio 3000 (WifiCreds [0x61] [0x62]) steady_net = (Inl (NetOther TxTimeout), t)"
    by (metis prod.collapse)
  from failed_operation_reports_offline [OF disjI1 [OF t], of 0] t c show ?thesis by simp
qed

text \<open>A diagnostic interruption is served exactly once: a second request before it is served is
  refused as busy; the next turn of the connection watcher serves it, whatever the radio does,
  reports the change and leaves the lamp offline; and the turn after that is an ordinary one.\<close>

theorem interruption_is_served_once:
  assumes "request_disconnect s = (Inr (), s1)" "wait_changed_turn W now s1 = (returned, s2)"
  shows "request_disconnect s1 = (Inl Busy, s1) \<and> returned \<and> n_connected s2 = 0 \<and> \<not> nc_connected s2 \<and>
    request_disconnect s2 = (Inl InvalidState, s2) \<and> wait_changed_turn W later s2 = fetch_connected W later s2"
proof -
  have s1: "n_disconnect_pending s1" "n_connected s1 \<noteq> 0"
    using assms(1) by (auto simp: request_disconnect_def split: if_splits)
  have "offline s2" "\<not> n_disconnect_pending s2" "returned"
    using assms(2) s1(1) deadline_offline [OF disconnect_inner_offline, of W now s1]
    by (auto simp: wait_changed_turn_def Let_def record_result_offline split: prod.splits)
  then show ?thesis
    using s1 by (simp add: offline_def request_disconnect_def wait_changed_turn_def)
qed

lemma interruption_is_served_once_witness:
  "fst (wait_changed_turn steady_radio 3000 (snd (request_disconnect steady_net)))"
proof -
  have "fst (request_disconnect steady_net) = Inr ()" by code_simp
  then obtain s1 where s1: "request_disconnect steady_net = (Inr (), s1)" by (metis prod.collapse)
  obtain r s2 where w: "wait_changed_turn steady_radio 3000 s1 = (r, s2)" by fastforce
  show ?thesis using interruption_is_served_once [OF s1 w] s1 w by simp
qed

end
