(* ===== verification/Transport.thy ===== *)
theory Transport
  imports Network Requests
begin

text \<open>
  The supervision of the Matter transport in \<open>firmware/app/src/device_matter.rs\<close> and of a new
  image in \<open>ota.rs\<close> and \<open>ota_health.rs\<close>: what follows each exit of the transport, when it is
  retried and when the lamp reboots, the commissioning window, and the loop that confirms an
  updated image or rolls it back. rs-matter's commissioning window and the OTA service are
  parameters; a software reset is a result.
\<close>

section \<open>The commissioning window\<close>

record 'm matter_ops =
  mt_is_commissioned :: "'m \<Rightarrow> bool"
  mt_close_window :: "'m \<Rightarrow> (error_code + unit) \<times> 'm"
  mt_open_window :: "u16 \<Rightarrow> 'm \<Rightarrow> (error_code + unit) \<times> 'm"

definition open_commissioning :: "'m matter_ops \<Rightarrow> 'm \<Rightarrow> (error_code + unit) \<times> 'm" where
  "open_commissioning M m =
     (if mt_is_commissioned M m then (Inl InvalidState, m)
      else attempt (mt_close_window M m) (\<lambda>_. mt_open_window M 900))"

section \<open>The transport loop\<close>

datatype transport_exit = StackExit | RestartSignal | TxStall

datatype transport_next = RetryIn u64 | SoftwareReset bool

record ('k, 'h, 'w, 'm) transport =
  tp_runtime :: "('k, 'h) runtime"
  tp_net :: "'w net"
  tp_matter :: 'm
  tp_backoff :: restart_backoff
  tp_queue :: queue_recovery

text \<open>The start of a turn: the window of an uncommissioned lamp, and the two signals cleared.\<close>

definition transport_begin ::
  "'m matter_ops \<Rightarrow> ('k, 'h, 'w, 'm) transport \<Rightarrow> ('k, 'h, 'w, 'm) transport" where
  "transport_begin M s =
     (let s = (if \<not> mt_is_commissioned M (tp_matter s)
               then s\<lparr>tp_matter := snd (open_commissioning M (tp_matter s))\<rparr> else s)
      in s\<lparr>tp_net := (tp_net s)\<lparr>n_restart := False, n_tx_stall := False\<rparr>\<rparr>)"

text \<open>The end of a turn, after the transport exited.\<close>

definition transport_end ::
  "('k, 'h) runtime_env \<Rightarrow> u64 \<Rightarrow> transport_exit \<Rightarrow> ('k, 'h, 'w, 'm) transport
    \<Rightarrow> transport_next \<times> ('k, 'h, 'w, 'm) transport" where
  "transport_end E now exit s =
     (let healthy_ms = healthy_for_ms now (tp_net s);
          s = s\<lparr>tp_queue := record_health healthy_ms (tp_queue s)\<rparr>;
          (reboot, s) = (if exit = TxStall
            then (case reboot_required (tp_queue s) of (r, q) \<Rightarrow> (r, s\<lparr>tp_queue := q\<rparr>))
            else (False, s))
      in if reboot then
           (case prepare_reboot E (tp_runtime s) of
              (off_verified, rt) \<Rightarrow> (SoftwareReset off_verified, s\<lparr>tp_runtime := rt\<rparr>))
         else
           (case next_delay_secs healthy_ms (tp_backoff s) of
              (retry_secs, b) \<Rightarrow>
                (RetryIn retry_secs, s\<lparr>tp_backoff := b, tp_net := restarted (tp_net s)\<rparr>)))"

section \<open>An updated image\<close>

definition OTA_CONFIRM_DEADLINE_MS :: u64 where "OTA_CONFIRM_DEADLINE_MS = 300000"

definition OTA_HEALTHY_MS :: u64 where "OTA_HEALTHY_MS = 30000"

datatype ota_verdict = VerdictWait | VerdictConfirm | VerdictRollBack

text \<open>The readback closure is called last, and only when the other evidence passes.\<close>

definition decide_ota ::
  "u64 \<Rightarrow> bool \<Rightarrow> u64 \<Rightarrow> ('s \<Rightarrow> bool \<times> 's) \<Rightarrow> 's \<Rightarrow> ota_verdict \<times> 's" where
  "decide_ota uptime_ms commissioned network_healthy_ms output_verified s =
     (let (healthy, s) = (if commissioned \<and> OTA_HEALTHY_MS \<le> network_healthy_ms
                          then output_verified s else (False, s))
      in if healthy then (VerdictConfirm, s)
         else if OTA_CONFIRM_DEADLINE_MS \<le> uptime_ms then (VerdictRollBack, s)
         else (VerdictWait, s))"

definition output_verified ::
  "('k, 'h) runtime_env \<Rightarrow> ('k, 'h) runtime \<Rightarrow> bool \<times> ('k, 'h) runtime" where
  "output_verified E s =
     (let snapshot = runtime_snapshot s
      in if sn_fault snapshot = NoFault \<and> sn_applied_frame snapshot \<noteq> None
         then (case runtime_verify E s of (r, s) \<Rightarrow> (r = Ok (), s)) else (False, s))"

record 'o ota_ops =
  os_is_unconfirmed :: "'o \<Rightarrow> bool"
  os_confirm :: "'o \<Rightarrow> bool \<times> 'o"
  os_can_roll_back :: "'o \<Rightarrow> bool"

record ('k, 'h, 'o) ota_state =
  ot_service :: 'o
  ot_runtime :: "('k, 'h) runtime"
  ot_unavailable_logged :: bool

text \<open>What a pass finds: the clock, the commissioning, the network and the runtime as the rest of the
  lamp left it.\<close>

record ('k, 'h, 'w) ota_evidence =
  oe_uptime_ms :: u64
  oe_commissioned :: bool
  oe_net :: "'w net"
  oe_runtime :: "('k, 'h) runtime"

datatype confirm_next = KeepChecking | ResetToRollBack bool

definition confirm_pass ::
  "('k, 'h) runtime_env \<Rightarrow> 'o ota_ops \<Rightarrow> ('k, 'h, 'w) ota_evidence \<Rightarrow> ('k, 'h, 'o) ota_state
    \<Rightarrow> confirm_next \<times> ('k, 'h, 'o) ota_state" where
  "confirm_pass E S e s =
     (case decide_ota (oe_uptime_ms e) (oe_commissioned e)
          (current_healthy_ms (oe_uptime_ms e) (oe_net e)) (output_verified E) (oe_runtime e) of
        (verdict, rt) \<Rightarrow>
          (let s = s\<lparr>ot_runtime := rt\<rparr>
           in case verdict of
                VerdictWait \<Rightarrow> (KeepChecking, s)
              | VerdictConfirm \<Rightarrow>
                  (KeepChecking, s\<lparr>ot_service := snd (os_confirm S (ot_service s))\<rparr>)
              | VerdictRollBack \<Rightarrow>
                  (if \<not> os_can_roll_back S (ot_service s)
                   then (KeepChecking, s\<lparr>ot_unavailable_logged := True\<rparr>)
                   else (case prepare_reboot E (ot_runtime s) of
                       (off, rt) \<Rightarrow> (ResetToRollBack off, s\<lparr>ot_runtime := rt\<rparr>)))))"

datatype confirm_result = Confirmed | RolledBack | Unresolved

text \<open>The loop over the evidence of its passes, five seconds apart.\<close>

fun confirm_loop ::
  "('k, 'h) runtime_env \<Rightarrow> 'o ota_ops \<Rightarrow> ('k, 'h, 'w) ota_evidence list \<Rightarrow> ('k, 'h, 'o) ota_state
    \<Rightarrow> confirm_result \<times> ('k, 'h, 'o) ota_state" where
  "confirm_loop E S [] s = (if os_is_unconfirmed S (ot_service s) then Unresolved else Confirmed, s)"
| "confirm_loop E S (e # es) s =
     (if \<not> os_is_unconfirmed S (ot_service s) then (Confirmed, s)
      else (case confirm_pass E S e s of
          (ResetToRollBack _, s) \<Rightarrow> (RolledBack, s)
        | (KeepChecking, s) \<Rightarrow> confirm_loop E S es s))"

text \<open>The cluster handler of a lamp with and without a working service.\<close>

record ('c, 'r) ota_cluster =
  oc_read :: "'c \<Rightarrow> error_code + 'r option"
  oc_invoke :: "'c \<Rightarrow> (error_code + unit) \<times> 'c"
  oc_bump_dataver :: "'c \<Rightarrow> 'c"

datatype 'c ota_handler = OtaReady 'c | OtaUnavailable u32

definition ota_handler_new :: "('v \<Rightarrow> u32 \<Rightarrow> 'c) \<Rightarrow> 'v option \<Rightarrow> u32 \<Rightarrow> 'c ota_handler" where
  "ota_handler_new cluster service dataver =
     (case service of Some v \<Rightarrow> OtaReady (cluster v dataver) | None \<Rightarrow> OtaUnavailable dataver)"

definition ota_read ::
  "('c, 'r) ota_cluster \<Rightarrow> (u32 \<Rightarrow> error_code + 'x option) \<Rightarrow> bool \<Rightarrow> ('x \<Rightarrow> error_code + 'r)
    \<Rightarrow> 'c ota_handler \<Rightarrow> error_code + 'r option" where
  "ota_read C with_dataver is_system read_global h =
     (case h of
        OtaReady c \<Rightarrow> oc_read C c
      | OtaUnavailable dataver \<Rightarrow>
          (case with_dataver dataver of
             Inl e \<Rightarrow> Inl e
           | Inr None \<Rightarrow> Inr None
           | Inr (Some writer) \<Rightarrow>
               (if is_system then map_sum id Some (read_global writer) else Inl AttributeNotFound)))"

definition ota_invoke :: "('c, 'r) ota_cluster \<Rightarrow> 'c ota_handler \<Rightarrow> (error_code + unit) \<times> 'c ota_handler" where
  "ota_invoke C h =
     (case h of
        OtaReady c \<Rightarrow> (case oc_invoke C c of (r, c) \<Rightarrow> (r, OtaReady c))
      | OtaUnavailable _ \<Rightarrow> (Inl Failure, h))"

definition ota_bump_dataver ::
  "('c, 'r) ota_cluster \<Rightarrow> (u32 \<Rightarrow> u32) \<Rightarrow> 'c ota_handler \<Rightarrow> 'c ota_handler" where
  "ota_bump_dataver C dataver_changed h =
     (case h of
        OtaReady c \<Rightarrow> OtaReady (oc_bump_dataver C c)
      | OtaUnavailable dataver \<Rightarrow> OtaUnavailable (dataver_changed dataver))"

end
