(* ===== verification/Transport_Props.thy ===== *)
theory Transport_Props
  imports Transport Runtime_Props
begin

text \<open>
  Properties of the transport loop and of the confirmation of an updated image: when the lamp
  reboots for a stuck transmit queue, that a reboot loses no intent, and that an update ends
  confirmed for good reasons or rolled back in time.
\<close>

section \<open>Reboots of the transport loop\<close>

text \<open>A run of the transport: the clock at its exit, the exit, and the network it left.\<close>

type_synonym 'w transport_run = "u64 \<times> transport_exit \<times> 'w net"

definition run_healthy_ms :: "'w transport_run \<Rightarrow> u64" where
  "run_healthy_ms r = (case r of (now, _, n) \<Rightarrow> healthy_for_ms now n)"

definition end_run ::
  "('k, 'h) runtime_env \<Rightarrow> 'w transport_run \<Rightarrow> ('k, 'h, 'w, 'm) transport
    \<Rightarrow> transport_next \<times> ('k, 'h, 'w, 'm) transport" where
  "end_run E r s = (case r of (now, exit, n) \<Rightarrow> transport_end E now exit (s\<lparr>tp_net := n\<rparr>))"

definition after_runs ::
  "('k, 'h) runtime_env \<Rightarrow> 'w transport_run list \<Rightarrow> ('k, 'h, 'w, 'm) transport \<Rightarrow> ('k, 'h, 'w, 'm) transport" where
  "after_runs E rs s = fold (\<lambda>r s. snd (end_run E r s)) rs s"

text \<open>Some earlier run ended in a stall, and no run since was healthy for two minutes.\<close>

definition recent_stall :: "'w transport_run list \<Rightarrow> bool" where
  "recent_stall rs \<longleftrightarrow> (\<exists>xs r zs. rs = xs @ r # zs \<and> fst (snd r) = TxStall \<and>
     (\<forall>z \<in> set zs. run_healthy_ms z < 120000))"

lemma recent_stall_snoc:
  "recent_stall (rs @ [r]) \<longleftrightarrow> fst (snd r) = TxStall \<or> run_healthy_ms r < 120000 \<and> recent_stall rs"
proof
  assume "recent_stall (rs @ [r])"
  then obtain xs y zs where s: "rs @ [r] = xs @ y # zs" "fst (snd y) = TxStall"
    "\<forall>z \<in> set zs. run_healthy_ms z < 120000"
    by (auto simp: recent_stall_def)
  show "fst (snd r) = TxStall \<or> run_healthy_ms r < 120000 \<and> recent_stall rs"
  proof (cases zs rule: rev_cases)
    case Nil
    with s show ?thesis by simp
  next
    case (snoc ys z)
    with s have "rs = xs @ y # ys" "z = r" by auto
    with s(2,3) snoc show ?thesis unfolding recent_stall_def by fastforce
  qed
next
  assume "fst (snd r) = TxStall \<or> run_healthy_ms r < 120000 \<and> recent_stall rs"
  then show "recent_stall (rs @ [r])"
  proof
    assume "fst (snd r) = TxStall"
    then have "rs @ [r] = rs @ r # [] \<and> fst (snd r) = TxStall \<and> (\<forall>z \<in> set []. run_healthy_ms z < 120000)"
      by simp
    then show ?thesis unfolding recent_stall_def by blast
  next
    assume "run_healthy_ms r < 120000 \<and> recent_stall rs"
    then obtain xs y zs where "rs = xs @ y # zs" "fst (snd y) = TxStall"
      "\<forall>z \<in> set zs. run_healthy_ms z < 120000" and r: "run_healthy_ms r < 120000"
      unfolding recent_stall_def by blast
    then have "rs @ [r] = xs @ y # (zs @ [r]) \<and> fst (snd y) = TxStall \<and>
        (\<forall>z \<in> set (zs @ [r]). run_healthy_ms z < 120000)"
      by simp
    then show ?thesis unfolding recent_stall_def by blast
  qed
qed

lemma end_run_queue:
  "qr_recreated (tp_queue (snd (end_run E r s))) \<longleftrightarrow>
     fst (snd r) = TxStall \<or> run_healthy_ms r < 120000 \<and> qr_recreated (tp_queue s)"
  by (cases r) (auto simp: end_run_def transport_end_def Let_def run_healthy_ms_def record_health_def
      reboot_required_def not_le split: prod.split)

lemma after_runs_queue:
  "\<not> qr_recreated (tp_queue s) \<Longrightarrow> qr_recreated (tp_queue (after_runs E rs s)) = recent_stall rs"
proof (induction rs rule: rev_induct)
  case Nil
  then show ?case by (simp add: after_runs_def recent_stall_def)
next
  case (snoc r rs)
  then show ?case by (simp add: after_runs_def end_run_queue recent_stall_snoc)
qed

text \<open>C17. A stuck transmit queue escalates exactly once: after any history of transport runs, the
  lamp reboots at the end of a run if and only if that run ended in a stall, was not healthy
  for two minutes, and an earlier stall was answered by a new radio with no such healthy run
  since; every other exit is retried after at most a minute.\<close>

theorem stall_escalates_to_reboot:
  assumes "tp_queue s = queue_recovery_default"
  shows "(case fst (end_run E r (after_runs E rs s)) of
      SoftwareReset _ \<Rightarrow> fst (snd r) = TxStall \<and> run_healthy_ms r < 120000 \<and> recent_stall rs
    | RetryIn secs \<Rightarrow> \<not> (fst (snd r) = TxStall \<and> run_healthy_ms r < 120000 \<and> recent_stall rs) \<and>
        unat secs \<le> 60)"
proof -
  define u where "u = after_runs E rs s"
  have q: "qr_recreated (tp_queue u) = recent_stall rs"
    using after_runs_queue [of s E rs] assms by (simp add: u_def queue_recovery_default_def)
  have b: "next_delay_secs h b = (secs, b') \<Longrightarrow> unat secs \<le> 60" for h b secs b'
    using backoff_seconds [of h b] by simp
  show ?thesis
    unfolding u_def [symmetric] using q b
    by (cases r) (auto simp: end_run_def transport_end_def Let_def run_healthy_ms_def record_health_def
        reboot_required_def not_le split: prod.splits)
qed

definition stall_at :: "u64 \<Rightarrow> unit transport_run" where
  "stall_at now = (now, TxStall, net_boot ())"

definition fresh_transport :: "(test_store, simulated_output, unit, unit) transport" where
  "fresh_transport = \<lparr>tp_runtime = bench_lit, tp_net = net_boot (), tp_matter = (),
     tp_backoff = restart_backoff_default, tp_queue = queue_recovery_default\<rparr>"

lemma stall_escalates_to_reboot_witness:
  "\<exists>off. fst (end_run (bench_env 0) (stall_at 9000) (after_runs (bench_env 0) [stall_at 5000] fresh_transport)) =
     SoftwareReset off"
proof -
  have "recent_stall ([] @ [stall_at 5000])" unfolding recent_stall_snoc by (simp add: stall_at_def)
  then have "recent_stall [stall_at 5000]" by simp
  moreover have "run_healthy_ms (stall_at 9000) < 120000" by code_simp
  moreover have "tp_queue fresh_transport = queue_recovery_default" by (simp add: fresh_transport_def)
  ultimately show ?thesis
    using stall_escalates_to_reboot [where s = fresh_transport and E = "bench_env 0"
        and r = "stall_at 9000" and rs = "[stall_at 5000]"]
    by (auto simp: stall_at_def split: transport_next.splits)
qed

text \<open>A reboot loses no light: when the transport loop reboots a lamp whose intent is saved, the
  record in the store is still that intent, the output has been shut down and nothing is
  acknowledged any more, and every boot from that store that can read it restores the
  intent under the startup policy.\<close>

theorem reboot_keeps_the_light:
  assumes "platform E showing recs" "reachable E (tp_runtime s)"
    and "\<not> r_dirty (tp_runtime s)" "r_load_fault (tp_runtime s) = None"
    and "transport_end E now exit s = (SoftwareReset off, t)"
    and "runtime_load E (r_kv (tp_runtime t)) h = Some u"
  shows "stored_intent recs E (r_kv (tp_runtime t)) = Some (r_target (tp_runtime s)) \<and>
    r_hardware (tp_runtime t) = snd (hw_shutdown (env_hw E) (r_hardware (tp_runtime s))) \<and>
    applied_frame (tp_runtime t) = None \<and>
    (r_load_fault u = None \<longrightarrow>
      startup_intent (r_target (tp_runtime s)) (r_startup u) = Some (r_target u))"
proof -
  have "tp_runtime t = snd (prepare_reboot E (tp_runtime s))"
    using assms(5)
    by (auto simp: transport_end_def Let_def split: prod.splits if_splits)
  then have t: "r_kv (tp_runtime t) = r_kv (tp_runtime s)" "applied_frame (tp_runtime t) = None"
    "r_hardware (tp_runtime t) = snd (hw_shutdown (env_hw E) (r_hardware (tp_runtime s)))"
    by (auto simp: prepare_reboot_def shutdown_def on_hardware_def Let_def bump_def invalidate_def
        applied_frame_def invalidate_applied_def split: prod.splits)
  have stored: "stored_intent recs E (r_kv (tp_runtime s)) = Some (r_target (tp_runtime s))"
    using assms(1-4) by (intro platform.reachable_stored)
  show ?thesis
    using stored t platform.load_stored [OF assms(1) stored] assms(6) by auto
qed

lemma reboot_keeps_the_light_witness:
  "\<exists>off t u. transport_end (bench_env 0) 9000 TxStall
      (fresh_transport\<lparr>tp_queue := \<lparr>qr_recreated = True\<rparr>\<rparr>) = (SoftwareReset off, t) \<and>
    runtime_load (bench_env 0) (r_kv (tp_runtime t)) sim_default = Some u \<and>
    stored_intent ts_records (bench_env 0) (r_kv (tp_runtime t)) = Some (r_target bench_lit)"
proof -
  let ?s = "fresh_transport\<lparr>tp_queue := \<lparr>qr_recreated = True\<rparr>\<rparr>"
  have s: "tp_runtime ?s = bench_lit" by (simp add: fresh_transport_def)
  have "case fst (transport_end (bench_env 0) 9000 TxStall ?s) of SoftwareReset _ \<Rightarrow> True | RetryIn _ \<Rightarrow> False"
    by code_simp
  then obtain off t where t: "transport_end (bench_env 0) 9000 TxStall ?s = (SoftwareReset off, t)"
    by (cases "transport_end (bench_env 0) 9000 TxStall ?s") (auto split: transport_next.splits)
  obtain u where u: "runtime_load (bench_env 0) (r_kv (tp_runtime t)) sim_default = Some u"
    using runtime_load_ok [of "bench_env 0" "r_kv (tp_runtime t)" sim_default] by blast
  show ?thesis
    using reboot_keeps_the_light [OF bench.platform_axioms _ _ _ t u] bench_lit_reachable bench_lit_applied(3,5) t u
    by (auto simp: s)
qed

section \<open>Confirming an update\<close>

lemma decide_ota_cases:
  assumes "decide_ota up c h ov s = (v, t)"
  shows "(v = VerdictConfirm \<longrightarrow> c \<and> OTA_HEALTHY_MS \<le> h \<and> fst (ov s)) \<and>
    (v = VerdictRollBack \<longrightarrow> OTA_CONFIRM_DEADLINE_MS \<le> up) \<and>
    (v = VerdictWait \<longrightarrow> \<not> OTA_CONFIRM_DEADLINE_MS \<le> up)"
  using assms by (auto simp: decide_ota_def Let_def split: prod.splits if_splits)


definition test_service :: "bool ota_ops" where
  "test_service = \<lparr>os_is_unconfirmed = id, os_confirm = (\<lambda>_. (True, False)), os_can_roll_back = (\<lambda>_. True)\<rparr>"

definition test_evidence :: "u64 \<Rightarrow> (test_store, simulated_output, unit) ota_evidence" where
  "test_evidence now = \<lparr>oe_uptime_ms = now, oe_commissioned = True, oe_net = net_boot (), oe_runtime = bench_lit\<rparr>"


end
