(* ===== verification/Boot.thy ===== *)
theory Boot
  imports Adapters Network
begin

text \<open>
  What runs before the transport: the storage retries and the commissioning credential of
  \<open>firmware/app/src/boot.rs\<close>, the partition lookup of \<open>storage.rs\<close> and the identity of
  \<open>commissioning.rs\<close>. The retry loop and the rejection sampling may run forever, so both are
  partial functions, \<open>None\<close> when they do not return. The watchdog feeds, sleeps and reports of
  the retry loop are the events it lists.
\<close>

section \<open>Storage retries\<close>

datatype boot_event = Feed | SleepSecond | Report error_code u32

definition retry_wait :: "error_code \<Rightarrow> u32 \<Rightarrow> boot_event list" where
  "retry_wait e delay_seconds =
     Report e delay_seconds # concat (replicate (unat delay_seconds) [SleepSecond, Feed])"

partial_function (option) retry_io ::
  "('s \<Rightarrow> ((error_code + 'a) \<times> 's) option) \<Rightarrow> u32 \<Rightarrow> boot_event list \<Rightarrow> 's
    \<Rightarrow> ((error_code + 'a) \<times> boot_event list \<times> 's) option" where
  "retry_io operation delay_seconds events s =
     (case operation s of
        None \<Rightarrow> None
      | Some (result, s) \<Rightarrow>
        (if result \<noteq> Inl StdIoError then Some (result, events @ [Feed], s)
         else retry_io operation (min (delay_seconds * 2) 60)
                (events @ Feed # retry_wait StdIoError delay_seconds) s))"

definition boot_restore ::
  "('s \<Rightarrow> ((error_code + 'a) \<times> 's) option) \<Rightarrow> 's
    \<Rightarrow> ((error_code + 'a) \<times> boot_event list \<times> 's) option" where
  "boot_restore operation s = retry_io operation 5 [] s"

section \<open>The commissioning credential\<close>

definition COMMISSIONING_KEY :: "u16 \<Rightarrow> u16" where
  "COMMISSIONING_KEY vendor_keys_start = vendor_keys_start"

definition valid_passcode :: "u32 \<Rightarrow> bool" where
  "valid_passcode value \<longleftrightarrow> 1 \<le> value \<and> value \<le> 99999998 \<and>
     value \<notin> {11111111, 22222222, 33333333, 44444444, 55555555, 66666666, 77777777, 88888888,
              12345678, 87654321}"

partial_function (option) draw_passcode :: "('r \<Rightarrow> u32 \<times> 'r) \<Rightarrow> 'r \<Rightarrow> (u32 \<times> 'r) option" where
  "draw_passcode random r =
     (case random r of (n, r) \<Rightarrow>
        (let candidate = n AND 0x07ffffff
         in if valid_passcode candidate then Some (candidate, r) else draw_passcode random r))"

definition commissioning_passcode ::
  "'k kv_ops \<Rightarrow> u16 \<Rightarrow> ('r \<Rightarrow> u32 \<times> 'r) \<Rightarrow> 'r \<Rightarrow> 'k \<Rightarrow> ((error_code + u32) \<times> 'r \<times> 'k) option" where
  "commissioning_passcode ops key random r kv =
     (case kv_load ops key kv of
        (Inl e, kv) \<Rightarrow> Some (Inl e, r, kv)
      | (Inr (Some data), kv) \<Rightarrow>
          (case data of
             [a, b, c, d] \<Rightarrow>
               (let passcode = from_le_bytes32 a b c d
                in Some (if valid_passcode passcode then Inr passcode else Inl InvalidData, r, kv))
           | _ \<Rightarrow> Some (Inl InvalidData, r, kv))
      | (Inr None, kv) \<Rightarrow>
          (case draw_passcode random r of
             None \<Rightarrow> None
           | Some (passcode, r) \<Rightarrow>
               (case kv_store ops key (to_le_bytes32 passcode) kv of
                  (Inl e, kv) \<Rightarrow> Some (Inl e, r, kv)
                | (Inr _, kv) \<Rightarrow> Some (Inr passcode, r, kv))))"

section \<open>The settings partition\<close>

datatype partition_error = PartitionStorage | PartitionOther

record partition_entry =
  pe_offset :: u32
  pe_len :: u32

text \<open>The read table with its NVS lookup, and the range of flash it names.\<close>

definition nvs_range ::
  "partition_error + (partition_error + partition_entry option) \<Rightarrow> error_code + u32 \<times> u32" where
  "nvs_range table =
     (case table of
        Inl PartitionStorage \<Rightarrow> Inl StdIoError
      | Inl PartitionOther \<Rightarrow> Inl InvalidData
      | Inr (Inl _) \<Rightarrow> Inl InvalidData
      | Inr (Inr None) \<Rightarrow> Inl NotFound
      | Inr (Inr (Some nvs)) \<Rightarrow> Inr (pe_offset nvs, pe_offset nvs + pe_len nvs))"

section \<open>Identity\<close>

definition hex_digit :: "u8 \<Rightarrow> u8" where
  "hex_digit n = [0x30, 0x31, 0x32, 0x33, 0x34, 0x35, 0x36, 0x37, 0x38, 0x39, 0x41, 0x42, 0x43,
     0x44, 0x45, 0x46] ! unat n"

text \<open>\<open>Key Right 0000\<close> with its digits replaced by the last two bytes of the MAC address.\<close>

definition discovery_name :: "u8 list \<Rightarrow> u8 list" where
  "discovery_name mac =
     fold (\<lambda>(index, byte) name.
         (name[10 + index * 2 := hex_digit (drop_bit 4 byte)])
           [11 + index * 2 := hex_digit (byte AND 0x0f)])
       (enumerate 0 (drop 4 mac))
       [0x4b, 0x65, 0x79, 0x20, 0x52, 0x69, 0x67, 0x68, 0x74, 0x20, 0x30, 0x30, 0x30, 0x30]"

definition discovery_str :: "u8 list \<Rightarrow> u8 list option" where
  "discovery_str name = (if utf8_valid name then Some name else None)"

text \<open>The pairing payload, given the characters rs-matter emits for it and its own encoder.\<close>

definition qr_payload :: "u8 list \<Rightarrow> (nat \<Rightarrow> error_code + u8 list) \<Rightarrow> nat \<Rightarrow> error_code + u8 list" where
  "qr_payload emitted as_str capacity =
     (if capacity < length emitted then Inl BufferTooSmall else as_str capacity)"

definition discriminator :: "u8 list \<Rightarrow> u16" where
  "discriminator mac = from_le_bytes16 (mac ! 5) (mac ! 4) AND 0x0fff"

section \<open>The retry loop returns\<close>

text \<open>The call after \<open>k\<close> that ended in an I/O error, when it returns anything else.\<close>

fun other_after :: "('s \<Rightarrow> ((error_code + 'a) \<times> 's) option) \<Rightarrow> 's \<Rightarrow> nat \<Rightarrow> ((error_code + 'a) \<times> 's) option" where
  "other_after operation s 0 =
     (case operation s of
        None \<Rightarrow> None
      | Some (result, t) \<Rightarrow> if result \<noteq> Inl StdIoError then Some (result, t) else None)"
| "other_after operation s (Suc k) =
     (case operation s of
        None \<Rightarrow> None
      | Some (result, t) \<Rightarrow> if result = Inl StdIoError then other_after operation t k else None)"

fun retry_seconds :: "nat \<Rightarrow> nat \<Rightarrow> nat" where
  "retry_seconds d 0 = 0"
| "retry_seconds d (Suc k) = d + retry_seconds (min (2 * d) 60) k"

definition slept :: "boot_event list \<Rightarrow> nat" where
  "slept events = length (filter (\<lambda>e. e = SleepSecond) events)"

text \<open>Every slept second is followed by a feed of the watchdog before the next.\<close>

fun watchdog_fed :: "boot_event list \<Rightarrow> bool" where
  "watchdog_fed [] = True"
| "watchdog_fed (SleepSecond # Feed # es) = watchdog_fed es"
| "watchdog_fed (SleepSecond # _) = False"
| "watchdog_fed (_ # es) = watchdog_fed es"

lemma watchdog_fed_wait: "watchdog_fed (concat (replicate n [SleepSecond, Feed]) @ es) = watchdog_fed es"
  by (induction n) auto

lemma slept_wait: "slept (retry_wait e d) = unat d"
proof -
  have "length (filter (\<lambda>e. e = SleepSecond) (concat (replicate n [SleepSecond, Feed]))) = n" for n
    by (induction n) auto
  then show ?thesis by (simp add: slept_def retry_wait_def)
qed

lemma watchdog_fed_append:
  "watchdog_fed es \<Longrightarrow> watchdog_fed fs \<Longrightarrow> watchdog_fed (es @ fs)"
  by (induction es rule: watchdog_fed.induct) auto

lemma retry_io_returns:
  assumes "other_after operation s k = Some (r, t)" "unat d \<le> 60" "watchdog_fed events"
  shows "\<exists>events'. retry_io operation d events s = Some (r, events', t) \<and>
    slept events' = slept events + retry_seconds (unat d) k \<and> watchdog_fed events'"
  using assms
proof (induction k arbitrary: s d events)
  case 0
  have "watchdog_fed (events @ [Feed])" using 0(3) by (intro watchdog_fed_append) simp_all
  then show ?case
    using 0(1) by (subst retry_io.simps) (auto simp: slept_def split: option.splits if_splits)
next
  case (Suc k)
  obtain u where u: "operation s = Some (Inl StdIoError, u)" "other_after operation u k = Some (r, t)"
    using Suc.prems(1) by (auto split: option.splits if_splits)
  have "unat (d * 2) = unat d * 2" using Suc.prems(2) unat_mult_fits [of d "2 :: u32"] by simp
  then have d: "unat (min (d * 2) 60) = min (2 * unat d) 60"
    by (simp add: unat_min_word mult.commute)
  let ?events = "events @ Feed # retry_wait StdIoError d"
  have w: "watchdog_fed (Feed # retry_wait StdIoError d)"
    using watchdog_fed_wait [of "unat d" "[]"] by (simp add: retry_wait_def)
  have "watchdog_fed ?events" using watchdog_fed_append [OF Suc.prems(3) w] .
  then obtain events' where "retry_io operation (min (d * 2) 60) ?events u = Some (r, events', t)"
    "slept events' = slept ?events + retry_seconds (unat (min (d * 2) 60)) k" "watchdog_fed events'"
    using Suc.IH [OF u(2), of "min (d * 2) 60" ?events] d by auto
  moreover have "slept ?events = slept events + unat d" using slept_wait by (simp add: slept_def)
  ultimately show ?case using u(1) d by (subst retry_io.simps) auto
qed

lemma retry_io_only:
  assumes "retry_io operation d events s = Some y"
  shows "\<exists>k. other_after operation s k = Some (fst y, snd (snd y))"
proof (rule retry_io.raw_induct
    [where P = "\<lambda>operation d events s y. \<exists>k. other_after operation s k = Some (fst y, snd (snd y))",
      OF _ assms])
  fix retry operation d events s y
  assume IH: "\<And>operation d events s y. retry operation d events s = Some y \<Longrightarrow>
      \<exists>k. other_after operation s k = Some (fst y, snd (snd y))"
    and run: "(case operation s of None \<Rightarrow> None | Some (result, s) \<Rightarrow>
        if result \<noteq> Inl StdIoError then Some (result, events @ [Feed], s)
        else retry operation (min (d * 2) 60) (events @ Feed # retry_wait StdIoError d) s) = Some y"
  obtain r t where o': "operation s = Some (r, t)" using run by (auto split: option.splits)
  show "\<exists>k. other_after operation s k = Some (fst y, snd (snd y))"
  proof (cases "r = Inl StdIoError")
    case True
    then have "retry operation (min (d * 2) 60) (events @ Feed # retry_wait StdIoError d) t = Some y"
      using run o' by simp
    from IH [OF this] obtain k where "other_after operation t k = Some (fst y, snd (snd y))" ..
    then have "other_after operation s (Suc k) = Some (fst y, snd (snd y))" using o' True by simp
    then show ?thesis by blast
  next
    case False
    then have "other_after operation s 0 = Some (fst y, snd (snd y))" using run o' by auto
    then show ?thesis by blast
  qed
qed

text \<open>What a retry returns, the operation returned at some call, and not as an I/O error.\<close>

lemma boot_restore_result:
  assumes "boot_restore operation s = Some (r, events, t)"
  obtains k where "other_after operation s k = Some (r, t)"
  using retry_io_only [of operation 5 "[]" s "(r, events, t)"] assms by (auto simp: boot_restore_def)

lemma other_after_state:
  assumes "other_after operation s k = Some (r, t)" "I s"
    and "\<And>u q v. I u \<Longrightarrow> operation u = Some (q, v) \<Longrightarrow> I v"
  shows "I t \<and> (\<exists>u. I u \<and> operation u = Some (r, t))"
  using assms(1,2)
proof (induction k arbitrary: s)
  case 0
  then show ?case using assms(3) by (auto split: option.splits if_splits)
next
  case (Suc k)
  then show ?case using assms(3) by (auto split: option.splits if_splits)
qed

section \<open>Properties\<close>

text \<open>C26. The storage retry returns exactly when the storage answers at last: it returns if and only if
  some call, every earlier one an I/O error, ends in anything else; it then returns that
  call's result unchanged, after calling the storage no more often than needed and sleeping 5,
  10, 20, 40 and then 60 seconds between the calls, and the watchdog is fed after every second
  of that sleep.\<close>

theorem storage_retry_returns:
  assumes "other_after operation s k = Some (r, t)"
  shows "(boot_restore operation s' \<noteq> None) = (\<exists>j. other_after operation s' j \<noteq> None) \<and>
    (\<exists>events. boot_restore operation s = Some (r, events, t) \<and>
     slept events = retry_seconds 5 k \<and> watchdog_fed events)"
proof -
  have r: "\<exists>events. boot_restore operation u = Some (q, events, v) \<and>
     slept events = retry_seconds 5 j \<and> watchdog_fed events"
    if "other_after operation u j = Some (q, v)" for u j q v
    using retry_io_returns [OF that, of 5 "[]"] by (simp add: boot_restore_def slept_def)
  have "(boot_restore operation s' \<noteq> None) = (\<exists>j. other_after operation s' j \<noteq> None)"
  proof
    assume "boot_restore operation s' \<noteq> None"
    then obtain y where "retry_io operation 5 [] s' = Some y" by (auto simp: boot_restore_def)
    from retry_io_only [OF this] show "\<exists>j. other_after operation s' j \<noteq> None" by (metis not_None_eq)
  next
    assume "\<exists>j. other_after operation s' j \<noteq> None"
    then obtain j q v where "other_after operation s' j = Some (q, v)" by auto
    from r [OF this] show "boot_restore operation s' \<noteq> None" by auto
  qed
  with r [OF assms] show ?thesis by blast
qed

text \<open>A store that reads its record at the third attempt.\<close>

definition slow_store :: "nat \<Rightarrow> ((error_code + nat) \<times> nat) option" where
  "slow_store n = Some (if n < 2 then Inl StdIoError else Inr n, n + 1)"

lemma storage_retry_returns_witness:
  "\<exists>events. boot_restore slow_store 0 = Some (Inr 2, events, 3) \<and> slept events = 15 \<and> watchdog_fed events"
proof -
  have "other_after slow_store 0 2 = Some (Inr 2, 3)" by (simp add: slow_store_def eval_nat_numeral)
  from storage_retry_returns [OF this] show ?thesis by (simp add: eval_nat_numeral)
qed

lemma byte_bit_high [simp]: "8 \<le> n \<Longrightarrow> \<not> bit (x :: u8) n"
  using bit_imp_le_length [of x n] by auto

lemma to_from_le_bytes32: "to_le_bytes32 (from_le_bytes32 a b c d) = [a, b, c, d]"
proof -
  have "ucast (from_le_bytes32 a b c d) = a"
    by (rule bit_word_eqI) (simp add: from_le_bytes32_def bit_simps)
  moreover have "ucast (drop_bit 8 (from_le_bytes32 a b c d)) = b"
    by (rule bit_word_eqI) (simp add: from_le_bytes32_def bit_simps)
  moreover have "ucast (drop_bit 16 (from_le_bytes32 a b c d)) = c"
    by (rule bit_word_eqI) (simp add: from_le_bytes32_def bit_simps)
  moreover have "ucast (drop_bit 24 (from_le_bytes32 a b c d)) = d"
    by (rule bit_word_eqI) (simp add: from_le_bytes32_def bit_simps)
  ultimately show ?thesis by (simp add: to_le_bytes32_def)
qed

lemma to_le_bytes32_inject:
  assumes "to_le_bytes32 m = to_le_bytes32 n"
  shows "m = n"
proof -
  have "(ucast m :: u8) = ucast n" "(ucast (drop_bit 8 m) :: u8) = ucast (drop_bit 8 n)"
    "(ucast (drop_bit 16 m) :: u8) = ucast (drop_bit 16 n)"
    "(ucast (drop_bit 24 m) :: u8) = ucast (drop_bit 24 n)"
    using assms by (simp_all add: to_le_bytes32_def)
  with from_to_le_bytes32 [of m] show ?thesis by (simp only: from_to_le_bytes32)
qed

lemma draw_passcode_valid: "draw_passcode random r = Some (p, r') \<Longrightarrow> valid_passcode p"
proof -
  have "draw_passcode random r = Some y \<Longrightarrow> valid_passcode (fst y)" for y
  proof (rule draw_passcode.raw_induct [where P = "\<lambda>random r y. valid_passcode (fst y)"])
    fix draw :: "('a \<Rightarrow> u32 \<times> 'a) \<Rightarrow> 'a \<Rightarrow> (u32 \<times> 'a) option" and random r y
    assume "\<And>random r y. draw random r = Some y \<Longrightarrow> valid_passcode (fst y)"
      and "(case random r of (n, r) \<Rightarrow> let candidate = n AND 134217727
         in if valid_passcode candidate then Some (candidate, r) else draw random r) = Some y"
    then show "valid_passcode (fst y)" by (auto simp: Let_def split: prod.splits if_splits)
  qed
  then show "draw_passcode random r = Some (p, r') \<Longrightarrow> valid_passcode p" by fastforce
qed

lemma passcode_recorded:
  assumes "blob_store ops records" "commissioning_passcode ops key random r kv = Some (Inr p, r1, kv')"
  shows "valid_passcode p \<and> records kv' key = Some (to_le_bytes32 p) \<and>
    (records kv key = None \<or> records kv' = records kv) \<and>
    (\<forall>other. other \<noteq> key \<longrightarrow> records kv' other = records kv other)"
proof -
  obtain l k1 where l: "kv_load ops key kv = (l, k1)" by fastforce
  then have k1: "records k1 = records kv" using blob_store.load_keeps [OF assms(1), of key kv] by simp
  from assms(2) l obtain v where v: "l = Inr v" by (cases l) (simp_all add: commissioning_passcode_def)
  then have rv: "v = records kv key" using blob_store.load_returns [OF assms(1)] l by simp
  show ?thesis
  proof (cases v)
    case None
    then obtain c r2 where c: "draw_passcode random r = Some (c, r2)"
      using assms(2) l v by (auto simp: commissioning_passcode_def split: option.splits)
    obtain s k2 where s: "kv_store ops key (to_le_bytes32 c) k1 = (s, k2)" by fastforce
    then have "p = c" "kv' = k2" "\<exists>u. s = Inr u"
      using assms(2) l v None c by (auto simp: commissioning_passcode_def split: sum.splits)
    then show ?thesis
      using None rv k1 s draw_passcode_valid [OF c] blob_store.store_puts [OF assms(1)]
        blob_store.store_other [OF assms(1), of _ key "to_le_bytes32 c" k1] by auto
  next
    case (Some data)
    then have "\<exists>a b c d. data = [a, b, c, d] \<and> valid_passcode (from_le_bytes32 a b c d) \<and>
        p = from_le_bytes32 a b c d \<and> kv' = k1"
      using assms(2) l v
      by (auto simp: commissioning_passcode_def Let_def split: list.splits if_splits)
    then show ?thesis using Some rv k1 to_from_le_bytes32 by auto
  qed
qed

lemma passcode_reread:
  assumes "blob_store ops records" "valid_passcode p" "records kv key = Some (to_le_bytes32 p)"
  shows "\<exists>q kv'. commissioning_passcode ops key random r kv = Some (q, r, kv') \<and> records kv' = records kv \<and>
      (case fst (kv_load ops key kv) of Inl e \<Rightarrow> q = Inl e | Inr _ \<Rightarrow> q = Inr p)"
proof -
  obtain l k1 where l: "kv_load ops key kv = (l, k1)" by fastforce
  then have k1: "records k1 = records kv" using blob_store.load_keeps [OF assms(1), of key kv] by simp
  show ?thesis
  proof (cases l)
    case (Inr v)
    then have "v = Some (to_le_bytes32 p)" using blob_store.load_returns [OF assms(1)] l assms(3) by simp
    then show ?thesis
      using l k1 Inr assms(2) by (simp add: commissioning_passcode_def Let_def to_le_bytes32_def)
  qed (use l k1 in \<open>simp add: commissioning_passcode_def\<close>)
qed

text \<open>C27. The commissioning credential is generated once and kept: a boot that returns a passcode
  returns a permitted one, which is exactly the record now in the store; a record that was
  there is never rewritten and no other record changes; and every later boot from a store with
  that record returns the same passcode or fails to read, without a fresh draw.\<close>

theorem passcode_is_kept:
  assumes "blob_store ops records" "commissioning_passcode ops key random r kv = Some (Inr p, r1, kv')"
    and "records later key = records kv' key"
  shows "valid_passcode p \<and> records kv' key = Some (to_le_bytes32 p) \<and>
    (records kv key = None \<or> records kv' = records kv) \<and>
    (\<forall>other. other \<noteq> key \<longrightarrow> records kv' other = records kv other) \<and>
    (\<exists>q kv''. commissioning_passcode ops key random' r' later = Some (q, r', kv'') \<and>
      records kv'' = records later \<and>
      (case fst (kv_load ops key later) of Inl e \<Rightarrow> q = Inl e | Inr _ \<Rightarrow> q = Inr p))"
proof -
  have first: "valid_passcode p \<and> records kv' key = Some (to_le_bytes32 p) \<and>
    (records kv key = None \<or> records kv' = records kv) \<and>
    (\<forall>other. other \<noteq> key \<longrightarrow> records kv' other = records kv other)"
    by (rule passcode_recorded [OF assms(1,2)])
  then have p: "valid_passcode p" "records later key = Some (to_le_bytes32 p)" using assms(3) by auto
  from first passcode_reread [OF assms(1) p] show ?thesis
    by (elim conjE) (intro conjI, assumption+)
qed

text \<open>A fresh store: the first draw is refused, the second becomes the credential.\<close>

lemma passcode_is_kept_witness:
  "\<exists>kv'. commissioning_passcode test_kv 0x8000 (\<lambda>n. (n, n - 11111110)) 11111111 test_store_default =
      Some (Inr 1, 1 - 11111110, kv') \<and> ts_records kv' 0x8000 = Some (to_le_bytes32 1) \<and>
    (\<exists>kv''. commissioning_passcode test_kv 0x8000 (\<lambda>n. (n, n)) 7 kv' = Some (Inr 1, 7, kv''))"
proof -
  have "draw_passcode (\<lambda>n. (n, n - 11111110)) 11111111 = Some (1, 1 - 11111110)"
    by (subst draw_passcode.simps, subst draw_passcode.simps) (simp add: valid_passcode_def)
  then obtain kv' where
    first: "commissioning_passcode test_kv 0x8000 (\<lambda>n. (n, n - 11111110)) 11111111 test_store_default =
       Some (Inr 1, 1 - 11111110, kv')" and ok: "\<not> ts_fail_load kv'"
    by (simp add: commissioning_passcode_def test_kv_def test_store_load_def test_store_store_def
        test_store_default_def)
  have "fst (kv_load test_kv 0x8000 kv') \<noteq> Inl e" for e
    using ok by (simp add: test_kv_def test_store_load_def)
  then show ?thesis
    using first passcode_is_kept [OF test_kv.blob_store_axioms first refl,
        where random' = "\<lambda>n. (n, n)" and r' = 7]
    by (fastforce split: sum.splits)
qed

end
