(* ===== verification/Text_Format.thy ===== *)
theory Text_Format
  imports Prelude
begin

text \<open>
  The text the command line and the USB console read and write: Rust's \<open>str::parse\<close> of an
  unsigned integer, its decimal \<open>Display\<close>, splitting and trimming at ASCII white space, and
  \<open>write!\<close> into a string of bounded capacity. Strings are lists of the bytes of their UTF-8.
\<close>

section \<open>Numbers\<close>

definition is_digit :: "char \<Rightarrow> bool" where
  "is_digit c \<longleftrightarrow> 48 \<le> (of_char c :: nat) \<and> (of_char c :: nat) \<le> 57"

definition digit_char :: "nat \<Rightarrow> char" where
  "digit_char n = char_of (48 + n)"

text \<open>The checked accumulation of \<open>from_str_radix\<close>: the value must stay below \<open>bound\<close>.\<close>

fun parse_digits :: "nat \<Rightarrow> nat \<Rightarrow> string \<Rightarrow> nat option" where
  "parse_digits bound acc [] = Some acc"
| "parse_digits bound acc (c # cs) =
     (if is_digit c \<and> acc * 10 + (of_char c - 48) < bound
      then parse_digits bound (acc * 10 + (of_char c - 48)) cs else None)"

definition parse_unsigned :: "nat \<Rightarrow> string \<Rightarrow> nat option" where
  "parse_unsigned bound s =
     (case s of
        [] \<Rightarrow> None
      | c # cs \<Rightarrow>
          (if c = CHR ''+'' then (if cs = [] then None else parse_digits bound 0 cs)
           else parse_digits bound 0 (c # cs)))"

definition parse_u8 :: "string \<Rightarrow> u8 option" where
  "parse_u8 s = map_option of_nat (parse_unsigned (2 ^ 8) s)"

definition parse_u16 :: "string \<Rightarrow> u16 option" where
  "parse_u16 s = map_option of_nat (parse_unsigned (2 ^ 16) s)"

fun decimal :: "nat \<Rightarrow> string" where
  "decimal n = (if n < 10 then [digit_char n] else decimal (n div 10) @ [digit_char (n mod 10)])"

declare decimal.simps [simp del]

definition bool_text :: "bool \<Rightarrow> string" where
  "bool_text b = (if b then ''true'' else ''false'')"

section \<open>Words\<close>

definition ascii_space :: "char \<Rightarrow> bool" where
  "ascii_space c \<longleftrightarrow> (of_char c :: nat) \<in> {9, 10, 12, 13, 32}"

text \<open>\<open>split_ascii_whitespace\<close> collected, and \<open>trim\<close> of a printable line.\<close>

fun split_words :: "string \<Rightarrow> string \<Rightarrow> string list" where
  "split_words word [] = (if word = [] then [] else [word])"
| "split_words word (c # cs) =
     (if ascii_space c then (if word = [] then [] else [word]) @ split_words [] cs
      else split_words (word @ [c]) cs)"

definition trim :: "string \<Rightarrow> string" where
  "trim s = rev (dropWhile ascii_space (rev (dropWhile ascii_space s)))"

section \<open>Bounded strings\<close>

text \<open>\<open>write!\<close> stops at the first piece that does not fit and leaves the earlier ones.\<close>

fun write_pieces :: "nat \<Rightarrow> string list \<Rightarrow> string \<Rightarrow> string" where
  "write_pieces capacity [] buf = buf"
| "write_pieces capacity (p # ps) buf =
     (if length buf + length p \<le> capacity then write_pieces capacity ps (buf @ p) else buf)"

section \<open>Reading what is written\<close>

lemma of_char_digit [simp]: "n < 10 \<Longrightarrow> of_char (digit_char n) = 48 + n"
  by (simp add: digit_char_def)

lemma is_digit_digit [simp]: "n < 10 \<Longrightarrow> is_digit (digit_char n)"
  by (simp add: is_digit_def)

lemma parse_digits_append:
  "parse_digits bound acc (xs @ ys) =
     (case parse_digits bound acc xs of None \<Rightarrow> None | Some acc' \<Rightarrow> parse_digits bound acc' ys)"
  by (induction bound acc xs rule: parse_digits.induct) auto

lemma parse_digits_bound: "parse_digits bound acc s = Some n \<Longrightarrow> acc < bound \<Longrightarrow> n < bound"
  by (induction bound acc s rule: parse_digits.induct) (auto split: if_splits)

lemma decimal_digits: "c \<in> set (decimal n) \<Longrightarrow> is_digit c"
  by (induction n rule: decimal.induct) (subst (asm) (2) decimal.simps, auto split: if_splits)

lemma decimal_nonempty [simp]: "decimal n \<noteq> []"
  by (subst decimal.simps) simp

lemma parse_digits_decimal:
  "parse_digits bound 0 (decimal n) = (if n < bound then Some n else None)"
proof (induction n rule: decimal.induct)
  case (1 n)
  show ?case
  proof (cases "n < 10")
    case True
    then show ?thesis by (subst decimal.simps) simp
  next
    case False
    have d: "decimal n = decimal (n div 10) @ [digit_char (n mod 10)]"
      using False by (subst decimal.simps) simp
    show ?thesis using 1 [OF False] False by (auto simp: d parse_digits_append)
  qed
qed

lemma parse_unsigned_decimal:
  "parse_unsigned bound (decimal n) = (if n < bound then Some n else None)"
proof -
  obtain c cs where d: "decimal n = c # cs" by (cases "decimal n") auto
  then have "is_digit c" using decimal_digits [of c n] by simp
  then have "c \<noteq> CHR ''+''" by (auto simp: is_digit_def)
  then show ?thesis using parse_digits_decimal [of bound n] d by (simp add: parse_unsigned_def)
qed

lemma parse_u8_decimal: "parse_u8 (decimal n) = (if n < 256 then Some (of_nat n) else None)"
  by (simp add: parse_u8_def parse_unsigned_decimal)

lemma parse_u16_decimal: "parse_u16 (decimal n) = (if n < 65536 then Some (of_nat n) else None)"
  by (simp add: parse_u16_def parse_unsigned_decimal)

lemma write_pieces_bound:
  "length buf \<le> capacity \<Longrightarrow> length (write_pieces capacity ps buf) \<le> capacity"
  by (induction capacity ps buf rule: write_pieces.induct) auto

lemma write_pieces_fits:
  "length buf + length (concat ps) \<le> capacity \<Longrightarrow> write_pieces capacity ps buf = buf @ concat ps"
  by (induction capacity ps buf rule: write_pieces.induct) auto

end
