(* ===== verification/Console.thy ===== *)
theory Console
  imports Text_Format Transport
begin

text \<open>
  The USB console of \<open>firmware/app/src/console.rs\<close>: the assembly of lines from the bytes read,
  the diagnostics that \<open>run\<close> serves itself and the commands of \<open>command\<close>, each a call of the
  light runtime, the network or the commissioning window. The responses, the restart signal, the
  software reset and the deliberate stall are the effects a run lists. What \<open>std\<close> and
  rs-matter print of their own types, the firmware's mode and the pairing strings are the fields
  of \<open>console_text\<close>.
\<close>

section \<open>Commands\<close>

record ('k, 'h, 'w, 'm) console_world =
  cw_runtime :: "('k, 'h) runtime"
  cw_net :: "'w net"
  cw_matter :: 'm

record console_text =
  ct_debug :: "error_code \<Rightarrow> string"
  ct_mode :: string
  ct_status :: "snapshot \<Rightarrow> u32 \<times> u32 \<times> u32 \<times> bool \<Rightarrow> i32 option \<times> bool \<times> bool \<times> u32
    \<Rightarrow> u64 \<Rightarrow> u64 \<Rightarrow> string list"
  ct_pairing :: string
  ct_pairing_qr :: string

definition REPLY_CAPACITY :: nat where "REPLY_CAPACITY = 1024"

definition LINE_CAPACITY :: nat where "LINE_CAPACITY = 256"

definition reply :: "string list \<Rightarrow> string" where
  "reply pieces = write_pieces REPLY_CAPACITY pieces []"

definition error_reply :: "console_text \<Rightarrow> error_code \<Rightarrow> string" where
  "error_reply T e = reply [''KR ERR '', ct_debug T e]"

text \<open>\<open>{byte:02x}\<close>: the padding zero is a piece of its own.\<close>

definition hex_pieces :: "u8 \<Rightarrow> string list" where
  "hex_pieces b =
     (if b < 16 then [''0'', [''0123456789abcdef'' ! unat b]]
      else [[''0123456789abcdef'' ! (unat b div 16), ''0123456789abcdef'' ! (unat b mod 16)]])"

definition registers_reply :: "console_text \<Rightarrow> u8 list \<Rightarrow> string" where
  "registers_reply T registers =
     (let out = reply [''KR OK mode='', ct_mode T, '' backend=pca9635 address=0x15 registers=''];
          out = fold (\<lambda>b. write_pieces REPLY_CAPACITY (hex_pieces b)) registers out
      in write_pieces REPLY_CAPACITY ['' physical_output=unmeasured''] out)"

text \<open>The calls of the runtime that a command names.\<close>

definition preset_state :: "preset \<Rightarrow> light_state" where
  "preset_state p = light_default\<lparr>ls_on := True, ls_temperature := preset_temperature p\<rparr>"

definition level_argument :: "string \<Rightarrow> level option" where
  "level_argument v = Option.bind (parse_u8 v) level_new"

definition temperature_argument :: "string \<Rightarrow> color_temperature option" where
  "temperature_argument v = Option.bind (parse_u16 v) temperature_new"

definition light_command ::
  "('k, 'h) runtime_env \<Rightarrow> string \<Rightarrow> string list \<Rightarrow> ('k, 'h) runtime
    \<Rightarrow> ((unit, error_code) outcome \<times> ('k, 'h) runtime) option" where
  "light_command E cmd args s =
     (if cmd = ''off'' \<and> args = [] then Some (runtime_off E s)
      else if cmd = ''on'' \<and> args = [] then Some (set_power E True s)
      else if cmd = ''on'' \<and> args = [''1''] then Some (request E (preset_state PresetOne) s)
      else if cmd = ''on'' \<and> args = [''2''] then Some (request E (preset_state PresetTwo) s)
      else if cmd = ''level'' \<and> length args = 1 then
        (case level_argument (hd args) of
           None \<Rightarrow> Some (Err ConstraintError, s)
         | Some l \<Rightarrow> Some (set_level E l False s))
      else if cmd = ''temperature'' \<and> length args = 1 then
        (case temperature_argument (hd args) of
           None \<Rightarrow> Some (Err ConstraintError, s)
         | Some t \<Rightarrow> Some (set_temperature E t s))
      else if cmd = ''verify'' \<and> args = [] then Some (runtime_verify E s)
      else if cmd = ''on1'' \<and> args = [] then Some (request E (preset_state PresetOne) s)
      else if cmd = ''on2'' \<and> args = [] then Some (request E (preset_state PresetTwo) s)
      else None)"

definition COMMANDS :: string where
  "COMMANDS = ''KR ERR commands=status|off|on|level_1..254|temperature_143..344|on_1_or_2|verify|registers|commissioning_code|commissioning_qr|reboot|test_watchdog|test_wifi|test_network''"

text \<open>The reply to a command, \<open>None\<close> for a panic, and the world after it.\<close>

definition console_command ::
  "console_text \<Rightarrow> ('k, 'h) runtime_env \<Rightarrow> 'm matter_ops \<Rightarrow> string \<Rightarrow> ('k, 'h, 'w, 'm) console_world
    \<Rightarrow> string option \<times> ('k, 'h, 'w, 'm) console_world" where
  "console_command T E M line w =
     (let all_words = split_words [] line;
          cmd = (case all_words of [] \<Rightarrow> [] | c # _ \<Rightarrow> c);
          args = tl all_words
      in if 3 < length args then (Some (reply [''KR ERR arguments'']), w)
      else if cmd = ''status'' \<and> args = [] then
        (let s = cw_runtime w in
         (Some (reply (ct_status T (runtime_snapshot s) (metrics (cw_net w)) (local_metrics (cw_net w))
            (level_remaining_ms s) (temperature_remaining_ms s))), w))
      else if (cmd = ''registers'' \<or> cmd = ''outputs'') \<and> args = [] then
        (case runtime_registers E (cw_runtime w) of
           (Ok registers, s) \<Rightarrow> (Some (registers_reply T registers), w\<lparr>cw_runtime := s\<rparr>)
         | (Err e, s) \<Rightarrow> (Some (error_reply T e), w\<lparr>cw_runtime := s\<rparr>)
         | (Panic, s) \<Rightarrow> (None, w\<lparr>cw_runtime := s\<rparr>))
      else if cmd = ''commissioning'' \<and> (args = [''code''] \<or> args = [''qr'']) then
        (case open_commissioning M (cw_matter w) of
           (Inl e, m) \<Rightarrow> (Some (reply [''KR ERR commissioning_window_'', ct_debug T e]), w\<lparr>cw_matter := m\<rparr>)
         | (Inr _, m) \<Rightarrow>
             (Some (if args = [''qr''] then reply [''KR OK qr_payload='', ct_pairing_qr T]
                    else reply [''KR OK pairing_code='', ct_pairing T]), w\<lparr>cw_matter := m\<rparr>))
      else
        (case light_command E cmd args (cw_runtime w) of
           None \<Rightarrow> (Some (reply [COMMANDS]), w)
         | Some (Ok _, s) \<Rightarrow> (Some (reply [''KR OK'']), w\<lparr>cw_runtime := s\<rparr>)
         | Some (Err e, s) \<Rightarrow> (Some (error_reply T e), w\<lparr>cw_runtime := s\<rparr>)
         | Some (Panic, s) \<Rightarrow> (None, w\<lparr>cw_runtime := s\<rparr>)))"

section \<open>Lines\<close>

datatype console_effect =
  Respond string | RespondAndFlush string | SignalRestart | ResetChip | SpinForever

record console =
  cl_line :: string
  cl_overflow :: bool

definition console_fresh :: console where
  "console_fresh = \<lparr>cl_line = [], cl_overflow = False\<rparr>"

text \<open>After a byte the console reads on, has reset the chip or stalled, or has panicked.\<close>

datatype console_state = Reading console | Stopped | Panicked

type_synonym ('k, 'h, 'w, 'm) console_run =
  "console_effect list \<times> console_state \<times> ('k, 'h, 'w, 'm) console_world"

definition console_line ::
  "console_text \<Rightarrow> ('k, 'h) runtime_env \<Rightarrow> 'm matter_ops \<Rightarrow> console \<Rightarrow> ('k, 'h, 'w, 'm) console_world
    \<Rightarrow> ('k, 'h, 'w, 'm) console_run" where
  "console_line T E M c w =
     (let word = trim (cl_line c);
          answer = (\<lambda>text w. ([Respond text], Reading console_fresh, w))
      in if cl_overflow c then answer (reply [''KR ERR line_too_long'']) w
      else if word = ''test wifi'' \<or> word = ''test network'' then
        (if \<not> mt_is_commissioned M (cw_matter w)
         then answer (reply [''KR ERR requires_commissioned_device'']) w
         else if word = ''test wifi'' then
           (case request_disconnect (cw_net w) of
              (Inr _, n) \<Rightarrow>
                answer (reply [''KR OK wifi_disconnect_requested intent_preserved=true'']) (w\<lparr>cw_net := n\<rparr>)
            | (Inl e, n) \<Rightarrow> answer (error_reply T e) (w\<lparr>cw_net := n\<rparr>))
         else
           ([RespondAndFlush (reply [''KR OK network_restart_requested intent_preserved=true'']), SignalRestart],
            Reading console_fresh, w\<lparr>cw_net := (cw_net w)\<lparr>n_restart := True\<rparr>\<rparr>))
      else if word = ''reboot'' then
        (case prepare_reboot E (cw_runtime w) of
           (off_verified, s) \<Rightarrow>
             ([RespondAndFlush (reply [''KR OK rebooting intent_preserved=true off_registers_verified='',
                 bool_text off_verified]), ResetChip], Stopped, w\<lparr>cw_runtime := s\<rparr>))
      else if word = ''test watchdog'' then
        (case watchdog_test_ready E (cw_runtime w) of
           (Ok _, s) \<Rightarrow>
             ([RespondAndFlush (reply [''KR OK watchdog_test reset_expected_seconds=15 intent_preserved=true'']),
               SpinForever], Stopped, w\<lparr>cw_runtime := s\<rparr>)
         | (Err e, s) \<Rightarrow> answer (error_reply T e) (w\<lparr>cw_runtime := s\<rparr>)
         | (Panic, s) \<Rightarrow> ([], Panicked, w\<lparr>cw_runtime := s\<rparr>))
      else
        (case console_command T E M (cl_line c) w of
           (None, w) \<Rightarrow> ([], Panicked, w)
         | (Some text, w) \<Rightarrow> answer text w))"

definition printable :: "u8 \<Rightarrow> bool" where
  "printable b \<longleftrightarrow> 0x20 \<le> b \<and> b \<le> 0x7e"

definition byte_char :: "u8 \<Rightarrow> char" where
  "byte_char b = char_of (unat b)"

definition console_push :: "u8 \<Rightarrow> console \<Rightarrow> console" where
  "console_push b c =
     (if printable b \<and> length (cl_line c) < LINE_CAPACITY
      then c\<lparr>cl_line := cl_line c @ [byte_char b]\<rparr> else c\<lparr>cl_overflow := True\<rparr>)"

definition console_byte ::
  "console_text \<Rightarrow> ('k, 'h) runtime_env \<Rightarrow> 'm matter_ops \<Rightarrow> u8 \<Rightarrow> console \<Rightarrow> ('k, 'h, 'w, 'm) console_world
    \<Rightarrow> ('k, 'h, 'w, 'm) console_run" where
  "console_byte T E M b c w =
     (if b = 0x0d then ([], Reading c, w)
      else if b = 0x0a then console_line T E M c w
      else ([], Reading (console_push b c), w))"

fun console_bytes ::
  "console_text \<Rightarrow> ('k, 'h) runtime_env \<Rightarrow> 'm matter_ops \<Rightarrow> u8 list \<Rightarrow> console \<Rightarrow> ('k, 'h, 'w, 'm) console_world
    \<Rightarrow> ('k, 'h, 'w, 'm) console_run" where
  "console_bytes T E M [] c w = ([], Reading c, w)"
| "console_bytes T E M (b # bs) c w =
     (case console_byte T E M b c w of
        (es, Reading c, w) \<Rightarrow>
          (case console_bytes T E M bs c w of (es', r, w) \<Rightarrow> (es @ es', r, w))
      | stopped \<Rightarrow> stopped)"

text \<open>\<open>run\<close> over the reads of the receiver: up to 64 bytes, or an error that is skipped.\<close>

fun console_reads ::
  "console_text \<Rightarrow> ('k, 'h) runtime_env \<Rightarrow> 'm matter_ops \<Rightarrow> (unit + u8 list) list \<Rightarrow> console
    \<Rightarrow> ('k, 'h, 'w, 'm) console_world \<Rightarrow> ('k, 'h, 'w, 'm) console_run" where
  "console_reads T E M [] c w = ([], Reading c, w)"
| "console_reads T E M (Inl _ # reads) c w = console_reads T E M reads c w"
| "console_reads T E M (Inr bs # reads) c w =
     (case console_bytes T E M bs c w of
        (es, Reading c, w) \<Rightarrow>
          (case console_reads T E M reads c w of (es', r, w) \<Rightarrow> (es @ es', r, w))
      | stopped \<Rightarrow> stopped)"

end
