(* ===== verification/Console_Props.thy ===== *)
theory Console_Props
  imports Console Runtime_Props
begin

text \<open>
  Properties of the USB console: how lines are assembled from the bytes read, that no input can
  panic the firmware or break the light runtime, and that the pairing credential of a
  commissioned lamp never reaches the port.
\<close>

section \<open>Lines\<close>

lemma printable_not_cr: "printable b \<Longrightarrow> b \<noteq> 0x0d \<and> b \<noteq> 0x0a"
  by (auto simp: printable_def)

lemma console_bytes_append:
  "console_bytes T E M (as @ bs) c w =
     (case console_bytes T E M as c w of
        (es, Reading c, w) \<Rightarrow>
          (case console_bytes T E M bs c w of (es', r, w) \<Rightarrow> (es @ es', r, w))
      | stopped \<Rightarrow> stopped)"
proof (induction as arbitrary: c w)
  case Nil
  then show ?case by (simp split: prod.split)
next
  case (Cons a as)
  obtain es r w' where b: "console_byte T E M a c w = (es, r, w')" by (metis prod_cases3)
  show ?case
    by (cases r) (auto simp: b Cons.IH split: prod.split console_state.split)
qed

definition keep_bytes :: "u8 list \<Rightarrow> u8 list" where
  "keep_bytes bs = filter (\<lambda>b. b \<noteq> 0x0d) bs"

definition line_fits :: "u8 list \<Rightarrow> bool" where
  "line_fits bs \<longleftrightarrow> length bs \<le> LINE_CAPACITY \<and> (\<forall>b \<in> set bs. printable b)"

lemma console_bytes_line:
  assumes "0x0a \<notin> set bs"
  shows "console_bytes T E M bs c w = ([], Reading (fold console_push (keep_bytes bs) c), w)"
  using assms
  by (induction bs arbitrary: c) (auto simp: console_byte_def keep_bytes_def)

lemma console_push_overflow [simp]:
  "cl_overflow c \<Longrightarrow> cl_overflow (fold console_push bs c)"
  by (induction bs arbitrary: c) (auto simp: console_push_def)

lemma console_push_fold:
  assumes "\<not> cl_overflow c" "length (cl_line c) \<le> LINE_CAPACITY"
  shows "fold console_push bs c =
      \<lparr>cl_line = cl_line c @ map byte_char bs, cl_overflow = False\<rparr> \<and>
      length (cl_line c) + length bs \<le> LINE_CAPACITY \<and> (\<forall>b \<in> set bs. printable b) \<or>
    cl_overflow (fold console_push bs c) \<and>
      \<not> (length (cl_line c) + length bs \<le> LINE_CAPACITY \<and> (\<forall>b \<in> set bs. printable b))"
  using assms
proof (induction bs arbitrary: c)
  case Nil
  then show ?case by simp
next
  case (Cons b bs)
  show ?case
  proof (cases "printable b \<and> length (cl_line c) < LINE_CAPACITY")
    case True
    then show ?thesis using Cons.IH [of "console_push b c"] Cons.prems by (auto simp: console_push_def)
  next
    case False
    then have "cl_overflow (console_push b c)" by (auto simp: console_push_def)
    then have "cl_overflow (fold console_push (b # bs) c)" by simp
    then show ?thesis using False by auto
  qed
qed

text \<open>What the reads of a chunked stream deliver, and the reads that were errors skipped.\<close>

definition delivered :: "(unit + u8 list) list \<Rightarrow> u8 list" where
  "delivered reads = concat (map (\<lambda>r. case r of Inl _ \<Rightarrow> [] | Inr bs \<Rightarrow> bs) reads)"

lemma delivered_simps [simp]:
  "delivered [] = []" "delivered (Inl u # reads) = delivered reads"
  "delivered (Inr bs # reads) = bs @ delivered reads"
  by (simp_all add: delivered_def)

lemma console_reads_delivered:
  "console_reads T E M reads c w = console_bytes T E M (delivered reads) c w"
proof (induction reads arbitrary: c w)
  case (Cons r reads)
  then show ?case
    by (cases r) (simp_all add: console_bytes_append split: prod.split console_state.split)
qed simp

section \<open>The calls of the runtime\<close>

lemma light_command_op:
  assumes "light_command E cmd args s = Some m"
  shows "(\<exists>op. op_ok op \<and> m = run_op E op s) \<or> m = (Err ConstraintError, s)"
proof -
  have p: "op_ok (OpRequest (preset_state p))" for p
    by (cases p) (simp_all add: preset_state_def state_ok_def light_default_def temperature_ok_def)
  have calls: "op_ok OpOff" "op_ok (OpSetPower True)" "op_ok OpVerify" by simp_all
  have l: "\<exists>op. op_ok op \<and> set_level E l False s = run_op E op s"
    if "level_argument v = Some l" for v l
    using that by (intro exI [of _ "OpSetLevel l False"]) (auto simp: level_argument_def bind_eq_Some_conv)
  have t: "\<exists>op. op_ok op \<and> set_temperature E u s = run_op E op s"
    if "temperature_argument v = Some u" for v u
    using that by (intro exI [of _ "OpSetTemperature u"])
      (auto simp: temperature_argument_def bind_eq_Some_conv)
  from assms p [of PresetOne] p [of PresetTwo] calls show ?thesis
    unfolding light_command_def
    by (auto split: if_splits option.splits simp del: op_ok.simps
        intro: l t exI [of _ OpOff] exI [of _ "OpSetPower True"] exI [of _ OpVerify]
          exI [of _ "OpRequest (preset_state PresetOne)"] exI [of _ "OpRequest (preset_state PresetTwo)"])
qed

lemma call_keeps_reachable:
  assumes "reachable E s" "op_ok op" "run_op E op s = (r, t)"
  shows "r \<noteq> Panic \<and> reachable E t"
proof
  have "safe (run_op E op s)" by (rule run_op_safe [OF reachable_ok [OF assms(1)] assms(2)])
  then show "r \<noteq> Panic" using assms(3) by (simp add: safe_def)
  show "reachable E t" by (rule reachable.call [OF assms])
qed

lemma light_command_keeps:
  assumes "reachable E s" "light_command E cmd args s = Some (r, t)"
  shows "r \<noteq> Panic \<and> reachable E t"
  using light_command_op [OF assms(2)] assms(1)
  by (auto dest: call_keeps_reachable [OF assms(1) _ sym])

lemma registers_keeps:
  assumes "reachable E s" "runtime_registers E s = (r, t)"
  shows "r \<noteq> Panic \<and> reachable E t"
proof -
  obtain r' where n: "run_op E OpRegisters s = (r', t)" "r = Panic \<Longrightarrow> r' = Panic"
    using assms(2) by (cases r) (auto simp: no_data_def)
  then show ?thesis using call_keeps_reachable [OF assms(1) _ n(1)] by auto
qed

lemma console_command_keeps:
  assumes "reachable E (cw_runtime w)" "console_command T E M line w = (text, w')"
  shows "text \<noteq> None \<and> reachable E (cw_runtime w')"
  using assms(2,1) unfolding console_command_def Let_def
  by (auto split: if_splits prod.splits outcome.splits option.splits sum.splits
      dest: registers_keeps [OF assms(1)] light_command_keeps [OF assms(1)])

lemma watchdog_test_keeps:
  assumes "reachable E s" "watchdog_test_ready E s = (r, t)"
  shows "r \<noteq> Panic \<and> reachable E t"
  using call_keeps_reachable [OF assms(1), of OpWatchdogTest] assms(2) by simp

lemma prepare_reboot_keeps:
  assumes "reachable E s" "prepare_reboot E s = (v, t)"
  shows "reachable E t"
  using call_keeps_reachable [OF assms(1), of OpPrepareReboot] assms(2) by simp

lemma console_line_keeps:
  assumes "reachable E (cw_runtime w)" "console_line T E M c w = (es, r, w')"
  shows "r \<noteq> Panicked \<and> reachable E (cw_runtime w')"
  using assms(2,1) unfolding console_line_def Let_def
  by (auto split: if_splits prod.splits outcome.splits option.splits sum.splits
      dest: console_command_keeps [OF assms(1)] watchdog_test_keeps [OF assms(1)]
        prepare_reboot_keeps [OF assms(1)])

lemma console_bytes_keeps:
  assumes "reachable E (cw_runtime w)" "console_bytes T E M bs c w = (es, r, w')"
  shows "r \<noteq> Panicked \<and> reachable E (cw_runtime w')"
  using assms
proof (induction bs arbitrary: c w es)
  case (Cons b bs)
  obtain es1 r1 w1 where b: "console_byte T E M b c w = (es1, r1, w1)" by (metis prod_cases3)
  then have "r1 \<noteq> Panicked \<and> reachable E (cw_runtime w1)"
    using console_line_keeps [OF Cons.prems(1), of T M c es1 r1 w1] Cons.prems(1)
    by (cases r1) (auto simp: console_byte_def split: if_splits)
  then show ?case using Cons b by (cases r1) (auto split: prod.splits)
qed auto

section \<open>Commands as text\<close>

lemma split_words_plain:
  "\<forall>c \<in> set s. \<not> ascii_space c \<Longrightarrow> split_words w s = (if w @ s = [] then [] else [w @ s])"
  by (induction s arbitrary: w) auto

lemma split_words_space:
  "\<forall>c \<in> set s. \<not> ascii_space c \<Longrightarrow>
     split_words w (s @ CHR '' '' # r) = (if w @ s = [] then [] else [w @ s]) @ split_words [] r"
  by (induction s arbitrary: w) (auto simp: ascii_space_def)

lemma trim_plain:
  assumes "\<not> ascii_space c" "\<not> ascii_space d"
  shows "trim (c # s @ [d]) = c # s @ [d]"
  using assms by (simp add: trim_def)

lemma digit_not_space: "is_digit c \<Longrightarrow> \<not> ascii_space c"
  by (auto simp: is_digit_def ascii_space_def)

definition bytes_of :: "string \<Rightarrow> u8 list" where
  "bytes_of s = map of_char s"

lemma unat_of_char: "unat (of_char c :: u8) = of_char c"
proof -
  have "unat (of_nat (of_char c) :: u8) = of_char c" by (simp only: unat_of_nat) simp
  moreover have "of_nat (of_char c) = (of_char c :: u8)" by (rule of_nat_of_char)
  ultimately show ?thesis by (simp only:)
qed

lemma byte_char_of_char [simp]: "byte_char (of_char c) = c"
  by (simp add: byte_char_def unat_of_char)

lemma printable_of_char: "printable (of_char c) \<longleftrightarrow> 32 \<le> (of_char c :: nat) \<and> (of_char c :: nat) \<le> 126"
  by (simp add: printable_def word_le_nat_alt unat_of_char)

text \<open>A printable line, sent whole with its newline, is the line the console runs.\<close>

lemma console_reads_text:
  assumes "\<forall>c \<in> set s. printable (of_char c)" "length s \<le> LINE_CAPACITY"
  shows "console_reads T E M [Inr (bytes_of s @ [0x0a])] console_fresh w =
    console_line T E M \<lparr>cl_line = s, cl_overflow = False\<rparr> w"
proof -
  have "\<not> printable 0x0a" "\<not> printable 0x0d" by (simp_all add: printable_def)
  then have n: "0x0a \<notin> set (bytes_of s)" "keep_bytes (bytes_of s) = bytes_of s"
    using assms(1) by (force simp: bytes_of_def keep_bytes_def filter_id_conv)+
  have "fold console_push (bytes_of s) console_fresh = \<lparr>cl_line = s, cl_overflow = False\<rparr>"
    using console_push_fold [of console_fresh "bytes_of s"] assms
    by (auto simp: console_fresh_def bytes_of_def o_def)
  then show ?thesis
    by (simp add: console_reads_delivered console_bytes_append console_bytes_line [OF n(1)] n(2)
        console_byte_def split: prod.split console_state.split)
qed

lemma level_words:
  "split_words [] (''level '' @ decimal n) = [''level'', decimal n]"
  "trim (''level '' @ decimal n) = ''level '' @ decimal n"
  "\<forall>c \<in> set (''level '' @ decimal n). printable (of_char c)"
proof -
  have d: "\<forall>c \<in> set (decimal n). \<not> ascii_space c" using decimal_digits digit_not_space by blast
  show "split_words [] (''level '' @ decimal n) = [''level'', decimal n]"
    using split_words_space [of "''level''" "[]" "decimal n"] split_words_plain [OF d, of "[]"]
    by (simp add: ascii_space_def)
  obtain ds e where e: "decimal n = ds @ [e]" by (metis decimal_nonempty rev_exhaust)
  then have "\<not> ascii_space e" using d by simp
  then show "trim (''level '' @ decimal n) = ''level '' @ decimal n"
    using trim_plain [of "CHR ''l''" e "''evel '' @ ds"] e by (simp add: ascii_space_def)
  have "printable (of_char c)" if "c \<in> set (decimal n)" for c
    using decimal_digits [OF that] by (simp add: printable_of_char is_digit_def)
  then show "\<forall>c \<in> set (''level '' @ decimal n). printable (of_char c)"
    by (auto simp: printable_of_char)
qed

text \<open>Only a call that succeeded is answered \<open>KR OK\<close> alone.\<close>

lemma error_reply_not_ok: "error_reply T e \<noteq> ''KR OK''"
  by (auto simp: error_reply_def reply_def REPLY_CAPACITY_def)

lemma level_argument_decimal:
  "1 \<le> n \<Longrightarrow> n \<le> 254 \<Longrightarrow> level_argument (decimal n) = Some (Level (of_nat n))"
  by (simp add: level_argument_def parse_u8_decimal level_ok_def unat_of_nat)

lemma console_level_line:
  assumes "1 \<le> n" "n \<le> 254"
    and "run_op E (OpSetLevel (Level (of_nat n)) False) (cw_runtime w) = (r, t)" "r \<noteq> Panic"
  shows "console_line T E M \<lparr>cl_line = ''level '' @ decimal n, cl_overflow = False\<rparr> w =
    ([Respond (case r of Ok _ \<Rightarrow> ''KR OK'' | Err e \<Rightarrow> error_reply T e | Panic \<Rightarrow> [])],
     Reading console_fresh, w\<lparr>cw_runtime := t\<rparr>)"
proof -
  have "console_command T E M (''level '' @ decimal n) w =
      (Some (case r of Ok _ \<Rightarrow> ''KR OK'' | Err e \<Rightarrow> error_reply T e | Panic \<Rightarrow> []), w\<lparr>cw_runtime := t\<rparr>)"
    using assms unfolding console_command_def level_words
    by (auto simp: Let_def light_command_def level_argument_decimal reply_def REPLY_CAPACITY_def
        split: outcome.splits)
  then show ?thesis using level_words(2) [of n] by (simp add: console_line_def Let_def)
qed

lemma console_level_reads:
  assumes "1 \<le> n" "n \<le> 254"
    and "run_op E (OpSetLevel (Level (of_nat n)) False) (cw_runtime w) = (r, t)" "r \<noteq> Panic"
  shows "console_reads T E M [Inr (bytes_of (''level '' @ decimal n) @ [0x0a])] console_fresh w =
    ([Respond (case r of Ok _ \<Rightarrow> ''KR OK'' | Err e \<Rightarrow> error_reply T e | Panic \<Rightarrow> [])],
     Reading console_fresh, w\<lparr>cw_runtime := t\<rparr>)"
proof -
  have "length (decimal n) \<le> 3"
    using assms(2) by (subst decimal.simps, subst decimal.simps, subst decimal.simps) simp
  then have "length (''level '' @ decimal n) \<le> LINE_CAPACITY" by (simp add: LINE_CAPACITY_def)
  from console_reads_text [OF level_words(3) this] console_level_line [OF assms]
  show ?thesis by (rule trans)
qed

section \<open>The credential\<close>

lemma replies_ignore_pairing:
  "ct_debug (T\<lparr>ct_pairing := p, ct_pairing_qr := q\<rparr>) = ct_debug T"
  "ct_status (T\<lparr>ct_pairing := p, ct_pairing_qr := q\<rparr>) = ct_status T"
  "error_reply (T\<lparr>ct_pairing := p, ct_pairing_qr := q\<rparr>) e = error_reply T e"
  "registers_reply (T\<lparr>ct_pairing := p, ct_pairing_qr := q\<rparr>) bytes = registers_reply T bytes"
  by (simp_all add: error_reply_def registers_reply_def)

lemma commissioned_window_stays_shut:
  "mt_is_commissioned M m \<Longrightarrow> open_commissioning M m = (Inl InvalidState, m)"
  by (simp add: open_commissioning_def)

lemma console_command_secret:
  assumes "mt_is_commissioned M (cw_matter w)"
  shows "console_command (T\<lparr>ct_pairing := p, ct_pairing_qr := q\<rparr>) E M line w = console_command T E M line w"
    and "cw_matter (snd (console_command T E M line w)) = cw_matter w"
proof -
  show "console_command (T\<lparr>ct_pairing := p, ct_pairing_qr := q\<rparr>) E M line w = console_command T E M line w"
    unfolding console_command_def Let_def commissioned_window_stays_shut [OF assms] prod.case sum.case
      replies_ignore_pairing ..
  show "cw_matter (snd (console_command T E M line w)) = cw_matter w"
    unfolding console_command_def Let_def commissioned_window_stays_shut [OF assms] prod.case sum.case
    by (auto split: prod.split outcome.split option.split)
qed

lemma console_line_secret:
  assumes "mt_is_commissioned M (cw_matter w)"
  shows "console_line (T\<lparr>ct_pairing := p, ct_pairing_qr := q\<rparr>) E M c w = console_line T E M c w"
    and "cw_matter (snd (snd (console_line T E M c w))) = cw_matter w"
proof -
  show "console_line (T\<lparr>ct_pairing := p, ct_pairing_qr := q\<rparr>) E M c w = console_line T E M c w"
    unfolding console_line_def Let_def console_command_secret(1) [OF assms] replies_ignore_pairing ..
  obtain answer w2 where c: "console_command T E M (cl_line c) w = (answer, w2)" by fastforce
  then have "cw_matter w2 = cw_matter w"
    using console_command_secret(2) [OF assms, of T E "cl_line c"] by simp
  then show "cw_matter (snd (snd (console_line T E M c w))) = cw_matter w"
    by (cases answer) (auto simp: console_line_def Let_def c split: prod.split outcome.split sum.split)
qed

lemma console_bytes_secret:
  assumes "mt_is_commissioned M (cw_matter w)"
  shows "console_bytes (T\<lparr>ct_pairing := p, ct_pairing_qr := q\<rparr>) E M bs c w = console_bytes T E M bs c w"
  using assms
proof (induction bs arbitrary: c w)
  case (Cons b bs)
  obtain es r w' where b: "console_byte T E M b c w = (es, r, w')" by (metis prod_cases3)
  moreover have "console_byte (T\<lparr>ct_pairing := p, ct_pairing_qr := q\<rparr>) E M b c w = (es, r, w')"
    using b by (simp add: console_byte_def console_line_secret(1) [OF Cons.prems] split: if_splits)
  moreover have "cw_matter w' = cw_matter w"
    using b console_line_secret(2) [OF Cons.prems, of T E c] by (auto simp: console_byte_def split: if_splits)
  ultimately show ?case using Cons by (cases r) (simp_all split: prod.split)
qed simp

section \<open>Properties\<close>


text \<open>No console input can break the firmware: from every reachable state of the light runtime
  and any console and network state, whatever is read, the console never panics and leaves the
  runtime in a reachable state, so every property of reachable states holds on.\<close>

theorem console_input_is_safe:
  assumes "reachable E (cw_runtime w)"
  shows "case console_reads T E M reads c w of
      (effects, state, w') \<Rightarrow> state \<noteq> Panicked \<and> reachable E (cw_runtime w')"
  using console_bytes_keeps [OF assms]
  by (auto simp: console_reads_delivered split: prod.split)

text \<open>C23. The console of a commissioned lamp never discloses its credential: whatever is read, its
  effects and every later state are the same for any two pairing codes and QR payloads, so no
  response depends on them.\<close>

theorem commissioned_console_keeps_credential:
  assumes "mt_is_commissioned M (cw_matter w)"
  shows "console_reads (T\<lparr>ct_pairing := p, ct_pairing_qr := q\<rparr>) E M reads c w =
    console_reads T E M reads c w"
  by (simp add: console_reads_delivered console_bytes_secret [OF assms])

section \<open>The bench console\<close>

text \<open>
  The bench behind its console: a commissioned lamp, whose window no call opens. The text of
  \<open>Debug\<close> and of \<open>status\<close> is immaterial.
\<close>

definition bench_matter :: "bool matter_ops" where
  "bench_matter = \<lparr>mt_is_commissioned = (\<lambda>m. m), mt_close_window = (\<lambda>m. (Inr (), m)),
     mt_open_window = (\<lambda>_ m. (Inr (), m))\<rparr>"

definition bench_text :: console_text where
  "bench_text = \<lparr>ct_debug = (\<lambda>_. ''error''), ct_mode = ''simulation'',
     ct_status = (\<lambda>_ _ _ _ _. [''KR OK'']), ct_pairing = ''code'', ct_pairing_qr = ''qr''\<rparr>"

definition bench_world :: "bool \<Rightarrow> (test_store, simulated_output, unit, bool) console_world" where
  "bench_world commissioned =
     \<lparr>cw_runtime = bench_lit, cw_net = net_boot (), cw_matter = commissioned\<rparr>"

text \<open>\<open>off\<close> and its newline, split over two reads with a failed one between.\<close>

definition bench_reads :: "(unit + u8 list) list" where
  "bench_reads = [Inr [0x6f, 0x66], Inl (), Inr [0x66, 0x0d, 0x0a]]"


lemma console_input_is_safe_witness:
  "case console_reads bench_text (bench_env 0) bench_matter bench_reads console_fresh (bench_world True) of
     (effects, state, w') \<Rightarrow> state \<noteq> Panicked \<and> reachable (bench_env 0) (cw_runtime w')"
  using console_input_is_safe [of "bench_env 0" "bench_world True" bench_text bench_matter bench_reads console_fresh]
    bench_lit_reachable by (simp add: bench_world_def)

text \<open>\<open>commissioning code\<close> on a commissioned lamp.\<close>

lemma commissioned_console_keeps_credential_witness:
  "console_reads (bench_text\<lparr>ct_pairing := ''other'', ct_pairing_qr := ''code''\<rparr>) (bench_env 0) bench_matter
      [Inr (bytes_of ''commissioning code'' @ [0x0a])] console_fresh (bench_world True) =
    console_reads bench_text (bench_env 0) bench_matter
      [Inr (bytes_of ''commissioning code'' @ [0x0a])] console_fresh (bench_world True)"
  by (rule commissioned_console_keeps_credential) (simp add: bench_matter_def bench_world_def)

end
