(* ===== verification/Usb_Log.thy ===== *)
theory Usb_Log
  imports Text_Format "HOL-Library.Sublist"
begin

text \<open>
  The USB output queue of \<open>firmware/app/src/output.rs\<close>: a channel of sixteen records that logs
  enter without waiting and responses by waiting, two counters of dropped logs, the flush signal,
  and the writer task with the chunks it hands to the port. The errors of the port are ignored
  by the source and do not show here. A run is a sequence of steps in which a waiting sender
  moves only when there is room and the writer only when there is a record.
\<close>

section \<open>The queue\<close>

datatype log_level = LogError | LogWarn | LogInfo | LogDebug | LogTrace

primrec level_rank :: "log_level \<Rightarrow> nat" where
  "level_rank LogError = 1"
| "level_rank LogWarn = 2"
| "level_rank LogInfo = 3"
| "level_rank LogDebug = 4"
| "level_rank LogTrace = 5"

primrec level_text :: "log_level \<Rightarrow> string" where
  "level_text LogError = ''ERROR''"
| "level_text LogWarn = ''WARN''"
| "level_text LogInfo = ''INFO''"
| "level_text LogDebug = ''DEBUG''"
| "level_text LogTrace = ''TRACE''"

record log_record =
  lr_level :: log_level
  lr_target :: string
  lr_args :: "string list"

record out_record =
  or_line :: string
  or_flush :: bool

datatype out_chunk = DroppedNotice u32 | Line string

record usb_log =
  ul_lines :: "out_record list"
  ul_dropped :: u32
  ul_total_dropped :: u32
  ul_flushed :: bool
  ul_out :: "out_chunk list"

definition LINES_CAPACITY :: nat where "LINES_CAPACITY = 16"

definition usb_log_init :: usb_log where
  "usb_log_init =
     \<lparr>ul_lines = [], ul_dropped = 0, ul_total_dropped = 0, ul_flushed = False, ul_out = []\<rparr>"

definition log_enabled :: "log_record \<Rightarrow> bool" where
  "log_enabled r \<longleftrightarrow> level_rank (lr_level r) \<le> level_rank LogInfo \<and> lr_target r \<noteq> ''rs_matter''"

definition log_line :: "log_record \<Rightarrow> string" where
  "log_line r = write_pieces 1024 ([''['', level_text (lr_level r), ''] ''] @ lr_args r) []"

definition usb_log_record :: "log_record \<Rightarrow> usb_log \<Rightarrow> usb_log" where
  "usb_log_record r s =
     (if \<not> log_enabled r then s
      else if length (ul_lines s) < LINES_CAPACITY
      then s\<lparr>ul_lines := ul_lines s @ [\<lparr>or_line = log_line r, or_flush = False\<rparr>]\<rparr>
      else s\<lparr>ul_dropped := ul_dropped s + 1, ul_total_dropped := ul_total_dropped s + 1\<rparr>)"

text \<open>The awaited \<open>send\<close>, once there is room: of \<open>response\<close>, and of \<open>response_and_flush\<close>.\<close>

definition usb_send :: "string \<Rightarrow> bool \<Rightarrow> usb_log \<Rightarrow> usb_log" where
  "usb_send line flush s = s\<lparr>ul_lines := ul_lines s @ [\<lparr>or_line = line, or_flush = flush\<rparr>]\<rparr>"

definition usb_reset_flushed :: "usb_log \<Rightarrow> usb_log" where
  "usb_reset_flushed s = s\<lparr>ul_flushed := False\<rparr>"

definition usb_log_dropped :: "usb_log \<Rightarrow> u32" where
  "usb_log_dropped s = ul_total_dropped s"

text \<open>One turn of \<open>writer_task\<close> on the record it receives.\<close>

definition writer_turn :: "out_record \<Rightarrow> usb_log \<Rightarrow> usb_log" where
  "writer_turn r s =
     (let dropped = ul_dropped s;
          s = s\<lparr>ul_dropped := 0\<rparr>;
          s = (if dropped \<noteq> 0 then s\<lparr>ul_out := ul_out s @ [DroppedNotice dropped]\<rparr> else s);
          s = s\<lparr>ul_out := ul_out s @ [Line (or_line r)]\<rparr>
      in if or_flush r then s\<lparr>ul_flushed := True\<rparr> else s)"

definition chunk_text :: "out_chunk \<Rightarrow> string" where
  "chunk_text c =
     (case c of
        DroppedNotice n \<Rightarrow>
          write_pieces 64 [''[WARN] USB logs dropped: '', decimal (unat n), [CHR 0x0A]] []
      | Line text \<Rightarrow> text @ [CHR 0x0A])"

section \<open>Runs\<close>

datatype log_event = Logged log_record | ResetFlushed | Sent string bool | Wrote

inductive log_run :: "log_event list \<Rightarrow> usb_log \<Rightarrow> bool" where
  start: "log_run [] usb_log_init"
| log: "log_run es s \<Longrightarrow> log_run (es @ [Logged r]) (usb_log_record r s)"
| reset: "log_run es s \<Longrightarrow> log_run (es @ [ResetFlushed]) (usb_reset_flushed s)"
| send: "log_run es s \<Longrightarrow> length (ul_lines s) < LINES_CAPACITY \<Longrightarrow>
    log_run (es @ [Sent line flush]) (usb_send line flush s)"
| writer: "log_run es s \<Longrightarrow> ul_lines s = r # rs \<Longrightarrow>
    log_run (es @ [Wrote]) (writer_turn r (s\<lparr>ul_lines := rs\<rparr>))"

definition lines_out :: "usb_log \<Rightarrow> string list" where
  "lines_out s =
     concat (map (\<lambda>c. case c of DroppedNotice _ \<Rightarrow> [] | Line text \<Rightarrow> [text]) (ul_out s)) @
     map or_line (ul_lines s)"

definition noticed :: "usb_log \<Rightarrow> u32" where
  "noticed s = sum_list (map (\<lambda>c. case c of DroppedNotice n \<Rightarrow> n | Line _ \<Rightarrow> 0) (ul_out s))"

definition responses :: "log_event list \<Rightarrow> string list" where
  "responses es = concat (map (\<lambda>e. case e of Sent line _ \<Rightarrow> [line] | _ \<Rightarrow> []) es)"

definition log_lines :: "log_event list \<Rightarrow> string list" where
  "log_lines es = concat (map (\<lambda>e. case e of Logged r \<Rightarrow> if log_enabled r then [log_line r] else []
     | Sent line _ \<Rightarrow> [line] | _ \<Rightarrow> []) es)"

lemma usb_log_simps [simp]:
  "lines_out (usb_send line flush s) = lines_out s @ [line]"
  "lines_out (usb_reset_flushed s) = lines_out s"
  "ul_lines s = q # rs \<Longrightarrow> lines_out (writer_turn q (s\<lparr>ul_lines := rs\<rparr>)) = lines_out s"
  "lines_out (usb_log_record r s) =
     (if log_enabled r \<and> length (ul_lines s) < LINES_CAPACITY then lines_out s @ [log_line r] else lines_out s)"
  by (simp_all add: lines_out_def usb_send_def usb_reset_flushed_def writer_turn_def Let_def usb_log_record_def)

lemma event_simps [simp]:
  "responses [] = []" "log_lines [] = []"
  "responses (es @ [Sent line flush]) = responses es @ [line]"
  "responses (es @ [Logged r]) = responses es" "responses (es @ [ResetFlushed]) = responses es"
  "responses (es @ [Wrote]) = responses es"
  "log_lines (es @ [Sent line flush]) = log_lines es @ [line]"
  "log_lines (es @ [Logged r]) = log_lines es @ (if log_enabled r then [log_line r] else [])"
  "log_lines (es @ [ResetFlushed]) = log_lines es" "log_lines (es @ [Wrote]) = log_lines es"
  by (simp_all add: responses_def log_lines_def)

lemma log_run_room: "log_run es s \<Longrightarrow> length (ul_lines s) \<le> LINES_CAPACITY"
  by (induction rule: log_run.induct)
    (auto simp: usb_log_init_def usb_log_record_def usb_reset_flushed_def usb_send_def writer_turn_def Let_def)

lemma log_run_order: "log_run es s \<Longrightarrow> subseq (lines_out s) (log_lines es)"
  by (induction rule: log_run.induct)
    (auto simp: list_emb_append_mono intro: subseq_rev_drop_many, simp add: usb_log_init_def lines_out_def)

lemma log_run_responses: "log_run es s \<Longrightarrow> subseq (responses es) (lines_out s)"
  by (induction rule: log_run.induct) (auto intro: subseq_rev_drop_many list_emb_append_mono)

lemma log_run_total:
  "log_run es s \<Longrightarrow> of_nat (length (log_lines es)) = of_nat (length (lines_out s)) + ul_total_dropped s \<and>
     noticed s + ul_dropped s = ul_total_dropped s"
  by (induction rule: log_run.induct)
    (auto simp: usb_log_init_def usb_log_record_def usb_reset_flushed_def usb_send_def writer_turn_def
      Let_def noticed_def lines_out_def algebra_simps)



end
