(* ===== verification/Cli.thy ===== *)
theory Cli
  imports Text_Format Controller Pca9635
begin

text \<open>
  The simulator of \<open>firmware/cli/src/main.rs\<close>: its output that always accepts, the parser of
  one word, the report line and the session, down to the exit code of \<open>main\<close>. A run is the
  lines it prints, the error it returns, or the panic of a failed \<open>expect\<close>. The package
  version that cargo supplies is an argument. Against it stands \<open>expected_session\<close>, what a
  session must report.
\<close>

section \<open>The program\<close>

definition USAGE :: string where
  "USAGE =
     ''Usage: key-right simulate [on|off|level=N|mired=N|preset-1|preset-2]...'' @ CHR 0x0A #
     ''Runs one in-memory session, starting off at level57/mired303.'' @ CHR 0x0A #
     ''Level is 1..254, mapped to nominal stock brightness 1..10%; mired is 143..344.'' @ CHR 0x0A #
     ''This simulator performs no device or network I/O.'' @ CHR 0x0A #
     ''Use scripts/device.py for the native USB console.''"

record cli_output =
  co_writes :: u64

definition cli_output_default :: cli_output where
  "cli_output_default = \<lparr>co_writes = 0\<rparr>"

text \<open>The error type \<open>Infallible\<close> has no values; its place in the sum is never taken.\<close>

definition cli_apply_frame :: "output_frame \<Rightarrow> cli_output \<Rightarrow> (unit + unit) \<times> cli_output" where
  "cli_apply_frame frame out = (Inr (), out\<lparr>co_writes := co_writes out + 1\<rparr>)"

definition strip_prefix :: "string \<Rightarrow> string \<Rightarrow> string option" where
  "strip_prefix p s = (if take (length p) s = p then Some (drop (length p) s) else None)"

definition parse_command :: "string \<Rightarrow> string + command" where
  "parse_command v =
     (if v = ''on'' then Inr (SetPower True)
      else if v = ''off'' then Inr (SetPower False)
      else if v = ''preset-1'' then Inr (SelectPreset PresetOne)
      else if v = ''preset-2'' then Inr (SelectPreset PresetTwo)
      else
        (case strip_prefix ''level='' v of
           Some number \<Rightarrow>
             (case Option.bind (parse_u8 number) level_new of
                None \<Rightarrow> Inl ''level must be an integer from 1 to 254''
              | Some l \<Rightarrow> Inr (SetLevel l))
         | None \<Rightarrow>
             (case strip_prefix ''mired='' v of
                Some number \<Rightarrow>
                  (case Option.bind (parse_u16 number) temperature_new of
                     None \<Rightarrow> Inl ''mired must be an integer from 143 to 344''
                   | Some t \<Rightarrow> Inr (SetTemperature t))
              | None \<Rightarrow> Inl (''unknown command: '' @ v))))"

fun parse_commands :: "string list \<Rightarrow> string + command list" where
  "parse_commands [] = Inr []"
| "parse_commands (v # vs) =
     (case parse_command v of
        Inl e \<Rightarrow> Inl e
      | Inr c \<Rightarrow> (case parse_commands vs of Inl e \<Rightarrow> Inl e | Inr cs \<Rightarrow> Inr (c # cs)))"

definition report_line :: "light_state \<Rightarrow> light_state \<Rightarrow> u64 \<Rightarrow> string" where
  "report_line intended applied writes =
     (let (num, den) = stock_brightness_ratio (ls_level applied);
          frame = stock_frame applied
      in concat
        [''mode=simulation intended_on='', bool_text (ls_on intended),
         '' intended_level='', decimal (unat (level_get (ls_level intended))),
         '' intended_mired='', decimal (unat (temperature_get (ls_temperature intended))),
         '' applied_on='', bool_text (ls_on applied),
         '' applied_level='', decimal (unat (level_get (ls_level applied))),
         '' applied_mired='', decimal (unat (temperature_get (ls_temperature applied))),
         '' selected_stock_brightness_percent='', decimal (unat num), ''/'', decimal (unat den),
         '' raw_warm='', decimal (unat (frame ! 0)), '' raw_cool='', decimal (unat (frame ! 4)),
         '' output_writes='', decimal (unat writes)])"

definition cli_report :: "controller \<Rightarrow> cli_output \<Rightarrow> string option" where
  "cli_report c out =
     (case applied_state c of
        None \<Rightarrow> None
      | Some applied \<Rightarrow> Some (report_line (ctl_intended c) applied (co_writes out)))"

text \<open>Reconcile and report, then one command after another.\<close>

fun cli_session :: "command list \<Rightarrow> controller \<Rightarrow> cli_output \<Rightarrow> (string list, string) outcome" where
  "cli_session commands c out =
     (case controller_reconcile cli_apply_frame c out of
        (Inl _, _, _) \<Rightarrow> Panic
      | (Inr _, c, out) \<Rightarrow>
          (case cli_report c out of
             None \<Rightarrow> Panic
           | Some line \<Rightarrow>
               (case commands of
                  [] \<Rightarrow> Ok [line]
                | command # commands \<Rightarrow>
                    (case cli_session commands (snd (controller_command command c)) out of
                       Ok ls \<Rightarrow> Ok (line # ls)
                     | Err e \<Rightarrow> Err e
                     | Panic \<Rightarrow> Panic))))"

definition cli_run :: "string \<Rightarrow> string list \<Rightarrow> (string list, string) outcome" where
  "cli_run version args =
     (case args of
        [] \<Rightarrow> Ok [USAGE]
      | mode # values \<Rightarrow>
          (if values = [] \<and> (mode = ''--help'' \<or> mode = ''-h'') then Ok [USAGE]
           else if values = [] \<and> mode = ''--version'' then Ok [''key-right '' @ version]
           else if mode = ''simulate'' then
             (case parse_commands values of
                Inl e \<Rightarrow> Err e
              | Inr commands \<Rightarrow> cli_session commands (controller_new None) cli_output_default)
           else Err USAGE))"

text \<open>The exit code, the lines on standard output and those on standard error.\<close>

definition cli_main :: "string \<Rightarrow> string list \<Rightarrow> (nat \<times> string list \<times> string list) option" where
  "cli_main version args =
     (case cli_run version args of
        Ok ls \<Rightarrow> Some (0, ls, [])
      | Err e \<Rightarrow> Some (2, [], [e])
      | Panic \<Rightarrow> None)"

section \<open>What a session must report\<close>

definition commanded :: "command \<Rightarrow> light_state \<Rightarrow> light_state" where
  "commanded cmd s =
     (case cmd of
        SetPower on \<Rightarrow> s\<lparr>ls_on := on\<rparr>
      | SetLevel l \<Rightarrow> s\<lparr>ls_level := l\<rparr>
      | SetTemperature t \<Rightarrow> s\<lparr>ls_temperature := t\<rparr>
      | SelectPreset p \<Rightarrow> s\<lparr>ls_temperature := preset_temperature p\<rparr>)"

text \<open>The state after each command with the writes so far: one per change of the state.\<close>

fun expected_session :: "light_state \<Rightarrow> u64 \<Rightarrow> command list \<Rightarrow> (light_state \<times> u64) list" where
  "expected_session s n [] = [(s, n)]"
| "expected_session s n (cmd # cmds) =
     (s, n) # expected_session (commanded cmd s) (if commanded cmd s = s then n else n + 1) cmds"

section \<open>The simulator implements it\<close>

lemma from_state_eq [simp]: "from_state s = from_state t \<longleftrightarrow> s = t"
  by (auto simp: from_state_def)

text \<open>
  The controller between two commands: nothing applied yet, or the state before the last
  command, which every application so far has reached.
\<close>

lemma cli_reconcile_unapplied:
  "controller_reconcile cli_apply_frame \<lparr>ctl_intended = t, ctl_applied = None\<rparr> \<lparr>co_writes = n\<rparr> =
     (Inr True, \<lparr>ctl_intended = t, ctl_applied = Some (from_state t)\<rparr>, \<lparr>co_writes = n + 1\<rparr>)"
  by (simp add: controller_reconcile_def reconcile_frame_def Let_def cli_apply_frame_def)

lemma cli_reconcile_applied:
  "controller_reconcile cli_apply_frame \<lparr>ctl_intended = t, ctl_applied = Some (from_state s)\<rparr> \<lparr>co_writes = n\<rparr> =
     (Inr (t \<noteq> s), \<lparr>ctl_intended = t, ctl_applied = Some (from_state t)\<rparr>,
      \<lparr>co_writes = (if t = s then n else n + 1)\<rparr>)"
  by (auto simp: controller_reconcile_def reconcile_frame_def cli_apply_frame_def)

lemma controller_command_commanded:
  "snd (controller_command cmd \<lparr>ctl_intended = s, ctl_applied = a\<rparr>) =
     \<lparr>ctl_intended = commanded cmd s, ctl_applied = a\<rparr>"
  by (cases cmd) (simp_all add: controller_command_def Let_def commanded_def)

lemma of_state_from_state [simp]: "of_state (from_state s) = s"
  by (simp add: from_state_def)

definition session_line :: "light_state \<times> u64 \<Rightarrow> string" where
  "session_line e = report_line (fst e) (fst e) (snd e)"

lemma cli_session_step:
  assumes "controller_reconcile cli_apply_frame c \<lparr>co_writes = n\<rparr> =
      (Inr b, \<lparr>ctl_intended = t, ctl_applied = Some (from_state t)\<rparr>, \<lparr>co_writes = m\<rparr>)"
  shows "cli_session cmds c \<lparr>co_writes = n\<rparr> =
     (case cmds of
        [] \<Rightarrow> Ok [session_line (t, m)]
      | cmd # cmds \<Rightarrow>
          (case cli_session cmds \<lparr>ctl_intended = commanded cmd t, ctl_applied = Some (from_state t)\<rparr>
                  \<lparr>co_writes = m\<rparr> of
             Ok ls \<Rightarrow> Ok (session_line (t, m) # ls)
           | Err e \<Rightarrow> Err e
           | Panic \<Rightarrow> Panic))"
  by (subst cli_session.simps)
    (simp add: assms cli_report_def applied_state_def session_line_def controller_command_commanded
      split: list.split outcome.split del: cli_session.simps)

lemma cli_session_expected:
  "cli_session cmds \<lparr>ctl_intended = t, ctl_applied = Some (from_state s)\<rparr> \<lparr>co_writes = n\<rparr> =
     Ok (map session_line (expected_session t (if t = s then n else n + 1) cmds))"
  by (induction cmds arbitrary: s t n)
    (simp_all add: cli_session_step [OF cli_reconcile_applied] del: cli_session.simps)

lemma cli_session_first:
  "cli_session cmds \<lparr>ctl_intended = t, ctl_applied = None\<rparr> \<lparr>co_writes = n\<rparr> =
     Ok (map session_line (expected_session t (n + 1) cmds))"
  by (cases cmds)
    (simp_all add: cli_session_step [OF cli_reconcile_unapplied] cli_session_expected
      del: cli_session.simps)

lemma cli_session_start:
  "cli_session cmds (controller_new None) cli_output_default =
     Ok (map session_line (expected_session light_default 1 cmds))"
  using cli_session_first [of cmds light_default 0]
  by (simp add: controller_new_def cli_output_default_def del: cli_session.simps)

section \<open>Properties\<close>


text \<open>The numbers of a command are read exactly: a decimal, with a leading plus sign or
  without, is accepted precisely when it lies in the range of the newtype, with the value it
  denotes; any other number is that command's error.\<close>

theorem command_numbers_are_exact:
  "parse_command (''level='' @ (if with_plus then ''+'' else []) @ decimal n) =
     (if 1 \<le> n \<and> n \<le> 254 then Inr (SetLevel (Level (of_nat n)))
      else Inl ''level must be an integer from 1 to 254'') \<and>
   parse_command (''mired='' @ (if with_plus then ''+'' else []) @ decimal n) =
     (if 143 \<le> n \<and> n \<le> 344 then Inr (SetTemperature (ColorTemperature (of_nat n)))
      else Inl ''mired must be an integer from 143 to 344'')"
proof -
  have p: "parse_unsigned bound ((if with_plus then ''+'' else []) @ decimal n) =
      (if n < bound then Some n else None)" for bound
    using parse_digits_decimal [of bound n] parse_unsigned_decimal [of bound n]
    by (auto simp: parse_unsigned_def)
  have l: "Option.bind (parse_u8 ((if with_plus then ''+'' else []) @ decimal n)) level_new =
      (if 1 \<le> n \<and> n \<le> 254 then Some (Level (of_nat n)) else None)"
    by (auto simp: parse_u8_def p level_new_def level_MIN_def level_MAX_def word_le_nat_alt
        unat_of_nat)
  have t: "Option.bind (parse_u16 ((if with_plus then ''+'' else []) @ decimal n)) temperature_new =
      (if 143 \<le> n \<and> n \<le> 344 then Some (ColorTemperature (of_nat n)) else None)"
    by (auto simp: parse_u16_def p temperature_new_def temperature_MIN_def temperature_MAX_def
        word_le_nat_alt unat_of_nat)
  show ?thesis
    unfolding parse_command_def strip_prefix_def using l t by (simp del: level_new_Some)
qed

end
