(* ===== verification/Startup.thy ===== *)
theory Startup
  imports Boot Light_Safety
begin

text \<open>
  The start of the lamp: the first half of \<open>run\<close> in \<open>firmware/app/src/device_matter.rs\<close>, from the
  flash to the light that \<open>main\<close> then serves. Each storage step retries its I/O errors; any other
  error halts the lamp with its report and leaves the store alone. The partition reader, the
  store over a range of flash, rs-matter's loaders and its pairing encoder are parameters. What
  the hardware-light image adds for updates is not part of it.
\<close>

section \<open>The sequence\<close>

record ('f, 'k, 'r, 'm, 'c) start_ops =
  st_partition :: "'f \<Rightarrow> (partition_error + (partition_error + partition_entry option)) \<times> 'f"
  st_open :: "u32 \<times> u32 \<Rightarrow> 'f \<Rightarrow> 'k"
  st_random :: "'r \<Rightarrow> u32 \<times> 'r"
  st_emitted :: "u32 \<Rightarrow> u16 \<Rightarrow> u8 list \<Rightarrow> u8 list"
  st_as_str :: "u32 \<Rightarrow> u16 \<Rightarrow> u8 list \<Rightarrow> nat \<Rightarrow> error_code + u8 list"
  st_load_matter :: "'k \<Rightarrow> (error_code + 'm) \<times> 'k"
  st_load_scenes :: "'k \<Rightarrow> (error_code + 'c) \<times> 'k"

datatype halt_reason =
  PartitionUnavailable | CredentialFailed | QrFailed | MatterUnreadable | ScenesUnreadable

record ('k, 'h, 'c, 'm) started =
  sr_name :: "u8 list"
  sr_passcode :: u32
  sr_qr :: "u8 list"
  sr_matter :: 'm
  sr_light :: "('k, 'h, 'c) light_handler"

datatype 'a start_result = Started 'a | Halted halt_reason error_code | StartPanics

text \<open>A step that is retried: what follows runs on its value, any error that is left halts.\<close>

definition retried ::
  "('s \<Rightarrow> ((error_code + 'a) \<times> 's) option) \<Rightarrow> 's \<Rightarrow> halt_reason
    \<Rightarrow> ('a \<Rightarrow> 's \<Rightarrow> 'b start_result option) \<Rightarrow> 'b start_result option" where
  "retried operation s reason k =
     (case boot_restore operation s of
        None \<Rightarrow> None
      | Some (Inl e, _, _) \<Rightarrow> Some (Halted reason e)
      | Some (Inr a, _, s) \<Rightarrow> k a s)"

definition start_light ::
  "('k, 'h, 'c) light_env \<Rightarrow> ('f, 'k, 'r, 'm, 'c) start_ops \<Rightarrow> u8 list \<Rightarrow> u32 \<Rightarrow> u8 list \<Rightarrow> u32 list \<Rightarrow> 'h
    \<Rightarrow> 'k \<Rightarrow> ('k, 'h, 'c, 'm) started start_result option" where
  "start_light E S name passcode qr datavers hw kv =
     retried (\<lambda>kv. Some (st_load_matter S kv)) kv MatterUnreadable (\<lambda>matter kv.
       retried (\<lambda>kv. Some (st_load_scenes S kv)) kv ScenesUnreadable (\<lambda>scenes kv.
         (let scenes = le_scenable_attribute_changed E ENDPOINT scenes
          in case runtime_load (le_runtime E) kv hw of
               None \<Rightarrow> Some StartPanics
             | Some rt \<Rightarrow>
                 Some (Started \<lparr>sr_name = name, sr_passcode = passcode, sr_qr = qr, sr_matter = matter,
                   sr_light = light_new rt scenes datavers\<rparr>))))"

definition start_lamp ::
  "('k, 'h, 'c) light_env \<Rightarrow> ('f, 'k, 'r, 'm, 'c) start_ops \<Rightarrow> u8 list \<Rightarrow> u32 list \<Rightarrow> 'r \<Rightarrow> 'h \<Rightarrow> 'f
    \<Rightarrow> ('k, 'h, 'c, 'm) started start_result option" where
  "start_lamp E S mac datavers r hw flash =
     retried (\<lambda>f. Some (case st_partition S f of (table, f) \<Rightarrow> (nvs_range table, f))) flash
       PartitionUnavailable (\<lambda>range f.
       retried (\<lambda>(r, kv). commissioning_passcode (env_kv (le_runtime E))
             (COMMISSIONING_KEY (env_vendor_keys_start (le_runtime E))) (st_random S) r kv)
         (r, st_open S range f) CredentialFailed (\<lambda>passcode (r, kv).
         (case discovery_str (discovery_name mac) of
            None \<Rightarrow> Some StartPanics
          | Some name \<Rightarrow>
              (case qr_payload (st_emitted S passcode (discriminator mac) name)
                   (st_as_str S passcode (discriminator mac) name) 128 of
                 Inl e \<Rightarrow> Some (Halted QrFailed e)
               | Inr qr \<Rightarrow> start_light E S name passcode qr datavers hw kv))))"

section \<open>The discovery name\<close>

lemma ascii_utf8_valid: "\<forall>b \<in> set bs. b < 0x80 \<Longrightarrow> utf8_valid bs"
  by (induction bs) auto

lemma hex_digit_ascii:
  assumes "unat n < 16"
  shows "hex_digit n < 0x80"
proof -
  have "unat n \<in> set [0..<16]" using assms by simp
  then show ?thesis by (auto simp: hex_digit_def upt_rec)
qed

lemma discovery_name_six:
  assumes "length mac = 6"
  shows "discovery_name mac = [0x4b, 0x65, 0x79, 0x20, 0x52, 0x69, 0x67, 0x68, 0x74, 0x20,
     hex_digit (drop_bit 4 (mac ! 4)), hex_digit (mac ! 4 AND 0x0f),
     hex_digit (drop_bit 4 (mac ! 5)), hex_digit (mac ! 5 AND 0x0f)]"
proof -
  obtain a b c d e f where "mac = [a, b, c, d, e, f]"
    using assms by (auto simp: eval_nat_numeral length_Suc_conv)
  then show ?thesis by (simp add: discovery_name_def)
qed

lemma nibble_bound: "unat (drop_bit 4 (b :: u8)) < 16" "unat (b AND 0x0f :: u8) < 16"
proof -
  have "unat (drop_bit 4 b) = unat b div 16" by (simp add: drop_bit_eq_div unat_div)
  then show "unat (drop_bit 4 b) < 16" using unat_bound [of b] by simp
  have "b AND 0x0f = take_bit 4 b" by (simp add: take_bit_eq_mask mask_eq_exp_minus_1)
  then have "b AND 0x0f = b mod 16" by (simp add: take_bit_eq_mod)
  then show "unat (b AND 0x0f :: u8) < 16" by (simp add: unat_mod)
qed

lemma discovery_name_is_str:
  "length mac = 6 \<Longrightarrow> discovery_str (discovery_name mac) = Some (discovery_name mac)"
  by (simp add: discovery_str_def discovery_name_six ascii_utf8_valid hex_digit_ascii nibble_bound)

section \<open>Steps\<close>

text \<open>What every call of a retried operation keeps, holds where the start goes on or halts.\<close>

lemma retried_rule:
  assumes "retried operation s reason k = Some result" "I s"
    and keep: "\<And>u q v. I u \<Longrightarrow> operation u = Some (q, v) \<Longrightarrow> I v"
    and go: "\<And>a u v. I u \<Longrightarrow> I v \<Longrightarrow> operation u = Some (Inr a, v) \<Longrightarrow> k a v = Some result \<Longrightarrow> P"
    and halt: "\<And>e. result = Halted reason e \<Longrightarrow> e \<noteq> StdIoError \<Longrightarrow> P"
  shows P
proof -
  obtain q events t where b: "boot_restore operation s = Some (q, events, t)"
    using assms(1) by (cases "boot_restore operation s") (auto simp: retried_def)
  then obtain n where n: "other_after operation s n = Some (q, t)" by (rule boot_restore_result)
  then have "I t \<and> (\<exists>u. I u \<and> operation u = Some (q, t))"
    using assms(2) keep by (rule other_after_state [where I = I])
  then obtain u where u: "I u" "I t" "operation u = Some (q, t)" by blast
  have q: "q \<noteq> Inl StdIoError"
    using n by (induction n arbitrary: s) (auto split: option.splits if_splits)
  show P
  proof (cases q)
    case (Inl e)
    then show P using halt [of e] assms(1) b q by (simp add: retried_def)
  next
    case (Inr a)
    then show P using go [OF u(1,2)] u(3) assms(1) b by (simp add: retried_def)
  qed
qed

lemma commissioning_passcode_keeps_others:
  assumes "blob_store ops recs" "commissioning_passcode ops key random r kv = Some (q, r', kv')"
    "other \<noteq> key"
  shows "recs kv' other = recs kv other"
proof -
  obtain l k1 where l: "kv_load ops key kv = (l, k1)" by fastforce
  then have "recs k1 = recs kv" using blob_store.load_keeps [OF assms(1), of key kv] by simp
  then show ?thesis
    using assms(2) l blob_store.store_other [OF assms(1,3)]
    by (auto simp: commissioning_passcode_def Let_def
        split: sum.splits option.splits prod.splits list.splits dest!: arg_cong [of _ _ snd])
qed

lemma runtime_load_keeps:
  assumes "blob_store (env_kv E) recs" "runtime_load E kv hw = Some rt"
  shows "recs (r_kv rt) = recs kv \<and> applied_frame rt = None"
proof -
  have "r_kv rt = snd (load_record E kv)" "applied_frame rt = None"
    using assms(2) by (auto simp: runtime_load_def Let_def applied_frame_def split: prod.splits option.splits)
  moreover have "snd (load_record E kv) = snd (kv_load (env_kv E) (INTENT_KEY E) kv)"
    by (auto simp: load_record_def split: prod.splits sum.splits option.splits)
  ultimately show ?thesis using blob_store.load_keeps [OF assms(1)] by simp
qed

lemma intent_key_apart: "INTENT_KEY E \<noteq> COMMISSIONING_KEY (env_vendor_keys_start E)"
  by (simp add: INTENT_KEY_def COMMISSIONING_KEY_def)

section \<open>Properties\<close>

text \<open>A start that restores the light: a light that has served no call yet and acknowledges nothing,
  whose target is the stored one under the start-up policy unless the record cannot be read.\<close>

definition restores :: "('k, 'h, 'c) light_env \<Rightarrow> light_state \<Rightarrow> ('k, 'h, 'c) light_handler \<Rightarrow> bool" where
  "restores E target light \<longleftrightarrow> light_reachable E light \<and>
     applied_frame (h_runtime light) = None \<and>
     r_load_fault (h_runtime light) \<noteq> Some FaultInvalidRecord \<and>
     (r_load_fault (h_runtime light) = None \<longrightarrow>
        startup_intent target (r_startup (h_runtime light)) = Some (r_target (h_runtime light)))"

lemma start_light_restores:
  assumes "platform (le_runtime E) showing recs"
    and "\<And>k. recs (snd (st_load_matter S k)) = recs k" "\<And>k. recs (snd (st_load_scenes S k)) = recs k"
    and "stored_intent recs (le_runtime E) kv = Some target"
    and "start_light E S name p qr [a, b, c] hw kv = Some result"
  shows "case result of
      StartPanics \<Rightarrow> False
    | Halted reason e \<Rightarrow> e \<noteq> StdIoError
    | Started st \<Rightarrow> sr_name st = name \<and> sr_passcode st = p \<and> restores E target (sr_light st) \<and>
        recs (r_kv (h_runtime (sr_light st))) = recs kv"
proof -
  have loads: "st_load_matter S u = (x, v) \<Longrightarrow> recs v = recs u"
    "st_load_scenes S u = (y, v) \<Longrightarrow> recs v = recs u" for u v x y
    using assms(2) [of u] assms(3) [of u] by simp_all
  show ?thesis
  proof (rule retried_rule [where I = "\<lambda>k. recs k = recs kv", OF assms(5) [unfolded start_light_def]])
    fix matter u k
    assume k: "recs k = recs kv" and rest: "retried (\<lambda>kv. Some (st_load_scenes S kv)) k ScenesUnreadable
        (\<lambda>scenes kv. let scenes = le_scenable_attribute_changed E ENDPOINT scenes
           in case runtime_load (le_runtime E) kv hw of None \<Rightarrow> Some StartPanics
              | Some rt \<Rightarrow> Some (Started \<lparr>sr_name = name, sr_passcode = p, sr_qr = qr, sr_matter = matter,
                     sr_light = light_new rt scenes [a, b, c]\<rparr>)) = Some result"
    show ?thesis
    proof (rule retried_rule [where I = "\<lambda>k. recs k = recs kv", OF rest])
      fix scenes u v
      assume v: "recs v = recs kv" and go: "(let scenes = le_scenable_attribute_changed E ENDPOINT scenes
           in case runtime_load (le_runtime E) v hw of None \<Rightarrow> Some StartPanics
              | Some rt \<Rightarrow> Some (Started \<lparr>sr_name = name, sr_passcode = p, sr_qr = qr, sr_matter = matter,
                     sr_light = light_new rt scenes [a, b, c]\<rparr>)) = Some result"
      obtain rt where rt: "runtime_load (le_runtime E) v hw = Some rt"
        using runtime_load_ok [of "le_runtime E" v hw] by blast
      have "stored_intent recs (le_runtime E) v = Some target" using assms(4) v by (simp add: stored_intent_def)
      note loaded = platform.load_stored [OF assms(1) this rt]
      have "blob_store (env_kv (le_runtime E)) recs"
        using assms(1) by (simp add: platform_def atomic_store_def)
      from runtime_load_keeps [OF this rt] loaded go v rt show ?thesis
        by (auto simp: restores_def light_new_def Let_def intro!: light_reachable.boot [OF rt, unfolded light_new_def])
    qed (auto simp: k loads)
  qed (auto simp: loads)
qed

lemma start_lamp_restores:
  assumes "platform (le_runtime E) showing recs" "length mac = 6"
    and "\<And>k. recs (snd (st_load_matter S k)) = recs k" "\<And>k. recs (snd (st_load_scenes S k)) = recs k"
    and "\<And>range f. stored_intent recs (le_runtime E) (st_open S range f) = Some target"
    and "start_lamp E S mac [a, b, c] r hw flash = Some result"
  shows "case result of
      StartPanics \<Rightarrow> False
    | Halted reason e \<Rightarrow> reason \<noteq> QrFailed \<longrightarrow> e \<noteq> StdIoError
    | Started st \<Rightarrow> sr_name st = discovery_name mac \<and> valid_passcode (sr_passcode st) \<and>
        recs (r_kv (h_runtime (sr_light st)))
          (COMMISSIONING_KEY (env_vendor_keys_start (le_runtime E))) = Some (to_le_bytes32 (sr_passcode st)) \<and>
        restores E target (sr_light st)"
proof -
  let ?key = "COMMISSIONING_KEY (env_vendor_keys_start (le_runtime E))"
  have kv: "blob_store (env_kv (le_runtime E)) recs"
    using assms(1) by (simp add: platform_def atomic_store_def)
  show ?thesis
  proof (rule retried_rule [where I = "\<lambda>_. True", OF assms(6) [unfolded start_lamp_def]])
    fix range u f
    let ?I = "\<lambda>(r, k). stored_intent recs (le_runtime E) k = Some target"
    assume "retried (\<lambda>(r, kv). commissioning_passcode (env_kv (le_runtime E)) ?key (st_random S) r kv)
        (r, st_open S range f) CredentialFailed (\<lambda>passcode (r, kv).
         (case discovery_str (discovery_name mac) of
            None \<Rightarrow> Some StartPanics
          | Some name \<Rightarrow>
              (case qr_payload (st_emitted S passcode (discriminator mac) name)
                   (st_as_str S passcode (discriminator mac) name) 128 of
                 Inl e \<Rightarrow> Some (Halted QrFailed e)
               | Inr qr \<Rightarrow> start_light E S name passcode qr [a, b, c] hw kv))) = Some result"
    then show ?thesis
    proof (rule retried_rule [where I = ?I])
      fix u q v
      assume "?I u" "(case u of (r, kv) \<Rightarrow>
        commissioning_passcode (env_kv (le_runtime E)) ?key (st_random S) r kv) = Some (q, v)"
      then show "?I v"
        using commissioning_passcode_keeps_others [OF kv] intent_key_apart
        by (fastforce simp: stored_intent_def split: prod.splits)
    next
      fix p u v
      assume v: "?I v" and call: "(case u of (r, kv) \<Rightarrow>
          commissioning_passcode (env_kv (le_runtime E)) ?key (st_random S) r kv) = Some (Inr p, v)"
        and go: "(case v of (r, kv) \<Rightarrow>
          (case discovery_str (discovery_name mac) of
            None \<Rightarrow> Some StartPanics
          | Some name \<Rightarrow>
              (case qr_payload (st_emitted S p (discriminator mac) name)
                   (st_as_str S p (discriminator mac) name) 128 of
                 Inl e \<Rightarrow> Some (Halted QrFailed e)
               | Inr qr \<Rightarrow> start_light E S name p qr [a, b, c] hw kv))) = Some result"
      obtain r' k where rk: "v = (r', k)" by fastforce
      obtain r0 k0 where "u = (r0, k0)" by fastforce
      then have "commissioning_passcode (env_kv (le_runtime E)) ?key (st_random S) r0 k0 = Some (Inr p, r', k)"
        using call rk by simp
      from passcode_recorded [OF kv this]
      have p: "valid_passcode p" "recs k ?key = Some (to_le_bytes32 p)" by simp_all
      show ?thesis
      proof (cases "qr_payload (st_emitted S p (discriminator mac) (discovery_name mac))
          (st_as_str S p (discriminator mac) (discovery_name mac)) 128")
        case (Inl e)
        then show ?thesis using go rk by (auto simp: discovery_name_is_str [OF assms(2)])
      next
        case (Inr qr)
        then have "start_light E S (discovery_name mac) p qr [a, b, c] hw k = Some result"
          using go rk by (simp add: discovery_name_is_str [OF assms(2)])
        from start_light_restores [OF assms(1,3,4) _ this, of target] v rk p show ?thesis
          by (auto split: start_result.splits)
      qed
    qed (use assms(5) in auto)
  qed auto
qed

text \<open>On a store that has its credential already, a start writes nothing.\<close>

lemma commissioning_passcode_present:
  assumes "blob_store ops recs" "commissioning_passcode ops key random r kv = Some (q, r', kv')"
    "recs kv key \<noteq> None"
  shows "recs kv' = recs kv"
proof -
  obtain l k1 where l: "kv_load ops key kv = (l, k1)" by fastforce
  then have "recs k1 = recs kv" using blob_store.load_keeps [OF assms(1), of key kv] by simp
  moreover have "l = Inr v \<Longrightarrow> v \<noteq> None" for v
    using blob_store.load_returns [OF assms(1)] l assms(3) by blast
  ultimately show ?thesis
    using assms(2) l
    by (auto simp: commissioning_passcode_def Let_def split: sum.splits option.splits list.splits)
qed

lemma start_lamp_keeps_store:
  assumes "platform (le_runtime E) showing recs" "length mac = 6"
    and "\<And>k. recs (snd (st_load_matter S k)) = recs k" "\<And>k. recs (snd (st_load_scenes S k)) = recs k"
    and "\<And>range f. recs (st_open S range f) = recs k0"
    and "stored_intent recs (le_runtime E) k0 = Some target"
    and "recs k0 (COMMISSIONING_KEY (env_vendor_keys_start (le_runtime E))) \<noteq> None"
    and "start_lamp E S mac [a, b, c] r hw flash = Some (Started st)"
  shows "recs (r_kv (h_runtime (sr_light st))) = recs k0"
proof -
  have kv: "blob_store (env_kv (le_runtime E)) recs"
    using assms(1) by (simp add: platform_def atomic_store_def)
  show ?thesis
  proof (rule retried_rule [where I = "\<lambda>_. True", OF assms(8) [unfolded start_lamp_def]])
    fix range u f
    assume "retried (\<lambda>(r, kv). commissioning_passcode (env_kv (le_runtime E))
            (COMMISSIONING_KEY (env_vendor_keys_start (le_runtime E))) (st_random S) r kv)
        (r, st_open S range f) CredentialFailed (\<lambda>passcode (r, kv).
         (case discovery_str (discovery_name mac) of
            None \<Rightarrow> Some StartPanics
          | Some name \<Rightarrow>
              (case qr_payload (st_emitted S passcode (discriminator mac) name)
                   (st_as_str S passcode (discriminator mac) name) 128 of
                 Inl e \<Rightarrow> Some (Halted QrFailed e)
               | Inr qr \<Rightarrow> start_light E S name passcode qr [a, b, c] hw kv))) = Some (Started st)"
    then show ?thesis
    proof (rule retried_rule [where I = "\<lambda>(r, k). recs k = recs k0"])
      fix p u v
      assume v: "case v of (r, k) \<Rightarrow> recs k = recs k0" and go: "(case v of (r, kv) \<Rightarrow>
          (case discovery_str (discovery_name mac) of
            None \<Rightarrow> Some StartPanics
          | Some name \<Rightarrow>
              (case qr_payload (st_emitted S p (discriminator mac) name)
                   (st_as_str S p (discriminator mac) name) 128 of
                 Inl e \<Rightarrow> Some (Halted QrFailed e)
               | Inr qr \<Rightarrow> start_light E S name p qr [a, b, c] hw kv))) = Some (Started st)"
      obtain r' k where rk: "v = (r', k)" by fastforce
      then obtain qr where "start_light E S (discovery_name mac) p qr [a, b, c] hw k = Some (Started st)"
        using go by (auto simp: discovery_name_is_str [OF assms(2)] split: sum.splits)
      moreover have "stored_intent recs (le_runtime E) k = Some target"
        using v rk assms(6) by (simp add: stored_intent_def)
      ultimately show ?thesis
        using start_light_restores [OF assms(1,3,4)] v rk by fastforce
    qed (use assms(5,7) in \<open>auto split: prod.splits dest: commissioning_passcode_present [OF kv]\<close>)
  qed auto
qed


text \<open>A bench start: a settings partition, an empty store and loaders that find nothing.\<close>

lemma retried_first:
  "operation s = Some (Inr v, t) \<Longrightarrow> retried operation s reason k = k v t"
  by (simp add: retried_def boot_restore_def) (subst retry_io.simps, simp)

definition bench_start :: "(unit, test_store, u32, unit, nat) start_ops" where
  "bench_start =
     \<lparr>st_partition = (\<lambda>_. (Inr (Inr (Some \<lparr>pe_offset = 0x9000, pe_len = 0x6000\<rparr>)), ())),
      st_open = (\<lambda>_ _. test_store_default), st_random = (\<lambda>n. (n, n + 1)),
      st_emitted = (\<lambda>_ _ _. []), st_as_str = (\<lambda>_ _ _ _. Inr []),
      st_load_matter = (\<lambda>k. (Inr (), k)), st_load_scenes = (\<lambda>k. (Inr 0, k))\<rparr>"

lemma bench_start_qr [simp]:
  "st_emitted bench_start p d n = []" "st_as_str bench_start p d n cap = Inr []"
  by (simp_all add: bench_start_def)

lemma bench_start_runs_on:
  assumes "commissioning_passcode (env_kv (le_runtime E))
      (COMMISSIONING_KEY (env_vendor_keys_start (le_runtime E))) (\<lambda>n. (n, n + 1)) 77 kv0 =
    Some (Inr p, r, kv)"
  shows "\<exists>st. start_lamp E (bench_start\<lparr>st_open := \<lambda>_ _. kv0\<rparr>) [0, 0, 0, 0, 0x12, 0xab] [1, 2, 3] 77 hw () =
    Some (Started st) \<and> sr_passcode st = p"
proof -
  let ?S = "bench_start\<lparr>st_open := \<lambda>_ _. kv0\<rparr>"
  obtain rt where rt: "runtime_load (le_runtime E) kv hw = Some rt"
    using runtime_load_ok [of "le_runtime E" kv hw] by blast
  have light: "\<exists>st. start_light E ?S n p qr [1, 2, 3] hw kv = Some (Started st) \<and>
      sr_passcode st = p" for n qr
    unfolding start_light_def
    by (subst retried_first [where v = "()" and t = kv], simp add: bench_start_def,
        subst retried_first [where v = 0 and t = kv], simp add: bench_start_def, simp add: rt)
  show ?thesis
    unfolding start_lamp_def
    by (subst retried_first [where v = "(0x9000, 0xf000)" and t = "()"], simp add: bench_start_def nvs_range_def,
        subst retried_first [where v = p and t = "(r, kv)"], simp add: bench_start_def assms,
        simp add: discovery_name_is_str qr_payload_def light)
qed

lemma bench_start_runs:
  assumes "env_kv (le_runtime E) = test_kv" "env_vendor_keys_start (le_runtime E) = 0"
  shows "\<exists>st. start_lamp E bench_start [0, 0, 0, 0, 0x12, 0xab] [1, 2, 3] 77 hw () = Some (Started st) \<and>
    sr_passcode st = 77"
proof -
  have d: "draw_passcode (\<lambda>n. (n, n + 1)) 77 = Some (77, 78)"
    by (subst draw_passcode.simps) (simp add: valid_passcode_def)
  obtain kv where "commissioning_passcode test_kv (COMMISSIONING_KEY 0) (\<lambda>n. (n, n + 1)) 77 test_store_default =
      Some (Inr 77, 78, kv)"
    by (simp add: commissioning_passcode_def d test_kv_def test_store_load_def test_store_store_def
        test_store_default_def)
  moreover have "bench_start\<lparr>st_open := \<lambda>_ _. test_store_default\<rparr> = bench_start"
    by (simp add: bench_start_def)
  ultimately show ?thesis using bench_start_runs_on [of E test_store_default 77 78 kv hw] assms by simp
qed


end
