(* ===== verification/Whole_Lamp.thy ===== *)
theory Whole_Lamp
  imports Light_Safety Console_Props Transport
begin

text \<open>
  The whole lamp: the tasks that \<open>run\<close> of \<open>firmware/app/src/device_matter.rs\<close> joins, over the
  state they share. They run on one executor and yield only between the calls modelled here,
  so an execution is a sequence of such calls in any order: a Matter command, write, report or
  maintenance pass on the light, a byte read by the console, either end of a transport turn, a
  pass of the update supervisor, the reboot into a staged update, and whatever the network stack
  does to the counters meanwhile.
\<close>

section \<open>State and tasks\<close>

record ('k, 'h, 'c, 'w, 'm, 'o) lamp =
  lp_light :: "('k, 'h, 'c) light_handler"
  lp_net :: "'w net"
  lp_matter :: 'm
  lp_backoff :: restart_backoff
  lp_queue :: queue_recovery
  lp_console :: console
  lp_service :: "'o option"
  lp_unavailable_logged :: bool

record ('k, 'h, 'c, 'm, 'o) lamp_env =
  la_light :: "('k, 'h, 'c) light_env"
  la_text :: console_text
  la_matter :: "'m matter_ops"
  la_service :: "'o ota_ops"

definition lamp_runtime :: "('k, 'h, 'c, 'w, 'm, 'o) lamp \<Rightarrow> ('k, 'h) runtime" where
  "lamp_runtime l = h_runtime (lp_light l)"

definition with_runtime ::
  "('k, 'h) runtime \<Rightarrow> ('k, 'h, 'c, 'w, 'm, 'o) lamp \<Rightarrow> ('k, 'h, 'c, 'w, 'm, 'o) lamp" where
  "with_runtime rt l = l\<lparr>lp_light := (lp_light l)\<lparr>h_runtime := rt\<rparr>\<rparr>"

datatype ('c, 'w) lamp_event =
  MatterCall "'c light_op"
| ConsoleByte u8
| TransportBegin
| TransportEnd u64 transport_exit
| UpdatePass u64
| UpdateStaged
| NetworkChange "'w net"

text \<open>What a task does to the lamp besides changing it.\<close>

datatype lamp_outcome = Goes | Resets | Panics

definition outcome_of :: "('a, 'e) outcome \<Rightarrow> lamp_outcome" where
  "outcome_of r = (case r of Panic \<Rightarrow> Panics | _ \<Rightarrow> Goes)"

definition lamp_console ::
  "('k, 'h, 'c, 'm, 'o) lamp_env \<Rightarrow> u8 \<Rightarrow> ('k, 'h, 'c, 'w, 'm, 'o) lamp
    \<Rightarrow> lamp_outcome \<times> ('k, 'h, 'c, 'w, 'm, 'o) lamp" where
  "lamp_console A b l =
     (case console_byte (la_text A) (le_runtime (la_light A)) (la_matter A) b (lp_console l)
         \<lparr>cw_runtime = lamp_runtime l, cw_net = lp_net l, cw_matter = lp_matter l\<rparr> of
        (_, state, w) \<Rightarrow>
          (let l = (with_runtime (cw_runtime w) l)\<lparr>lp_net := cw_net w, lp_matter := cw_matter w\<rparr>
           in case state of
                Reading c \<Rightarrow> (Goes, l\<lparr>lp_console := c\<rparr>)
              | Stopped \<Rightarrow> (Resets, l)
              | Panicked \<Rightarrow> (Panics, l)))"

definition lamp_transport :: "('k, 'h, 'c, 'w, 'm, 'o) lamp \<Rightarrow> ('k, 'h, 'w, 'm) transport" where
  "lamp_transport l =
     \<lparr>tp_runtime = lamp_runtime l, tp_net = lp_net l, tp_matter = lp_matter l,
      tp_backoff = lp_backoff l, tp_queue = lp_queue l\<rparr>"

definition with_transport ::
  "('k, 'h, 'w, 'm) transport \<Rightarrow> ('k, 'h, 'c, 'w, 'm, 'o) lamp \<Rightarrow> ('k, 'h, 'c, 'w, 'm, 'o) lamp" where
  "with_transport t l =
     (with_runtime (tp_runtime t) l)\<lparr>lp_net := tp_net t, lp_matter := tp_matter t,
        lp_backoff := tp_backoff t, lp_queue := tp_queue t\<rparr>"

definition lamp_update ::
  "('k, 'h, 'c, 'm, 'o) lamp_env \<Rightarrow> u64 \<Rightarrow> ('k, 'h, 'c, 'w, 'm, 'o) lamp
    \<Rightarrow> lamp_outcome \<times> ('k, 'h, 'c, 'w, 'm, 'o) lamp" where
  "lamp_update A now l =
     (case lp_service l of
        None \<Rightarrow> (Goes, l)
      | Some service \<Rightarrow>
          (if \<not> os_is_unconfirmed (la_service A) service then (Goes, l)
           else
             (case confirm_pass (le_runtime (la_light A)) (la_service A)
                 \<lparr>oe_uptime_ms = now, oe_commissioned = mt_is_commissioned (la_matter A) (lp_matter l),
                  oe_net = lp_net l, oe_runtime = lamp_runtime l\<rparr>
                 \<lparr>ot_service = service, ot_runtime = lamp_runtime l,
                  ot_unavailable_logged = lp_unavailable_logged l\<rparr> of
                (next_, s) \<Rightarrow>
                  (case next_ of KeepChecking \<Rightarrow> Goes | ResetToRollBack _ \<Rightarrow> Resets,
                   (with_runtime (ot_runtime s) l)\<lparr>lp_service := Some (ot_service s),
                      lp_unavailable_logged := ot_unavailable_logged s\<rparr>))))"

text \<open>The reboot into a staged update, which the service announces; without one nothing ever does.\<close>

definition lamp_staged ::
  "('k, 'h, 'c, 'm, 'o) lamp_env \<Rightarrow> ('k, 'h, 'c, 'w, 'm, 'o) lamp
    \<Rightarrow> lamp_outcome \<times> ('k, 'h, 'c, 'w, 'm, 'o) lamp" where
  "lamp_staged A l =
     (case lp_service l of
        None \<Rightarrow> (Goes, l)
      | Some _ \<Rightarrow>
          (case prepare_reboot (le_runtime (la_light A)) (lamp_runtime l) of
             (off, rt) \<Rightarrow> (Resets, with_runtime rt l)))"

primrec lamp_step ::
  "('k, 'h, 'c, 'm, 'o) lamp_env \<Rightarrow> ('c, 'w) lamp_event \<Rightarrow> ('k, 'h, 'c, 'w, 'm, 'o) lamp
    \<Rightarrow> lamp_outcome \<times> ('k, 'h, 'c, 'w, 'm, 'o) lamp" where
  "lamp_step A (MatterCall op) l =
     (case run_light (la_light A) op (lp_light l) of (r, h) \<Rightarrow> (outcome_of r, l\<lparr>lp_light := h\<rparr>))"
| "lamp_step A (ConsoleByte b) l = lamp_console A b l"
| "lamp_step A TransportBegin l =
     (Goes, with_transport (transport_begin (la_matter A) (lamp_transport l)) l)"
| "lamp_step A (TransportEnd now exit) l =
     (case transport_end (le_runtime (la_light A)) now exit (lamp_transport l) of
        (next_, t) \<Rightarrow>
          (case next_ of RetryIn _ \<Rightarrow> Goes | SoftwareReset _ \<Rightarrow> Resets, with_transport t l))"
| "lamp_step A (UpdatePass now) l = lamp_update A now l"
| "lamp_step A UpdateStaged l = lamp_staged A l"
| "lamp_step A (NetworkChange n) l = (Goes, l\<lparr>lp_net := n\<rparr>)"

definition event_ok :: "('c, 'w) lamp_event \<Rightarrow> bool" where
  "event_ok ev \<longleftrightarrow> (case ev of MatterCall op \<Rightarrow> light_op_ok op | _ \<Rightarrow> True)"

text \<open>A lamp boots with the runtime it loads, a fresh light and whatever else it finds.\<close>

inductive lamp_reachable ::
  "('k, 'h, 'c, 'm, 'o) lamp_env \<Rightarrow> ('k, 'h, 'c, 'w, 'm, 'o) lamp \<Rightarrow> bool" for A where
  boot: "runtime_load (le_runtime (la_light A)) kv hw = Some rt \<Longrightarrow>
    lp_light l = light_new rt table [a, b, c] \<Longrightarrow> lamp_reachable A l"
| step: "lamp_reachable A l \<Longrightarrow> event_ok ev \<Longrightarrow> lamp_step A ev l = (r, l') \<Longrightarrow> lamp_reachable A l'"

section \<open>Every task keeps the light\<close>

lemma with_runtime_ok:
  assumes "handler_ok E (lp_light l)" "reachable (le_runtime E) rt"
  shows "handler_ok E (lp_light (with_runtime rt l))"
  using assms by (simp add: with_runtime_def handler_ok_def)

lemma lamp_runtime_reachable:
  "handler_ok E (lp_light l) \<Longrightarrow> reachable (le_runtime E) (lamp_runtime l)"
  by (simp add: handler_ok_def lamp_runtime_def)

lemma console_byte_keeps:
  assumes "reachable E (cw_runtime w)" "console_byte T E M b c w = (es, r, w')"
  shows "r \<noteq> Panicked \<and> reachable E (cw_runtime w')"
  using console_bytes_keeps [OF assms(1), of T M "[b]" c es r w'] assms(2)
  by (cases r) simp_all

lemma transport_end_keeps:
  assumes "reachable E (tp_runtime s)" "transport_end E now exit s = (n, t)"
  shows "reachable E (tp_runtime t)"
  using assms(2,1)
  by (auto simp: transport_end_def Let_def split: prod.splits if_splits dest: prepare_reboot_keeps)

lemma output_verified_keeps:
  assumes "reachable E s" "output_verified E s = (b, t)"
  shows "reachable E t"
  using assms(2,1) call_keeps_reachable [OF assms(1), of OpVerify]
  by (auto simp: output_verified_def Let_def split: prod.splits if_splits)

lemma confirm_pass_keeps:
  assumes "reachable E (oe_runtime e)" "confirm_pass E S e s = (n, t)"
  shows "reachable E (ot_runtime t)"
proof -
  obtain v rt where d: "decide_ota (oe_uptime_ms e) (oe_commissioned e)
      (current_healthy_ms (oe_uptime_ms e) (oe_net e)) (output_verified E) (oe_runtime e) = (v, rt)"
    by fastforce
  then have "reachable E rt"
    using assms(1) output_verified_keeps [OF assms(1)]
    by (auto simp: decide_ota_def Let_def split: prod.splits if_splits)
  then show ?thesis
    using assms(2) d
    by (auto simp: confirm_pass_def Let_def split: prod.splits if_splits ota_verdict.splits
        dest: prepare_reboot_keeps)
qed

lemma lamp_step_keeps:
  assumes "handler_ok (la_light A) (lp_light l)" "event_ok ev" "lamp_step A ev l = (r, l')"
  shows "r \<noteq> Panics \<and> handler_ok (la_light A) (lp_light l')"
proof -
  note reach = lamp_runtime_reachable [OF assms(1)]
  note keep = with_runtime_ok [OF assms(1)]
  show ?thesis
  proof (cases ev)
    case (MatterCall op)
    then show ?thesis
      using run_light_safe [OF assms(1), of op] assms(2,3)
      by (auto simp: event_ok_def light_safe_def outcome_of_def split: prod.splits outcome.splits)
  next
    case (ConsoleByte b)
    obtain es state w where c: "console_byte (la_text A) (le_runtime (la_light A)) (la_matter A) b
        (lp_console l) \<lparr>cw_runtime = lamp_runtime l, cw_net = lp_net l, cw_matter = lp_matter l\<rparr> =
        (es, state, w)" by (metis prod_cases3)
    have "state \<noteq> Panicked \<and> reachable (le_runtime (la_light A)) (cw_runtime w)"
      by (rule console_byte_keeps [OF _ c]) (simp add: reach)
    then show ?thesis
      using assms(3) ConsoleByte c keep [of "cw_runtime w"]
      by (auto simp: lamp_console_def Let_def split: console_state.splits)
  next
    case TransportBegin
    then show ?thesis
      using assms(3) keep [OF reach]
      by (auto simp: with_transport_def transport_begin_def lamp_transport_def Let_def)
  next
    case (TransportEnd now exit)
    obtain n t where t: "transport_end (le_runtime (la_light A)) now exit (lamp_transport l) = (n, t)"
      by fastforce
    have "reachable (le_runtime (la_light A)) (tp_runtime t)"
      by (rule transport_end_keeps [OF _ t]) (simp add: reach lamp_transport_def)
    then show ?thesis
      using assms(3) TransportEnd t keep [of "tp_runtime t"]
      by (auto simp: with_transport_def split: transport_next.splits)
  next
    case (UpdatePass now)
    have "reachable (le_runtime (la_light A)) (ot_runtime t)"
      if "confirm_pass (le_runtime (la_light A)) (la_service A)
            \<lparr>oe_uptime_ms = now, oe_commissioned = mt_is_commissioned (la_matter A) (lp_matter l),
             oe_net = lp_net l, oe_runtime = lamp_runtime l\<rparr>
            \<lparr>ot_service = service, ot_runtime = lamp_runtime l,
             ot_unavailable_logged = lp_unavailable_logged l\<rparr> = (n, t)" for n t service
      by (rule confirm_pass_keeps [OF _ that]) (simp add: reach)
    then show ?thesis
      using assms(1,3) UpdatePass keep
      by (fastforce simp: lamp_update_def split: option.splits if_splits confirm_next.splits prod.splits)
  next
    case UpdateStaged
    then show ?thesis
      using assms(1,3) keep prepare_reboot_keeps [OF reach]
      by (auto simp: lamp_staged_def split: option.splits prod.splits)
  next
    case (NetworkChange n)
    then show ?thesis using assms(1,3) by auto
  qed
qed

lemma lamp_reachable_ok: "lamp_reachable A l \<Longrightarrow> handler_ok (la_light A) (lp_light l)"
proof (induction rule: lamp_reachable.induct)
  case (boot kv hw rt l table a b c)
  then show ?case by (simp add: handler_ok_def light_new_def reachable.boot)
next
  case (step l ev r l')
  then show ?case using lamp_step_keeps [of A l ev r l'] by simp
qed

end
