(* ===== verification/Runtime_Dark.thy ===== *)
theory Runtime_Dark
  imports Runtime_Recovery
begin

text \<open>
  No light without an acknowledgement. Locale \<open>emitter\<close> says of a hardware when it can emit
  light at all: for the lamp, while the OE pin of the driver is low; for the bench, while its
  simulated output is on. Under it, every call of the runtime leaves a lamp that is dark unless
  the frame the runtime acknowledges is on.
\<close>

section \<open>The contract of the output\<close>

locale emitter =
  fixes ops :: "'h hardware_ops" and lit :: "'h \<Rightarrow> bool"
  assumes apply_lit: "hw_apply_frame ops f h = (Inr u, h') \<Longrightarrow> lit h' \<Longrightarrow> ls_on (of_state f)"
    and shutdown_dark: "\<not> lit (snd (hw_shutdown ops h))"
    and verify_lit: "lit (snd (hw_verify_frame ops f h)) = lit h"
    and registers_lit: "lit (snd (hw_registers ops h)) = lit h"

definition lit_acknowledged :: "('h \<Rightarrow> bool) \<Rightarrow> ('k, 'h) runtime \<Rightarrow> bool" where
  "lit_acknowledged lit s \<longleftrightarrow>
     (lit (r_hardware s) \<longrightarrow> (\<exists>f. applied_frame s = Some f \<and> ls_on (of_state f)))"

lemma dark_acknowledged [simp]: "\<not> lit (r_hardware s) \<Longrightarrow> lit_acknowledged lit s"
  by (simp add: lit_acknowledged_def)

lemma lit_acknowledged_cong:
  "r_hardware t = r_hardware s \<Longrightarrow> applied_frame t = applied_frame s \<Longrightarrow>
     lit_acknowledged lit t = lit_acknowledged lit s"
  by (simp add: lit_acknowledged_def)

lemma lit_acknowledged_updates [simp]:
  "lit_acknowledged lit (s\<lparr>r_kv := kv\<rparr>) = lit_acknowledged lit s"
  "lit_acknowledged lit (s\<lparr>r_now := n\<rparr>) = lit_acknowledged lit s"
  "lit_acknowledged lit (s\<lparr>r_target := t\<rparr>) = lit_acknowledged lit s"
  "lit_acknowledged lit (s\<lparr>r_level := l\<rparr>) = lit_acknowledged lit s"
  "lit_acknowledged lit (s\<lparr>r_temperature := c\<rparr>) = lit_acknowledged lit s"
  "lit_acknowledged lit (s\<lparr>r_fault := f\<rparr>) = lit_acknowledged lit s"
  "lit_acknowledged lit (s\<lparr>r_dirty := d\<rparr>) = lit_acknowledged lit s"
  "lit_acknowledged lit (s\<lparr>r_startup := su\<rparr>) = lit_acknowledged lit s"
  "lit_acknowledged lit (s\<lparr>r_load_fault := lf\<rparr>) = lit_acknowledged lit s"
  "lit_acknowledged lit (s\<lparr>r_off_after_load := d\<rparr>) = lit_acknowledged lit s"
  "lit_acknowledged lit (s\<lparr>r_next_verify := n\<rparr>) = lit_acknowledged lit s"
  "lit_acknowledged lit (s\<lparr>r_retry_at := n\<rparr>) = lit_acknowledged lit s"
  "lit_acknowledged lit (s\<lparr>r_failures := m\<rparr>) = lit_acknowledged lit s"
  "lit_acknowledged lit (s\<lparr>r_storage_failures := m\<rparr>) = lit_acknowledged lit s"
  "lit_acknowledged lit (s\<lparr>r_recoveries := m\<rparr>) = lit_acknowledged lit s"
  "lit_acknowledged lit (s\<lparr>r_revision := m\<rparr>) = lit_acknowledged lit s"
  "lit_acknowledged lit (bump s) = lit_acknowledged lit s"
  "lit_acknowledged lit (drop_finished now s) = lit_acknowledged lit s"
  "lit_acknowledged lit (restore_from_zero now s) = lit_acknowledged lit s"
  by (intro lit_acknowledged_cong; simp add: bump_def)+

section \<open>What every call keeps\<close>

context emitter
begin

definition dark_kept :: "'x \<times> ('k, 'h) runtime \<Rightarrow> bool" where
  "dark_kept m \<longleftrightarrow> lit_acknowledged lit (snd m)"

lemma dark_kept_pair [simp]: "dark_kept (x, s) = lit_acknowledged lit s"
  by (simp add: dark_kept_def)

lemma dark_kept_and_then:
  assumes "dark_kept m" and "\<And>a s. lit_acknowledged lit s \<Longrightarrow> dark_kept (k a s)"
  shows "dark_kept (and_then m k id)"
  using assms by (cases m) (auto simp: and_then_def split: outcome.splits)

lemma shutdown_is_dark:
  assumes "env_hw E = ops"
  shows "\<not> lit (r_hardware (snd (shutdown E s)))" "applied_frame (snd (shutdown E s)) = applied_frame s"
  using shutdown_dark assms by (simp_all add: shutdown_simp)

lemma output_failed_dark [simp]: "env_hw E = ops \<Longrightarrow> \<not> lit (r_hardware (output_failed E now s))"
  using shutdown_dark by (simp add: output_failed_def shutdown_simp Let_def bump_def invalidate_def)

lemma reconcile_to_dark:
  assumes "env_hw E = ops" "lit_acknowledged lit s"
  shows "dark_kept (reconcile_to E now frame s)"
proof (cases rule: reconcile_to_cases [of E now frame s])
  case failed
  have "\<exists>t. snd (reconcile_to E now frame s) = output_failed E now t"
    using failed(1) by (auto simp: reconcile_to_def Let_def split: prod.splits if_splits)
  then show ?thesis using assms(1) by (auto simp: dark_kept_def)
next
  case (applied b h t)
  then show ?thesis using assms apply_lit by (auto simp: lit_acknowledged_def)
qed

lemma reconcile_dark:
  assumes "env_hw E = ops" "lit_acknowledged lit s"
  shows "dark_kept (reconcile E now s)"
  unfolding reconcile_def
proof (rule dark_kept_and_then)
  show "dark_kept (if applied_frame s = None
      then let (stopped, s) = shutdown E s
           in if stopped then (Ok (), restore_from_zero now s) else (Err Failure, output_failed E now s)
      else (Ok (), s))"
    using assms shutdown_is_dark(1) [OF assms(1)] by (auto simp: shutdown_simp Let_def)
qed (auto intro: reconcile_to_dark [OF assms(1)] split: option.split)

lemma save_intent_dark:
  assumes "env_hw E = ops" "lit_acknowledged lit s"
  shows "dark_kept (save_intent E s)"
  using assms shutdown_dark
  by (auto simp: save_intent_def store_record_def Let_def shutdown_simp bump_def invalidate_def
      split: prod.split sum.split)

lemma commit_dark:
  assumes "env_hw E = ops" "lit_acknowledged lit s"
  shows "dark_kept (commit E target s)"
  unfolding commit_def Let_def
  by (intro dark_kept_and_then save_intent_dark reconcile_dark assms) (simp_all add: assms)

lemma commits_dark:
  assumes "env_hw E = ops" "lit_acknowledged lit s" "commits E target s m"
  shows "dark_kept m"
  using assms by (auto simp: commits_def intro!: commit_dark)

lemma stop_dark:
  assumes "env_hw E = ops" "lit_acknowledged lit s"
  shows "dark_kept (stop_level_transition E s)" "dark_kept (stop_temperature_transition E s)"
  unfolding stop_level_transition_def stop_temperature_transition_def
  by (auto simp: assms writable_def Let_def intro!: dark_kept_and_then commit_dark split: option.split)

lemma save_startup_dark:
  assumes "lit_acknowledged lit s"
  shows "dark_kept (save_startup E su s)"
  unfolding save_startup_def
  using assms by (auto simp: writable_def store_record_def Let_def intro!: dark_kept_and_then
      split: prod.split sum.split)

lemma startup_dark:
  assumes "lit_acknowledged lit s"
  shows "dark_kept (set_startup E v s)" "dark_kept (set_startup_level E n s)"
    "dark_kept (set_startup_temperature E w s)"
  using assms save_startup_dark
  by (auto simp: set_startup_def set_startup_level_def set_startup_temperature_def
      split: option.split start_up_on_off.split)

lemma on_hardware_dark:
  assumes "on_hardware f s = (x, t)" "\<And>h. lit (snd (f h)) = lit h"
  shows "lit_acknowledged lit t = lit_acknowledged lit s"
proof -
  have "lit (r_hardware t) = lit (r_hardware s)" "applied_frame t = applied_frame s"
    using assms(1) assms(2) [of "r_hardware s"] by (auto simp: on_hardware_def split: prod.splits)
  then show ?thesis by (simp add: lit_acknowledged_def)
qed

lemma verify_dark:
  assumes "env_hw E = ops" "lit_acknowledged lit s"
  shows "dark_kept (runtime_verify E s)" "dark_kept (runtime_registers E s)"
    "dark_kept (tick_verify E now s)"
proof -
  have h: "lit_acknowledged lit v = lit_acknowledged lit u"
    if "on_hardware (hw_verify_frame (env_hw E) f) u = (x, v)" for f u x v
    using on_hardware_dark [OF that] verify_lit assms(1) by simp
  have g: "lit_acknowledged lit v = lit_acknowledged lit u"
    if "on_hardware (hw_registers (env_hw E)) u = (x, v)" for u x v
    using on_hardware_dark [OF that] registers_lit assms(1) by simp
  show "dark_kept (runtime_verify E s)" "dark_kept (runtime_registers E s)"
    "dark_kept (tick_verify E now s)"
    using assms by (auto simp: runtime_verify_def runtime_registers_def tick_verify_def Let_def
        dest: h g split: prod.split option.split sum.split)
qed

lemma tick_dark:
  assumes "env_hw E = ops" "lit_acknowledged lit s" "r_load_fault s \<noteq> None \<Longrightarrow> applied_frame s = None"
  shows "dark_kept (runtime_tick E now s)"
proof -
  let ?s = "s\<lparr>r_now := now\<rparr>"
  have reload: "dark_kept (tick_reload E now ?s)"
  proof (cases "r_load_fault s = Some FaultStorage")
    case True
    then have "\<not> lit (r_hardware s)" using assms(2,3) by (auto simp: lit_acknowledged_def)
    then show ?thesis
      by (auto simp: tick_reload_def Let_def bump_def split: prod.split sum.split option.split)
  qed (use assms(2) in \<open>simp add: tick_reload_def\<close>)
  have applied: "dark_kept (tick_apply E now t)" if t: "lit_acknowledged lit t" for t
  proof -
    have r: "dark_kept (reconcile E now t)" using assms(1) t by (rule reconcile_dark)
    have v: "dark_kept (tick_verify E now (drop_finished now t))"
      using assms(1) t by (intro verify_dark) simp_all
    show ?thesis
      using t r v by (auto simp: tick_apply_def split: option.split prod.split outcome.split)
  qed
  have save: "dark_kept (case save_intent E t of (Ok _, s) \<Rightarrow> tick_apply E now s
      | (Err _, s) \<Rightarrow> (Err (), s) | (Panic, s) \<Rightarrow> (Panic, s))" if t: "lit_acknowledged lit t" for t
    using save_intent_dark [OF assms(1) t] applied by (auto split: prod.split outcome.split)
  show ?thesis
    unfolding runtime_tick_def Let_def
    using assms(2) reload save by (auto intro!: dark_kept_and_then)
qed

lemma off_dark:
  assumes "env_hw E = ops"
  shows "dark_kept (runtime_off E s)"
proof -
  have "\<not> lit (r_hardware (snd (shutdown E s)))" using assms by (rule shutdown_is_dark)
  then show ?thesis
    using assms by (auto simp: runtime_off_def Let_def invalidate_def
        intro!: dark_kept_and_then save_intent_dark reconcile_dark split: prod.splits)
qed

lemma no_data_dark: "dark_kept m \<Longrightarrow> dark_kept (no_data m)"
  by (cases m) (auto simp: no_data_def split: outcome.split)

lemma run_op_dark:
  assumes "env_hw E = ops" "lit_acknowledged lit s" "op_ok op"
    and "r_load_fault s \<noteq> None \<Longrightarrow> applied_frame s = None"
  shows "dark_kept (run_op E op s)"
proof (cases "requested op (r_target s)")
  case (Some target)
  show ?thesis using assms(1,2) request_commits [OF Some assms(3)] by (rule commits_dark)
next
  case None
  have p: "dark_kept (Ok (), snd (prepare_reboot E s))"
    using shutdown_dark assms(1)
    by (simp add: prepare_reboot_def shutdown_simp Let_def bump_def invalidate_def)
  show ?thesis
    using None assms p
    by (cases op) (auto simp: watchdog_test_ready_def
        intro!: stop_dark startup_dark verify_dark off_dark tick_dark no_data_dark)
qed

lemma load_dark:
  assumes "env_hw E = ops" "runtime_load E kv hw = Some s"
  shows "\<not> lit (r_hardware s)"
proof -
  have "r_hardware s = snd (hw_shutdown ops hw)"
    using assms by (auto simp: runtime_load_def Let_def split: prod.splits option.splits)
  then show ?thesis using shutdown_dark by simp
qed

end

text \<open>On every platform whose hardware is an emitter, in every reachable state.\<close>

lemma reachable_lit_acknowledged:
  assumes "platform E showing recs" "emitter (env_hw E) lit" "reachable E s"
  shows "lit_acknowledged lit s"
  using assms(3)
proof (induction rule: reachable.induct)
  case (boot kv hw s)
  then show ?case using emitter.load_dark [OF assms(2) refl] by simp
next
  case (call s op r t)
  have "truthful showing s"
    using platform.reachable_good [OF assms(1) call(1)] by (simp add: platform.good_simp [OF assms(1)])
  then have "r_load_fault s \<noteq> None \<Longrightarrow> applied_frame s = None"
    by (cases "applied_frame s") (auto simp: truthful_def)
  then have "emitter.dark_kept lit (run_op E op s)"
    using call by (intro emitter.run_op_dark [OF assms(2) refl]) simp_all
  then show ?case using call by (simp add: emitter.dark_kept_pair [OF assms(2)])
qed

section \<open>The two outputs\<close>

interpretation sim_light: emitter sim_ops "\<lambda>s. ls_on (of_state (sim_applied s))"
  by unfold_locales
    (auto simp: sim_ops_def sim_apply_frame_def sim_shutdown_def sim_verify_frame_def sim_registers_def
      from_state_def)

text \<open>
  The lamp's board: \<open>oe w\<close> is the level of the OE latch. The HAL's pin call sets it, and neither
  a transfer nor a delay touches it. While it is high the chip drives no output.
\<close>

definition released :: "('w \<Rightarrow> bool) \<Rightarrow> 'w pca \<Rightarrow> bool" where
  "released oe p \<longleftrightarrow> \<not> oe (pca_world p)"

locale latched_board =
  fixes b :: "('w, 'b) board" and oe :: "'w \<Rightarrow> bool"
  assumes pin_sets: "oe (oe_set_level b d w) = d"
    and write_keeps: "oe (snd (i2c_write b a bytes w)) = oe w"
    and read_keeps: "oe (snd (i2c_write_read b a bytes n w)) = oe w"
    and delay_keeps: "oe (hal_delay_micros b m w) = oe w"
begin

abbreviation io :: "('w, 'b, unit) pca_io" where
  "io \<equiv> physical_io b"

lemma bus_write_pin: "oe (pca_world (snd (pca_bus_write io bytes p))) = oe (pca_world p)"
  using write_keeps by (simp add: pca_bus_write_def physical_io_def split: prod.split) (metis snd_conv)

lemma read_pin: "oe (pca_world (snd (pca_read_registers io p))) = oe (pca_world p)"
  using read_keeps
  by (simp add: pca_read_registers_def physical_io_def split: prod.split sum.split) (metis snd_conv)

lemma verify_pin: "oe (pca_world (snd (pca_verify_frame io f p))) = oe (pca_world p)"
  using read_pin [of p] by (cases "pca_read_registers io p")
    (auto simp: pca_verify_frame_def attempt_def split: sum.split)

lemma set_disabled_pin:
  "pca_set_disabled io d p = (Inr (), p\<lparr>pca_world := oe_set_level b d (pca_world p)\<rparr>)"
  by (simp add: pca_set_disabled_def physical_io_def)

lemma finish_dark:
  assumes "post m (\<lambda>r p. is_err r \<or> oe (pca_world p))"
  shows "post (pca_finish io m) (\<lambda>_ p. oe (pca_world p))"
  using assms
  by (cases m) (auto simp: pca_finish_def set_disabled_pin pin_sets is_err_def split: sum.splits)

lemma initialize_off_dark: "oe (pca_world (snd (pca_initialize_off io p)))"
proof -
  let ?dark = "\<lambda>p. oe (pca_world p)"
  have "post (pca_finish io (attempt (pca_bus_write io [0x01, MODE2] q) (\<lambda>_ p.
          attempt (pca_write_frame io frame_default p) (\<lambda>_ p.
          attempt (pca_bus_write io [0x00, 0x00] p) (\<lambda>_ p.
            pca_verify io light_default
              (p\<lparr>pca_world := io_delay_us io 500 (pca_world p)\<rparr>)))))) (\<lambda>_. ?dark)"
    if "?dark q" for q
    unfolding pca_write_frame_def pca_verify_def
    by (intro finish_dark post_mono [OF post_attempt_state [where I = ?dark]] post_attempt_state)
      (simp_all add: post_def bus_write_pin verify_pin that, simp add: physical_io_def delay_keeps)
  then show ?thesis
    by (simp add: pca_initialize_off_def set_disabled_pin pin_sets post_def)
qed

lemma apply_released:
  assumes "pca_apply_frame io f p = (Inr u, p')" "released oe p'"
  shows "ls_on (of_state f)"
proof (rule ccontr)
  assume off: "\<not> ls_on (of_state f)"
  then have "pca_slow_path io f p = (Inr u, p')"
    using assms(1) by (auto simp: pca_apply_frame_def pca_finish_Inr)
  then have "p' = snd (pca_initialize_off io p)"
    using off by (auto simp: pca_slow_path_def attempt_def split: prod.splits sum.splits)
  then show False using assms(2) initialize_off_dark by (simp add: released_def)
qed

end

sublocale latched_board \<subseteq> physical_light: emitter "physical_ops b" "released oe"
proof unfold_locales
  fix f h u h'
  assume "hw_apply_frame (physical_ops b) f h = (Inr u, h')" "released oe h'"
  then show "ls_on (of_state f)"
    using apply_released by (simp add: physical_ops_def physical_apply_frame_Inr)
next
  fix h
  show "\<not> released oe (snd (hw_shutdown (physical_ops b) h))"
    using initialize_off_dark [of h]
    by (auto simp: physical_ops_def physical_shutdown_def pca_shutdown_def released_def split: prod.split)
next
  fix f h
  show "released oe (snd (hw_verify_frame (physical_ops b) f h)) = released oe h"
    using verify_pin [of f h]
    by (auto simp: physical_ops_def physical_verify_frame_def released_def split: prod.split)
next
  fix h
  show "released oe (snd (hw_registers (physical_ops b) h)) = released oe h"
    using read_pin [of h]
    by (auto simp: physical_ops_def physical_registers_def released_def split: prod.split)
qed

context latched_board
begin

lemma lamp_emits: "emitter (physical_ops b) (released oe)"
  by (rule physical_light.emitter_axioms)

end

text \<open>The rig of the driver tests as a board, with its OE pin.\<close>

definition rig_board :: "(rig \<times> bool, string) board" where
  "rig_board = \<lparr>i2c_write = (\<lambda>a bytes (h, pin). case rig_write a bytes h of (r, h) \<Rightarrow> (r, (h, pin))),
     i2c_write_read = (\<lambda>a bytes n (h, pin). case rig_write_read a bytes n h of (r, h) \<Rightarrow> (r, (h, pin))),
     oe_set_level = (\<lambda>d (h, _). (h, d)), hal_delay_micros = (\<lambda>_ w. w)\<rparr>"

interpretation rig_board: latched_board rig_board snd
  by unfold_locales (auto simp: rig_board_def split: prod.split)

section \<open>Properties\<close>


text \<open>The lamp on the rig, switched on and ticked to the end of its fade.\<close>

definition rig_boot :: "(test_store, (rig \<times> bool) pca) runtime" where
  "rig_boot = (case runtime_load (lamp_env rig_board 0) test_store_default (pca_new (rig_default, False))
     of Some s \<Rightarrow> s)"

definition rig_lit :: "(test_store, (rig \<times> bool) pca) runtime" where
  "rig_lit = snd (run_op (lamp_env rig_board 0) (OpTick 400)
     (snd (run_op (lamp_env rig_board 0) (OpSetPower True) rig_boot)))"

lemma rig_boot_reachable: "reachable (lamp_env rig_board 0) rig_boot"
proof -
  obtain s where "runtime_load (lamp_env rig_board 0) test_store_default (pca_new (rig_default, False)) = Some s"
    using runtime_load_ok [of "lamp_env rig_board 0" test_store_default "pca_new (rig_default, False)"] by blast
  then show ?thesis by (auto simp: rig_boot_def intro: reachable.boot)
qed

lemma rig_lit_reachable: "reachable (lamp_env rig_board 0) rig_lit"
  unfolding rig_lit_def
  by (rule reachable.call [OF reachable.call [OF rig_boot_reachable _ prod.collapse [symmetric]] _
        prod.collapse [symmetric]]) simp_all

lemma rig_lit_released: "\<not> snd (pca_world (r_hardware rig_lit))"
  by code_simp




end
