(* ===== verification/Power_On.thy ===== *)
theory Power_On
  imports Startup Runtime_Dark
begin

text \<open>
  Power-on of the two images: \<open>main\<close> of \<open>firmware/app/src/device.rs\<close>, the lamp, and of
  \<open>firmware/app/src/main.rs\<close>, the bench; and \<open>halted\<close> of \<open>device_matter.rs\<close>, where a start
  that failed ends. Each brings the chip up and hands a hardware to \<open>run\<close>. The HAL and the
  executor are parameters over the world of the board.
\<close>

section \<open>Bring-up\<close>

text \<open>The I2C peripheral: its clock, the bus timeout in cycles, the transaction timeout.\<close>

record i2c_config =
  i2c_frequency_khz :: u32
  i2c_bus_cycles :: u32
  i2c_software_ms :: u64

definition I2C_CONFIG :: i2c_config where
  "I2C_CONFIG = \<lparr>i2c_frequency_khz = 100, i2c_bus_cycles = 1000, i2c_software_ms = 25\<rparr>"

definition WATCHDOG_SECONDS :: u64 where "WATCHDOG_SECONDS = 15"

text \<open>
  The calls of the HAL: the chip and the RTOS, the OE pin as an output that starts at a level,
  the I2C peripheral (the result is whether the configuration is accepted), the watchdog, and
  the spawn of the USB writer.
\<close>

record ('w, 'b) bring_up =
  bu_board :: "('w, 'b) board"
  bu_init :: "'w \<Rightarrow> 'w"
  bu_oe_output :: "bool \<Rightarrow> 'w \<Rightarrow> 'w"
  bu_i2c :: "i2c_config \<Rightarrow> 'w \<Rightarrow> bool \<times> 'w"
  bu_start_rtos :: "'w \<Rightarrow> 'w"
  bu_watchdog :: "u64 \<Rightarrow> 'w \<Rightarrow> 'w"
  bu_spawn_writer :: "'w \<Rightarrow> bool \<times> 'w"

text \<open>
  The worlds that the calls leave, from the pin's constructor on, and the hardware that the lamp
  hands to \<open>run\<close>; it is \<open>None\<close> where an \<open>expect\<close> panics.
\<close>

definition device_bring_up :: "('w, 'b) bring_up \<Rightarrow> 'w \<Rightarrow> 'w list \<times> 'w pca option" where
  "device_bring_up U w =
     (let w0 = bu_oe_output U True (bu_init U w);
          (configured, w1) = bu_i2c U I2C_CONFIG w0
      in if \<not> configured then ([w0, w1], None)
         else
           (let w2 = bu_start_rtos U w1;
                w3 = bu_watchdog U WATCHDOG_SECONDS w2;
                (spawned, w4) = bu_spawn_writer U w3
            in if \<not> spawned then ([w0, w1, w2, w3, w4], None)
               else ([w0, w1, w2, w3, w4],
                     Some (snd (hw_shutdown (physical_ops (bu_board U)) (pca_new w4))))))"

definition device_main ::
  "('w, 'b) bring_up \<Rightarrow> ('k, 'w pca, 'c) light_env \<Rightarrow> ('f, 'k, 'r, 'm, 'c) start_ops \<Rightarrow> u8 list
    \<Rightarrow> u32 list \<Rightarrow> 'r \<Rightarrow> 'f \<Rightarrow> 'w \<Rightarrow> ('k, 'w pca, 'c, 'm) started start_result option" where
  "device_main U E S mac datavers r flash w =
     (case device_bring_up U w of
        (_, None) \<Rightarrow> Some StartPanics
      | (_, Some output) \<Rightarrow> start_lamp E S mac datavers r output flash)"

definition bench_main ::
  "(('w, 'b) bring_up) \<Rightarrow> ('k, simulated_output, 'c) light_env \<Rightarrow> ('f, 'k, 'r, 'm, 'c) start_ops
    \<Rightarrow> u8 list \<Rightarrow> u32 list \<Rightarrow> 'r \<Rightarrow> 'f \<Rightarrow> 'w
    \<Rightarrow> ('k, simulated_output, 'c, 'm) started start_result option" where
  "bench_main U E S mac datavers r flash w =
     (let w = bu_watchdog U WATCHDOG_SECONDS (bu_start_rtos U (bu_init U w));
          (spawned, w) = bu_spawn_writer U w
      in if \<not> spawned then Some StartPanics
         else start_lamp E S mac datavers r sim_default flash)"

text \<open>A turn of \<open>halted\<close>, which never returns: the report, a feed of the watchdog, five seconds.\<close>

datatype halt_event = HaltReport halt_reason error_code | HaltFeed | HaltSleep u64

definition halted_turn :: "halt_reason \<Rightarrow> error_code \<Rightarrow> halt_event list" where
  "halted_turn reason e = [HaltReport reason e, HaltFeed, HaltSleep 5]"

section \<open>Dark from the start\<close>

text \<open>What the bring-up calls do to the OE latch: only its own constructor sets it.\<close>

definition bring_up_keeps :: "('w, 'b) bring_up \<Rightarrow> ('w \<Rightarrow> bool) \<Rightarrow> bool" where
  "bring_up_keeps U oe \<longleftrightarrow>
     (\<forall>d w. oe (bu_oe_output U d w) = d) \<and> (\<forall>c w. oe (snd (bu_i2c U c w)) = oe w) \<and>
     (\<forall>w. oe (bu_start_rtos U w) = oe w) \<and> (\<forall>n w. oe (bu_watchdog U n w) = oe w) \<and>
     (\<forall>w. oe (snd (bu_spawn_writer U w)) = oe w)"

lemma bring_up_dark:
  assumes "bring_up_keeps U oe" "device_bring_up U w = (worlds, handed)" "w' \<in> set worlds"
  shows "oe w'"
proof -
  let ?w0 = "bu_oe_output U True (bu_init U w)"
  obtain configured w1 where i: "bu_i2c U I2C_CONFIG ?w0 = (configured, w1)" by fastforce
  let ?w3 = "bu_watchdog U WATCHDOG_SECONDS (bu_start_rtos U w1)"
  obtain spawned w4 where s: "bu_spawn_writer U ?w3 = (spawned, w4)" by fastforce
  have k: "\<And>d w. oe (bu_oe_output U d w) = d" "\<And>c w. oe (snd (bu_i2c U c w)) = oe w"
    "\<And>w. oe (bu_start_rtos U w) = oe w" "\<And>n w. oe (bu_watchdog U n w) = oe w"
    "\<And>w. oe (snd (bu_spawn_writer U w)) = oe w"
    using assms(1) by (simp_all add: bring_up_keeps_def)
  have "oe ?w0" "oe w1" "oe w4" using k i s k(2) [of I2C_CONFIG ?w0] k(5) [of ?w3] by simp_all
  then show ?thesis
    using assms(2,3) k(3,4) by (auto simp: device_bring_up_def Let_def i s split: if_splits)
qed

lemma bring_up_shuts_down:
  "device_bring_up U w = (worlds, Some h) \<Longrightarrow>
     \<exists>w'. h = snd (hw_shutdown (physical_ops (bu_board U)) (pca_new w'))"
  by (auto simp: device_bring_up_def Let_def split: prod.splits if_splits)

text \<open>A started lamp holds a light whose runtime was loaded, on the hardware that was handed over.\<close>

lemma retried_cases:
  assumes "retried operation s reason k = Some result"
  obtains (halted) e where "result = Halted reason e"
    | (goes) a u where "k a u = Some result"
  using assms by (auto simp: retried_def split: option.splits sum.splits prod.splits)

lemma start_light_loads:
  assumes "start_light E S name p qr [a, b, c] hw kv = Some (Started st)"
  obtains kv' rt scenes where "runtime_load (le_runtime E) kv' hw = Some rt"
    "sr_light st = light_new rt scenes [a, b, c]"
proof -
  from assms obtain matter k where "retried (\<lambda>kv. Some (st_load_scenes S kv)) k ScenesUnreadable
      (\<lambda>scenes kv. let scenes = le_scenable_attribute_changed E ENDPOINT scenes
         in case runtime_load (le_runtime E) kv hw of None \<Rightarrow> Some StartPanics
            | Some rt \<Rightarrow> Some (Started \<lparr>sr_name = name, sr_passcode = p, sr_qr = qr, sr_matter = matter,
                   sr_light = light_new rt scenes [a, b, c]\<rparr>)) = Some (Started st)"
    unfolding start_light_def by (rule retried_cases) simp_all
  then show thesis
    by (rule retried_cases) (auto simp: Let_def intro: that split: option.splits)
qed

lemma start_lamp_loads:
  assumes "start_lamp E S mac [a, b, c] r hw flash = Some (Started st)"
  obtains kv rt scenes where "runtime_load (le_runtime E) kv hw = Some rt"
    "sr_light st = light_new rt scenes [a, b, c]"
proof -
  from assms obtain name p qr kv where "start_light E S name p qr [a, b, c] hw kv = Some (Started st)"
    unfolding start_lamp_def
    by (elim retried_cases) (auto split: option.splits sum.splits)
  then show thesis by (rule start_light_loads) (rule that)
qed


text \<open>The lamp on the rig, whose world is the rig and its pin.\<close>

definition rig_bring_up :: "(rig \<times> bool, string) bring_up" where
  "rig_bring_up = \<lparr>bu_board = rig_board, bu_init = id, bu_oe_output = (\<lambda>d (h, _). (h, d)),
     bu_i2c = (\<lambda>_ w. (True, w)), bu_start_rtos = id, bu_watchdog = (\<lambda>_ w. w),
     bu_spawn_writer = (\<lambda>w. (True, w))\<rparr>"

definition rig_light_env :: "(test_store, (rig \<times> bool) pca, nat) light_env" where
  "rig_light_env =
     \<lparr>le_runtime = lamp_env rig_board 0,
      le_scenable_attribute_changed = le_scenable_attribute_changed bench_light_env,
      le_dataver_changed = le_dataver_changed bench_light_env, le_level_execute_if_off = 1,
      le_level_couple = 2, le_color_execute_if_off = 1, le_accept_only_when_on = 1,
      le_on_off_cluster = 6, le_level_cluster = 8, le_color_cluster = 0x300, le_scenes_cluster = 0x62,
      le_attr_on_off = 0, le_attr_current_level = 0, le_attr_mireds = 7, le_attr_enhanced_mode = 0x4001,
      le_level_remaining_time = 1, le_color_remaining_time = 2, le_recall_scene = 5, le_store_scene = 4,
      le_color_temperature_mode = 2, le_notified = (\<lambda>_ d. d)\<rparr>"


end
