(* ===== verification/Lamp_Resets.thy ===== *)
theory Lamp_Resets
  imports Whole_Lamp Power_On
begin

text \<open>
  The resets that the firmware asks for itself: the console's \<open>reboot\<close> and watchdog test, the
  escalation of a stuck transmit queue, the roll-back of an image, the reboot into a staged
  update. What they leave behind, and what the start after them makes of it.
\<close>

section \<open>What a reset leaves\<close>

text \<open>The part of the runtime that lives in the store is as before, and the output is parked.\<close>

definition parked_reset :: "('h \<Rightarrow> bool) \<Rightarrow> ('k, 'h) runtime \<Rightarrow> ('k, 'h) runtime \<Rightarrow> bool" where
  "parked_reset lit s t \<longleftrightarrow> record_view t = record_view s \<and> \<not> lit (r_hardware t) \<and>
     applied_frame t = None \<and> r_fault t = FaultRebooting"

text \<open>The watchdog test stalls only a lamp that is settled and whose output was just read back.\<close>

definition settled_reset :: "('k, 'h) runtime \<Rightarrow> ('k, 'h) runtime \<Rightarrow> bool" where
  "settled_reset s t \<longleftrightarrow> record_view t = record_view s \<and> r_fault t = NoFault \<and>
     r_level t = None \<and> r_temperature t = None \<and> applied_frame t \<noteq> None"

lemma prepare_reboot_parks:
  assumes "emitter (env_hw E) lit" "prepare_reboot E s = (off, t)" "record_view s = record_view u"
  shows "parked_reset lit u t"
proof -
  have "\<not> lit (snd (hw_shutdown (env_hw E) (r_hardware s)))" using assms(1) by (rule emitter.shutdown_dark)
  then show ?thesis
    using assms(2,3) by (auto simp: prepare_reboot_def shutdown_simp Let_def parked_reset_def)
      (auto simp: bump_def invalidate_def)
qed

lemma watchdog_test_settled:
  assumes "watchdog_test_ready E s = (Ok (), t)"
  shows "settled_reset s t"
proof -
  have c: "r_fault s = NoFault" "r_level s = None" "r_temperature s = None"
    "runtime_verify E s = (Ok (), t)"
    using assms by (auto simp: watchdog_test_ready_def split: if_splits)
  then obtain h where "t = s\<lparr>r_hardware := h\<rparr>" "applied_frame s \<noteq> None"
    by (auto simp: runtime_verify_def on_hardware_def split: option.splits prod.splits if_splits)
  then show ?thesis using c by (simp add: settled_reset_def)
qed

lemma console_line_reset:
  assumes "emitter (env_hw E) lit" "console_line T E M c w = (es, Stopped, w')"
  shows "parked_reset lit (cw_runtime w) (cw_runtime w') \<or> settled_reset (cw_runtime w) (cw_runtime w')"
  using assms(2)
  by (auto simp: console_line_def Let_def split: if_splits prod.splits sum.splits outcome.splits option.splits
      dest: prepare_reboot_parks [OF assms(1) _ refl] watchdog_test_settled)

lemma output_verified_view:
  "output_verified E s = (b, t) \<Longrightarrow> record_view t = record_view s"
  by (auto simp: output_verified_def runtime_verify_def on_hardware_def Let_def
      split: if_splits option.splits prod.splits)

lemma confirm_pass_reset:
  assumes "emitter (env_hw E) lit" "confirm_pass E S e s = (ResetToRollBack off, t)"
  shows "parked_reset lit (oe_runtime e) (ot_runtime t)"
proof -
  obtain v rt where d: "decide_ota (oe_uptime_ms e) (oe_commissioned e)
      (current_healthy_ms (oe_uptime_ms e) (oe_net e)) (output_verified E) (oe_runtime e) = (v, rt)"
    by fastforce
  then have "record_view rt = record_view (oe_runtime e)"
    by (auto simp: decide_ota_def Let_def dest: output_verified_view split: prod.splits if_splits)
  then show ?thesis
    using assms(2) d
    by (auto simp: confirm_pass_def Let_def split: prod.splits if_splits ota_verdict.splits
        dest: prepare_reboot_parks [OF assms(1)])
qed

lemma lamp_runtime_updates [simp]:
  "lamp_runtime (with_runtime rt l) = rt"
  "lamp_runtime (l\<lparr>lp_net := n\<rparr>) = lamp_runtime l"
  "lamp_runtime (l\<lparr>lp_matter := m\<rparr>) = lamp_runtime l"
  "lamp_runtime (l\<lparr>lp_backoff := bo\<rparr>) = lamp_runtime l"
  "lamp_runtime (l\<lparr>lp_queue := q\<rparr>) = lamp_runtime l"
  "lamp_runtime (l\<lparr>lp_console := c\<rparr>) = lamp_runtime l"
  "lamp_runtime (l\<lparr>lp_service := o'\<rparr>) = lamp_runtime l"
  "lamp_runtime (l\<lparr>lp_unavailable_logged := b\<rparr>) = lamp_runtime l"
  by (simp_all add: lamp_runtime_def with_runtime_def)

lemma lamp_step_resets:
  assumes "emitter (env_hw (le_runtime (la_light A))) lit" "lamp_step A ev l = (Resets, l')"
  shows "parked_reset lit (lamp_runtime l) (lamp_runtime l') \<or>
    (\<exists>b. ev = ConsoleByte b) \<and> settled_reset (lamp_runtime l) (lamp_runtime l')"
proof (cases ev)
  case (MatterCall op)
  then show ?thesis
    using assms(2) by (auto simp: outcome_of_def split: prod.splits outcome.splits)
next
  case (ConsoleByte b)
  let ?w = "\<lparr>cw_runtime = lamp_runtime l, cw_net = lp_net l, cw_matter = lp_matter l\<rparr>"
  obtain es w where w: "console_byte (la_text A) (le_runtime (la_light A)) (la_matter A) b (lp_console l) ?w =
      (es, Stopped, w)" and l': "lamp_runtime l' = cw_runtime w"
    using assms(2) ConsoleByte
    by (auto simp: lamp_console_def Let_def split: prod.splits console_state.splits)
  then have "console_line (la_text A) (le_runtime (la_light A)) (la_matter A) (lp_console l) ?w = (es, Stopped, w)"
    by (simp add: console_byte_def split: if_splits)
  from console_line_reset [OF assms(1) this] show ?thesis using ConsoleByte l' by auto
next
  case TransportBegin
  then show ?thesis using assms(2) by simp
next
  case (TransportEnd now exit)
  then show ?thesis
    using assms(2) prepare_reboot_parks [OF assms(1) _ refl]
    by (auto simp: transport_end_def lamp_transport_def with_transport_def Let_def
        split: prod.splits if_splits transport_next.splits)
next
  case (UpdatePass now)
  then show ?thesis
    using assms(2) confirm_pass_reset [OF assms(1)]
    by (fastforce simp: lamp_update_def split: option.splits if_splits prod.splits confirm_next.splits)
next
  case UpdateStaged
  then show ?thesis
    using assms(2) prepare_reboot_parks [OF assms(1) _ refl]
    by (auto simp: lamp_staged_def split: option.splits prod.splits)
next
  case (NetworkChange n)
  then show ?thesis using assms(2) by simp
qed

section \<open>Properties\<close>


text \<open>The bench lamp with a credential in its store, reset for a staged update.\<close>

definition reset_store :: test_store where
  "reset_store = test_store_default\<lparr>ts_records := [COMMISSIONING_KEY 0 \<mapsto> to_le_bytes32 77]\<rparr>"

definition reset_boot :: "(test_store, simulated_output) runtime" where
  "reset_boot = (case runtime_load (bench_env 0) reset_store sim_default of Some s \<Rightarrow> s)"

definition reset_lamp_env :: "(test_store, simulated_output, nat, unit, unit) lamp_env" where
  "reset_lamp_env = \<lparr>la_light = bench_light_env,
     la_text = \<lparr>ct_debug = (\<lambda>_. []), ct_mode = [], ct_status = (\<lambda>_ _ _ _ _. []), ct_pairing = [],
       ct_pairing_qr = []\<rparr>,
     la_matter = \<lparr>mt_is_commissioned = (\<lambda>_. True), mt_close_window = (\<lambda>m. (Inr (), m)),
       mt_open_window = (\<lambda>_ m. (Inr (), m))\<rparr>,
     la_service = \<lparr>os_is_unconfirmed = (\<lambda>_. False), os_confirm = (\<lambda>o'. (True, o')),
       os_can_roll_back = (\<lambda>_. True)\<rparr>\<rparr>"

definition reset_lamp :: "(test_store, simulated_output, nat, unit, unit, unit) lamp" where
  "reset_lamp = \<lparr>lp_light = light_new reset_boot 0 [1, 2, 3], lp_net = net_boot (), lp_matter = (),
     lp_backoff = restart_backoff_default, lp_queue = queue_recovery_default,
     lp_console = console_fresh, lp_service = Some (), lp_unavailable_logged = False\<rparr>"

lemma reset_boot_load: "runtime_load (bench_env 0) reset_store sim_default = Some reset_boot"
  using runtime_load_ok [of "bench_env 0" reset_store sim_default] by (auto simp: reset_boot_def)

lemma reset_boot_state:
  "\<not> r_dirty reset_boot" "r_load_fault reset_boot = None"
  "\<not> ts_fail_load (r_kv reset_boot)"
  "ts_records (r_kv reset_boot) = ts_records reset_store"
  by (code_simp, code_simp, code_simp) (use reset_boot_load runtime_load_keeps [of "bench_env 0" ts_records]
      test_kv.blob_store_axioms in \<open>simp add: bench_env_def\<close>)


end
