(* ===== verification/Radio.thy ===== *)
theory Radio
  imports Transport_Props Console_Props
begin

text \<open>
  The life of the radio: \<open>EspWifiDriver\<close> of \<open>firmware/app/src/network_driver.rs\<close>, which makes a new
  controller for every transport run, with the optional diagnostic scan; and \<open>NamedBle\<close> of
  \<open>commissioning_ble.rs\<close>, which puts the lamp's name where the stack advertises. esp-radio and
  the stack's tasks are parameters; \<open>None\<close> is again a call that its timeout drops.
\<close>

section \<open>The driver\<close>

datatype scan_dwell = DefaultDwell | ActiveDwell u64 u64 | PassiveDwell u64

record ('p, 'q, 'w, 'b, 'd) radio_sdk =
  rs_wifi_new :: "'p \<Rightarrow> (unit + 'w) \<times> 'p"
  rs_power_saving_none :: "'w \<Rightarrow> (unit + unit) \<times> 'w"
  rs_wifi :: "'w wifi_ops"
  rs_scan :: "scan_dwell \<Rightarrow> nat \<Rightarrow> 'w \<Rightarrow> (unit + access_point list) option \<times> 'w"
  rs_ble_new :: "'q \<Rightarrow> (unit + 'b) \<times> 'q"
  rs_station :: 'd

record ('p, 'q) esp_wifi_driver =
  ed_wifi :: 'p
  ed_bt :: 'q

text \<open>\<open>must!\<close>: whatever a step of the bring-up reports, the run ends with this error.\<close>

definition must :: "('e + 'a) \<times> 's \<Rightarrow> (error_code + 'a) \<times> 's" where
  "must m = (case m of (Inl _, s) \<Rightarrow> (Inl NoNetworkInterface, s) | (Inr a, s) \<Rightarrow> (Inr a, s))"

lemma must_simps [simp]:
  "must (Inl e, s) = (Inl NoNetworkInterface, s)" "must (Inr a, s) = (Inr a, s)"
  by (simp_all add: must_def)

definition DIAGNOSTIC_SCANS :: "scan_dwell list" where
  "DIAGNOSTIC_SCANS = [DefaultDwell, ActiveDwell 100 300, PassiveDwell 300]"

fun diagnostic_scans ::
  "('p, 'q, 'w, 'b, 'd) radio_sdk \<Rightarrow> scan_dwell list \<Rightarrow> 'w \<Rightarrow> (error_code + unit) \<times> 'w" where
  "diagnostic_scans R [] w = (Inr (), w)"
| "diagnostic_scans R (dwell # scans) w =
     (case rs_scan R dwell 20 w of
        (None, w) \<Rightarrow> (Inl TxTimeout, w)
      | (Some (Inl _), w) \<Rightarrow> (Inl NoNetworkInterface, w)
      | (Some (Inr aps), w) \<Rightarrow> diagnostic_scans R scans w)"

definition diagnostic_scan ::
  "('p, 'q, 'w, 'b, 'd) radio_sdk \<Rightarrow> 'w \<Rightarrow> (error_code + unit) \<times> 'w" where
  "diagnostic_scan R w =
     attempt (must (wf_set_config (rs_wifi R) None w)) (\<lambda>_ w. diagnostic_scans R DIAGNOSTIC_SCANS w)"

text \<open>The controller that a run starts on; a step that fails drops it.\<close>

definition wifi_controller ::
  "bool \<Rightarrow> ('p, 'q, 'w, 'b, 'd) radio_sdk \<Rightarrow> ('p, 'q) esp_wifi_driver
    \<Rightarrow> (error_code + 'w) \<times> ('p, 'q) esp_wifi_driver" where
  "wifi_controller diagnostics R d =
     (case must (rs_wifi_new R (ed_wifi d)) of
        (Inl e, p) \<Rightarrow> (Inl e, d\<lparr>ed_wifi := p\<rparr>)
      | (Inr w, p) \<Rightarrow>
          (let d = d\<lparr>ed_wifi := p\<rparr>
           in case must (rs_power_saving_none R w) of
                (Inl e, _) \<Rightarrow> (Inl e, d)
              | (Inr _, w) \<Rightarrow>
                  (case (if diagnostics then diagnostic_scan R w else (Inr (), w)) of
                     (Inl e, _) \<Rightarrow> (Inl e, d)
                   | (Inr _, w) \<Rightarrow> (Inr w, d))))"

definition ble_controller ::
  "('p, 'q, 'w, 'b, 'd) radio_sdk \<Rightarrow> ('p, 'q) esp_wifi_driver
    \<Rightarrow> (error_code + 'b) \<times> ('p, 'q) esp_wifi_driver" where
  "ble_controller R d =
     (case must (rs_ble_new R (ed_bt d)) of (r, q) \<Rightarrow> (r, d\<lparr>ed_bt := q\<rparr>))"

text \<open>
  The three drivers. A task runs on the guarded station interface and on a network whose
  controller cells start afresh, and its result is the result of the run.
\<close>

definition wifi_run ::
  "bool \<Rightarrow> ('p, 'q, 'w, 'b, 'd) radio_sdk
    \<Rightarrow> ('d guarded_driver \<Rightarrow> 'w net \<Rightarrow> (error_code + unit) \<times> 'w net)
    \<Rightarrow> ('p, 'q) esp_wifi_driver \<Rightarrow> 'w net
    \<Rightarrow> (error_code + unit) \<times> 'w net \<times> ('p, 'q) esp_wifi_driver" where
  "wifi_run diagnostics R task d n =
     (case wifi_controller diagnostics R d of
        (Inl e, d) \<Rightarrow> (Inl e, n, d)
      | (Inr w, d) \<Rightarrow>
          (case task (guarded_new (rs_station R)) (controller_start w n) of (r, n) \<Rightarrow> (r, n, d)))"

definition coex_run ::
  "bool \<Rightarrow> ('p, 'q, 'w, 'b, 'd) radio_sdk
    \<Rightarrow> ('b \<Rightarrow> 'd guarded_driver \<Rightarrow> 'w net \<Rightarrow> (error_code + unit) \<times> 'w net)
    \<Rightarrow> ('p, 'q) esp_wifi_driver \<Rightarrow> 'w net
    \<Rightarrow> (error_code + unit) \<times> 'w net \<times> ('p, 'q) esp_wifi_driver" where
  "coex_run diagnostics R task d n =
     (case ble_controller R d of
        (Inl e, d) \<Rightarrow> (Inl e, n, d)
      | (Inr ble_ctl, d) \<Rightarrow> wifi_run diagnostics R (task ble_ctl) d n)"

definition ble_run ::
  "('p, 'q, 'w, 'b, 'd) radio_sdk \<Rightarrow> ('b \<Rightarrow> 's \<Rightarrow> (error_code + unit) \<times> 's)
    \<Rightarrow> ('p, 'q) esp_wifi_driver \<Rightarrow> 's \<Rightarrow> (error_code + unit) \<times> 's \<times> ('p, 'q) esp_wifi_driver" where
  "ble_run R task d s =
     (case ble_controller R d of
        (Inl e, d) \<Rightarrow> (Inl e, s, d)
      | (Inr ble_ctl, d) \<Rightarrow> (case task ble_ctl s of (r, s) \<Rightarrow> (r, s, d)))"

section \<open>The advertised name\<close>

text \<open>
  A GATT peripheral advertises under a name; a task of the stack is given the parts of the
  network, here \<open>'n\<close>, and such a peripheral; and an adapter runs a task.
\<close>

type_synonym ('t, 'a, 's) peripheral = "'t \<Rightarrow> u8 list \<Rightarrow> 'a \<Rightarrow> 's \<Rightarrow> (error_code + unit) \<times> 's"

type_synonym ('n, 't, 'a, 's) coex_task =
  "'n \<Rightarrow> ('t, 'a, 's) peripheral \<Rightarrow> 's \<Rightarrow> (error_code + unit) \<times> 's"

definition named_peripheral :: "u8 list \<Rightarrow> ('t, 'a, 's) peripheral \<Rightarrow> ('t, 'a, 's) peripheral" where
  "named_peripheral name inner = (\<lambda>btp _ adv. inner btp name adv)"

definition named_task :: "u8 list \<Rightarrow> ('n, 't, 'a, 's) coex_task \<Rightarrow> ('n, 't, 'a, 's) coex_task" where
  "named_task name inner = (\<lambda>net gatt. inner net (named_peripheral name gatt))"

definition named_ble_run ::
  "u8 list \<Rightarrow> (('n, 't, 'a, 's) coex_task \<Rightarrow> 's \<Rightarrow> (error_code + unit) \<times> 's)
    \<Rightarrow> ('n, 't, 'a, 's) coex_task \<Rightarrow> 's \<Rightarrow> (error_code + unit) \<times> 's" where
  "named_ble_run name inner task = inner (named_task name task)"

text \<open>Whatever names two tasks advertise under, the adapter runs them to the same end.\<close>

lemma advertised_name_is_fixed:
  "named_ble_run name inner (\<lambda>net gatt. task net (\<lambda>btp _. gatt btp x)) =
     named_ble_run name inner (\<lambda>net gatt. task net gatt)"
  by (simp add: named_ble_run_def named_task_def named_peripheral_def)

section \<open>A clean start\<close>

text \<open>While nothing is connected, a console line can only ask for another restart.\<close>

definition only_restart :: "'w net \<Rightarrow> 'w net \<Rightarrow> bool" where
  "only_restart n n' \<longleftrightarrow> (\<exists>b. n' = n\<lparr>n_restart := b\<rparr>)"

lemma only_restart_refl [simp]: "only_restart n n"
  unfolding only_restart_def by (rule exI [of _ "n_restart n"]) simp

lemma only_restart_set [simp]: "only_restart n (n\<lparr>n_restart := b\<rparr>)"
  by (auto simp: only_restart_def)

lemma only_restart_trans: "only_restart n m \<Longrightarrow> only_restart m k \<Longrightarrow> only_restart n k"
  by (auto simp: only_restart_def)

lemma only_restart_disconnected: "only_restart n m \<Longrightarrow> n_connected n = 0 \<Longrightarrow> n_connected m = 0"
  by (auto simp: only_restart_def)

lemma console_command_net: "cw_net (snd (console_command T E M line w)) = cw_net w"
  by (simp add: console_command_def Let_def split: prod.split sum.split outcome.split option.split)

lemma console_line_net:
  assumes "console_line T E M c w = (es, r, w')" "n_connected (cw_net w) = 0"
  shows "only_restart (cw_net w) (cw_net w')"
proof -
  obtain answer v where v: "console_command T E M (cl_line c) w = (answer, v)" by fastforce
  then have "cw_net v = cw_net w" using console_command_net [of T E M "cl_line c" w] by simp
  then show ?thesis
    using assms v
    by (auto simp: console_line_def request_disconnect_def Let_def
        split: if_splits prod.splits sum.splits outcome.splits option.splits)
qed

lemma console_byte_net:
  assumes "console_byte T E M b c w = (es, r, w')" "n_connected (cw_net w) = 0"
  shows "only_restart (cw_net w) (cw_net w')"
  using assms console_line_net by (fastforce simp: console_byte_def split: if_splits)

lemma console_bytes_net:
  assumes "console_bytes T E M bs c w = (es, r, w')" "n_connected (cw_net w) = 0"
  shows "only_restart (cw_net w) (cw_net w')"
  using assms
proof (induction bs arbitrary: c w es)
  case (Cons b bs)
  obtain es1 r1 w1 where b: "console_byte T E M b c w = (es1, r1, w1)" by (metis prod_cases3)
  note n = console_byte_net [OF b Cons.prems(2)]
  show ?case
  proof (cases r1)
    case (Reading c1)
    then obtain es2 where "console_bytes T E M bs c1 w1 = (es2, r, w')"
      using Cons.prems(1) b by (auto split: prod.splits)
    from Cons.IH [OF this] n Cons.prems(2) show ?thesis
      by (blast intro: only_restart_trans only_restart_disconnected)
  qed (use Cons.prems b n in auto)
qed simp

lemma console_reads_net:
  assumes "console_reads T E M reads c w = (es, r, w')" "n_connected (cw_net w) = 0"
  shows "only_restart (cw_net w) (cw_net w')"
  using assms
proof (induction T E M reads c w arbitrary: es rule: console_reads.induct)
  case (3 T E M bs reads c w)
  obtain es1 r1 w1 where b: "console_bytes T E M bs c w = (es1, r1, w1)" by (metis prod_cases3)
  note n = console_bytes_net [OF b "3.prems"(2)]
  show ?case
  proof (cases r1)
    case (Reading c1)
    then obtain es2 where "console_reads T E M reads c1 w1 = (es2, r, w')"
      using "3.prems"(1) b by (auto split: prod.splits)
    from "3.IH" [OF b [symmetric] refl Reading this] n "3.prems"(2) show ?thesis
      by (blast intro: only_restart_trans only_restart_disconnected)
  qed (use "3.prems" b n in auto)
qed auto

text \<open>The network at boot, but for the counters that the lamp keeps since then.\<close>

definition clean_slate :: "'w \<Rightarrow> 'w net \<Rightarrow> 'w net" where
  "clean_slate w n = (net_boot w)\<lparr>n_timeouts := n_timeouts n, n_attempts := n_attempts n,
     n_restarts := n_restarts n, n_ip_timeouts := n_ip_timeouts n\<rparr>"

lemma retry_leaves_disconnected:
  assumes "transport_end E now exit s = (RetryIn secs, t)"
  shows "tp_net t = restarted (tp_net s)" "n_connected (tp_net t) = 0"
  using assms by (auto simp: transport_end_def restarted_def reset_health_def queue_health_report_def Let_def
      split: prod.splits if_splits)

lemma begin_then_clean:
  assumes "transport_end E now exit s = (RetryIn secs, t)" "only_restart (tp_net t) n"
  shows "controller_start w (tp_net (transport_begin M (t\<lparr>tp_net := n\<rparr>))) = clean_slate w (tp_net t)"
proof -
  obtain b where n: "n = (tp_net t)\<lparr>n_restart := b\<rparr>" using assms(2) by (auto simp: only_restart_def)
  show ?thesis
    unfolding n
    by (simp add: retry_leaves_disconnected(1) [OF assms(1)] transport_begin_def controller_start_def
        clean_slate_def net_boot_def restarted_def reset_health_def queue_health_report_def Let_def)
qed

text \<open>C18. Every transport run starts from a clean slate. Whatever the run before left behind and
  whatever is typed on the console during the wait, the task of the next run is handed a guard
  with no incident and a network that differs from the one at power-on in its four cumulative
  counters only: no association, no healthy time, no pending request, no stall and no error of
  the past run is carried over. If the radio does not come up instead, no task runs, the run
  ends in \<open>NoNetworkInterface\<close> (or in the timeout of the diagnostic scan, where that is built
  in), and the network is as the turn began.\<close>

theorem transport_run_starts_clean:
  assumes "transport_end E now exit s = (RetryIn secs, t)"
    and "console_reads T E M reads c \<lparr>cw_runtime = tp_runtime t, cw_net = tp_net t, cw_matter = tp_matter t\<rparr>
      = (es, Reading c', w')"
    and "u = transport_begin M (t\<lparr>tp_runtime := cw_runtime w', tp_net := cw_net w', tp_matter := cw_matter w'\<rparr>)"
    and "coex_run diagnostics R task d (tp_net u) = (result, n, d')"
  shows "(\<exists>ble w. (result, n) = task ble (guarded_new (rs_station R)) (clean_slate w (tp_net t))) \<or>
    (n = tp_net u \<and> (result = Inl NoNetworkInterface \<or> diagnostics \<and> result = Inl TxTimeout))"
proof -
  have o': "only_restart (tp_net t) (cw_net w')"
    using console_reads_net [OF assms(2)] retry_leaves_disconnected(2) [OF assms(1)] by simp
  have u: "tp_net u = tp_net (transport_begin M (t\<lparr>tp_net := cw_net w'\<rparr>))"
    by (simp add: assms(3) transport_begin_def Let_def)
  note clean = begin_then_clean [OF assms(1) o', of _ M, folded u]
  have scan: "diagnostic_scans R scans w = (Inl e, w') \<Longrightarrow> e = NoNetworkInterface \<or> e = TxTimeout"
    for scans w w' e
    by (induction scans arbitrary: w) (auto split: prod.splits option.splits sum.splits)
  have up: "e = NoNetworkInterface \<or> diagnostics \<and> e = TxTimeout"
    if "wifi_controller diagnostics R d1 = (Inl e, d2)" for d1 d2 e
    using that scan
    by (auto simp: wifi_controller_def diagnostic_scan_def must_def attempt_def Let_def
        split: prod.splits sum.splits if_splits)
  have ble: "e = NoNetworkInterface" if "ble_controller R d1 = (Inl e, d2)" for d1 d2 e
    using that by (auto simp: ble_controller_def must_def split: prod.splits sum.splits)
  obtain rb d1 where b: "ble_controller R d = (rb, d1)" by fastforce
  obtain rw d2 where w: "wifi_controller diagnostics R d1 = (rw, d2)" by fastforce
  show ?thesis
  proof (cases rb)
    case (Inl e)
    then show ?thesis using assms(4) b ble by (auto simp: coex_run_def)
  next
    case (Inr ctl)
    note run = assms(4) [unfolded coex_run_def wifi_run_def b Inr prod.case sum.case w]
    show ?thesis
    proof (cases rw)
      case (Inl e)
      then show ?thesis using run w up by auto
    next
      case (Inr v)
      then have "(result, n) = task ctl (guarded_new (rs_station R)) (clean_slate v (tp_net t))"
        using run clean [of v] by (auto split: prod.splits)
      then show ?thesis by blast
    qed
  qed
qed

text \<open>A radio that comes up with one link, and a task that leaves the network as it finds it.\<close>

definition bench_radio :: "(unit, unit, unit, unit, unit) radio_sdk" where
  "bench_radio = \<lparr>rs_wifi_new = (\<lambda>p. (Inr (), p)), rs_power_saving_none = (\<lambda>w. (Inr (), w)),
     rs_wifi = \<lparr>wf_is_connected = (\<lambda>_. False), wf_rssi = (\<lambda>_. Inl WifiOther),
       wf_disconnect = (\<lambda>w. (Some (Inr ()), w)), wf_set_config = (\<lambda>_ w. (Inr (), w)),
       wf_scan = (\<lambda>_ w. (Some (Inr []), w)), wf_connect = (\<lambda>w. (None, w))\<rparr>,
     rs_scan = (\<lambda>_ _ w. (Some (Inr []), w)), rs_ble_new = (\<lambda>q. (Inr (), q)), rs_station = ()\<rparr>"

definition stale_transport :: "(test_store, simulated_output, unit, bool) transport" where
  "stale_transport = \<lparr>tp_runtime = bench_lit,
     tp_net = (net_boot ())\<lparr>n_connected := 1, n_restart := True, n_tx_stall := True, n_timeouts := 3\<rparr>,
     tp_matter = True, tp_backoff = restart_backoff_default, tp_queue = queue_recovery_default\<rparr>"

lemma transport_run_starts_clean_witness:
  "\<exists>secs t n d. transport_end (bench_env 0) 9000 TxStall stale_transport = (RetryIn secs, t) \<and>
    coex_run True bench_radio (\<lambda>_ _ n. (Inr (), n)) \<lparr>ed_wifi = (), ed_bt = ()\<rparr>
      (tp_net (transport_begin bench_matter t)) = (Inr (), n, d) \<and> n = clean_slate () (tp_net t)"
proof -
  let ?d = "\<lparr>ed_wifi = (), ed_bt = ()\<rparr>" and ?task = "\<lambda>_ _ n. (Inr (), n)"
  have "case fst (transport_end (bench_env 0) 9000 TxStall stale_transport) of RetryIn _ \<Rightarrow> True | _ \<Rightarrow> False"
    by code_simp
  then obtain secs t where t: "transport_end (bench_env 0) 9000 TxStall stale_transport = (RetryIn secs, t)"
    by (cases "transport_end (bench_env 0) 9000 TxStall stale_transport") (auto split: transport_next.splits)
  have up: "fst (coex_run True bench_radio ?task ?d m) = Inr ()" for m :: "unit net"
    by (simp add: coex_run_def wifi_run_def ble_controller_def wifi_controller_def bench_radio_def
        diagnostic_scan_def DIAGNOSTIC_SCANS_def attempt_def)
  then obtain n d where run: "coex_run True bench_radio ?task ?d (tp_net (transport_begin bench_matter t)) =
      (Inr (), n, d)" by (metis prod.collapse)
  have quiet: "console_reads bench_text (bench_env 0) bench_matter [] console_fresh
      \<lparr>cw_runtime = tp_runtime t, cw_net = tp_net t, cw_matter = tp_matter t\<rparr> =
    ([], Reading console_fresh, \<lparr>cw_runtime = tp_runtime t, cw_net = tp_net t, cw_matter = tp_matter t\<rparr>)"
    by simp
  have "n = clean_slate () (tp_net t)"
    using transport_run_starts_clean [OF t quiet refl, of True bench_radio ?task ?d "Inr ()" n d] run by simp
  then show ?thesis using t run by blast
qed

end
