(* ===== verification/Node.thy ===== *)
theory Node
  imports Light_Handler Transport Boot
begin

text \<open>
  The Matter node that \<open>firmware/app/src/device_matter.rs\<close> declares, the chain of handlers that
  serves its light endpoint, and the opening of the update service (\<open>start\<close> and \<open>open_window\<close>
  of \<open>ota.rs\<close>) that decides which handler the update cluster gets. Cluster numbers, the root
  endpoint, the order in which rs-matter tries a chain, the flash and the OTA crate are
  parameters. The lamp's image is the one built with \<open>hardware-light\<close>.
\<close>

section \<open>The node\<close>

datatype light_cluster =
  Descriptor | Identify | Groups | Scenes | OnOff | LevelControl | ColorControl | OtaUpdate

definition LIGHT_ENDPOINT :: u16 where "LIGHT_ENDPOINT = 1"

record endpoint =
  ep_id :: u16
  ep_device_types :: "(u32 \<times> u16) list"
  ep_clusters :: "light_cluster list"

definition COLOR_TEMPERATURE_LIGHT :: "u32 \<times> u16" where
  "COLOR_TEMPERATURE_LIGHT = (0x010c, 4)"

definition LIGHT_CLUSTERS :: "bool \<Rightarrow> light_cluster list" where
  "LIGHT_CLUSTERS hardware_light =
     (if hardware_light
      then [Descriptor, Identify, Groups, Scenes, OnOff, LevelControl, ColorControl, OtaUpdate]
      else [Descriptor, Identify, Groups, Scenes, OnOff, LevelControl, ColorControl])"

definition NODE :: "bool \<Rightarrow> endpoint \<Rightarrow> endpoint list" where
  "NODE hardware_light root =
     [root, \<lparr>ep_id = LIGHT_ENDPOINT, ep_device_types = [COLOR_TEMPERATURE_LIGHT],
             ep_clusters = LIGHT_CLUSTERS hardware_light\<rparr>]"

section \<open>The handlers\<close>

text \<open>\<open>EpClMatcher\<close>: an endpoint and a cluster, each of them any where it is \<open>None\<close>.\<close>

type_synonym ep_cl_matcher = "u16 option \<times> u32 option"

definition ep_cl_matches :: "ep_cl_matcher \<Rightarrow> u16 \<Rightarrow> u32 \<Rightarrow> bool" where
  "ep_cl_matches m endpoint cluster \<longleftrightarrow>
     (fst m = None \<or> fst m = Some endpoint) \<and> (snd m = None \<or> snd m = Some cluster)"

datatype 'o node_handler =
  OnOffAdaptor | LevelAdaptor | ColorAdaptor | IdentifyHandler | GroupsHandler | AtomicScenesHandler
| DescHandler | OtaClusterHandler "'o ota_handler"

text \<open>The chain in the order it is built, from the handler that answers nothing.\<close>

definition light_handlers ::
  "(light_cluster \<Rightarrow> u32) \<Rightarrow> 'o ota_handler option \<Rightarrow> (ep_cl_matcher \<times> 'o node_handler) list" where
  "light_handlers cluster_id ota =
     [((Some LIGHT_ENDPOINT, Some (cluster_id OnOff)), OnOffAdaptor),
      ((Some LIGHT_ENDPOINT, Some (cluster_id LevelControl)), LevelAdaptor),
      ((Some LIGHT_ENDPOINT, Some (cluster_id ColorControl)), ColorAdaptor),
      ((Some LIGHT_ENDPOINT, Some (cluster_id Identify)), IdentifyHandler),
      ((Some LIGHT_ENDPOINT, Some (cluster_id Groups)), GroupsHandler),
      ((Some LIGHT_ENDPOINT, Some (cluster_id Scenes)), AtomicScenesHandler),
      ((Some LIGHT_ENDPOINT, Some (cluster_id Descriptor)), DescHandler)] @
     (case ota of
        None \<Rightarrow> []
      | Some h \<Rightarrow> [((Some LIGHT_ENDPOINT, Some (cluster_id OtaUpdate)), OtaClusterHandler h)])"

section \<open>The update service\<close>

datatype chip = Esp32c3

record 'n ota_identity =
  oi_chip :: chip
  oi_project :: 'n
  oi_version :: 'n

text \<open>The partition table with its booted partition, the names, the service on the flash.\<close>

record ('f, 'n, 'e, 's, 'v, 'm, 'r) ota_sdk =
  op_booted :: "'f \<Rightarrow> (partition_error + partition_entry option) \<times> 'f"
  op_name :: "string \<Rightarrow> 'n option"
  op_start :: "'f \<Rightarrow> u32 \<Rightarrow> 'n ota_identity \<Rightarrow> 'e + 's"
  op_service :: "'s \<Rightarrow> 'v"
  op_enrollment_window :: "'v \<Rightarrow> 'm \<Rightarrow> (error_code + 'r option) \<times> 'm"

definition ota_start ::
  "('f, 'n, 'e, 's, 'v, 'm, 'r) ota_sdk \<Rightarrow> string \<Rightarrow> string \<Rightarrow> 'f \<Rightarrow> 'v option" where
  "ota_start U project_name version flash =
     (case op_booted U flash of
        (Inl _, _) \<Rightarrow> None
      | (Inr None, _) \<Rightarrow> None
      | (Inr (Some booted), flash) \<Rightarrow>
          (case (op_name U project_name, op_name U version) of
             (Some project, Some version) \<Rightarrow>
               (case op_start U flash (pe_offset booted)
                    \<lparr>oi_chip = Esp32c3, oi_project = project, oi_version = version\<rparr> of
                  Inl _ \<Rightarrow> None
                | Inr ota \<Rightarrow> Some (op_service U ota))
           | _ \<Rightarrow> None))"

definition open_window ::
  "('f, 'n, 'e, 's, 'v, 'm, 'r) ota_sdk \<Rightarrow> 'v option \<Rightarrow> 'm \<Rightarrow> 'r option \<times> 'm" where
  "open_window U service matter =
     (case service of
        None \<Rightarrow> (None, matter)
      | Some v \<Rightarrow>
          (case op_enrollment_window U v matter of
             (Inr enrollment, matter) \<Rightarrow> (enrollment, matter)
           | (Inl _, matter) \<Rightarrow> (None, matter)))"

text \<open>The handlers of an image: the lamp adds the update cluster, with or without a service.\<close>

definition node_handlers ::
  "bool \<Rightarrow> (light_cluster \<Rightarrow> u32) \<Rightarrow> ('v \<Rightarrow> u32 \<Rightarrow> 'o) \<Rightarrow> 'v option \<Rightarrow> u32
    \<Rightarrow> (ep_cl_matcher \<times> 'o node_handler) list" where
  "node_handlers hardware_light cluster_id cluster service dataver =
     light_handlers cluster_id
       (if hardware_light then Some (ota_handler_new cluster service dataver) else None)"

section \<open>Properties\<close>

text \<open>The handler that a cluster of the light endpoint is meant to reach.\<close>

primrec handler_of :: "'o ota_handler \<Rightarrow> light_cluster \<Rightarrow> 'o node_handler" where
  "handler_of ota Descriptor = DescHandler"
| "handler_of ota Identify = IdentifyHandler"
| "handler_of ota Groups = GroupsHandler"
| "handler_of ota Scenes = AtomicScenesHandler"
| "handler_of ota OnOff = OnOffAdaptor"
| "handler_of ota LevelControl = LevelAdaptor"
| "handler_of ota ColorControl = ColorAdaptor"
| "handler_of ota OtaUpdate = OtaClusterHandler ota"

text \<open>
  What is relied on of rs-matter's chain: a path goes to the handler of an entry that matches it,
  and to none only if none matches; in which order the entries are tried is left open.
\<close>

definition dispatches ::
  "((ep_cl_matcher \<times> 'h) list \<Rightarrow> u16 \<Rightarrow> u32 \<Rightarrow> 'h option) \<Rightarrow> bool" where
  "dispatches dispatch \<longleftrightarrow> (\<forall>chain endpoint cluster.
     case dispatch chain endpoint cluster of
       Some h \<Rightarrow> \<exists>m. (m, h) \<in> set chain \<and> ep_cl_matches m endpoint cluster
     | None \<Rightarrow> \<forall>m h. (m, h) \<in> set chain \<longrightarrow> \<not> ep_cl_matches m endpoint cluster)"

lemma dispatch_Some:
  assumes "dispatches dispatch" "dispatch chain e c = Some h"
  shows "\<exists>m. (m, h) \<in> set chain \<and> ep_cl_matches m e c"
proof -
  have "case dispatch chain e c of Some h \<Rightarrow> \<exists>m. (m, h) \<in> set chain \<and> ep_cl_matches m e c
      | None \<Rightarrow> \<forall>m h. (m, h) \<in> set chain \<longrightarrow> \<not> ep_cl_matches m e c"
    using assms(1) unfolding dispatches_def by blast
  then show ?thesis using assms(2) by simp
qed

lemma dispatch_None:
  assumes "dispatches dispatch" "dispatch chain e c = None" "(m, h) \<in> set chain"
  shows "\<not> ep_cl_matches m e c"
proof -
  have "case dispatch chain e c of Some h \<Rightarrow> \<exists>m. (m, h) \<in> set chain \<and> ep_cl_matches m e c
      | None \<Rightarrow> \<forall>m h. (m, h) \<in> set chain \<longrightarrow> \<not> ep_cl_matches m e c"
    using assms(1) unfolding dispatches_def by blast
  then show ?thesis using assms(2,3) by (simp only: option.case) blast
qed

text \<open>The chain is one entry for each declared cluster.\<close>

lemma node_handlers_entries:
  "(m, h) \<in> set (node_handlers hl cluster_id cluster service dataver) \<longleftrightarrow>
     (\<exists>c \<in> set (LIGHT_CLUSTERS hl). m = (Some LIGHT_ENDPOINT, Some (cluster_id c)) \<and>
        h = handler_of (ota_handler_new cluster service dataver) c)"
  by (auto simp: node_handlers_def light_handlers_def LIGHT_CLUSTERS_def)

text \<open>C25. The node serves exactly what it declares: on the light endpoint, which is the one that
  reports and scenes name, every declared cluster reaches its own handler and every other number none, in whichever order rs-matter tries the
  chain, and no other endpoint reaches any of them. The update cluster is there on the lamp's
  image only, even when its service could not be opened, and then refuses every command and
  still answers its global attributes.\<close>

theorem node_serves_its_clusters:
  assumes "dispatches dispatch" "inj cluster_id"
    and "chain = node_handlers hl cluster_id cluster (ota_start U project version flash) dataver"
    and "light \<in> set (NODE hl root)" "ep_id root = 0" "ep_id light \<noteq> 0"
  shows "ep_id light = ENDPOINT \<and>
    (c \<in> set (ep_clusters light) \<longrightarrow> dispatch chain (ep_id light) (cluster_id c) =
      Some (handler_of (ota_handler_new cluster (ota_start U project version flash) dataver) c)) \<and>
    (n \<notin> cluster_id ` set (ep_clusters light) \<or> e \<noteq> ep_id light \<longrightarrow> dispatch chain e n = None) \<and>
    (OtaUpdate \<in> set (ep_clusters light) \<longleftrightarrow> hl) \<and>
    (ota_start U project version flash = None \<longrightarrow>
      fst (ota_invoke C (ota_handler_new cluster (ota_start U project version flash) dataver)) = Inl Failure \<and>
      ota_read C (\<lambda>_. Inr (Some x)) True read_global
        (ota_handler_new cluster (ota_start U project version flash) dataver) = map_sum id Some (read_global x))"
proof -
  have l: "ep_id light = LIGHT_ENDPOINT" "ep_clusters light = LIGHT_CLUSTERS hl"
    using assms(4-6) by (auto simp: NODE_def)
  have own: "dispatch chain LIGHT_ENDPOINT (cluster_id c) =
      Some (handler_of (ota_handler_new cluster (ota_start U project version flash) dataver) c)"
    if c: "c \<in> set (LIGHT_CLUSTERS hl)"
  proof (cases "dispatch chain LIGHT_ENDPOINT (cluster_id c)")
    case None
    have "((Some LIGHT_ENDPOINT, Some (cluster_id c)),
        handler_of (ota_handler_new cluster (ota_start U project version flash) dataver) c) \<in> set chain"
      using c by (auto simp: assms(3) node_handlers_entries)
    from dispatch_None [OF assms(1) None this] show ?thesis by (simp add: ep_cl_matches_def)
  next
    case (Some h)
    from dispatch_Some [OF assms(1) this]
    obtain c' where "h = handler_of (ota_handler_new cluster (ota_start U project version flash) dataver) c'"
      "cluster_id c' = cluster_id c"
      by (auto simp: assms(3) node_handlers_entries ep_cl_matches_def)
    then show ?thesis using Some assms(2) by (auto dest: injD)
  qed
  have other: "dispatch chain e n = None"
    if "n \<notin> cluster_id ` set (LIGHT_CLUSTERS hl) \<or> e \<noteq> LIGHT_ENDPOINT"
    using dispatch_Some [OF assms(1), of chain e n] that
    by (cases "dispatch chain e n") (auto simp: assms(3) node_handlers_entries ep_cl_matches_def)
  have "OtaUpdate \<in> set (LIGHT_CLUSTERS hl) \<longleftrightarrow> hl" by (simp add: LIGHT_CLUSTERS_def)
  then show ?thesis
    using own other unfolding l
    by (auto simp: ota_handler_new_def ota_invoke_def ota_read_def LIGHT_ENDPOINT_def ENDPOINT_def)
qed

text \<open>A chain tried in order, the standard's numbers, and a flash without a booted partition.\<close>

definition try_in_order :: "(ep_cl_matcher \<times> 'h) list \<Rightarrow> u16 \<Rightarrow> u32 \<Rightarrow> 'h option" where
  "try_in_order chain endpoint cluster =
     map_option snd (find (\<lambda>entry. ep_cl_matches (fst entry) endpoint cluster) chain)"

definition standard_id :: "light_cluster \<Rightarrow> u32" where
  "standard_id c = (case c of Descriptor \<Rightarrow> 0x1d | Identify \<Rightarrow> 3 | Groups \<Rightarrow> 4 | Scenes \<Rightarrow> 0x62 | OnOff \<Rightarrow> 6
     | LevelControl \<Rightarrow> 8 | ColorControl \<Rightarrow> 0x300 | OtaUpdate \<Rightarrow> 0xfff1fc00)"

definition no_ota :: "(unit, string, unit, unit, unit, unit, unit) ota_sdk" where
  "no_ota = \<lparr>op_booted = (\<lambda>f. (Inr None, f)), op_name = Some, op_start = (\<lambda>_ _ _. Inr ()), op_service = id,
     op_enrollment_window = (\<lambda>_ m. (Inr None, m))\<rparr>"

lemma try_in_order_dispatches: "dispatches try_in_order"
  by (auto simp: dispatches_def try_in_order_def find_None_iff find_Some_iff split: option.split)
    (metis fst_conv nth_mem)

lemma node_serves_its_clusters_witness:
  "try_in_order (node_handlers True standard_id (\<lambda>_ d. d) (ota_start no_ota [] [] ()) 9) 1 6 = Some OnOffAdaptor \<and>
   fst (ota_invoke \<lparr>oc_read = (\<lambda>_. Inr (None :: unit option)), oc_invoke = (\<lambda>c. (Inr (), c)), oc_bump_dataver = id\<rparr>
     (ota_handler_new (\<lambda>_ d. d) (ota_start no_ota [] [] ()) 9)) = Inl Failure"
proof -
  let ?light = "\<lparr>ep_id = LIGHT_ENDPOINT, ep_device_types = [COLOR_TEMPERATURE_LIGHT], ep_clusters = LIGHT_CLUSTERS True\<rparr>"
  let ?root = "\<lparr>ep_id = 0, ep_device_types = [], ep_clusters = []\<rparr>"
  have "inj standard_id" by (auto simp: inj_def standard_id_def split: light_cluster.splits)
  moreover have "?light \<in> set (NODE True ?root)" by (simp add: NODE_def)
  moreover have "ota_start no_ota [] [] () = None" by (simp add: ota_start_def no_ota_def)
  ultimately show ?thesis
    using node_serves_its_clusters [OF try_in_order_dispatches _ refl,
        where cluster_id = standard_id and hl = True and cluster = "\<lambda>_ d. d" and U = no_ota
          and project = "[]" and version = "[]" and flash = "()" and dataver = 9 and light = ?light
          and root = ?root and c = OnOff and n = 0 and e = 0 and x = "()" and read_global = Inr
          and C = "\<lparr>oc_read = (\<lambda>_. Inr (None :: unit option)), oc_invoke = (\<lambda>c. (Inr (), c)), oc_bump_dataver = id\<rparr>"]
    by (simp add: LIGHT_ENDPOINT_def ENDPOINT_def LIGHT_CLUSTERS_def standard_id_def)
qed

end
