(* ===== verification/Spec2Isabelle.thy ===== *)
theory Spec2Isabelle
  imports
    Runtime_Recovery Recovery Network_Tx Light_Reports Network_Props Transport_Props Boot
    Console_Props Usb_Log Cli Startup Whole_Lamp Runtime_Dark Power_On Lamp_Resets Radio Node
begin

text \<open>
  The firmware of a tunable-white Matter lamp: an ESP32-C3 that drives two LED banks through a
  PCA9635 PWM controller, keeps one durable light state, and serves it to Matter clients and to a
  local USB console. The crates are \<open>firmware/core\<close> (data model, controller, driver),
  \<open>firmware/app\<close> (everything on the chip) and \<open>firmware/cli\<close> (a simulator).

  \<^bold>\<open>How the program works.\<close> Every request, from a Matter cluster or the console, ends in
  a call of \<open>Runtime\<close> (\<open>app/src/runtime.rs\<close>). It saves the new target in the store first,
  then brings the output to the frame that the target and the running fades call for; a frame
  counts as applied only after the driver has read it back. Failures park the output and are
  retried by the periodic tick. Around it stand the Matter light (\<open>presets.rs\<close>), the network
  controller and the policies that restart the radio or the chip, the update supervisor, the
  boot sequence, and the console with its output queue.

  \<^bold>\<open>Theories, in the order they build on each other.\<close>

  \<^item> \<open>Prelude\<close>: word widths, saturating arithmetic, byte encodings, the \<open>outcome\<close> of a call that
    may fail or panic, and its sequencing rules. \<open>Text_Format\<close>: decimal numbers, words, bounded
    strings, with the round trip of \<open>parse_unsigned\<close> and \<open>decimal\<close>.
  \<^item> \<open>Light\<close>, \<open>Controller\<close> (\<open>core/src/lib.rs\<close>): the newtypes and their ranges, light states and
    frames; the controller and locale \<open>light_output\<close>, the promise of the \<open>LightOutput\<close> trait.
  \<^item> \<open>Pca9635\<close>, \<open>Pca_Driver\<close>, \<open>Pca_Rig\<close> (\<open>core/src/pca9635.rs\<close>): PWM arithmetic and the
    register driver over an abstract bus, its event traces, and the driver's properties.
  \<^item> \<open>Adapters\<close> (\<open>light.rs\<close>, \<open>hardware.rs\<close>): the simulated and the physical output, both
    interpreting locale \<open>hardware\<close>; locales \<open>blob_store\<close> and \<open>atomic_store\<close> for the key-value
    store, with the store of the repository's runtime tests as instance.
  \<^item> \<open>Transition\<close>, \<open>Intent_Record\<close>, \<open>Runtime\<close>, \<open>Requests\<close> (\<open>runtime.rs\<close>): fades, the record
    in flash, the state of the runtime and each of its methods. \<open>runtime_op\<close> lists the calls,
    \<open>reachable\<close> the states that they reach from a boot.
  \<^item> \<open>Runtime_Safety\<close> (no call panics), \<open>Runtime_Sound\<close> (locale \<open>platform\<close>: hardware and store
    that keep their promises; truth of the acknowledgement, durability, refinement of one durable
    target), \<open>Runtime_Props\<close>, \<open>Runtime_Fades\<close>, \<open>Runtime_Recovery\<close>: its properties.
    \<open>Runtime_Dark\<close>: locales \<open>emitter\<close> (what lights the banks) and \<open>latched_board\<close> (an output-enable
    pin held through the reset), on the simulated output and on the driver; what is emitted is
    acknowledged, and nothing is emitted once a reboot is prepared.
  \<^item> \<open>Recovery\<close>, \<open>Network_Tx\<close> (\<open>recovery.rs\<close>, \<open>network_tx.rs\<close>): the timers and the
    transmit-queue watch, locales \<open>incident_clock\<close>, \<open>grace_timer\<close>, \<open>one_shot_timer\<close> against the
    history of the evidence.
  \<^item> \<open>Network\<close>, \<open>Network_Props\<close> (\<open>network.rs\<close>, parts of \<open>network_driver.rs\<close> and
    \<open>network_scan.rs\<close>): the counters, scans, connections, interruption and interface monitor.
  \<^item> \<open>Light_Handler\<close>, \<open>Scenes\<close>, \<open>Clusters\<close> (\<open>presets.rs\<close>) with \<open>Light_Safety\<close>, \<open>Light_Props\<close>,
    \<open>Light_Reports\<close>: the Matter light, its scenes, attributes, commands and reports.
  \<^item> \<open>Transport\<close>, \<open>Transport_Props\<close> (\<open>device_matter.rs\<close>, \<open>ota.rs\<close>, \<open>ota_health.rs\<close>): restart and
    reboot of the transport, confirmation or rollback of an update.
  \<^item> \<open>Boot\<close> (\<open>boot.rs\<close>, \<open>storage.rs\<close>, \<open>commissioning.rs\<close>): storage retries, the commissioning
    credential, the partition lookup, the public identity. \<open>Startup\<close> (\<open>device_matter.rs\<close>): the
    sequence from the flash to the running light. \<open>Power_On\<close> (\<open>device.rs\<close>, \<open>main.rs\<close>): the
    bring-up of the pin, the bus, the watchdog and the light, or the halt that stays dark.
  \<^item> \<open>Radio\<close> (\<open>network_driver.rs\<close>, \<open>commissioning_ble.rs\<close>): the order in which the radio, the
    Wi-Fi link and the BLE server are set up and torn down, the optional scan at start, and the
    advertised name. \<open>Node\<close> (\<open>device_matter.rs\<close>, \<open>ota.rs\<close>): the endpoints and clusters that the
    node declares, the handlers chained for them, the opening of the OTA service and the window.
  \<^item> \<open>Console\<close>, \<open>Console_Props\<close> (\<open>console.rs\<close>), \<open>Usb_Log\<close> (\<open>output.rs\<close>), \<open>Cli\<close>
    (\<open>cli/src/main.rs\<close>): the USB console, its output queue, the command-line simulator.
  \<^item> \<open>Whole_Lamp\<close> and this theory: the tasks that \<open>run\<close> joins, in any order, and the properties
    that span them. \<open>Lamp_Resets\<close>: a run of the lamp across the resets that it asks for.

  \<^bold>\<open>Conventions.\<close> A struct is a record, a newtype a datatype over its word, a machine integer a
  word that wraps; saturating and checked operations are written as such. \<open>RefCell\<close> and \<open>Cell\<close>
  become state passing: a method maps its arguments and the state to its result and the state
  after it. \<open>Err\<close> is a value, a failed \<open>expect\<close> the value \<open>Panic\<close>, and a software reset or the
  console's deliberate stall a result. The clock is an argument. An await is a boundary between
  steps; a call that rs-matter's scene handler makes on the light is one step, since its adapters
  never yield. Loops that may not end are \<open>partial_function (option)\<close> (\<open>retry_io\<close>,
  \<open>draw_passcode\<close>), with the condition under which they return proved for the former; loops over
  time (\<open>confirm_loop\<close>, \<open>ticks\<close>, runs of the queue or the transport) are functions of the
  sequence of what each turn finds, of any length. No fuel is used.

  \<^bold>\<open>Parameters.\<close> The HAL's I2C, pin and delay calls, the key-value store, esp-radio, embassy-net's
  driver, rs-matter's stack, scene table, data versions and constants, the OTA service, and what
  \<open>Debug\<close> prints are arguments of the definitions that use them. What is relied on is stated
  by the locales named above or as hypotheses of the theorems, and each is instantiated by the
  bench (simulated output and test store) in the witnesses.

  \<^bold>\<open>Not modelled.\<close> Constants that the SDKs only pass on: the basic-information fields, the
  attribute and command lists of each cluster (from rs-matter's macros), the diagnostic values of
  \<open>WifiDiag\<close>. Heap set-up and the executor (\<open>main.rs\<close>), the static cells that hold the stack. The
  enrollment announcements of the OTA client: SDK calls. The contents of log messages. The port's
  own errors in \<open>output.rs\<close>, which the source ignores. Vendored crates: third-party code.
\<close>

section \<open>Properties of the whole lamp\<close>


text \<open>The bench lamp: the bench light, a commissioned matter stack and an unconfirmed image.\<close>

definition bench_lamp_env :: "(test_store, simulated_output, nat, bool, bool) lamp_env" where
  "bench_lamp_env = \<lparr>la_light = bench_light_env, la_text = bench_text, la_matter = bench_matter,
     la_service = test_service\<rparr>"

definition bench_lamp :: "(test_store, simulated_output, nat, unit, bool, bool) lamp" where
  "bench_lamp = \<lparr>lp_light = bench_light, lp_net = net_boot (), lp_matter = True,
     lp_backoff = restart_backoff_default, lp_queue = queue_recovery_default,
     lp_console = console_fresh, lp_service = Some True, lp_unavailable_logged = False\<rparr>"

lemma bench_lamp_reachable: "lamp_reachable bench_lamp_env bench_lamp"
proof -
  obtain rt where rt: "runtime_load (bench_env 0) test_store_default sim_default = Some rt"
    using runtime_load_ok [of "bench_env 0" test_store_default sim_default] by blast
  then have "lp_light bench_lamp = light_new rt 0 [1, 2, 3]"
    by (simp add: bench_lamp_def bench_light_def bench_boot_def)
  moreover have "runtime_load (le_runtime (la_light bench_lamp_env)) test_store_default sim_default = Some rt"
    using rt by (simp add: bench_lamp_env_def)
  ultimately show ?thesis by (rule lamp_reachable.boot [rotated])
qed


text \<open>C21. From the text on the port to the light: when the console answers \<open>KR OK\<close> to \<open>level\<close>
  and a number from 1 to 254 in decimal, the intent in the store is the old one at exactly that
  level, and the hardware shows an acknowledged frame with no fault; any other answer left the
  old target or that one.\<close>

theorem console_level_reaches_lamp:
  assumes "platform E showing recs" "reachable E (cw_runtime w)" "1 \<le> n" "n \<le> 254"
    and "console_reads T E M [Inr (bytes_of (''level '' @ decimal n) @ [0x0a])] console_fresh w =
      ([Respond answer], state, w')"
    and "target = (r_target (cw_runtime w))\<lparr>ls_level := Level (of_nat n)\<rparr>"
  shows "(answer = ''KR OK'' \<longrightarrow>
      stored_intent recs E (r_kv (cw_runtime w')) = Some target \<and> r_fault (cw_runtime w') = NoFault \<and>
      (\<exists>f. applied_frame (cw_runtime w') = Some f \<and> showing (r_hardware (cw_runtime w')) f)) \<and>
    (r_target (cw_runtime w') = r_target (cw_runtime w) \<or> r_target (cw_runtime w') = target)"
proof -
  let ?op = "OpSetLevel (Level (of_nat n)) False"
  obtain r t where run: "run_op E ?op (cw_runtime w) = (r, t)" by fastforce
  have ok: "op_ok ?op" using assms(3,4) by (simp add: level_ok_def unat_of_nat)
  have "max (of_nat n) 1 = (of_nat n :: u8)"
    using assms(3,4) by (simp add: max_def word_le_nat_alt unat_of_nat)
  then have "requested ?op (r_target (cw_runtime w)) = Some target" using assms(6) by simp
  note refined = request_refined [OF assms(1,2) ok this run]
  have "r \<noteq> Panic" using call_keeps_reachable [OF assms(2) ok run] by simp
  from trans [OF console_level_reads [OF assms(3,4) run this, symmetric] assms(5)]
  have "answer = (case r of Ok _ \<Rightarrow> ''KR OK'' | Err e \<Rightarrow> error_reply T e | Panic \<Rightarrow> [])"
    "w' = w\<lparr>cw_runtime := t\<rparr>" by simp_all
  then show ?thesis
    using refined error_reply_not_ok by (cases r) auto
qed

lemma console_level_reaches_lamp_witness:
  "\<exists>w'. console_reads bench_text (bench_env 0) bench_matter
      [Inr (bytes_of (''level '' @ decimal 128) @ [0x0a])] console_fresh (bench_world True) =
      ([Respond ''KR OK''], Reading console_fresh, w') \<and>
    stored_intent ts_records (bench_env 0) (r_kv (cw_runtime w')) =
      Some ((r_target bench_lit)\<lparr>ls_level := Level 128\<rparr>)"
proof -
  have w: "cw_runtime (bench_world True) = bench_lit" by (simp add: bench_world_def)
  have "fst (run_op (bench_env 0) (OpSetLevel (Level (of_nat 128)) False) bench_lit) = Ok ()" by code_simp
  then obtain t where t: "run_op (bench_env 0) (OpSetLevel (Level (of_nat 128)) False)
      (cw_runtime (bench_world True)) = (Ok (), t)"
    by (cases "run_op (bench_env 0) (OpSetLevel (Level (of_nat 128)) False) bench_lit") (simp add: w)
  have "console_reads bench_text (bench_env 0) bench_matter
      [Inr (bytes_of (''level '' @ decimal 128) @ [0x0a])] console_fresh (bench_world True) =
      ([Respond ''KR OK''], Reading console_fresh, (bench_world True)\<lparr>cw_runtime := t\<rparr>)"
    using console_level_reads [OF _ _ t, of bench_text bench_matter] by (simp del: console_reads.simps)
  from this console_level_reaches_lamp [OF bench.platform_axioms _ _ _ this refl] show ?thesis
    by (auto simp: w bench_lit_reachable simp del: console_reads.simps)
qed

end
